(* ===== verification/Prelude.thy ===== *)
theory Prelude
  imports Complex_Main "HOL-Library.AList" "HOL-Library.Char_ord" "HOL-Library.List_Lexorder"
begin

text \<open>
  The vocabulary every theory of this development shares: Python 2 values as they reach the
  program through JSON, exceptions as values, sequential combinators over results, dictionaries
  as association lists in iteration order, and the lemmas on them.

  Conventions. A Python function that can raise returns \<open>exn + 'a\<close>, with \<open>Inl\<close> for the
  exception. An exception keeps its class, the message template as the source writes it and
  the values substituted into the template; the rendered text is not modelled. Logging has no
  effect on the modelled state and is left out everywhere.
\<close>

named_theorems py_simps \<open>Python built-ins, unfolded on sight\<close>
named_theorems res_elims \<open>inversion of successful sequential computations\<close>

subsection \<open>Values\<close>

text \<open>
  The values \<open>json.loads\<close> yields, plus an uploaded file (name and contents). A Python int is
  unbounded, so it is an \<open>int\<close>; a finite float is the rational it denotes (NaN and the
  infinities do not occur in the model); \<open>str\<close> and \<open>unicode\<close> are one type of text. A dict is
  its list of items in iteration order.
\<close>

datatype pyval =
    PNone
  | PBool bool
  | PInt int
  | PFloat rat
  | PStr string
  | PList "pyval list"
  | PDict "(string \<times> pyval) list"
  | PFile string string

type_synonym kwargs = "(string \<times> pyval) list"

text \<open>The truth value of an object (\<open>if x:\<close>).\<close>

fun py_truth :: "pyval \<Rightarrow> bool" where
  "py_truth PNone = False"
| "py_truth (PBool b) = b"
| "py_truth (PInt i) = (i \<noteq> 0)"
| "py_truth (PFloat r) = (r \<noteq> 0)"
| "py_truth (PStr s) = (s \<noteq> [])"
| "py_truth (PList xs) = (xs \<noteq> [])"
| "py_truth (PDict xs) = (xs \<noteq> [])"
| "py_truth (PFile n c) = True"

text \<open>Numbers compare across bool, int and float: \<open>True == 1 == 1.0\<close>.\<close>

fun as_num :: "pyval \<Rightarrow> rat option" where
  "as_num (PBool b) = Some (if b then 1 else 0)"
| "as_num (PInt i) = Some (of_int i)"
| "as_num (PFloat r) = Some r"
| "as_num _ = None"

text \<open>
  Python's \<open>==\<close>: numbers by value, lists elementwise, dicts as unordered maps. Uploaded files
  compare by identity, and two distinct uploads are distinct objects.
\<close>

fun py_eq :: "pyval \<Rightarrow> pyval \<Rightarrow> bool"
  and py_eq_list :: "pyval list \<Rightarrow> pyval list \<Rightarrow> bool"
  and py_eq_items :: "(string \<times> pyval) list \<Rightarrow> (string \<times> pyval) list \<Rightarrow> bool" where
  "py_eq PNone w = (w = PNone)"
| "py_eq (PBool b) w = (as_num w = Some (if b then 1 else 0))"
| "py_eq (PInt i) w = (as_num w = Some (of_int i))"
| "py_eq (PFloat r) w = (as_num w = Some r)"
| "py_eq (PStr s) w = (w = PStr s)"
| "py_eq (PList xs) w = (case w of PList ys \<Rightarrow> py_eq_list xs ys | _ \<Rightarrow> False)"
| "py_eq (PDict xs) w =
     (case w of PDict ys \<Rightarrow> length xs = length ys \<and> py_eq_items xs ys | _ \<Rightarrow> False)"
| "py_eq (PFile n c) w = False"
| "py_eq_list [] ys = (ys = [])"
| "py_eq_list (x # xs) ys =
     (case ys of [] \<Rightarrow> False | y # ys' \<Rightarrow> py_eq x y \<and> py_eq_list xs ys')"
| "py_eq_items [] ys = True"
| "py_eq_items ((k, v) # xs) ys =
     (case map_of ys k of None \<Rightarrow> False | Some w \<Rightarrow> py_eq v w \<and> py_eq_items xs ys)"

text \<open>\<open>x in xs\<close> for a list \<open>xs\<close>.\<close>

definition py_in :: "pyval \<Rightarrow> pyval list \<Rightarrow> bool" where
  "py_in x xs = list_ex (\<lambda>y. py_eq x y) xs"

lemma py_in_strings [py_simps]: "py_in v (map PStr xs) \<longleftrightarrow> (\<exists>s. v = PStr s \<and> s \<in> set xs)"
  by (cases v; induction xs) (auto simp: py_in_def)

lemma py_in_ints [py_simps]:
  "py_in v (map PInt xs) \<longleftrightarrow> (\<exists>i. as_num v = Some (of_int i) \<and> i \<in> set xs)"
  by (cases v; induction xs) (auto simp: py_in_def)

text \<open>
  The integer key a number selects in a dict with integer keys (\<open>d[True]\<close> and \<open>d[1.0]\<close> are
  \<open>d[1]\<close>).
\<close>

definition int_key :: "pyval \<Rightarrow> int option" where
  "int_key v = (case as_num v of None \<Rightarrow> None
     | Some r \<Rightarrow> if of_int \<lfloor>r\<rfloor> = r then Some \<lfloor>r\<rfloor> else None)"

lemma int_key_num: "int_key v = Some i \<longleftrightarrow> as_num v = Some (of_int i)"
  by (auto simp: int_key_def split: option.splits if_splits)

lemma int_key_PInt [simp]: "int_key (PInt i) = Some i"
  by (simp add: int_key_num)

subsection \<open>Exceptions and results\<close>

datatype exn_kind =
    EException | ETypeError | EValueError | EKeyError | EIndexError | EAttributeError
  | EUnboundLocalError | ENotImplementedError | EWrongNrNodes | EManagerException
  | EHttpError | EAgentException | ESocketError | EIOError | EIntegrityError | EObjectDeletedError
  | EInvalidRequestError | EBaseHTTPError | ENameError | EConfigError | EOSError | EDiverges

text \<open>
  \<open>Raise k t vs\<close>: an exception of class \<open>k\<close> with message template \<open>t\<close> filled with \<open>vs\<close> (the
  template is empty for exceptions the interpreter raises). \<open>Wrap t vs e\<close>: an \<open>Exception\<close>
  whose message quotes the exception \<open>e\<close> it was raised from.
\<close>

datatype exn =
    Raise exn_kind string "pyval list"
  | Wrap string "pyval list" exn

abbreviation exc :: "string \<Rightarrow> pyval list \<Rightarrow> exn" where
  "exc t vs \<equiv> Raise EException t vs"

abbreviation builtin_exn :: "exn_kind \<Rightarrow> exn" where
  "builtin_exn k \<equiv> Raise k [] []"

definition res_bind :: "exn + 'a \<Rightarrow> ('a \<Rightarrow> exn + 'b) \<Rightarrow> exn + 'b" where
  "res_bind r f = (case r of Inl e \<Rightarrow> Inl e | Inr x \<Rightarrow> f x)"

lemma res_bind_simps [simp]: "res_bind (Inl e) f = Inl e" "res_bind (Inr x) f = f x"
  by (simp_all add: res_bind_def)

lemma res_bind_Inr_iff [res_elims]: "res_bind r f = Inr y \<longleftrightarrow> (\<exists>x. r = Inr x \<and> f x = Inr y)"
  by (cases r) simp_all

definition guard :: "bool \<Rightarrow> exn \<Rightarrow> exn + unit" where
  "guard b e = (if b then Inr () else Inl e)"

lemma map_sum_Inr_iff [simp]: "map_sum f g x = Inr y \<longleftrightarrow> (\<exists>z. x = Inr z \<and> y = g z)"
  by (cases x) auto

lemma map_sum_Inl_iff [simp]: "map_sum f g x = Inl y \<longleftrightarrow> (\<exists>z. x = Inl z \<and> y = f z)"
  by (cases x) auto

lemma guard_Inr_iff [res_elims, simp]: "guard b e = Inr u \<longleftrightarrow> b"
  by (simp add: guard_def)

lemma guard_Inl_iff [simp]: "guard b e = Inl e' \<longleftrightarrow> \<not> b \<and> e' = e"
  by (auto simp: guard_def)

lemma guard_True [simp]: "guard True e = Inr ()"
  by (simp add: guard_def)

lemma guard_False [simp]: "guard False e = Inl e"
  by (simp add: guard_def)

text \<open>A comprehension whose element expression may raise: left to right, the first one wins.\<close>

fun map_res :: "('a \<Rightarrow> exn + 'b) \<Rightarrow> 'a list \<Rightarrow> exn + 'b list" where
  "map_res f [] = Inr []"
| "map_res f (x # xs) =
     (case f x of Inl e \<Rightarrow> Inl e
      | Inr y \<Rightarrow> (case map_res f xs of Inl e \<Rightarrow> Inl e | Inr ys \<Rightarrow> Inr (y # ys)))"

lemma map_res_total [simp]: "map_res (\<lambda>x. Inr (f x)) xs = Inr (map f xs)"
  by (induction xs) simp_all

lemma map_res_cong_total:
  "(\<And>x. x \<in> set xs \<Longrightarrow> f x = Inr (g x)) \<Longrightarrow> map_res f xs = Inr (map g xs)"
  by (induction xs) simp_all

lemma map_res_InrD: "map_res f xs = Inr ys \<Longrightarrow> map f xs = map Inr ys"
  by (induction xs arbitrary: ys) (auto split: sum.splits)

lemma map_res_InrI: "map f xs = map Inr ys \<Longrightarrow> map_res f xs = Inr ys"
proof (induction xs arbitrary: ys)
  case (Cons x xs)
  then show ?case by (cases ys) simp_all
qed simp

lemma map_res_Inr: "map_res f xs = Inr ys \<longleftrightarrow> map f xs = map Inr ys"
  by (blast intro: map_res_InrI dest: map_res_InrD)

lemma map_res_mem: "map_res f xs = Inr ys \<Longrightarrow> y \<in> set ys \<Longrightarrow> \<exists>x \<in> set xs. f x = Inr y"
  by (induction xs arbitrary: ys) (auto split: sum.splits)

lemma map_res_length: "map_res f xs = Inr ys \<Longrightarrow> length ys = length xs"
  by (induction xs arbitrary: ys) (auto split: sum.splits)

lemma map_res_map: "map_res f (map g xs) = map_res (f \<circ> g) xs"
  by (induction xs) (simp_all split: sum.splits)

text \<open>\<open>filter\<close> with a predicate that may raise.\<close>

fun filter_res :: "('a \<Rightarrow> exn + bool) \<Rightarrow> 'a list \<Rightarrow> exn + 'a list" where
  "filter_res p [] = Inr []"
| "filter_res p (x # xs) =
     (case p x of Inl e \<Rightarrow> Inl e
      | Inr b \<Rightarrow> (case filter_res p xs of Inl e \<Rightarrow> Inl e
                 | Inr ys \<Rightarrow> Inr (if b then x # ys else ys)))"

lemma filter_res_total [simp]: "filter_res (\<lambda>x. Inr (p x)) xs = Inr (filter p xs)"
  by (induction xs) simp_all

text \<open>\<open>xs[0]\<close>.\<close>

definition py_first :: "'a list \<Rightarrow> exn + 'a" where
  "py_first xs = (case xs of [] \<Rightarrow> Inl (builtin_exn EIndexError) | x # _ \<Rightarrow> Inr x)"

lemma py_first_simps [simp]: "py_first [] = Inl (builtin_exn EIndexError)" "py_first (x # xs) = Inr x"
  by (simp_all add: py_first_def)

text \<open>\<open>d[k]\<close> on a dict.\<close>

definition py_lookup :: "('k \<times> 'v) list \<Rightarrow> 'k \<Rightarrow> exn + 'v" where
  "py_lookup d k = (case map_of d k of None \<Rightarrow> Inl (builtin_exn EKeyError) | Some v \<Rightarrow> Inr v)"

lemma py_lookup_Inr [simp]: "py_lookup d k = Inr v \<longleftrightarrow> map_of d k = Some v"
  by (auto simp: py_lookup_def split: option.splits)

subsection \<open>Dictionaries\<close>

text \<open>
  \<open>d[k] = v\<close> is \<^const>\<open>AList.update\<close> (in place, or at the end for a new key) and \<open>del d[k]\<close> is
  \<^const>\<open>AList.delete\<close>. Python 2 leaves the iteration order open; the model fixes insertion
  order, and no property below depends on it unless it says so.
\<close>

abbreviation dict_keys :: "('k \<times> 'v) list \<Rightarrow> 'k list" where
  "dict_keys d \<equiv> map fst d"

abbreviation dict_values :: "('k \<times> 'v) list \<Rightarrow> 'v list" where
  "dict_values d \<equiv> map snd d"

definition well_keyed :: "('k \<times> 'v) list \<Rightarrow> bool" where
  "well_keyed d = distinct (map fst d)"

lemma well_keyed_Nil [simp]: "well_keyed []"
  by (simp add: well_keyed_def)

lemma well_keyed_update [intro, simp]: "well_keyed d \<Longrightarrow> well_keyed (AList.update k v d)"
  by (simp add: well_keyed_def distinct_update)

lemma well_keyed_delete [intro, simp]: "well_keyed d \<Longrightarrow> well_keyed (AList.delete k d)"
  by (simp add: well_keyed_def distinct_delete)

lemma well_keyed_filter [intro, simp]: "well_keyed d \<Longrightarrow> well_keyed (filter p d)"
  by (simp add: well_keyed_def distinct_map_filter)

lemma dict_map_of_update [simp]: "map_of (AList.update k v d) = (map_of d)(k \<mapsto> v)"
  by (simp add: update_conv')

lemma dict_map_of_delete [simp]: "map_of (AList.delete k d) = (map_of d)(k := None)"
  by (simp add: delete_conv')

lemma keys_update: "set (map fst (AList.update k v d)) = insert k (set (map fst d))"
  by (simp add: dom_update flip: dom_map_of_conv_image_fst)

lemma keys_delete: "set (map fst (AList.delete k d)) = set (map fst d) - {k}"
  by (simp add: delete_keys)

lemma filter_delete [simp]: "filter p (AList.delete k d) = filter (\<lambda>kv. fst kv \<noteq> k \<and> p kv) d"
  by (induction d) auto

lemma in_keys_iff: "k \<in> set (map fst d) \<longleftrightarrow> (\<exists>v. map_of d k = Some v)"
  by (metis domIff dom_map_of_conv_image_fst list.set_map option.exhaust option.distinct(1))

lemma not_in_keys: "map_of d k = None \<longleftrightarrow> k \<notin> set (map fst d)"
  by (auto simp: map_of_eq_None_iff)

subsection \<open>Computations with state\<close>

text \<open>
  A method that reads and writes the object it belongs to, and may raise: what was written
  before an exception stays written. \<open>sx_bind\<close> is the sequence, \<open>sx_try\<close> the
  \<open>try ... except\<close>, \<open>sx_for\<close> the \<open>for\<close> loop.
\<close>

type_synonym ('s, 'a) sx = "'s \<Rightarrow> (exn + 'a) \<times> 's"

definition sx_return :: "'a \<Rightarrow> ('s, 'a) sx" where
  "sx_return x = (\<lambda>s. (Inr x, s))"

definition sx_raise :: "exn \<Rightarrow> ('s, 'a) sx" where
  "sx_raise e = (\<lambda>s. (Inl e, s))"

definition sx_bind :: "('s, 'a) sx \<Rightarrow> ('a \<Rightarrow> ('s, 'b) sx) \<Rightarrow> ('s, 'b) sx" where
  "sx_bind m f = (\<lambda>s. case m s of (Inl e, s') \<Rightarrow> (Inl e, s') | (Inr x, s') \<Rightarrow> f x s')"

definition sx_lift :: "exn + 'a \<Rightarrow> ('s, 'a) sx" where
  "sx_lift r = (\<lambda>s. (r, s))"

definition sx_get :: "('s \<Rightarrow> 'a) \<Rightarrow> ('s, 'a) sx" where
  "sx_get f = (\<lambda>s. (Inr (f s), s))"

definition sx_modify :: "('s \<Rightarrow> 's) \<Rightarrow> ('s, unit) sx" where
  "sx_modify f = (\<lambda>s. (Inr (), f s))"

definition sx_try :: "('s, 'a) sx \<Rightarrow> (exn \<Rightarrow> ('s, 'a) sx) \<Rightarrow> ('s, 'a) sx" where
  "sx_try m h = (\<lambda>s. case m s of (Inl e, s') \<Rightarrow> h e s' | (Inr x, s') \<Rightarrow> (Inr x, s'))"

fun sx_for :: "'a list \<Rightarrow> ('a \<Rightarrow> ('s, unit) sx) \<Rightarrow> ('s, unit) sx" where
  "sx_for [] f = sx_return ()"
| "sx_for (x # xs) f = sx_bind (f x) (\<lambda>_. sx_for xs f)"

fun sx_map :: "('a \<Rightarrow> ('s, 'b) sx) \<Rightarrow> 'a list \<Rightarrow> ('s, 'b list) sx" where
  "sx_map f [] = sx_return []"
| "sx_map f (x # xs) = sx_bind (f x) (\<lambda>y. sx_bind (sx_map f xs) (\<lambda>ys. sx_return (y # ys)))"

lemma sx_bind_run:
  "sx_bind m f s = (case m s of (Inl e, s') \<Rightarrow> (Inl e, s') | (Inr x, s') \<Rightarrow> f x s')"
  by (simp add: sx_bind_def)

lemma sx_runs [simp]:
  "sx_return x s = (Inr x, s)" "sx_raise e s = (Inl e, s)" "sx_lift r s = (r, s)"
  "sx_get g s = (Inr (g s), s)" "sx_modify h s = (Inr (), h s)"
  by (simp_all add: sx_return_def sx_raise_def sx_lift_def sx_get_def sx_modify_def)

lemma sx_bind_lift [simp]: "sx_bind (sx_lift (Inr x)) f = f x" "sx_bind (sx_lift (Inl e)) f = sx_raise e"
  by (auto simp: sx_bind_def sx_lift_def sx_raise_def)

lemma sx_bind_raise [simp]: "sx_bind (sx_raise e) f = sx_raise e"
  by (simp add: sx_bind_def sx_raise_def)

lemma sx_bind_ok: "m s = (Inr x, s') \<Longrightarrow> sx_bind m f s = f x s'"
  by (simp add: sx_bind_def)

lemma sx_bind_exn: "m s = (Inl e, s') \<Longrightarrow> sx_bind m f s = (Inl e, s')"
  by (simp add: sx_bind_def)

lemma sx_steps:
  "sx_bind (sx_get g) f1 s = f1 (g s) s" "sx_bind (sx_modify h) f2 s = f2 () (h s)"
  "sx_bind (sx_return x) f3 s = f3 x s" "sx_bind (sx_raise e) f4 s = (Inl e, s)"
  by (simp_all add: sx_bind_def)

text \<open>What a computation keeps, whether it returns or raises.\<close>

definition sx_keeps :: "('s \<Rightarrow> bool) \<Rightarrow> ('s, 'a) sx \<Rightarrow> bool" where
  "sx_keeps p m = (\<forall>s. p s \<longrightarrow> p (snd (m s)))"

lemma sx_keepsI: "(\<And>s. p s \<Longrightarrow> p (snd (m s))) \<Longrightarrow> sx_keeps p m"
  by (simp add: sx_keeps_def)

lemma sx_keepsD: "sx_keeps p m \<Longrightarrow> p s \<Longrightarrow> m s = (r, s') \<Longrightarrow> p s'"
  by (metis sx_keeps_def snd_conv)

lemma sx_keeps_bind [intro]:
  assumes "sx_keeps p m" "\<And>x. sx_keeps p (f x)"
  shows "sx_keeps p (sx_bind m f)"
proof (rule sx_keepsI)
  fix s assume "p s"
  then have "p (snd (m s))" using assms(1) by (simp add: sx_keeps_def)
  then show "p (snd (sx_bind m f s))"
    using assms(2) by (auto simp: sx_bind_def sx_keeps_def split: prod.splits sum.splits)
qed

lemma sx_keeps_try [intro]:
  assumes "sx_keeps p m" "\<And>e. sx_keeps p (h e)"
  shows "sx_keeps p (sx_try m h)"
proof (rule sx_keepsI)
  fix s assume "p s"
  then have "p (snd (m s))" using assms(1) by (simp add: sx_keeps_def)
  then show "p (snd (sx_try m h s))"
    using assms(2) by (auto simp: sx_try_def sx_keeps_def split: prod.splits sum.splits)
qed

lemma sx_keeps_basic [intro, simp]:
  "sx_keeps p (sx_return x)" "sx_keeps p (sx_raise e)" "sx_keeps p (sx_lift r)" "sx_keeps p (sx_get g)"
  by (simp_all add: sx_keeps_def)

lemma sx_keeps_modify: "sx_keeps p (sx_modify h) \<longleftrightarrow> (\<forall>s. p s \<longrightarrow> p (h s))"
  by (simp add: sx_keeps_def)

lemma sx_keeps_for [intro]: "(\<And>x. sx_keeps p (f x)) \<Longrightarrow> sx_keeps p (sx_for xs f)"
  by (induction xs) auto

end
