(* ===== verification/PyMisc.thy ===== *)
theory PyMisc
  imports Prelude
begin

text \<open>
  \<open>conpaas/core/misc.py\<close>: the argument constraints (\<open>is_int\<close>, \<open>is_in_list\<close>, \<open>is_dict2\<close>, ...)
  and \<open>check_arguments\<close>, through which every request handler of the managers reads its
  parameters, and the port and address checks. A constraint maps the received value to the
  parsed value or raises.
\<close>

type_synonym constraint = "pyval \<Rightarrow> exn + pyval"

subsection \<open>Converting text\<close>

text \<open>The name \<open>type(arg).__name__\<close> an error message quotes (JSON text is \<open>unicode\<close>).\<close>

fun type_name :: "pyval \<Rightarrow> string" where
  "type_name PNone = ''NoneType''"
| "type_name (PBool b) = ''bool''"
| "type_name (PInt i) = ''int''"
| "type_name (PFloat r) = ''float''"
| "type_name (PStr s) = ''unicode''"
| "type_name (PList xs) = ''list''"
| "type_name (PDict d) = ''dict''"
| "type_name (PFile n c) = ''FileUploadField''"

definition is_space :: "char \<Rightarrow> bool" where
  "is_space c = (of_char c \<in> {9, 10, 11, 12, 13, 32 :: nat})"

definition py_lstrip :: "string \<Rightarrow> string" where
  "py_lstrip s = dropWhile is_space s"

definition py_rstrip :: "string \<Rightarrow> string" where
  "py_rstrip s = rev (dropWhile is_space (rev s))"

definition py_strip :: "string \<Rightarrow> string" where
  "py_strip s = py_rstrip (py_lstrip s)"

definition digit_val :: "char \<Rightarrow> int option" where
  "digit_val c = (let n = (of_char c :: int) in if 48 \<le> n \<and> n \<le> 57 then Some (n - 48) else None)"

text \<open>\<open>int(s)\<close> on text: optional blanks, an optional sign, then decimal digits only.\<close>

fun digits_val :: "int \<Rightarrow> string \<Rightarrow> int option" where
  "digits_val acc [] = Some acc"
| "digits_val acc (c # cs) =
     (case digit_val c of None \<Rightarrow> None | Some d \<Rightarrow> digits_val (10 * acc + d) cs)"

definition parse_int :: "string \<Rightarrow> int option" where
  "parse_int s = (case py_strip s of
       [] \<Rightarrow> None
     | c # cs \<Rightarrow>
         if c = CHR ''-'' then (if cs = [] then None else map_option uminus (digits_val 0 cs))
         else if c = CHR ''+'' then (if cs = [] then None else digits_val 0 cs)
         else digits_val 0 (c # cs))"

text \<open>\<open>int(v)\<close>: floats truncate towards zero; other types raise \<open>TypeError\<close>.\<close>

fun py_int :: "pyval \<Rightarrow> exn + int" where
  "py_int (PBool b) = Inr (if b then 1 else 0)"
| "py_int (PInt i) = Inr i"
| "py_int (PFloat r) = Inr (if 0 \<le> r then \<lfloor>r\<rfloor> else \<lceil>r\<rceil>)"
| "py_int (PStr s) = (case parse_int s of None \<Rightarrow> Inl (builtin_exn EValueError) | Some i \<Rightarrow> Inr i)"
| "py_int _ = Inl (builtin_exn ETypeError)"

definition lower_char :: "char \<Rightarrow> char" where
  "lower_char c = (let n = (of_char c :: nat) in if 65 \<le> n \<and> n \<le> 90 then char_of (n + 32) else c)"

text \<open>The same on the bits of the character, which the evaluation of runs uses.\<close>

lemma lower_char_bits [code]:
  "lower_char (Char b0 b1 b2 b3 b4 b5 b6 b7) =
     Char b0 b1 b2 b3 b4 (b5 \<or> (b6 \<and> \<not> b7 \<and> (b0 \<or> b1 \<or> b2 \<or> b3 \<or> b4) \<and> \<not> (b4 \<and> b3 \<and> (b2 \<or> b1 \<and> b0)))) b6 b7"
  by (cases b0; cases b1; cases b2; cases b3; cases b4; cases b5; cases b6; cases b7;
      simp add: lower_char_def of_char_def char_of_def bit_0)

text \<open>
  \<open>str(v).lower()\<close> as far as the boolean words need it: \<open>None\<close> for the values whose text
  is never one of them (lists, dicts, floats, files and the integers other than 0 and 1).
\<close>

fun bool_word :: "pyval \<Rightarrow> string option" where
  "bool_word PNone = Some ''none''"
| "bool_word (PBool b) = Some (if b then ''true'' else ''false'')"
| "bool_word (PInt i) = (if i = 0 then Some ''0'' else if i = 1 then Some ''1'' else None)"
| "bool_word (PStr s) = Some (map lower_char s)"
| "bool_word _ = None"

subsection \<open>Text and paths\<close>

definition starts_with :: "string \<Rightarrow> string \<Rightarrow> bool" where
  "starts_with s p = (take (length p) s = p)"

definition path_join :: "string \<Rightarrow> string \<Rightarrow> string" where
  "path_join a b = (if starts_with b ''/'' then b
     else if a = [] \<or> last a = CHR ''/'' then a @ b else a @ ''/'' @ b)"

function py_replace :: "string \<Rightarrow> string \<Rightarrow> string \<Rightarrow> string" where
  "py_replace old new [] = []"
| "py_replace old new (c # cs) =
     (if old \<noteq> [] \<and> starts_with (c # cs) old
      then new @ py_replace old new (drop (length old) (c # cs))
      else c # py_replace old new cs)"
  by pat_completeness auto
termination
  by (relation "measure (\<lambda>(old, new, s). length s)") (auto simp: Suc_le_eq)

fun nat_digits :: "nat \<Rightarrow> string" where
  "nat_digits n = (if n < 10 then [char_of (48 + n)] else nat_digits (n div 10) @ [char_of (48 + n mod 10)])"

declare nat_digits.simps [simp del]

definition int_str :: "int \<Rightarrow> string" where
  "int_str i = (if i < 0 then CHR ''-'' # nat_digits (nat (- i)) else nat_digits (nat i))"

subsection \<open>Constraints\<close>

text \<open>
  \<open>is_constraint(constraint, filter_res, errmsg)\<close>. The test and the conversion may raise
  themselves.
\<close>

definition is_constraint ::
  "(pyval \<Rightarrow> exn + bool) \<Rightarrow> (pyval \<Rightarrow> exn + pyval) \<Rightarrow> (pyval \<Rightarrow> exn) \<Rightarrow> constraint" where
  "is_constraint c f errmsg = (\<lambda>arg.
     case c arg of Inl e \<Rightarrow> Inl e
     | Inr b \<Rightarrow> (if b then f arg else Inl (errmsg arg)))"

text \<open>Only \<open>ValueError\<close> is caught: \<open>int(None)\<close> raises \<open>TypeError\<close> through the constraint.\<close>

definition represents_int :: "pyval \<Rightarrow> exn + bool" where
  "represents_int s = (case py_int s of Inr _ \<Rightarrow> Inr True
     | Inl e \<Rightarrow> if e = builtin_exn EValueError then Inr False else Inl e)"

definition is_int :: constraint where
  "is_int argument = is_constraint represents_int
     (\<lambda>arg. map_sum id PInt (py_int arg))
     (\<lambda>arg. exc '''%s' has type '%s', should be integer'' [arg, PStr (type_name arg)]) argument"

definition true_words :: "string list" where
  "true_words = [''yes'', ''y'', ''true'', ''t'', ''1'']"

definition false_words :: "string list" where
  "false_words = [''no'', ''n'', ''false'', ''f'', ''0'']"

definition represents_bool :: "pyval \<Rightarrow> bool" where
  "represents_bool s = (case bool_word s of None \<Rightarrow> False
     | Some w \<Rightarrow> w \<in> set (true_words @ false_words))"

definition is_bool :: constraint where
  "is_bool argument = is_constraint (\<lambda>arg. Inr (represents_bool arg))
     (\<lambda>arg. Inr (PBool (case bool_word arg of None \<Rightarrow> False | Some w \<Rightarrow> w \<in> set true_words)))
     (\<lambda>arg. exc '''%s' has type '%s', should be bool'' [arg, PStr (type_name arg)]) argument"

text \<open>
  The order constraints. The program applies them to integers only (their callers convert
  first); a value that is not a number is outside the model and is refused.
\<close>

definition num_test :: "(rat \<Rightarrow> bool) \<Rightarrow> pyval \<Rightarrow> exn + bool" where
  "num_test p v = Inr (case as_num v of None \<Rightarrow> False | Some r \<Rightarrow> p r)"

definition is_more_than :: "int \<Rightarrow> constraint" where
  "is_more_than minval = is_constraint (num_test (\<lambda>r. r > of_int minval)) Inr
     (\<lambda>arg. exc ''%s is not more than %s'' [arg, PInt minval])"

definition is_more_or_eq_than :: "int \<Rightarrow> constraint" where
  "is_more_or_eq_than minval = is_constraint (num_test (\<lambda>r. r \<ge> of_int minval)) Inr
     (\<lambda>arg. exc ''%s is not more or equal than %s'' [arg, PInt minval])"

definition is_between :: "int \<Rightarrow> int \<Rightarrow> constraint" where
  "is_between minval maxval =
     is_constraint (num_test (\<lambda>r. r \<ge> of_int minval \<and> r \<le> of_int maxval)) Inr
     (\<lambda>arg. exc ''%s is not between %s and %s'' [arg, PInt minval, PInt maxval])"

definition is_pos_int :: constraint where
  "is_pos_int argument = res_bind (is_int argument) (is_more_than 0)"

definition is_pos_nul_int :: constraint where
  "is_pos_nul_int argument = res_bind (is_int argument) (is_more_or_eq_than 0)"

definition is_in_list :: "pyval list \<Rightarrow> constraint" where
  "is_in_list exp_list = is_constraint (\<lambda>arg. Inr (py_in arg exp_list)) Inr
     (\<lambda>arg. exc '''%s' must be one of %s'' [arg, PList exp_list])"

definition is_not_in_list :: "pyval list \<Rightarrow> constraint" where
  "is_not_in_list exp_list = is_constraint (\<lambda>arg. Inr (\<not> py_in arg exp_list)) Inr
     (\<lambda>arg. exc '''%s' must not be one of %s'' [arg, PList exp_list])"

definition type_constraint :: "(pyval \<Rightarrow> bool) \<Rightarrow> string \<Rightarrow> constraint" where
  "type_constraint p msg = is_constraint (\<lambda>arg. Inr (p arg)) Inr
     (\<lambda>arg. exc msg [arg, PStr (type_name arg)])"

definition is_string :: constraint where
  "is_string argument = type_constraint (\<lambda>v. case v of PStr _ \<Rightarrow> True | _ \<Rightarrow> False)
     '''%s' has type '%s', should be string'' argument"

definition is_non_empty_list :: constraint where
  "is_non_empty_list argument =
     type_constraint (\<lambda>v. case v of PList xs \<Rightarrow> length xs > 0 | _ \<Rightarrow> False)
     '''%s' has type '%s', should be non-empty list'' argument"

definition is_list :: constraint where
  "is_list argument = type_constraint (\<lambda>v. case v of PList _ \<Rightarrow> True | _ \<Rightarrow> False)
     '''%s' has type '%s', should be list'' argument"

definition is_dict :: constraint where
  "is_dict argument = type_constraint (\<lambda>v. case v of PDict _ \<Rightarrow> True | _ \<Rightarrow> False)
     '''%s' has type '%s', should be dict'' argument"

definition is_uploaded_file :: constraint where
  "is_uploaded_file argument = type_constraint (\<lambda>v. case v of PFile _ _ \<Rightarrow> True | _ \<Rightarrow> False)
     '''%s' has type '%s', should be uploaded file'' argument"

text \<open>\<open>keys.remove(k)\<close> for the mandatory keys: a missing one raises.\<close>

fun remove_mandatory :: "pyval \<Rightarrow> string list \<Rightarrow> string list \<Rightarrow> exn + string list" where
  "remove_mandatory argdict [] keys = Inr keys"
| "remove_mandatory argdict (k # ks) keys =
     (if k \<in> set keys then remove_mandatory argdict ks (remove1 k keys)
      else Inl (exc (''Was expecting key '%s' in dict '%s'' @ [CHR 0x27]) [PStr k, argdict]))"

definition dict2_keys :: "pyval \<Rightarrow> string list" where
  "dict2_keys v = (case v of PDict d \<Rightarrow> dict_keys d | _ \<Rightarrow> [])"

definition is_dict2 :: "string list \<Rightarrow> string list option \<Rightarrow> constraint" where
  "is_dict2 mandatory_keys optional_keys = (\<lambda>argument.
     res_bind (is_dict argument) (\<lambda>argdict.
     res_bind (remove_mandatory argdict mandatory_keys (dict2_keys argument)) (\<lambda>keys.
       let opts = (case optional_keys of None \<Rightarrow> [] | Some ks \<Rightarrow> ks);
           keys' = fold remove1 opts keys
       in if length keys' > 0
          then Inl (exc (''Unexpected key in dict '%s': '%s'' @ [CHR 0x27]) [argdict, PList (map PStr keys')])
          else Inr argdict)))"

definition list_items :: "pyval \<Rightarrow> pyval list" where
  "list_items v = (case v of PList xs \<Rightarrow> xs | _ \<Rightarrow> [])"

definition is_list_dict :: constraint where
  "is_list_dict argument = res_bind (is_list argument) (\<lambda>mylist.
     res_bind (map_res is_dict (list_items mylist)) (\<lambda>_. Inr mylist))"

definition is_list_dict2 :: "string list \<Rightarrow> string list option \<Rightarrow> constraint" where
  "is_list_dict2 mandatory_keys optional_keys = (\<lambda>argument.
     res_bind (is_list_dict argument) (\<lambda>mylist.
     res_bind (map_res (is_dict2 mandatory_keys optional_keys) (list_items mylist))
       (\<lambda>_. Inr mylist)))"

subsection \<open>\<open>check_arguments\<close>\<close>

text \<open>
  An expected parameter is a tuple: (name, constraint), (name, constraint, default), or a
  tuple too short to describe one.
\<close>

datatype param =
    Mandatory string constraint
  | Optional string constraint pyval
  | Malformed

text \<open>The loop over the expected parameters; \<open>args.pop(name)\<close> removes what it reads.\<close>

fun parse_params :: "param list \<Rightarrow> kwargs \<Rightarrow> pyval list \<Rightarrow> exn + pyval list \<times> kwargs" where
  "parse_params [] args parsed = Inr (parsed, args)"
| "parse_params (Malformed # ps) args parsed =
     Inl (exc ''Unexpected number of arguments describing a parameter: %s'' [])"
| "parse_params (Mandatory name c # ps) args parsed =
     (case map_of args name of
        Some v \<Rightarrow> (case c v of
            Inl ex \<Rightarrow> Inl (Wrap ''Parameter '%s': %s.'' [PStr name] ex)
          | Inr w \<Rightarrow> parse_params ps (AList.delete name args) (parsed @ [w]))
      | None \<Rightarrow> Inl (exc ''Missing the mandatory parameter '%s'.'' [PStr name]))"
| "parse_params (Optional name c dflt # ps) args parsed =
     (case map_of args name of
        Some v \<Rightarrow> (case c v of
            Inl ex \<Rightarrow> Inl (Wrap ''Parameter '%s': %s.'' [PStr name] ex)
          | Inr w \<Rightarrow> parse_params ps (AList.delete name args) (parsed @ [w]))
      | None \<Rightarrow> parse_params ps args (parsed @ [dflt]))"

definition unwrap_parsed :: "pyval list \<Rightarrow> pyval" where
  "unwrap_parsed vs = (if length vs = 1 then hd vs else PList vs)"

definition check_arguments :: "param list \<Rightarrow> kwargs \<Rightarrow> exn + pyval" where
  "check_arguments expected_params args =
     (case parse_params expected_params args [] of
        Inl e \<Rightarrow> Inl e
      | Inr (parsed, rest) \<Rightarrow>
          if length rest > 0 then Inl (exc ''Unexpected parameters: %s.'' [PDict rest])
          else Inr (unwrap_parsed parsed))"

text \<open>
  What the caller's \<open>kwargs\<close> holds afterwards: the dict is emptied in place as parameters are
  read, whether or not the call succeeds.
\<close>

fun args_after :: "param list \<Rightarrow> kwargs \<Rightarrow> kwargs" where
  "args_after [] args = args"
| "args_after (Malformed # ps) args = args"
| "args_after (Mandatory name c # ps) args =
     (case map_of args name of
        Some v \<Rightarrow> (case c v of Inl _ \<Rightarrow> AList.delete name args
                   | Inr _ \<Rightarrow> args_after ps (AList.delete name args))
      | None \<Rightarrow> args)"
| "args_after (Optional name c dflt # ps) args =
     (case map_of args name of
        Some v \<Rightarrow> (case c v of Inl _ \<Rightarrow> AList.delete name args
                   | Inr _ \<Rightarrow> args_after ps (AList.delete name args))
      | None \<Rightarrow> args_after ps args)"

subsection \<open>Ports, addresses and text lines\<close>

definition verify_port :: "pyval \<Rightarrow> exn + unit" where
  "verify_port port = (case port of
       PInt p \<Rightarrow> if p < 1 \<or> p > 65535
                 then Inl (Raise EValueError ''port should be a valid port number'' [])
                 else Inr ()
     | _ \<Rightarrow> Inl (Raise ETypeError ''port should be an integer'' []))"

text \<open>
  \<open>socket.gethostbyname\<close> asks the resolver of the machine: \<open>resolves\<close> is that parameter.
\<close>

definition verify_ip_or_domain :: "(string \<Rightarrow> bool) \<Rightarrow> pyval \<Rightarrow> exn + unit" where
  "verify_ip_or_domain resolves ip = (case ip of
       PStr s \<Rightarrow> if resolves s then Inr ()
                 else Inl (Raise EValueError ''Invalid IP string \"%s\" -- %s'' [ip])
     | _ \<Rightarrow> Inl (Raise ETypeError ''IP is should be a string'' []))"

definition verify_ip_port_pair :: "(string \<Rightarrow> bool) \<Rightarrow> kwargs \<Rightarrow> exn + unit" where
  "verify_ip_port_pair resolves pair =
     (if length pair < 2 then Inl (Raise ETypeError ''List should contain IP,PORT values'' [])
      else case (map_of pair ''ip'', map_of pair ''port'') of
          (Some ip, Some port) \<Rightarrow>
            res_bind (verify_ip_or_domain resolves ip) (\<lambda>_. verify_port port)
        | _ \<Rightarrow> Inl (Raise ETypeError ''List should contain IP,PORT values'' []))"

definition verify_ip_port_list :: "(string \<Rightarrow> bool) \<Rightarrow> kwargs list \<Rightarrow> exn + unit" where
  "verify_ip_port_list resolves l =
     res_bind (map_res (verify_ip_port_pair resolves) l) (\<lambda>_. Inr ())"

text \<open>\<open>str.splitlines\<close> on text without carriage returns, and \<open>list_lines\<close>.\<close>

fun split_nl :: "string \<Rightarrow> string \<Rightarrow> string list" where
  "split_nl cur [] = (if cur = [] then [] else [cur])"
| "split_nl cur (c # cs) =
     (if c = CHR 0x0A then cur # split_nl [] cs else split_nl (cur @ [c]) cs)"

definition list_lines :: "string \<Rightarrow> string list" where
  "list_lines ls = filter (\<lambda>l. l \<noteq> []) (map py_strip (split_nl [] ls))"

section \<open>Facts\<close>

lemmas constraint_defs = is_constraint_def type_constraint_def num_test_def

lemma is_int_Inr: "is_int v = Inr w \<longleftrightarrow> (\<exists>i. py_int v = Inr i \<and> w = PInt i)"
  by (cases "py_int v") (auto simp: is_int_def constraint_defs represents_int_def split: if_splits)

lemma is_pos_int_Inr: "is_pos_int v = Inr w \<longleftrightarrow> (\<exists>i. py_int v = Inr i \<and> i > 0 \<and> w = PInt i)"
  by (auto simp: is_pos_int_def is_int_Inr is_more_than_def constraint_defs res_elims)

lemma is_pos_nul_int_Inr:
  "is_pos_nul_int v = Inr w \<longleftrightarrow> (\<exists>i. py_int v = Inr i \<and> i \<ge> 0 \<and> w = PInt i)"
  by (auto simp: is_pos_nul_int_def is_int_Inr is_more_or_eq_than_def constraint_defs res_elims)

lemma is_in_list_Inr: "is_in_list xs v = Inr w \<longleftrightarrow> py_in v xs \<and> w = v"
  by (auto simp: is_in_list_def constraint_defs)

lemma is_not_in_list_Inr: "is_not_in_list xs v = Inr w \<longleftrightarrow> \<not> py_in v xs \<and> w = v"
  by (auto simp: is_not_in_list_def constraint_defs)

lemma is_string_Inr: "is_string v = Inr w \<longleftrightarrow> (\<exists>s. v = PStr s) \<and> w = v"
  by (auto simp: is_string_def constraint_defs split: pyval.splits)

lemma is_dict_Inr: "is_dict v = Inr w \<longleftrightarrow> (\<exists>d. v = PDict d) \<and> w = v"
  by (auto simp: is_dict_def constraint_defs split: pyval.splits)

lemma is_list_Inr: "is_list v = Inr w \<longleftrightarrow> (\<exists>xs. v = PList xs) \<and> w = v"
  by (auto simp: is_list_def constraint_defs split: pyval.splits)

lemma is_uploaded_file_Inr: "is_uploaded_file v = Inr w \<longleftrightarrow> (\<exists>n c. v = PFile n c) \<and> w = v"
  by (auto simp: is_uploaded_file_def constraint_defs split: pyval.splits)

lemmas constraint_Inr =
  is_int_Inr is_pos_int_Inr is_pos_nul_int_Inr is_in_list_Inr is_not_in_list_Inr
  is_string_Inr is_dict_Inr is_list_Inr is_uploaded_file_Inr

subsection \<open>\<open>is_dict2\<close>\<close>

lemma subset_remove1: "a \<notin> set ks \<Longrightarrow> set ks \<subseteq> set (remove1 a keys) \<longleftrightarrow> set ks \<subseteq> set keys"
  by (metis in_set_remove1 subset_iff)

lemma remove_mandatory_Inr:
  "distinct ks \<Longrightarrow> remove_mandatory d ks keys = Inr r \<longleftrightarrow>
     set ks \<subseteq> set keys \<and> r = fold remove1 ks keys"
  by (induction ks arbitrary: keys) (auto simp: subset_remove1)

lemma set_fold_remove1: "distinct keys \<Longrightarrow> set (fold remove1 ks keys) = set keys - set ks"
  by (induction ks arbitrary: keys) (auto simp: set_remove1_eq)

lemma distinct_fold_remove1: "distinct keys \<Longrightarrow> distinct (fold remove1 ks keys)"
  by (induction ks arbitrary: keys) auto

lemma is_dict2_Inr:
  assumes "distinct mand" and "well_keyed d"
  shows "is_dict2 mand opt (PDict d) = Inr w \<longleftrightarrow>
    w = PDict d \<and> set mand \<subseteq> set (dict_keys d) \<and>
    set (dict_keys d) \<subseteq> set mand \<union> set (case opt of None \<Rightarrow> [] | Some ks \<Rightarrow> ks)"
proof -
  let ?opts = "case opt of None \<Rightarrow> [] | Some ks \<Rightarrow> ks"
  have d: "distinct (dict_keys d)"
    using assms(2) by (simp add: well_keyed_def)
  let ?left = "fold remove1 ?opts (fold remove1 mand (dict_keys d))"
  have "set ?left = set (dict_keys d) - set mand - set ?opts"
    by (simp add: set_fold_remove1 distinct_fold_remove1 d)
  then have "?left = [] \<longleftrightarrow> set (dict_keys d) - set mand - set ?opts = {}"
    by (simp only: flip: set_empty)
  also have "\<dots> \<longleftrightarrow> set (dict_keys d) \<subseteq> set mand \<union> set ?opts"
    by blast
  finally show ?thesis
    by (simp add: is_dict2_def dict2_keys_def Let_def res_elims is_dict_Inr
          remove_mandatory_Inr [OF assms(1)]) blast
qed

subsection \<open>Specification of \<open>check_arguments\<close>\<close>

fun param_names :: "param list \<Rightarrow> string list" where
  "param_names [] = []"
| "param_names (Mandatory n c # ps) = n # param_names ps"
| "param_names (Optional n c d # ps) = n # param_names ps"
| "param_names (Malformed # ps) = param_names ps"

text \<open>\<open>v\<close> is the right value of one expected parameter for the arguments received.\<close>

fun param_value :: "(string \<Rightarrow> pyval option) \<Rightarrow> param \<Rightarrow> pyval \<Rightarrow> bool" where
  "param_value m (Mandatory n c) v = (\<exists>x. m n = Some x \<and> c x = Inr v)"
| "param_value m (Optional n c d) v =
     (case m n of Some x \<Rightarrow> c x = Inr v | None \<Rightarrow> v = d)"
| "param_value m Malformed v = False"

lemma param_value_upd:
  "n \<notin> set (param_names ps) \<Longrightarrow>
    list_all2 (param_value (m(n := z))) ps vs = list_all2 (param_value m) ps vs"
  by (induction ps arbitrary: vs rule: param_names.induct) (auto simp: list_all2_Cons1)

lemma param_value_delete:
  "n \<notin> set (param_names ps) \<Longrightarrow>
    list_all2 (param_value (map_of (AList.delete n args))) ps vs = list_all2 (param_value (map_of args)) ps vs"
  by (subst dict_map_of_delete) (rule param_value_upd)

lemma parse_params_Inr:
  assumes "distinct (param_names ps)"
  shows "parse_params ps args acc = Inr (vs, rest) \<longleftrightarrow>
    (\<exists>ws. vs = acc @ ws \<and> list_all2 (param_value (map_of args)) ps ws \<and>
          rest = filter (\<lambda>kv. fst kv \<notin> set (param_names ps)) args)"
  using assms
proof (induction ps args acc rule: parse_params.induct)
  case (1 args parsed)
  then show ?case by auto
next
  case (2 ps args parsed)
  then show ?case by (simp add: list_all2_Cons1)
next
  case (3 name c ps args parsed)
  show ?case
  proof (cases "map_of args name")
    case None
    then show ?thesis by (auto simp: list_all2_Cons1)
  next
    case (Some v)
    show ?thesis
    proof (cases "c v")
      case (Inl e)
      with Some show ?thesis by (auto simp: list_all2_Cons1)
    next
      case (Inr w)
      with "3.IH" [OF Some Inr] "3.prems" Some show ?thesis
        by (auto simp: list_all2_Cons1 param_value_delete simp del: dict_map_of_delete)
    qed
  qed
next
  case (4 name c dflt ps args parsed)
  show ?case
  proof (cases "map_of args name")
    case None
    then have "filter (\<lambda>kv. fst kv \<noteq> name \<and> fst kv \<notin> set (param_names ps)) args =
        filter (\<lambda>kv. fst kv \<notin> set (param_names ps)) args"
      by (intro filter_cong) (auto simp: map_of_eq_None_iff)
    with "4.IH"(1) [OF None] "4.prems" None show ?thesis
      by (auto simp: list_all2_Cons1)
  next
    case (Some v)
    show ?thesis
    proof (cases "c v")
      case (Inl e)
      with Some show ?thesis by (auto simp: list_all2_Cons1)
    next
      case (Inr w)
      with "4.IH"(2) [OF Some Inr] "4.prems" Some show ?thesis
        by (auto simp: list_all2_Cons1 param_value_delete simp del: dict_map_of_delete)
    qed
  qed
qed

lemma check_arguments_Inr:
  assumes "distinct (param_names ps)"
  shows "check_arguments ps args = Inr r \<longleftrightarrow>
    (\<exists>vs. list_all2 (param_value (map_of args)) ps vs \<and> r = unwrap_parsed vs) \<and>
    set (dict_keys args) \<subseteq> set (param_names ps)"
proof -
  have "check_arguments ps args = Inr r \<longleftrightarrow>
      (\<exists>vs. parse_params ps args [] = Inr (vs, []) \<and> r = unwrap_parsed vs)"
    by (auto simp: check_arguments_def split: sum.splits)
  moreover have "[] = filter (\<lambda>kv. fst kv \<notin> set (param_names ps)) args \<longleftrightarrow>
      set (dict_keys args) \<subseteq> set (param_names ps)"
    by (subst eq_commute) (auto simp: filter_empty_conv)
  ultimately show ?thesis
    by (auto simp: parse_params_Inr [OF assms])
qed

lemma args_after_success:
  assumes "check_arguments ps args = Inr r"
  shows "args_after ps args = []"
proof -
  have "parse_params ps args acc = Inr (vs, rest) \<Longrightarrow> args_after ps args = rest" for acc vs rest
    by (induction ps args acc rule: parse_params.induct) (auto split: option.splits sum.splits)
  then show ?thesis
    using assms by (auto simp: check_arguments_def split: sum.splits if_splits)
qed

end
