(* ===== verification/Node.thy ===== *)
theory Node
  imports PyMisc
begin

text \<open>
  \<open>conpaas/core/node.py\<close>: \<open>ServiceNode\<close> (a virtual machine as managers and director know it)
  and \<open>ServiceVolume\<close>, their dictionary forms, and the ordering \<open>__cmp__\<close> that \<open>==\<close>, \<open>in\<close> and
  \<open>list.remove\<close> use.

  The dictionary forms travel as JSON between manager and director. A dictionary is a record
  with one \<open>option\<close> field per key: \<open>None\<close> is a key that is absent.
\<close>

subsection \<open>Volumes\<close>

record service_volume =
  sv_vol_name :: string
  sv_vol_size :: int
  sv_vol_id :: "string option"
  sv_vm_id :: "string option"
  sv_dev_name :: "string option"
  sv_cloud :: "string option"

record volume_dict =
  vd_vol_name :: "string option"
  vd_vol_size :: "int option"
  vd_vol_id :: "string option option"
  vd_vm_id :: "string option option"
  vd_dev_name :: "string option option"
  vd_cloud :: "string option option"

definition new_service_volume :: "string \<Rightarrow> int \<Rightarrow> service_volume" where
  "new_service_volume vol_name vol_size =
     \<lparr>sv_vol_name = vol_name, sv_vol_size = vol_size, sv_vol_id = None, sv_vm_id = None,
      sv_dev_name = None, sv_cloud = None\<rparr>"

definition volume_to_dict :: "service_volume \<Rightarrow> volume_dict" where
  "volume_to_dict v =
     \<lparr>vd_vol_name = Some (sv_vol_name v), vd_vol_size = Some (sv_vol_size v),
      vd_vol_id = Some (sv_vol_id v), vd_vm_id = Some (sv_vm_id v),
      vd_dev_name = Some (sv_dev_name v), vd_cloud = Some (sv_cloud v)\<rparr>"

text \<open>\<open>d['k']\<close> and \<open>d['k'] if 'k' in d else None\<close>.\<close>

definition need_key :: "'a option \<Rightarrow> exn + 'a" where
  "need_key x = (case x of None \<Rightarrow> Inl (builtin_exn EKeyError) | Some v \<Rightarrow> Inr v)"

lemma need_key_simps [simp]:
  "need_key None = Inl (builtin_exn EKeyError)" "need_key (Some v) = Inr v"
  by (simp_all add: need_key_def)

lemma need_key_Inr [res_elims]: "need_key x = Inr v \<longleftrightarrow> x = Some v"
  by (cases x) simp_all

definition opt_key :: "'a option option \<Rightarrow> 'a option" where
  "opt_key x = (case x of None \<Rightarrow> None | Some v \<Rightarrow> v)"

definition volume_from_dict :: "volume_dict \<Rightarrow> exn + service_volume" where
  "volume_from_dict d =
     res_bind (need_key (vd_vol_name d)) (\<lambda>name.
     res_bind (need_key (vd_vol_size d)) (\<lambda>size.
       Inr ((new_service_volume name size)
         \<lparr>sv_vol_id := opt_key (vd_vol_id d), sv_vm_id := opt_key (vd_vm_id d),
          sv_dev_name := opt_key (vd_dev_name d), sv_cloud := opt_key (vd_cloud d)\<rparr>)))"

subsection \<open>Nodes\<close>

text \<open>\<open>sn_created\<close> is the wall-clock second at which the object was built.\<close>

record service_node =
  sn_id :: string
  sn_vmid :: string
  sn_ip :: string
  sn_private_ip :: string
  sn_cloud_name :: string
  sn_weight_backend :: pyval
  sn_role :: string
  sn_volumes :: "service_volume list"
  sn_created :: int

record node_dict =
  nd_id :: "string option"
  nd_vmid :: "string option"
  nd_ip :: "string option"
  nd_private_ip :: "string option"
  nd_cloud_name :: "string option"
  nd_weight_backend :: "pyval option"
  nd_role :: "string option"
  nd_volumes :: "volume_dict list option"

definition default_weight :: pyval where
  "default_weight = PInt 100"

definition node_id :: "string \<Rightarrow> string \<Rightarrow> string" where
  "node_id cloud_name vmid = cloud_name @ vmid"

definition new_service_node ::
  "int \<Rightarrow> string \<Rightarrow> string \<Rightarrow> string \<Rightarrow> string \<Rightarrow> pyval \<Rightarrow> string \<Rightarrow> service_node" where
  "new_service_node now vmid ip private_ip cloud_name weight_backend role =
     \<lparr>sn_id = node_id cloud_name vmid, sn_vmid = vmid, sn_ip = ip, sn_private_ip = private_ip,
      sn_cloud_name = cloud_name, sn_weight_backend = weight_backend, sn_role = role,
      sn_volumes = [], sn_created = now\<rparr>"

definition node_cmp :: "service_node \<Rightarrow> service_node \<Rightarrow> int" where
  "node_cmp self other =
     (if sn_id self = sn_id other \<and> sn_cloud_name self = sn_cloud_name other then 0
      else if sn_id self < sn_id other then -1 else 1)"

text \<open>\<open>==\<close> on nodes.\<close>

definition node_eq :: "service_node \<Rightarrow> service_node \<Rightarrow> bool" where
  "node_eq a b = (node_cmp a b = 0)"

definition node_to_dict :: "service_node \<Rightarrow> node_dict" where
  "node_to_dict n =
     \<lparr>nd_id = Some (sn_id n), nd_vmid = Some (sn_vmid n), nd_ip = Some (sn_ip n),
      nd_private_ip = Some (sn_private_ip n), nd_cloud_name = Some (sn_cloud_name n),
      nd_weight_backend = Some (sn_weight_backend n), nd_role = Some (sn_role n),
      nd_volumes = Some (map volume_to_dict (sn_volumes n))\<rparr>"

definition node_from_dict :: "int \<Rightarrow> node_dict \<Rightarrow> exn + service_node" where
  "node_from_dict now d =
     (let role = (case nd_role d of None \<Rightarrow> ''node'' | Some r \<Rightarrow> r) in
      res_bind (need_key (nd_vmid d)) (\<lambda>vmid.
      res_bind (need_key (nd_ip d)) (\<lambda>ip.
      res_bind (need_key (nd_private_ip d)) (\<lambda>private_ip.
      res_bind (need_key (nd_cloud_name d)) (\<lambda>cloud.
      res_bind (need_key (nd_weight_backend d)) (\<lambda>weight.
        let s = new_service_node now vmid ip private_ip cloud weight role
        in (case nd_volumes d of
              None \<Rightarrow> Inr s
            | Some vols \<Rightarrow> res_bind (map_res volume_from_dict vols) (\<lambda>vs.
                Inr (s\<lparr>sn_volumes := sn_volumes s @ vs\<rparr>)))))))))"

section \<open>Facts\<close>

text \<open>A node whose id is the one its constructor computed.\<close>

definition canonical_node :: "service_node \<Rightarrow> bool" where
  "canonical_node n = (sn_id n = node_id (sn_cloud_name n) (sn_vmid n))"

lemma canonical_new [simp]: "canonical_node (new_service_node now vmid ip pip c w r)"
  by (simp add: canonical_node_def new_service_node_def)

lemma volume_roundtrip: "volume_from_dict (volume_to_dict v) = Inr v"
  by (cases v) (simp add: volume_to_dict_def volume_from_dict_def new_service_volume_def opt_key_def)

lemma node_from_dict_canonical: "node_from_dict now d = Inr n \<Longrightarrow> canonical_node n"
  by (auto simp: node_from_dict_def Let_def canonical_node_def new_service_node_def res_elims
      split: option.splits)

lemma node_eq_iff: "node_eq a b \<longleftrightarrow> sn_id a = sn_id b \<and> sn_cloud_name a = sn_cloud_name b"
  by (simp add: node_eq_def node_cmp_def)

lemma node_eq_refl [simp]: "node_eq a a"
  by (simp add: node_eq_iff)

lemma node_eq_sym: "node_eq a b \<Longrightarrow> node_eq b a"
  by (simp add: node_eq_iff)

lemma node_eq_trans: "node_eq a b \<Longrightarrow> node_eq b c \<Longrightarrow> node_eq a c"
  by (simp add: node_eq_iff)

lemma node_eq_canonical:
  "canonical_node a \<Longrightarrow> canonical_node b \<Longrightarrow>
    node_eq a b \<longleftrightarrow> sn_cloud_name a = sn_cloud_name b \<and> sn_vmid a = sn_vmid b"
  by (auto simp: node_eq_iff canonical_node_def node_id_def)

text \<open>
  Claim C31. A node survives the trip to the director and back: reading the dictionary form of
  a node built by the constructor rebuilds it with every field, volumes included; only the
  creation time is that of the reader.
\<close>

theorem node_dict_roundtrip:
  assumes "canonical_node n"
  shows "node_from_dict now (node_to_dict n) = Inr (n\<lparr>sn_created := now\<rparr>)"
proof -
  have "map_res volume_from_dict (map volume_to_dict vs) = Inr vs" for vs
    by (induction vs) (simp_all add: volume_roundtrip)
  with assms show ?thesis
    by (cases n) (simp add: node_to_dict_def node_from_dict_def new_service_node_def canonical_node_def)
qed

theorem node_dict_roundtrip_witness:
  "node_from_dict 7 (node_to_dict ((new_service_node 3 ''1'' ''10.0.0.1'' ''10.0.0.1'' ''iaas'' default_weight ''node'')
      \<lparr>sn_volumes := [new_service_volume ''v'' 10]\<rparr>)) =
    Inr ((new_service_node 7 ''1'' ''10.0.0.1'' ''10.0.0.1'' ''iaas'' default_weight ''node'')
      \<lparr>sn_volumes := [new_service_volume ''v'' 10]\<rparr>)"
  using node_dict_roundtrip [of "(new_service_node 3 ''1'' ''10.0.0.1'' ''10.0.0.1'' ''iaas'' default_weight ''node'')
      \<lparr>sn_volumes := [new_service_volume ''v'' 10]\<rparr>" 7]
  by (simp add: canonical_node_def new_service_node_def)

text \<open>
  Among nodes built by the constructor, Python equality is exactly "same cloud and
  same virtual machine", and it is an equivalence; yet the id alone, by which every handler
  looks nodes up, does not identify a machine: two different machines on two clouds can share
  an id, and then each compares greater than the other, so \<open>__cmp__\<close> is no order.
\<close>

theorem node_identity:
  "(\<forall>now vmid ip pip c w r now' vmid' ip' pip' c' w' r'.
      node_eq (new_service_node now vmid ip pip c w r) (new_service_node now' vmid' ip' pip' c' w' r')
        \<longleftrightarrow> c = c' \<and> vmid = vmid') \<and>
   (\<exists>a b. canonical_node a \<and> canonical_node b \<and> sn_id a = sn_id b \<and> \<not> node_eq a b \<and>
      node_cmp a b = 1 \<and> node_cmp b a = 1)"
proof -
  let ?a = "new_service_node 0 ''12'' [] [] ''iaas'' default_weight ''node''"
  let ?b = "new_service_node 0 ''2'' [] [] ''iaas1'' default_weight ''node''"
  have "canonical_node ?a \<and> canonical_node ?b \<and> sn_id ?a = sn_id ?b \<and> \<not> node_eq ?a ?b \<and>
      node_cmp ?a ?b = 1 \<and> node_cmp ?b ?a = 1"
    by (simp add: new_service_node_def node_id_def node_eq_iff node_cmp_def canonical_node_def)
  moreover have "node_eq (new_service_node now vmid ip pip c w r) (new_service_node now' vmid' ip' pip' c' w' r')
        \<longleftrightarrow> c = c' \<and> vmid = vmid'" for now vmid ip pip c w r now' vmid' ip' pip' c' w' r'
    by (subst node_eq_canonical) (simp_all add: new_service_node_def canonical_node_def)
  ultimately show ?thesis by blast
qed

end
