(* ===== verification/Config.thy ===== *)
theory Config
  imports PyMisc
begin

text \<open>
  The standard library's \<open>ConfigParser\<close> as far as the program uses it: sections of options with
  string values. Option names are case-insensitive; the values hold no \<open>%(name)s\<close>
  interpolation. A missing section or option raises.
\<close>

type_synonym config = "(string \<times> (string \<times> string) list) list"

definition optionxform :: "string \<Rightarrow> string" where
  "optionxform opt = map lower_char opt"

definition has_section :: "config \<Rightarrow> string \<Rightarrow> bool" where
  "has_section cfg s = (map_of cfg s \<noteq> None)"

definition has_option :: "config \<Rightarrow> string \<Rightarrow> string \<Rightarrow> bool" where
  "has_option cfg s opt = (case map_of cfg s of None \<Rightarrow> False | Some opts \<Rightarrow> map_of opts (optionxform opt) \<noteq> None)"

definition cfg_get :: "config \<Rightarrow> string \<Rightarrow> string \<Rightarrow> exn + string" where
  "cfg_get cfg s opt = (case map_of cfg s of
       None \<Rightarrow> Inl (Raise EConfigError ''No section: %r'' [PStr s])
     | Some opts \<Rightarrow> (case map_of opts (optionxform opt) of
           None \<Rightarrow> Inl (Raise EConfigError ''No option %r in section: %r'' [PStr opt, PStr s])
         | Some v \<Rightarrow> Inr v))"

definition cfg_set :: "config \<Rightarrow> string \<Rightarrow> string \<Rightarrow> string \<Rightarrow> exn + config" where
  "cfg_set cfg s opt v = (case map_of cfg s of
       None \<Rightarrow> Inl (Raise EConfigError ''No section: %r'' [PStr s])
     | Some opts \<Rightarrow> Inr (AList.update s (AList.update (optionxform opt) v opts) cfg))"

definition cfg_add_section :: "config \<Rightarrow> string \<Rightarrow> config" where
  "cfg_add_section cfg s = AList.update s [] cfg"

lemma cfg_get_has_option: "has_option cfg s opt \<longleftrightarrow> (\<exists>v. cfg_get cfg s opt = Inr v)"
  by (auto simp: has_option_def cfg_get_def split: option.splits)

lemma cfg_get_set_same: "cfg_set cfg s opt v = Inr cfg' \<Longrightarrow> cfg_get cfg' s opt = Inr v"
  by (auto simp: cfg_set_def cfg_get_def split: option.splits)

lemma cfg_get_set_other:
  "cfg_set cfg s opt v = Inr cfg' \<Longrightarrow> s' \<noteq> s \<or> optionxform opt' \<noteq> optionxform opt \<Longrightarrow>
    cfg_get cfg' s' opt' = cfg_get cfg s' opt'"
  by (auto simp: cfg_set_def cfg_get_def split: option.splits if_splits)

lemma cfg_set_total: "has_section cfg s \<Longrightarrow> \<exists>cfg'. cfg_set cfg s opt v = Inr cfg' \<and> has_section cfg' s"
  by (auto simp: cfg_set_def has_section_def)

end
