(* ===== verification/Ipop.thy ===== *)
theory Ipop
  imports Config "HOL-Library.Word"
begin

text \<open>
  \<open>conpaas/core/ipop.py\<close>: the Base32 encoder that turns a hash into an IPOP address, and the
  parameters of IPOP's configuration files. SHA-1 and the Cheetah templates are not under src/:
  the digest is a parameter, and the model stops at the values handed to each template.

  The encoder works on bytes with masks and shifts; \<open>rfc4648\<close> below is the specification it is
  proved against: the bytes of a block are one number written in base 32.
\<close>

unbundle bit_operations_syntax

subsection \<open>The encoder\<close>

definition b32_alphabet :: string where
  "b32_alphabet = ''ABCDEFGHIJKLMNOPQRSTUVWXYZ'' @ ''234567''"

definition b32_char :: "int \<Rightarrow> string" where
  "b32_char idx = [b32_alphabet ! nat idx]"

text \<open>
  \<open>_encode_block\<close> writes one-character strings into \<open>ascii_out\<close>, last byte first, keeping the
  bits a byte leaves over in \<open>idx\<close>. The first read (of the highest index) is the one that can
  run past \<open>binary\<close>.
\<close>

definition encode_block ::
  "string list \<Rightarrow> nat \<Rightarrow> 8 word list \<Rightarrow> nat \<Rightarrow> nat \<Rightarrow> exn + string list" where
  "encode_block ascii_out ascii_off binary offset block_length =
     (if block_length > 0 \<and> offset + min block_length 5 > length binary
      then Inl (builtin_exn EIndexError)
      else
        let byte = (\<lambda>i. uint (binary ! (offset + i)));
            (out, idx) = (ascii_out, 0 :: int);
            (out, idx) =
              (if block_length \<ge> 5 then
                 let idx = idx OR (byte 4 AND 0x1F);
                     out = out[ascii_off + 7 := b32_char idx];
                     idx = 0 OR drop_bit 5 (byte 4 AND 0xE0)
                 in (out, idx) else (out, idx));
            (out, idx) =
              (if block_length \<ge> 4 then
                 let idx = idx OR push_bit 3 (byte 3 AND 0x03);
                     out = out[ascii_off + 6 := b32_char idx];
                     idx = 0 OR drop_bit 2 (byte 3 AND 0x7C);
                     out = out[ascii_off + 5 := b32_char idx];
                     idx = 0 OR drop_bit 7 (byte 3 AND 0x80)
                 in (out, idx) else (out, idx));
            (out, idx) =
              (if block_length \<ge> 3 then
                 let idx = idx OR push_bit 1 (byte 2 AND 0x0F);
                     out = out[ascii_off + 4 := b32_char idx];
                     idx = 0 OR drop_bit 4 (byte 2 AND 0xF0)
                 in (out, idx) else (out, idx));
            (out, idx) =
              (if block_length \<ge> 2 then
                 let idx = idx OR push_bit 4 (byte 1 AND 0x01);
                     out = out[ascii_off + 3 := b32_char idx];
                     idx = 0 OR drop_bit 1 (byte 1 AND 0x3E);
                     out = out[ascii_off + 2 := b32_char idx];
                     idx = 0 OR drop_bit 6 (byte 1 AND 0xC0)
                 in (out, idx) else (out, idx));
            out =
              (if block_length \<ge> 1 then
                 let idx = idx OR push_bit 2 (byte 0 AND 0x7);
                     out = out[ascii_off + 1 := b32_char idx];
                     idx = 0 OR drop_bit 3 (byte 0)
                 in out[ascii_off := b32_char idx] else out)
        in Inr out)"

fun encode_blocks :: "string list \<Rightarrow> 8 word list \<Rightarrow> nat \<Rightarrow> nat list \<Rightarrow> exn + string list" where
  "encode_blocks encoded binary offset [] = Inr encoded"
| "encode_blocks encoded binary offset (block # blocks) =
     res_bind (encode_block encoded (8 * block) binary (offset + 5 * block) 5)
       (\<lambda>encoded'. encode_blocks encoded' binary offset blocks)"

definition b32_pad_length :: "nat \<Rightarrow> nat" where
  "b32_pad_length len = (if len mod 5 = 1 then 6 else if len mod 5 = 2 then 4
     else if len mod 5 = 3 then 3 else if len mod 5 = 4 then 1 else 0)"

definition to_base32 :: "8 word list \<Rightarrow> nat \<Rightarrow> nat \<Rightarrow> bool \<Rightarrow> exn + string" where
  "to_base32 binary offset len pad =
     (let pad_length = b32_pad_length len;
          enc_length = 8 * (len div 5) +
            (if pad_length > 0 then (if pad then 8 else 8 - pad_length) else 0);
          encoded = replicate enc_length [];
          blocks = len div 5
      in res_bind (encode_blocks encoded binary offset [0..<blocks]) (\<lambda>encoded.
         res_bind (encode_block encoded (8 * blocks) binary (offset + 5 * blocks) (len mod 5)) (\<lambda>encoded.
           let encoded =
             (if pad then fold (\<lambda>i enc. enc[enc_length - i - 1 := ''='']) [0..<pad_length] encoded
              else encoded)
           in Inr (concat encoded))))"

subsection \<open>IPOP's node address and configuration\<close>

text \<open>\<open>__get_node_hash\<close>: the last byte of the digest loses its lowest bit.\<close>

definition get_node_hash :: "(string \<Rightarrow> 8 word list) \<Rightarrow> string \<Rightarrow> exn + string" where
  "get_node_hash sha1 ref_str =
     (let hash_bytes = sha1 ref_str
      in if hash_bytes = [] then Inl (builtin_exn EIndexError)
         else let n = length hash_bytes - 1;
                  hash_bytes = hash_bytes[n := (hash_bytes ! n) AND 0xFE]
              in to_base32 hash_bytes 0 (length hash_bytes) True)"

definition config_section :: "config \<Rightarrow> string" where
  "config_section cfg = (if has_section cfg ''manager'' then ''manager'' else ''agent'')"

text \<open>\<open>urlparse(u).netloc\<close> is the parameter \<open>netloc\<close>.\<close>

definition get_ipop_namespace :: "(string \<Rightarrow> string) \<Rightarrow> config \<Rightarrow> exn + string" where
  "get_ipop_namespace netloc cfg =
     (let section = config_section cfg in
      res_bind (cfg_get cfg section ''APP_ID'') (\<lambda>app_id.
      res_bind (cfg_get cfg section ''IPOP_BASE_NAMESPACE'') (\<lambda>base_namespace.
        Inr (''cps-'' @ netloc base_namespace @ ''-'' @ app_id))))"

definition wanted_params :: "(string \<times> string list) list" where
  "wanted_params =
    [(''bootstrap.config'', [''bootstrap_nodes'']),
     (''node.config'', [''udp_port'', ''bootstrap_nodes'', ''node_address'']),
     (''ipop.config'', [''namespace'']),
     (''ipop.vpn.config'', [''ip_address'', ''netmask'', ''dhcp'', ''static'', ''use_ipop_hostname'']),
     (''dhcp.config'', [''ip_base'', ''netmask'', ''namespace''])]"

text \<open>
  \<open>configure_ipop\<close> up to the templates: for each configuration file, the values its template
  is filled with.
\<close>

definition configure_ipop ::
  "(string \<Rightarrow> 8 word list) \<Rightarrow> string \<Rightarrow> string \<Rightarrow> string \<Rightarrow> string \<Rightarrow> string option \<Rightarrow> int \<Rightarrow>
     string list option \<Rightarrow> exn + (string \<times> kwargs) list" where
  "configure_ipop sha1 tmpl_dir namespace ip_base netmask ip_address udp_port bootstrap_nodes =
     res_bind (case ip_address of None \<Rightarrow> Inr []
         | Some ip \<Rightarrow> if namespace = [] then Inr [] else get_node_hash sha1 (namespace @ ip)) (\<lambda>node_address.
       let procedure_args =
             [(''bootstrap_nodes'', case bootstrap_nodes of None \<Rightarrow> PNone | Some ns \<Rightarrow> PList (map PStr ns)),
              (''tmpl_dir'', PStr tmpl_dir), (''namespace'', PStr namespace),
              (''ip_base'', PStr ip_base), (''netmask'', PStr netmask),
              (''ip_address'', case ip_address of None \<Rightarrow> PNone | Some ip \<Rightarrow> PStr ip),
              (''udp_port'', PInt udp_port), (''node_address'', PStr node_address)];
           extra =
             (if ip_address = None
              then [(''ip_address'', PStr []), (''dhcp'', PStr []), (''static'', PStr []),
                    (''use_ipop_hostname'', PStr [])]
              else [(''dhcp'', PStr ''false''), (''static'', PStr ''true''),
                    (''use_ipop_hostname'', PStr ''true'')]);
           args = fold (\<lambda>(k, v) d. AList.update k v d) extra procedure_args
       in map_res (\<lambda>(filename, params).
            res_bind (map_res (\<lambda>p. map_sum id (\<lambda>v. (p, v)) (py_lookup args p)) params)
              (\<lambda>vals. Inr (filename, vals))) wanted_params)"

text \<open>
  \<open>configure_conpaas_node\<close>: \<open>None\<close> when no VPN is started; the directory test is a parameter.
\<close>

definition configure_conpaas_node ::
  "(string \<Rightarrow> 8 word list) \<Rightarrow> (string \<Rightarrow> string) \<Rightarrow> bool \<Rightarrow> config \<Rightarrow> exn + (string \<times> kwargs) list option" where
  "configure_conpaas_node sha1 netloc ipop_installed cfg =
     (let section = config_section cfg in
      if \<not> has_option cfg section ''IPOP_IP_ADDRESS'' then Inr None
      else if \<not> ipop_installed then Inr None
      else
        res_bind (cfg_get cfg section ''IPOP_IP_ADDRESS'') (\<lambda>ip_address.
        res_bind (cfg_get cfg section ''CONPAAS_HOME'') (\<lambda>conpaas_home.
        res_bind (get_ipop_namespace netloc cfg) (\<lambda>ipop_namespace.
        res_bind (cfg_get cfg section ''IPOP_BASE_IP'') (\<lambda>ip_base.
        res_bind (cfg_get cfg section ''IPOP_NETMASK'') (\<lambda>netmask.
        res_bind (if has_option cfg section ''IPOP_BOOTSTRAP_NODES''
                  then map_sum id (\<lambda>v. Some (list_lines v)) (cfg_get cfg section ''IPOP_BOOTSTRAP_NODES'')
                  else Inr None) (\<lambda>bootstrap_nodes.
        map_sum id Some
          (configure_ipop sha1 (conpaas_home @ ''/config/ipop'') ipop_namespace ip_base netmask
             (Some ip_address) 0 bootstrap_nodes))))))))"

section \<open>The specification of Base32\<close>

text \<open>
  The bits of the bytes, most significant first, filled up with zeros, cut into groups of five;
  each group is the number of a letter. With padding, \<open>=\<close> fills the text up to a multiple of
  eight.
\<close>

definition bits8 :: "8 word \<Rightarrow> bool list" where
  "bits8 b = map (bit (uint b)) [7, 6, 5, 4, 3, 2, 1, 0]"

definition bits_val :: "bool list \<Rightarrow> int" where
  "bits_val bs = foldl (\<lambda>a b. 2 * a + of_bool b) 0 bs"

fun chunks :: "nat \<Rightarrow> 'a list \<Rightarrow> 'a list list" where
  "chunks n xs = (if n = 0 \<or> xs = [] then [] else take n xs # chunks n (drop n xs))"

declare chunks.simps [simp del]

definition byte_bits :: "8 word list \<Rightarrow> bool list" where
  "byte_bits bs = concat (map bits8 bs)"

definition zero_fill :: "bool list \<Rightarrow> bool list" where
  "zero_fill bits = bits @ replicate ((5 - length bits mod 5) mod 5) False"

definition b32_text :: "8 word list \<Rightarrow> string" where
  "b32_text bs = map (\<lambda>g. b32_alphabet ! nat (bits_val g)) (chunks 5 (zero_fill (byte_bits bs)))"

definition rfc4648 :: "bool \<Rightarrow> 8 word list \<Rightarrow> string" where
  "rfc4648 pad bs = (let t = b32_text bs in
     if pad then t @ replicate ((8 - length t mod 8) mod 8) CHR ''='' else t)"

subsection \<open>Masks and shifts are arithmetic\<close>

lemma byte_masks_all:
  "list_all (\<lambda>b. b AND 0x1F = b mod 32 \<and> drop_bit 5 (b AND 0xE0) = b div 32 \<and>
     push_bit 3 (b AND 0x03) = 8 * (b mod 4) \<and> drop_bit 2 (b AND 0x7C) = b div 4 mod 32 \<and>
     drop_bit 7 (b AND 0x80) = b div 128 \<and> push_bit 1 (b AND 0x0F) = 2 * (b mod 16) \<and>
     drop_bit 4 (b AND 0xF0) = b div 16 \<and> push_bit 4 (b AND 0x01) = 16 * (b mod 2) \<and>
     drop_bit 1 (b AND 0x3E) = b div 2 mod 32 \<and> drop_bit 6 (b AND 0xC0) = b div 64 \<and>
     push_bit 2 (b AND 0x7) = 4 * (b mod 8) \<and> drop_bit 3 b = b div 8) [0..255 :: int]"
  by code_simp

lemma or_add_all:
  "list_all (\<lambda>(k, n). list_all (\<lambda>x. list_all (\<lambda>y. x OR (k * y) = x + k * (y::int)) [0..n - 1]) [0..k - 1])
     [(8, 4), (2, 16), (16, 2), (4, 8)]"
  by code_simp

lemma byte_bits_all:
  "list_all (\<lambda>b. let v = \<lambda>is. bits_val (map (bit b) is) in
     v [7,6,5,4,3] = b div 8 \<and> v [2,1,0] = b mod 8 \<and> v [7,6] = b div 64 \<and>
     v [5,4,3,2,1] = b div 2 mod 32 \<and> v [0] = b mod 2 \<and> v [7,6,5,4] = b div 16 \<and>
     v [3,2,1,0] = b mod 16 \<and> v [7] = b div 128 \<and> v [6,5,4,3,2] = b div 4 mod 32 \<and>
     v [1,0] = b mod 4 \<and> v [7,6,5] = b div 32 \<and> v [4,3,2,1,0] = b mod 32) [0..255 :: int]"
  by code_simp

lemma uint_byte_in: "uint (b :: 8 word) \<in> set [0..255]"
  using uint_lt2p [of b] by simp

lemmas byte_masks = byte_masks_all [unfolded list_all_iff, rule_format, OF uint_byte_in]
lemmas byte_bit_vals = byte_bits_all [unfolded list_all_iff Let_def, rule_format, OF uint_byte_in]

lemma or_add:
  "0 \<le> x \<Longrightarrow> x < 8 \<Longrightarrow> 0 \<le> y \<Longrightarrow> y < 4 \<Longrightarrow> x OR (8 * y) = x + 8 * (y::int)"
  "0 \<le> x \<Longrightarrow> x < 2 \<Longrightarrow> 0 \<le> y \<Longrightarrow> y < 16 \<Longrightarrow> x OR (2 * y) = x + 2 * (y::int)"
  "0 \<le> x \<Longrightarrow> x < 16 \<Longrightarrow> 0 \<le> y \<Longrightarrow> y < 2 \<Longrightarrow> x OR (16 * y) = x + 16 * (y::int)"
  "0 \<le> x \<Longrightarrow> x < 4 \<Longrightarrow> 0 \<le> y \<Longrightarrow> y < 8 \<Longrightarrow> x OR (4 * y) = x + 4 * (y::int)"
  using or_add_all by (auto simp: list_all_iff)

lemma uint_byte_bounds: "0 \<le> uint (b :: 8 word)" "uint (b :: 8 word) < 256"
  using uint_lt2p [of b] by simp_all

lemma byte_div_bounds:
  "uint (b :: 8 word) div 32 < 8" "uint b div 128 < 2" "uint b div 16 < 16" "uint b div 64 < 4"
  using uint_byte_bounds [of b] by linarith+

lemmas idx_simps = byte_masks or_add byte_div_bounds

lemma bits_split:
  "bits_val [a, b, c, d, e] = bits_val [d, e] + 4 * bits_val [a, b, c]"
  "bits_val [a, b, c, d, e] = bits_val [b, c, d, e] + 16 * bits_val [a]"
  "bits_val [a, b, c, d, e] = bits_val [e] + 2 * bits_val [a, b, c, d]"
  "bits_val [a, b, c, d, e] = bits_val [c, d, e] + 8 * bits_val [a, b]"
  by (simp_all add: bits_val_def)

lemma bits_False:
  "bits_val [False] = 0" "bits_val [False, False] = 0" "bits_val [False, False, False] = 0"
  "bits_val [False, False, False, False] = 0"
  by (simp_all add: bits_val_def)

lemmas byte_vals = byte_bit_vals [simplified]

lemma mod_bounds: "(x::int) mod 8 < 8" "x mod 2 < 2" "x mod 16 < 16" "x mod 4 < 4"
  by simp_all

lemma group_vals:
  fixes b c :: "8 word"
  shows "bits_val [bit (uint b) 2, bit (uint b) (Suc 0), bit (uint b) 0, bit (uint c) 7, bit (uint c) 6] =
      uint c div 64 OR 4 * (uint b mod 8)"
    and "bits_val [bit (uint b) 0, bit (uint c) 7, bit (uint c) 6, bit (uint c) 5, bit (uint c) 4] =
      uint c div 16 OR 16 * (uint b mod 2)"
    and "bits_val [bit (uint b) 3, bit (uint b) 2, bit (uint b) (Suc 0), bit (uint b) 0, bit (uint c) 7] =
      uint c div 128 OR 2 * (uint b mod 16)"
    and "bits_val [bit (uint b) (Suc 0), bit (uint b) 0, bit (uint c) 7, bit (uint c) 6, bit (uint c) 5] =
      uint c div 32 OR 8 * (uint b mod 4)"
  subgoal by (simp only: bits_split(1) byte_vals or_add(4) byte_div_bounds mod_bounds uint_byte_bounds
      pos_imp_zdiv_nonneg_iff pos_mod_sign zero_less_numeral)
  subgoal by (simp only: bits_split(2) byte_vals or_add(3) byte_div_bounds mod_bounds uint_byte_bounds
      pos_imp_zdiv_nonneg_iff pos_mod_sign zero_less_numeral)
  subgoal by (simp only: bits_split(3) byte_vals or_add(2) byte_div_bounds mod_bounds uint_byte_bounds
      pos_imp_zdiv_nonneg_iff pos_mod_sign zero_less_numeral)
  subgoal by (simp only: bits_split(4) byte_vals or_add(1) byte_div_bounds mod_bounds uint_byte_bounds
      pos_imp_zdiv_nonneg_iff pos_mod_sign zero_less_numeral)
  done

lemma tail_vals:
  fixes b :: "8 word"
  shows "bits_val [bit (uint b) 2, bit (uint b) (Suc 0), bit (uint b) 0, False, False] = 4 * (uint b mod 8)"
    and "bits_val [bit (uint b) 0, False, False, False, False] = 16 * (uint b mod 2)"
    and "bits_val [bit (uint b) 3, bit (uint b) 2, bit (uint b) (Suc 0), bit (uint b) 0, False] =
      2 * (uint b mod 16)"
    and "bits_val [bit (uint b) (Suc 0), bit (uint b) 0, False, False, False] = 8 * (uint b mod 4)"
  subgoal by (simp only: bits_split(1) byte_vals bits_False add_0)
  subgoal by (simp only: bits_split(2) byte_vals bits_False add_0)
  subgoal by (simp only: bits_split(3) byte_vals bits_False add_0)
  subgoal by (simp only: bits_split(4) byte_vals bits_False add_0)
  done

subsection \<open>One block\<close>

lemma chunks_Nil [simp]: "chunks n [] = []"
  by (simp add: chunks.simps)

lemma chunks_group: "0 < n \<Longrightarrow> length g = n \<Longrightarrow> chunks n (g @ xs) = g # chunks n xs"
  by (subst chunks.simps) auto

lemma chunks5 [simp]: "chunks 5 (a # b # c # d # e # xs) = [a, b, c, d, e] # chunks 5 xs"
  using chunks_group [of 5 "[a, b, c, d, e]"] by simp

lemma bits8_eq: "bits8 b = [bit (uint b) 7, bit (uint b) 6, bit (uint b) 5, bit (uint b) 4,
   bit (uint b) 3, bit (uint b) 2, bit (uint b) (Suc 0), bit (uint b) 0]"
  by (simp add: bits8_def)

definition b32_digits :: "int list \<Rightarrow> string" where
  "b32_digits ds = map (\<lambda>d. b32_alphabet ! nat d) ds"

lemma zero_fill_block: "length bs mod 5 = 0 \<Longrightarrow> zero_fill (bs @ xs) = bs @ zero_fill xs"
  by (simp add: zero_fill_def mod_add_eq flip: mod_add_left_eq)

lemma b32_text_block:
  "b32_text (b0 # b1 # b2 # b3 # b4 # rest) =
    b32_digits [uint b0 div 8, uint b1 div 64 OR 4 * (uint b0 mod 8), uint b1 div 2 mod 32,
     uint b2 div 16 OR 16 * (uint b1 mod 2), uint b3 div 128 OR 2 * (uint b2 mod 16),
     uint b3 div 4 mod 32, uint b4 div 32 OR 8 * (uint b3 mod 4), uint b4 mod 32] @ b32_text rest"
proof -
  have "zero_fill (byte_bits (b0 # b1 # b2 # b3 # b4 # rest)) =
     (bits8 b0 @ bits8 b1 @ bits8 b2 @ bits8 b3 @ bits8 b4) @ zero_fill (byte_bits rest)"
    by (subst zero_fill_block [symmetric]) (simp_all add: byte_bits_def bits8_eq)
  then show ?thesis
    by (simp only: b32_text_def b32_digits_def bits8_eq append.simps chunks5 list.map map_append
        group_vals byte_vals)
qed

lemma zero_fill_lit:
  "zero_fill (bits8 a) = bits8 a @ replicate 2 False"
  "zero_fill (bits8 a @ bits8 b) = bits8 a @ bits8 b @ replicate 4 False"
  "zero_fill (bits8 a @ bits8 b @ bits8 c) = bits8 a @ bits8 b @ bits8 c @ replicate 1 False"
  "zero_fill (bits8 a @ bits8 b @ bits8 c @ bits8 d) = bits8 a @ bits8 b @ bits8 c @ bits8 d @ replicate 3 False"
  by (simp_all add: zero_fill_def bits8_def)

lemma false_lists: "replicate 1 False = [False]" "replicate 2 False = [False, False]"
  "replicate 3 False = [False, False, False]" "replicate 4 False = [False, False, False, False]"
  by (simp_all add: numeral_eq_Suc)

lemmas tail_simps = b32_text_def b32_digits_def byte_bits_def list.map concat.simps append_Nil2
  zero_fill_lit false_lists bits8_eq append.simps chunks5 chunks_Nil group_vals tail_vals byte_vals

lemma b32_text_tail:
  "b32_text [] = b32_digits []"
  "b32_text [b0] = b32_digits [uint b0 div 8, 4 * (uint b0 mod 8)]"
  "b32_text [b0, b1] = b32_digits
     [uint b0 div 8, uint b1 div 64 OR 4 * (uint b0 mod 8), uint b1 div 2 mod 32, 16 * (uint b1 mod 2)]"
  "b32_text [b0, b1, b2] = b32_digits
     [uint b0 div 8, uint b1 div 64 OR 4 * (uint b0 mod 8), uint b1 div 2 mod 32,
      uint b2 div 16 OR 16 * (uint b1 mod 2), 2 * (uint b2 mod 16)]"
  "b32_text [b0, b1, b2, b3] = b32_digits
     [uint b0 div 8, uint b1 div 64 OR 4 * (uint b0 mod 8), uint b1 div 2 mod 32,
      uint b2 div 16 OR 16 * (uint b1 mod 2), uint b3 div 128 OR 2 * (uint b2 mod 16),
      uint b3 div 4 mod 32, 8 * (uint b3 mod 4)]"
  subgoal by (simp add: b32_text_def b32_digits_def byte_bits_def zero_fill_def)
  subgoal unfolding byte_bits_def list.map concat.simps append_Nil2 b32_text_def zero_fill_lit by (simp only: tail_simps)
  subgoal unfolding byte_bits_def list.map concat.simps append_Nil2 b32_text_def zero_fill_lit by (simp only: tail_simps)
  subgoal unfolding byte_bits_def list.map concat.simps append_Nil2 b32_text_def zero_fill_lit by (simp only: tail_simps)
  subgoal unfolding byte_bits_def list.map concat.simps append_Nil2 b32_text_def zero_fill_lit by (simp only: tail_simps)
  done

lemma update_after: "length pre = off \<Longrightarrow> (pre @ xs)[off + i := v] = pre @ xs[i := v]"
  "length pre = off \<Longrightarrow> (pre @ xs)[off := v] = pre @ xs[0 := v]"
  "length pre = off \<Longrightarrow> (pre @ xs)[Suc off := v] = pre @ xs[1 := v]"
  by (auto simp: list_update_append)

definition singles :: "string \<Rightarrow> string list" where
  "singles s = map (\<lambda>c. [c]) s"

lemma singles_digits: "singles (b32_digits ds) = map b32_char ds"
  by (simp add: singles_def b32_digits_def b32_char_def)

lemma or_zero: "0 OR (x::int) = x" by simp

lemma take_drop_nths: "offset + n \<le> length xs \<Longrightarrow>
   take n (drop offset xs) = map (\<lambda>i. xs ! (offset + i)) [0..<n]"
  by (simp add: list_eq_iff_nth_eq)

lemma upt_lits: "[0..<1] = [0::nat]" "[0..<2] = [0, 1::nat]" "[0..<3] = [0, 1, 2::nat]"
  "[0..<4] = [0, 1, 2, 3::nat]" "[0..<5] = [0, 1, 2, 3, 4::nat]"
  by (simp_all add: upt_rec)

lemma upd_lits:
  "(a # r)[0 := v] = v # r" "(a # b # r)[1 := v] = a # v # r" "(a # b # c # r)[2 := v] = a # b # v # r"
  "(a # b # c # d # r)[3 := v] = a # b # c # v # r"
  "(a # b # c # d # e # r)[4 := v] = a # b # c # d # v # r"
  "(a # b # c # d # e # f # r)[5 := v] = a # b # c # d # e # v # r"
  "(a # b # c # d # e # f # g # r)[6 := v] = a # b # c # d # e # f # v # r"
  "(a # b # c # d # e # f # g # h # r)[7 := v] = a # b # c # d # e # f # g # v # r"
  by (simp_all add: numeral_eq_Suc)


lemma b32_text5: "b32_text [b0, b1, b2, b3, b4] =
    b32_digits [uint b0 div 8, uint b1 div 64 OR 4 * (uint b0 mod 8), uint b1 div 2 mod 32,
     uint b2 div 16 OR 16 * (uint b1 mod 2), uint b3 div 128 OR 2 * (uint b2 mod 16),
     uint b3 div 4 mod 32, uint b4 div 32 OR 8 * (uint b3 mod 4), uint b4 mod 32]"
  by (subst b32_text_block) (simp add: b32_text_tail(1) b32_digits_def)

lemma b32_len: "length (b32_digits ds) = length ds"
  by (simp add: b32_digits_def)

lemma rep_lits: "replicate (Suc n) x = x # replicate n x" "replicate (2 + k) x = x # x # replicate k x"
  "replicate (4 + k) x = x # x # x # x # replicate k x"
  "replicate (5 + k) x = x # x # x # x # x # replicate k x"
  "replicate (7 + k) x = x # x # x # x # x # x # x # replicate k x"
  "replicate (8 + k) x = x # x # x # x # x # x # x # x # replicate k x"
  by (simp_all add: numeral_eq_Suc)

lemma encode_block_text:
  assumes "length pre = off" "n \<in> {1, 2, 3, 4, 5}" "offset + n \<le> length binary"
    "m = length (b32_text (take n (drop offset binary)))"
  shows "encode_block (pre @ replicate (m + k) []) off binary offset n =
    Inr (pre @ singles (b32_text (take n (drop offset binary))) @ replicate k [])"
proof -
  have bytes: "take n (drop offset binary) = map (\<lambda>i. binary ! (offset + i)) [0..<n]"
    using assms(3) by (rule take_drop_nths)
  note eval = upt_lits b32_text_tail b32_len rep_lits singles_digits list.map encode_block_def Let_def
     update_after byte_masks upd_lits or_zero append.simps
  consider (1) "n = 1" | (2) "n = 2" | (3) "n = 3" | (4) "n = 4" | (5) "n = 5" using assms(2) by blast
  then show ?thesis
  proof cases
    case 1
    have m: "m = 2" unfolding assms(4) bytes unfolding 1 by ((simp only: upt_lits list.map append_Nil2 append.simps list.size Nat.add_0_right b32_text_tail length_append b32_len); simp?)
    show ?thesis unfolding bytes m unfolding 1
      using assms(1,3) by (simp add: eval 1 del: push_bit_and drop_bit_and One_nat_def list_update.simps add_2_eq_Suc' add_2_eq_Suc)
  next
    case 2
    have m: "m = 4" unfolding assms(4) bytes unfolding 2 by ((simp only: upt_lits list.map append_Nil2 append.simps list.size Nat.add_0_right b32_text_tail length_append b32_len); simp?)
    show ?thesis unfolding bytes m unfolding 2
      using assms(1,3) by (simp add: eval 2 del: push_bit_and drop_bit_and One_nat_def list_update.simps add_2_eq_Suc' add_2_eq_Suc)
  next
    case 3
    have m: "m = 5" unfolding assms(4) bytes unfolding 3 by ((simp only: upt_lits list.map append_Nil2 append.simps list.size Nat.add_0_right b32_text_tail length_append b32_len); simp?)
    show ?thesis unfolding bytes m unfolding 3
      using assms(1,3) by (simp add: eval 3 del: push_bit_and drop_bit_and One_nat_def list_update.simps add_2_eq_Suc' add_2_eq_Suc)
  next
    case 4
    have m: "m = 7" unfolding assms(4) bytes unfolding 4 by ((simp only: upt_lits list.map append_Nil2 append.simps list.size Nat.add_0_right b32_text_tail length_append b32_len); simp?)
    show ?thesis unfolding bytes m unfolding 4
      using assms(1,3) by (simp add: eval 4 del: push_bit_and drop_bit_and One_nat_def list_update.simps add_2_eq_Suc' add_2_eq_Suc)
  next
    case 5
    have m: "m = 8" unfolding assms(4) bytes unfolding 5 by ((simp only: upt_lits list.map append_Nil2 append.simps list.size Nat.add_0_right b32_text_block b32_text_tail length_append b32_len); simp?)
    show ?thesis unfolding bytes m unfolding 5
      using assms(1,3) by (simp add: eval 5 b32_text5 del: push_bit_and drop_bit_and One_nat_def list_update.simps add_2_eq_Suc' add_2_eq_Suc)
  qed
qed

subsection \<open>The whole text\<close>
lemma b32_text_append: "length xs = 5 * n \<Longrightarrow> b32_text (xs @ ys) = b32_text xs @ b32_text ys"
proof (induction n arbitrary: xs)
  case 0
  then show ?case by (simp add: b32_text_tail(1) b32_digits_def)
next
  case (Suc n)
  obtain a b c d e zs where xs: "xs = a # b # c # d # e # zs" "length zs = 5 * n"
    using Suc.prems by (auto simp: numeral_eq_Suc length_Suc_conv)
  then show ?case using Suc.IH [OF xs(2)] by (simp add: b32_text_block)
qed

lemma b32_text_length: "length xs = 5 * n \<Longrightarrow> length (b32_text xs) = 8 * n"
proof (induction n arbitrary: xs)
  case 0
  then show ?case by (simp add: b32_text_tail(1) b32_digits_def)
next
  case (Suc n)
  obtain a b c d e zs where xs: "xs = a # b # c # d # e # zs" "length zs = 5 * n"
    using Suc.prems by (auto simp: numeral_eq_Suc length_Suc_conv)
  then show ?case using Suc.IH [OF xs(2)] by (simp add: b32_text_block b32_len)
qed

lemma encode_blocks_text:
  assumes "offset + 5 * n \<le> length binary" "j \<le> n"
  shows "encode_blocks (singles (b32_text (take (5 * j) (drop offset binary))) @ replicate (8 * (n - j) + k) [])
      binary offset [j..<n] =
    Inr (singles (b32_text (take (5 * n) (drop offset binary))) @ replicate k [])"
  using assms(2)
proof (induction "n - j" arbitrary: j)
  case 0
  then show ?case by simp
next
  case (Suc m)
  let ?xs = "drop offset binary"
  let ?pre = "singles (b32_text (take (5 * j) ?xs))"
  have j: "j < n" using Suc by simp
  have len: "length (take (5 * j) ?xs) = 5 * j" using assms(1) j by simp
  have block: "length (take 5 (drop (5 * j) ?xs)) = 5 * 1" using assms(1) j by simp
  have split: "take (5 * Suc j) ?xs = take (5 * j) ?xs @ take 5 (drop (5 * j) ?xs)"
    using take_add [of "5 * j" 5 ?xs] by (simp add: add.commute)
  have bt: "b32_text (take (5 * Suc j) ?xs) = b32_text (take (5 * j) ?xs) @ b32_text (take 5 (drop (5 * j) ?xs))"
    unfolding split by (rule b32_text_append [OF len])
  have step: "encode_block (?pre @ replicate (8 + (8 * (n - Suc j) + k)) []) (8 * j) binary (offset + 5 * j) 5 =
      Inr (?pre @ singles (b32_text (take 5 (drop (offset + 5 * j) binary))) @ replicate (8 * (n - Suc j) + k) [])"
    using assms(1) j b32_text_length [OF len] b32_text_length [OF block]
    by (intro encode_block_text) (simp_all add: singles_def add.commute)
  have eqs: "8 * (n - j) + k = 8 + (8 * (n - Suc j) + k)" "[j..<n] = j # [Suc j..<n]"
    "?pre @ singles (b32_text (take 5 (drop (offset + 5 * j) binary))) @ R =
      singles (b32_text (take (5 * Suc j) ?xs)) @ R" for R
    using j bt by (simp_all add: upt_conv_Cons singles_def add.commute)
  show ?case
    unfolding eqs(1,2) encode_blocks.simps step eqs(3) res_bind_simps
    by (rule Suc.hyps(1)) (use Suc.hyps(2) j in simp_all)
qed

lemma encode_block_zero: "encode_block encoded off binary offset 0 = Inr encoded"
  by (simp add: encode_block_def)

lemma concat_singles: "concat (singles t) = t"
  by (induction t) (simp_all add: singles_def)

lemma b32_text_tail_length:
  "length xs < 5 \<Longrightarrow> length (b32_text xs) + b32_pad_length (length xs) = (if xs = [] then 0 else 8)"
proof -
  assume "length xs < 5"
  then consider "xs = []" | a where "xs = [a]" | a b where "xs = [a, b]" | a b c where "xs = [a, b, c]"
    | a b c d where "xs = [a, b, c, d]"
    by (auto simp: numeral_eq_Suc less_Suc_eq length_Suc_conv)
  then show ?thesis
    by cases (simp_all add: b32_text_tail b32_len b32_pad_length_def)
qed

lemma pad_fill:
  assumes "length xs + p = n"
  shows "fold (\<lambda>i enc. enc[n - i - 1 := ''='']) [0..<p] (xs @ replicate p []) = xs @ replicate p ''=''"
proof -
  have "j \<le> p \<Longrightarrow> fold (\<lambda>i enc. enc[n - i - 1 := ''='']) [0..<j] (xs @ replicate p []) =
      xs @ replicate (p - j) [] @ replicate j ''=''" for j
  proof (induction j)
    case (Suc j)
    then have "p - j = Suc (p - Suc j)" by simp
    then have r: "replicate (p - j) ([] :: string) = replicate (p - Suc j) [] @ [[]]"
      by (simp flip: replicate_append_same)
    have "n - j - 1 = length xs + (p - Suc j)" using assms Suc.prems by simp
    with Suc show ?case by (simp add: r list_update_append)
  qed simp
  from this [of p] show ?thesis by simp
qed

lemma concat_replicate_single: "concat (replicate k [c]) = replicate k c"
  by (induction k) simp_all

lemma pad_arith:
  fixes T p L :: nat
  assumes "L mod 8 = T mod 8" "p < 8" "T + p = 8 \<or> T = 0 \<and> p = 0"
  shows "(8 - L mod 8) mod 8 = p"
proof (cases "p = 0")
  case False
  with assms have "T mod 8 = T" "8 - T = p" by auto
  with assms show ?thesis by simp
qed (use assms in auto)


lemma to_base32_window:
  assumes "offset + len \<le> length binary"
  shows "to_base32 binary offset len pad = Inr (rfc4648 pad (take len (drop offset binary)))"
proof -
  let ?xs = "drop offset binary"
  let ?n = "len div 5" and ?r = "len mod 5" and ?p = "b32_pad_length len"
  let ?t = "take ?r (drop (5 * ?n) ?xs)"
  have split: "take len ?xs = take (5 * ?n) ?xs @ ?t"
    by (metis mult_div_mod_eq take_add)
  have full: "length (take (5 * ?n) ?xs) = 5 * ?n" and tail: "length ?t = ?r"
    using assms by (simp_all add: min_def) presburger+
  have bt: "b32_text (take len ?xs) = b32_text (take (5 * ?n) ?xs) @ b32_text ?t"
    unfolding split by (rule b32_text_append [OF full])
  have p: "b32_pad_length ?r = ?p" by (simp add: b32_pad_length_def)
  have tlen: "length (b32_text ?t) + ?p = (if ?r = 0 then 0 else 8)"
    using b32_text_tail_length [of ?t] tail p by auto
  have len8: "length (b32_text (take (5 * ?n) ?xs)) = 8 * ?n"
    by (rule b32_text_length [OF full])
  define k where "k = (if pad then ?p else 0)"
  have p0: "?p = 0 \<longleftrightarrow> ?r = 0" unfolding b32_pad_length_def by presburger
  have enc: "8 * ?n + (if ?p > 0 then (if pad then 8 else 8 - ?p) else 0) =
      8 * (?n - 0) + (length (b32_text ?t) + k)"
    using tlen p0 by (auto simp: k_def)
  have blocks: "encode_blocks (replicate (8 * (?n - 0) + (length (b32_text ?t) + k)) []) binary offset [0..<?n] =
      Inr (singles (b32_text (take (5 * ?n) ?xs)) @ replicate (length (b32_text ?t) + k) [])"
    using encode_blocks_text [of offset ?n binary 0 "length (b32_text ?t) + k"] assms
    by (simp add: singles_def b32_text_tail(1) b32_digits_def)
  have last: "encode_block (singles (b32_text (take (5 * ?n) ?xs)) @ replicate (length (b32_text ?t) + k) [])
      (8 * ?n) binary (offset + 5 * ?n) ?r =
      Inr (singles (b32_text (take (5 * ?n) ?xs)) @ singles (b32_text ?t) @ replicate k [])"
  proof (cases "?r = 0")
    case True
    then show ?thesis by (simp add: encode_block_zero singles_def b32_text_tail(1) b32_digits_def)
  next
    case False
    have "?r < 5" by simp
    with False have "?r \<in> {1, 2, 3, 4, 5}" by auto
    moreover have "offset + 5 * ?n + ?r \<le> length binary" using assms by simp
    ultimately show ?thesis
      using encode_block_text [of "singles (b32_text (take (5 * ?n) ?xs))" "8 * ?n" ?r "offset + 5 * ?n" binary
          "length (b32_text ?t)" k] len8
      by (simp add: singles_def add.commute)
  qed
  have padlen: "(8 - length (b32_text (take len ?xs)) mod 8) mod 8 = ?p"
  proof -
    have "length (b32_text (take len ?xs)) mod 8 = length (b32_text ?t) mod 8"
      by (simp only: bt length_append len8 mod_mult_self4)
    moreover have "?p < 8" by (simp add: b32_pad_length_def)
    ultimately show ?thesis
      using tlen p0 by (intro pad_arith [where T = "length (b32_text ?t)"]) (auto split: if_splits)
  qed
  have join: "singles (b32_text (take (5 * ?n) ?xs)) @ singles (b32_text ?t) @ R = singles (b32_text (take len ?xs)) @ R" for R
    by (simp add: bt singles_def)
  have res: "to_base32 binary offset len pad = Inr (concat (
      if pad then fold (\<lambda>i enc. enc[8 * ?n + (length (b32_text ?t) + k) - i - 1 := ''='']) [0..<?p]
          (singles (b32_text (take len ?xs)) @ replicate k [])
      else singles (b32_text (take len ?xs)) @ replicate k []))"
    unfolding to_base32_def Let_def enc blocks last join res_bind_simps
    by (cases pad) (simp_all only: if_True if_False diff_zero)
  show ?thesis
  proof (cases pad)
    case True
    have fill: "fold (\<lambda>i enc. enc[8 * ?n + (length (b32_text ?t) + ?p) - i - 1 := ''='']) [0..<?p]
        (singles (b32_text (take len ?xs)) @ replicate ?p []) = singles (b32_text (take len ?xs)) @ replicate ?p ''=''"
      by (rule pad_fill) (simp add: singles_def bt len8)
    have k: "k = ?p" using True by (simp add: k_def)
    from True show ?thesis
      unfolding res k fill by (simp add: rfc4648_def padlen concat_singles concat_replicate_single)
  next
    case False
    then have k: "k = 0" by (simp add: k_def)
    from False show ?thesis
      unfolding res k by (simp add: rfc4648_def concat_singles)
  qed
qed

text \<open>
  Claim C29. The encoder is Base32 of RFC 4648: for every window of bytes that lies inside the
  input, with and without padding, the mask-and-shift code that fills its output backwards
  block by block returns exactly the specified text; in particular it never raises there.
\<close>

theorem to_base32_rfc4648:
  assumes "offset + len \<le> length binary"
  shows "to_base32 binary offset len pad = Inr (rfc4648 pad (take len (drop offset binary)))"
  using assms by (rule to_base32_window)

theorem to_base32_rfc4648_witness:
  "to_base32 [0, 102, 111, 111, 98, 97, 114] 1 6 True = Inr ''MZXW6YTBOI======''"
proof -
  have "rfc4648 True [102, 111, 111, 98, 97, 114] = ''MZXW6YTBOI======''"
    by code_simp
  then show ?thesis
    using to_base32_rfc4648 [of 1 6 "[0, 102, 111, 111, 98, 97, 114]" True] by simp
qed

subsection \<open>The text determines the bytes\<close>

lemma group_letter_inj: "inj_on (\<lambda>g. b32_alphabet ! nat (bits_val g)) {g. length g = 5}"
proof -
  have "distinct (map (\<lambda>g. b32_alphabet ! nat (bits_val g)) (List.n_lists 5 [False, True]))"
    by code_simp
  moreover have "{g. length g = 5} = set (List.n_lists 5 [False, True])"
    by (auto simp: set_n_lists)
  ultimately show ?thesis by (simp add: distinct_map)
qed

lemma chunks_groups: "length bs = 5 * n \<Longrightarrow> set (chunks 5 bs) \<subseteq> {g. length g = 5} \<and> concat (chunks 5 bs) = bs"
proof (induction n arbitrary: bs)
  case (Suc n)
  then have "chunks 5 bs = take 5 bs # chunks 5 (drop 5 bs)"
    by (subst chunks.simps) auto
  with Suc.IH [of "drop 5 bs"] Suc.prems show ?case by simp
qed simp

lemma bits8_inj: "bits8 b = bits8 c \<Longrightarrow> b = c"
proof (rule bit_word_eqI)
  fix n assume eq: "bits8 b = bits8 c" and n: "n < LENGTH(8)"
  then have "n \<in> {0, 1, 2, 3, 4, 5, 6, 7}" by auto
  with eq have "bit (uint b) n = bit (uint c) n" by (auto simp: bits8_def)
  with n show "bit b n = bit c n" by (simp add: bit_uint_iff)
qed

lemma bits8_length: "length (bits8 b) = 8"
  by (simp add: bits8_def)

lemma byte_bits_inj: "length xs = length ys \<Longrightarrow> byte_bits xs = byte_bits ys \<Longrightarrow> xs = ys"
  by (induction xs ys rule: list_induct2) (auto simp: byte_bits_def bits8_length dest: bits8_inj)

lemma byte_bits_length: "length (byte_bits xs) = 8 * length xs"
  by (induction xs) (simp_all add: byte_bits_def bits8_def)

lemma zero_fill_length: "\<exists>n. length (zero_fill bs) = 5 * n"
proof -
  have r: "r \<in> {0, 1, 2, 3, 4} \<Longrightarrow> 5 dvd 5 * q + r + (5 - r) mod 5" for q r :: nat
    by auto
  let ?n = "length bs"
  have "?n mod 5 \<in> {0, 1, 2, 3, 4}" using mod_less_divisor [of 5 ?n] by auto
  from r [OF this, of "?n div 5"] have "5 dvd ?n + (5 - ?n mod 5) mod 5"
    by (simp only: mult_div_mod_eq)
  then show ?thesis by (auto simp: zero_fill_def dvd_def)
qed

lemma b32_text_inj:
  assumes "length xs = length ys" "b32_text xs = b32_text ys"
  shows "xs = ys"
proof -
  let ?x = "zero_fill (byte_bits xs)" and ?y = "zero_fill (byte_bits ys)"
  obtain n where "length ?x = 5 * n" using zero_fill_length by blast
  moreover have "length ?y = length ?x" using assms(1) by (simp add: zero_fill_def byte_bits_length)
  ultimately have x: "set (chunks 5 ?x) \<subseteq> {g. length g = 5} \<and> concat (chunks 5 ?x) = ?x"
    and y: "set (chunks 5 ?y) \<subseteq> {g. length g = 5} \<and> concat (chunks 5 ?y) = ?y"
    by (simp_all only: chunks_groups)
  have "inj_on (\<lambda>g. b32_alphabet ! nat (bits_val g)) (set (chunks 5 ?x) \<union> set (chunks 5 ?y))"
    by (rule inj_on_subset [OF group_letter_inj]) (use x y in blast)
  then have "chunks 5 ?x = chunks 5 ?y"
    using assms(2) by (auto simp: b32_text_def inj_on_map_eq_map)
  with x y have "?x = ?y" by metis
  with assms(1) have "byte_bits xs = byte_bits ys"
    by (simp add: zero_fill_def byte_bits_length)
  with assms(1) show ?thesis by (rule byte_bits_inj)
qed


lemma group_letter_in: "length g = 5 \<Longrightarrow> b32_alphabet ! nat (bits_val g) \<in> set b32_alphabet"
proof -
  assume "length g = 5"
  then have "g \<in> set (List.n_lists 5 [False, True])" by (auto simp: set_n_lists)
  moreover have "list_all (\<lambda>g. b32_alphabet ! nat (bits_val g) \<in> set b32_alphabet) (List.n_lists 5 [False, True])"
    by code_simp
  ultimately show ?thesis by (simp add: list_all_iff)
qed

lemma b32_text_letters: "set (b32_text xs) \<subseteq> set b32_alphabet"
proof -
  obtain n where "length (zero_fill (byte_bits xs)) = 5 * n" using zero_fill_length by blast
  from chunks_groups [OF this] show ?thesis
    by (auto simp: b32_text_def intro: group_letter_in)
qed

definition clear_low_bit :: "8 word list \<Rightarrow> 8 word list" where
  "clear_low_bit bs = bs[length bs - 1 := last bs AND 0xFE]"

text \<open>
  The IPOP address of a reference string, given a hash function with SHA-1's
  20-byte digests: the computation never raises, the address has 32 letters of the Base32
  alphabet and no padding, and two strings get the same address exactly when their digests
  agree everywhere but in the lowest bit of the last byte.
\<close>

theorem node_hash_address:
  assumes "\<And>s. length (sha1 s) = 20"
  shows "(\<exists>t. get_node_hash sha1 a = Inr t \<and> length t = 32 \<and> set t \<subseteq> set b32_alphabet) \<and>
    (get_node_hash sha1 a = get_node_hash sha1 b \<longleftrightarrow> clear_low_bit (sha1 a) = clear_low_bit (sha1 b))"
proof -
  have len: "length (clear_low_bit (sha1 s)) = 5 * 4" for s
    by (simp add: clear_low_bit_def assms)
  have hash: "get_node_hash sha1 s = Inr (b32_text (clear_low_bit (sha1 s)))" for s
  proof -
    have "sha1 s \<noteq> []" using assms [of s] by auto
    then have "get_node_hash sha1 s = to_base32 (clear_low_bit (sha1 s)) 0 (length (clear_low_bit (sha1 s))) True"
      by (simp add: get_node_hash_def clear_low_bit_def Let_def last_conv_nth)
    also have "\<dots> = Inr (rfc4648 True (clear_low_bit (sha1 s)))"
      using to_base32_window [of 0 "length (clear_low_bit (sha1 s))" "clear_low_bit (sha1 s)" True] by simp
    finally show ?thesis
      using b32_text_length [OF len [of s]] by (simp add: rfc4648_def)
  qed
  show ?thesis
    using b32_text_length [OF len] b32_text_letters b32_text_inj [of "clear_low_bit (sha1 a)" "clear_low_bit (sha1 b)"]
    by (auto simp: hash len)
qed

definition sample_digest :: "string \<Rightarrow> 8 word list" where
  "sample_digest s = map of_char (take 20 (s @ replicate 20 CHR ''0''))"

theorem node_hash_address_witness:
  "get_node_hash sample_digest ''cps-a'' = get_node_hash sample_digest ''cps-a0'' \<and>
   get_node_hash sample_digest ''cps-a'' \<noteq> get_node_hash sample_digest ''cps-b''"
proof -
  have len: "length (sample_digest s) = 20" for s
    by (simp add: sample_digest_def)
  have "clear_low_bit (sample_digest ''cps-a'') = clear_low_bit (sample_digest ''cps-a0'')"
    "clear_low_bit (sample_digest ''cps-a'') \<noteq> clear_low_bit (sample_digest ''cps-b'')"
    by code_simp+
  then show ?thesis
    using node_hash_address [of sample_digest, OF len] by blast
qed

end
