(* ===== verification/Callbacker.thy ===== *)
theory Callbacker
  imports Config Node
begin

text \<open>
  What a manager calls: the director (\<open>conpaas/core/callbacker.py\<close>) and the agents on its nodes
  (the JSON-RPC clients). Both are reached over HTTPS, so the far side is the parameter
  \<open>'w network\<close>: for each request the reply and the next state \<open>'w\<close> of the outside world, or the
  exception the client library raises. Replies are decoded JSON.

  \<open>_dic_callback\<close> catches every exception and returns \<open>False\<close>; the type \<open>reply\<close> keeps its
  three outcomes apart: that \<open>False\<close>, a dictionary with the key \<open>error\<close>, and the answer.
\<close>

datatype 'a json = JError string | JOk 'a

datatype 'a reply = ReplyFalse | ReplyError string | Reply 'a

text \<open>What a manager asks for a node: the dictionary \<open>get_role_sninfo\<close> builds.\<close>

record sninfo =
  si_role :: string
  si_cloud :: string
  si_volumes :: "(string \<times> int \<times> string) list"

record create_params =
  cp_nodes_info :: "sninfo list"
  cp_app_id :: string
  cp_service_id :: int
  cp_manager_ip :: string
  cp_service_type :: string
  cp_context :: kwargs
  cp_startup_script :: "string option"

record 'w network =
  net_create_nodes :: "create_params \<Rightarrow> 'w \<Rightarrow> (exn + node_dict list json) \<times> 'w"
  net_remove_nodes :: "node_dict list \<Rightarrow> 'w \<Rightarrow> (exn + bool json) \<times> 'w"
  net_create_volume :: "int \<Rightarrow> string \<Rightarrow> string \<Rightarrow> string \<Rightarrow> 'w \<Rightarrow> (exn + string json) \<times> 'w"
  net_attach_volume :: "string \<Rightarrow> string \<Rightarrow> string \<Rightarrow> string \<Rightarrow> 'w \<Rightarrow> (exn + bool json) \<times> 'w"
  net_detach_volume :: "string \<Rightarrow> string \<Rightarrow> 'w \<Rightarrow> (exn + bool json) \<times> 'w"
  net_destroy_volume :: "string \<Rightarrow> string \<Rightarrow> 'w \<Rightarrow> (exn + bool json) \<times> 'w"
  net_credit :: "'w \<Rightarrow> (exn + int json) \<times> 'w"
  net_agent :: "string \<Rightarrow> string \<Rightarrow> kwargs \<Rightarrow> 'w \<Rightarrow> (exn + int \<times> pyval) \<times> 'w"
  net_git_version :: "string \<Rightarrow> 'w \<Rightarrow> exn + string"
  net_git_description :: "string \<Rightarrow> 'w \<Rightarrow> exn + string"
  net_now :: "'w \<Rightarrow> int"

definition dic_callback :: "config \<Rightarrow> ('w \<Rightarrow> (exn + 'a json) \<times> 'w) \<Rightarrow> 'w \<Rightarrow> 'a reply \<times> 'w" where
  "dic_callback cfg post w =
     (case cfg_get cfg ''manager'' ''DIRECTOR_URL'' of
        Inl _ \<Rightarrow> (ReplyFalse, w)
      | Inr director_url \<Rightarrow>
          (case post w of
             (Inl _, w') \<Rightarrow> (ReplyFalse, w')
           | (Inr (JError e), w') \<Rightarrow> (ReplyError e, w')
           | (Inr (JOk obj), w') \<Rightarrow> (Reply obj, w')))"

text \<open>
  \<open>create_nodes\<close>. An empty list is a false value, so it yields \<open>None\<close> like a failed call; the
  dictionary with \<open>error\<close> is returned as it is. \<open>script\<close> is the content of the start-up script
  of the service, if the file exists.
\<close>

datatype created = CreatedNone | CreatedError string | CreatedNodes "service_node list"

definition default_cloud :: "sninfo \<Rightarrow> sninfo" where
  "default_cloud node = (if si_cloud node = [] then node\<lparr>si_cloud := ''default''\<rparr> else node)"

definition create_nodes ::
  "'w network \<Rightarrow> config \<Rightarrow> sninfo list \<Rightarrow> int \<Rightarrow> string \<Rightarrow> kwargs \<Rightarrow> (string \<Rightarrow> string option) \<Rightarrow>
     ('w, created) sx" where
  "create_nodes net cfg nodes_info service_id service_type context script =
     sx_bind (sx_lift (cfg_get cfg ''manager'' ''APP_ID'')) (\<lambda>app_id.
     sx_bind (sx_lift (cfg_get cfg ''manager'' ''MY_IP'')) (\<lambda>manager_ip.
     sx_bind (sx_lift (cfg_get cfg ''manager'' ''CONPAAS_HOME'')) (\<lambda>basedir.
       let params = \<lparr>cp_nodes_info = map default_cloud nodes_info, cp_app_id = app_id,
             cp_service_id = service_id, cp_manager_ip = manager_ip, cp_service_type = service_type,
             cp_context = context, cp_startup_script = script basedir\<rparr>
       in (\<lambda>w. case dic_callback cfg (net_create_nodes net params) w of
              (ReplyFalse, w') \<Rightarrow> (Inr CreatedNone, w')
            | (ReplyError e, w') \<Rightarrow> (Inr (CreatedError e), w')
            | (Reply [], w') \<Rightarrow> (Inr CreatedNone, w')
            | (Reply ret, w') \<Rightarrow>
                (map_sum id CreatedNodes (map_res (node_from_dict (net_now net w')) ret), w')))))"

definition remove_nodes :: "'w network \<Rightarrow> config \<Rightarrow> service_node list \<Rightarrow> 'w \<Rightarrow> bool reply \<times> 'w" where
  "remove_nodes net cfg nodes = dic_callback cfg (net_remove_nodes net (map node_to_dict nodes))"

definition create_volume ::
  "'w network \<Rightarrow> config \<Rightarrow> int \<Rightarrow> string \<Rightarrow> string \<Rightarrow> string \<Rightarrow> 'w \<Rightarrow> string reply \<times> 'w" where
  "create_volume net cfg vol_size name vm_id cloud =
     dic_callback cfg (net_create_volume net vol_size name vm_id cloud)"

definition attach_volume ::
  "'w network \<Rightarrow> config \<Rightarrow> string \<Rightarrow> string \<Rightarrow> string \<Rightarrow> string \<Rightarrow> 'w \<Rightarrow> bool reply \<times> 'w" where
  "attach_volume net cfg vm_id volume_id device_name cloud =
     dic_callback cfg (net_attach_volume net vm_id volume_id device_name cloud)"

definition detach_volume ::
  "'w network \<Rightarrow> config \<Rightarrow> string \<Rightarrow> string \<Rightarrow> 'w \<Rightarrow> bool reply \<times> 'w" where
  "detach_volume net cfg volume_id cloud = dic_callback cfg (net_detach_volume net volume_id cloud)"

definition destroy_volume ::
  "'w network \<Rightarrow> config \<Rightarrow> string \<Rightarrow> string \<Rightarrow> 'w \<Rightarrow> bool reply \<times> 'w" where
  "destroy_volume net cfg volume_id cloud = dic_callback cfg (net_destroy_volume net volume_id cloud)"

definition get_credit :: "'w network \<Rightarrow> config \<Rightarrow> 'w \<Rightarrow> int reply \<times> 'w" where
  "get_credit net cfg = dic_callback cfg (net_credit net)"

subsection \<open>Agents\<close>

text \<open>
  The \<open>_check\<close> of the clients: a status other than 200 raises, and so does a reply with an
  error. The clients differ in the class of exception (\<open>kind\<close>). \<open>agent_call\<close> is a client
  function: the request, then the check.
\<close>

definition client_check :: "exn_kind \<Rightarrow> int \<times> pyval \<Rightarrow> exn + pyval" where
  "client_check kind response =
     (let (code, data) = response in
      if code \<noteq> 200 then Inl (Raise kind ''Received http response code %d'' [PInt code])
      else (case data of
              PDict d \<Rightarrow>
                res_bind (py_lookup d ''error'') (\<lambda>error.
                  if py_truth error then Inl (exc [] [error])
                  else py_lookup d ''result'')
            | _ \<Rightarrow> Inl (builtin_exn ETypeError)))"

definition agent_call ::
  "'w network \<Rightarrow> (int \<times> pyval \<Rightarrow> exn + pyval) \<Rightarrow> string \<Rightarrow> string \<Rightarrow> kwargs \<Rightarrow> ('w, pyval) sx" where
  "agent_call net check ip method params = (\<lambda>w.
     case net_agent net ip method params w of
       (Inl e, w') \<Rightarrow> (Inl e, w')
     | (Inr response, w') \<Rightarrow> (check response, w'))"

section \<open>Facts\<close>

lemma default_cloud_set: "si_cloud (default_cloud n) \<noteq> []" "si_role (default_cloud n) = si_role n"
  by (simp_all add: default_cloud_def)

lemma create_nodes_canonical:
  assumes "create_nodes net cfg infos i t c sc w = (Inr (CreatedNodes ns), w')"
  shows "ns \<noteq> []" "list_all canonical_node ns"
proof -
  obtain ret where ret: "ret \<noteq> []" "map_res (node_from_dict (net_now net w')) ret = Inr ns"
    using assms by (auto simp: create_nodes_def sx_bind_def Let_def split: sum.splits prod.splits
        reply.splits list.splits if_splits simp del: map_res.simps)
  then show "ns \<noteq> []" using map_res_length [OF ret(2)] by auto
  show "list_all canonical_node ns"
    using map_res_mem [OF ret(2)] by (auto simp: list_all_iff dest: node_from_dict_canonical)
qed

end
