(* ===== verification/HttpServer.thy ===== *)
theory HttpServer
  imports Config
begin

text \<open>
  \<open>conpaas/core/https/server.py\<close> and \<open>conpaas/core/expose.py\<close>: the table of request handlers
  (\<open>callback_dict\<close>), the checks on a peer's certificate, and the way a request becomes a call
  of a handler and a handler's result a reply. A handler is an opaque \<open>'cb\<close>; what calling it
  does is the parameter \<open>call\<close>. The TLS transport and the HTTP parser of the standard library
  are outside the model: a request arrives parsed.
\<close>

subsection \<open>Responses\<close>

datatype http_response =
    HttpErrorResponse exn
  | HttpJsonResponse pyval
  | HttpFileDownloadResponse string string
  | OtherResponse

text \<open>
  What goes back to the client: a bare status (\<open>send_error\<close>), a text, the JSON objects
  \<open>_dispatch\<close> builds, or a file. \<open>CallFailed\<close> is the JSON object with the traceback text; it
  quotes the call.
\<close>

datatype wire_reply =
    SendError int
  | TextReply int string
  | ErrorReply exn pyval
  | ResultReply pyval pyval
  | CallFailed string int pyval exn
  | FileReply string string

subsection \<open>The table of handlers\<close>

type_synonym 'cb callback_dict = "(string \<times> (int \<times> (string \<times> 'cb) list) list) list"

definition empty_callbacks :: "'cb callback_dict" where
  "empty_callbacks = [(''GET'', []), (''POST'', []), (''UPLOAD'', [])]"

definition register_method ::
  "string \<Rightarrow> int \<Rightarrow> string \<Rightarrow> 'cb \<Rightarrow> 'cb callback_dict \<Rightarrow> exn + 'cb callback_dict" where
  "register_method http_method service_id func_name callback cbs =
     (case map_of cbs http_method of
        None \<Rightarrow> Inl (builtin_exn EKeyError)
      | Some services \<Rightarrow>
          let services' = (if service_id \<notin> set (dict_keys services)
                           then AList.update service_id [] services else services);
              methods = the (map_of services' service_id)
          in Inr (AList.update http_method
                   (AList.update service_id (AList.update func_name callback methods) services') cbs))"

text \<open>
  \<open>_deregister_methods\<close> deletes the service under each HTTP method in turn and stops with a
  \<open>KeyError\<close> at the first under which it has none; what was deleted stays deleted.
\<close>

fun deregister_loop ::
  "string list \<Rightarrow> int \<Rightarrow> 'cb callback_dict \<Rightarrow> (exn + unit) \<times> 'cb callback_dict" where
  "deregister_loop [] service_id cbs = (Inr (), cbs)"
| "deregister_loop (m # ms) service_id cbs =
     (case map_of cbs m of
        None \<Rightarrow> (Inl (builtin_exn EKeyError), cbs)
      | Some services \<Rightarrow>
          if service_id \<in> set (dict_keys services)
          then deregister_loop ms service_id (AList.update m (AList.delete service_id services) cbs)
          else (Inl (builtin_exn EKeyError), cbs))"

definition deregister_methods :: "int \<Rightarrow> 'cb callback_dict \<Rightarrow> (exn + unit) \<times> 'cb callback_dict" where
  "deregister_methods service_id cbs = deregister_loop (dict_keys cbs) service_id cbs"

text \<open>The handler registered under a method, a service and a name.\<close>

definition find_callback :: "'cb callback_dict \<Rightarrow> string \<Rightarrow> int \<Rightarrow> string \<Rightarrow> 'cb option" where
  "find_callback cbs http_method service_id name =
     (case map_of cbs http_method of None \<Rightarrow> None
      | Some services \<Rightarrow> (case map_of services service_id of None \<Rightarrow> None
          | Some methods \<Rightarrow> map_of methods name))"

text \<open>
  \<open>expose\<close> wraps a method and remembers its HTTP method; \<open>get_exposed_methods\<close> collects, in the
  order of \<open>dir(self)\<close>, the attributes that are wrapped methods. An attribute of an object is
  \<open>Exposed http_method cb\<close> when it came out of the decorator.
\<close>

datatype 'cb attribute = Exposed string 'cb | Plain

fun get_exposed_methods ::
  "(string \<times> 'cb attribute) list \<Rightarrow> (string \<times> (string \<times> 'cb) list) list \<Rightarrow>
     (string \<times> (string \<times> 'cb) list) list" where
  "get_exposed_methods [] exposed = exposed"
| "get_exposed_methods ((name, Plain) # attrs) exposed = get_exposed_methods attrs exposed"
| "get_exposed_methods ((name, Exposed http_method cb) # attrs) exposed =
     (let exposed' = (if http_method \<notin> set (dict_keys exposed)
                      then AList.update http_method [] exposed else exposed);
          methods = the (map_of exposed' http_method)
      in get_exposed_methods attrs
           (AList.update http_method (AList.update name cb methods) exposed'))"

text \<open>The two nested loops that register everything an object exposes.\<close>

fun register_all ::
  "int \<Rightarrow> (string \<times> string \<times> 'cb) list \<Rightarrow> 'cb callback_dict \<Rightarrow> (exn + unit) \<times> 'cb callback_dict" where
  "register_all service_id [] cbs = (Inr (), cbs)"
| "register_all service_id ((m, f, cb) # rest) cbs =
     (case register_method m service_id f cb cbs of
        Inl e \<Rightarrow> (Inl e, cbs)
      | Inr cbs' \<Rightarrow> register_all service_id rest cbs')"

definition exposed_list :: "(string \<times> (string \<times> 'cb) list) list \<Rightarrow> (string \<times> string \<times> 'cb) list" where
  "exposed_list exposed = concat (map (\<lambda>(m, fs). map (\<lambda>(f, cb). (m, f, cb)) fs) exposed)"

subsection \<open>Certificates\<close>

text \<open>
  The verification callbacks. A certificate's subject is its list of components; the first
  \<open>CN\<close> equal to \<open>CA\<close> ends the loop, with \<open>ok\<close> the library's own verdict. \<open>Inl None\<close> below is
  that early exit.
\<close>

fun subject_dict :: "(string \<times> string) list \<Rightarrow> (string \<times> string) list \<Rightarrow> (string \<times> string) list option" where
  "subject_dict [] d = Some d"
| "subject_dict ((key, value) # rest) d =
     (let d' = AList.update key value d
      in if key = ''CN'' \<and> value = ''CA'' then None else subject_dict rest d')"

definition conpaas_callback_agent :: "config \<Rightarrow> (string \<times> string) list \<Rightarrow> bool \<Rightarrow> exn + bool" where
  "conpaas_callback_agent cfg components ok =
     (case subject_dict components [] of
        None \<Rightarrow> Inr ok
      | Some d \<Rightarrow>
          res_bind (py_lookup d ''role'') (\<lambda>role.
          if role = ''frontend'' then Inr ok
          else if role \<notin> {''manager'', ''agent''} then Inr False
          else
            res_bind (cfg_get cfg ''agent'' ''USER_ID'') (\<lambda>uid.
            res_bind (cfg_get cfg ''agent'' ''APP_ID'') (\<lambda>aid.
            res_bind (py_lookup d ''UID'') (\<lambda>peer_uid.
              if peer_uid \<noteq> uid then Inr False
              else res_bind (py_lookup d ''serviceLocator'') (\<lambda>peer_aid.
                if peer_aid \<noteq> aid then Inr False else Inr ok))))))"

definition conpaas_callback_manager :: "config \<Rightarrow> (string \<times> string) list \<Rightarrow> bool \<Rightarrow> exn + bool" where
  "conpaas_callback_manager cfg components ok =
     (case subject_dict components [] of
        None \<Rightarrow> Inr ok
      | Some d \<Rightarrow>
          res_bind (py_lookup d ''role'') (\<lambda>role.
          if role = ''frontend'' then Inr ok
          else if role \<noteq> ''user'' \<and> role \<noteq> ''manager'' then Inr False
          else
            res_bind (cfg_get cfg ''manager'' ''USER_ID'') (\<lambda>uid.
            res_bind (py_lookup d ''UID'') (\<lambda>peer_uid.
              if peer_uid \<noteq> uid then Inr False else Inr ok))))"

subsection \<open>Requests\<close>

text \<open>
  A parsed request: the query as \<open>parse_qs\<close> groups it (each key with its values in order), the
  body as text, and the parts of a multipart form (name, file name if any, content).
\<close>

record request =
  rq_path :: string
  rq_command :: string
  rq_content_type :: "string option"
  rq_content_length :: "string option"
  rq_query :: "(string \<times> string list) list"
  rq_body :: string
  rq_parts :: "(string \<times> string option \<times> string) list"

datatype incoming = EndOfStream | Unparsable | Parsed request

definition json_content_types :: "string list" where
  "json_content_types = [''application/json-rpc'', ''application/json'', ''application/jsonrequest'']"

definition multipart_content_type :: string where
  "multipart_content_type = ''multipart/form-data''"

text \<open>\<open>json.loads\<close> is the parameter \<open>loads\<close>.\<close>

definition parse_jsonrpc_get_params :: "(string \<Rightarrow> exn + pyval) \<Rightarrow> request \<Rightarrow> exn + pyval" where
  "parse_jsonrpc_get_params loads rq =
     (let params = map (\<lambda>(k, vs). (k, PStr (last vs))) (rq_query rq)
      in case map_of params ''params'' of
           None \<Rightarrow> Inr (PDict params)
         | Some v \<Rightarrow> res_bind (loads (case v of PStr s \<Rightarrow> s | _ \<Rightarrow> [])) (\<lambda>p.
             Inr (PDict (AList.update ''params'' p params))))"

text \<open>
  The two guards of \<open>_parse_jsonrpc_post_params\<close> send an error and fall through: without a
  length the next line raises, and so does \<open>int\<close> on a length that is not a number.
\<close>

definition parse_jsonrpc_post_params ::
  "(string \<Rightarrow> exn + pyval) \<Rightarrow> request \<Rightarrow> wire_reply list \<times> (exn + pyval)" where
  "parse_jsonrpc_post_params loads rq =
     (case rq_content_length rq of
        None \<Rightarrow> ([SendError 411], Inl (builtin_exn EKeyError))
      | Some len \<Rightarrow>
          let isdigit = len \<noteq> [] \<and> list_all (\<lambda>c. digit_val c \<noteq> None) len;
              sent = (if isdigit then [] else [SendError 400])
          in (sent, case parse_int len of
                None \<Rightarrow> Inl (builtin_exn EValueError)
              | Some n \<Rightarrow> loads (if n < 0 then rq_body rq else take (nat n) (rq_body rq))))"

definition part_value :: "string option \<times> string \<Rightarrow> pyval" where
  "part_value p = (case fst p of None \<Rightarrow> PStr (snd p) | Some filename \<Rightarrow> PFile filename (snd p))"

fun parse_upload_params :: "(string \<times> string option \<times> string) list \<Rightarrow> kwargs \<Rightarrow> kwargs" where
  "parse_upload_params [] params = params"
| "parse_upload_params ((name, part) # rest) params =
     parse_upload_params rest (AList.update name (part_value part) params)"


subsection \<open>Dispatch\<close>

text \<open>
  The server's own state is the \<open>'s\<close> of the handlers: \<open>table\<close> reads \<open>callback_dict\<close> out of it,
  since a handler may register and deregister handlers. \<open>readable\<close> says which files can be opened.
\<close>

record ('cb, 's) server_env =
  env_table :: "'s \<Rightarrow> 'cb callback_dict"
  env_call :: "'cb \<Rightarrow> pyval \<Rightarrow> 's \<Rightarrow> (exn + http_response) \<times> 's"
  env_loads :: "string \<Rightarrow> exn + pyval"
  env_readable :: "string \<Rightarrow> bool"

text \<open>What a step answers: the replies written, and the exception that escaped, if any.\<close>

type_synonym answer = "wire_reply list \<times> exn option"

fun contains_sub :: "string \<Rightarrow> string \<Rightarrow> bool" where
  "contains_sub p [] = (p = [])"
| "contains_sub p (c # cs) = (starts_with (c # cs) p \<or> contains_sub p cs)"

text \<open>\<open>'service_id' in params\<close> for whatever JSON value the body holds.\<close>

fun has_service_id :: "pyval \<Rightarrow> exn + bool" where
  "has_service_id (PDict d) = Inr (''service_id'' \<in> set (dict_keys d))"
| "has_service_id (PList xs) = Inr (py_in (PStr ''service_id'') xs)"
| "has_service_id (PStr s) = Inr (contains_sub ''service_id'' s)"
| "has_service_id _ = Inl (builtin_exn ETypeError)"

definition send_response ::
  "('cb, 's) server_env \<Rightarrow> string \<Rightarrow> int \<Rightarrow> pyval \<Rightarrow> pyval \<Rightarrow> exn + http_response \<Rightarrow> wire_reply list" where
  "send_response env name service_id params request_id result =
     (case result of
        Inl e \<Rightarrow> [CallFailed name service_id params e]
      | Inr (HttpFileDownloadResponse filename file) \<Rightarrow>
          if env_readable env file then [FileReply filename file]
          else [CallFailed name service_id params (builtin_exn EIOError)]
      | Inr (HttpErrorResponse e) \<Rightarrow> [ErrorReply e request_id]
      | Inr (HttpJsonResponse obj) \<Rightarrow> [ResultReply obj request_id]
      | Inr OtherResponse \<Rightarrow> [])"

text \<open>
  The part of \<open>_dispatch\<close> after the service is known. A method name that is a list or a dict
  cannot be looked up; a GET or POST without an \<open>id\<close> raises before the handler is called.
\<close>

definition dispatch_method ::
  "('cb, 's) server_env \<Rightarrow> string \<Rightarrow> int \<Rightarrow> kwargs \<Rightarrow> 's \<Rightarrow> answer \<times> 's" where
  "dispatch_method env callback_type service_id params s =
     (case map_of params ''method'' of
        None \<Rightarrow> (([TextReply 400 ''Did not specify method''], None), s)
      | Some (PList _) \<Rightarrow> (([], Some (builtin_exn ETypeError)), s)
      | Some (PDict _) \<Rightarrow> (([], Some (builtin_exn ETypeError)), s)
      | Some (PStr name) \<Rightarrow>
          (case find_callback (env_table env s) callback_type service_id name of
             None \<Rightarrow> (([TextReply 404 ''Method not found''], None), s)
           | Some cb \<Rightarrow>
               let params = AList.delete ''method'' params in
               if callback_type \<noteq> ''UPLOAD'' then
                 let callback_params = (case map_of params ''params'' of None \<Rightarrow> PDict [] | Some p \<Rightarrow> p)
                 in (case map_of params ''id'' of
                       None \<Rightarrow> (([], Some (builtin_exn EKeyError)), s)
                     | Some request_id \<Rightarrow>
                         let (result, s') = env_call env cb callback_params s
                         in ((send_response env name service_id callback_params request_id result, None), s'))
               else
                 let (result, s') = env_call env cb (PDict params) s
                 in ((send_response env name service_id (PDict params) (PInt 1) result, None), s'))
      | Some _ \<Rightarrow> (([TextReply 404 ''Method not found''], None), s))"

definition dispatch :: "('cb, 's) server_env \<Rightarrow> string \<Rightarrow> pyval \<Rightarrow> 's \<Rightarrow> answer \<times> 's" where
  "dispatch env callback_type params s =
     (case has_service_id params of
        Inl e \<Rightarrow> (([], Some e), s)
      | Inr False \<Rightarrow> (([TextReply 400 ''Did not specify service''], None), s)
      | Inr True \<Rightarrow>
          (case params of
             PDict d \<Rightarrow>
               (case py_int (the (map_of d ''service_id'')) of
                  Inl e \<Rightarrow> (([], Some e), s)
                | Inr service_id \<Rightarrow>
                    (case map_of (env_table env s) callback_type of
                       None \<Rightarrow> (([], Some (builtin_exn EKeyError)), s)
                     | Some services \<Rightarrow>
                         if service_id \<notin> set (dict_keys services)
                         then (([TextReply 404 ''Service not found''], None), s)
                         else dispatch_method env callback_type service_id
                                (AList.delete ''service_id'' d) s))
           | _ \<Rightarrow> (([], Some (builtin_exn ETypeError)), s)))"

definition handle_get :: "('cb, 's) server_env \<Rightarrow> request \<Rightarrow> string \<Rightarrow> 's \<Rightarrow> answer \<times> 's" where
  "handle_get env rq ctype s =
     (if ctype \<in> set json_content_types then
        (case parse_jsonrpc_get_params (env_loads env) rq of
           Inl e \<Rightarrow> (([], Some e), s)
         | Inr params \<Rightarrow> dispatch env ''GET'' params s)
      else (([SendError 415], None), s))"

definition handle_post :: "('cb, 's) server_env \<Rightarrow> request \<Rightarrow> string \<Rightarrow> 's \<Rightarrow> answer \<times> 's" where
  "handle_post env rq ctype s =
     (if ctype \<in> set json_content_types then
        (case parse_jsonrpc_post_params (env_loads env) rq of
           (sent, Inl e) \<Rightarrow> ((sent, Some e), s)
         | (sent, Inr params) \<Rightarrow>
             let ((replies, esc), s') = dispatch env ''POST'' params s
             in ((sent @ replies, esc), s'))
      else if starts_with ctype multipart_content_type then
        dispatch env ''UPLOAD'' (PDict (parse_upload_params (rq_parts rq) [])) s
      else (([SendError 415], None), s))"

definition handle_one_request :: "('cb, 's) server_env \<Rightarrow> incoming \<Rightarrow> 's \<Rightarrow> answer \<times> 's" where
  "handle_one_request env inc s =
     (case inc of
        EndOfStream \<Rightarrow> (([], None), s)
      | Unparsable \<Rightarrow> (([], None), s)
      | Parsed rq \<Rightarrow>
          if rq_path rq \<noteq> ''/'' then (([SendError 404], None), s)
          else (case rq_content_type rq of
              None \<Rightarrow> (([SendError 415], None), s)
            | Some ctype \<Rightarrow>
                if rq_command rq = ''GET'' then handle_get env rq ctype s
                else if rq_command rq = ''POST'' then handle_post env rq ctype s
                else (([SendError 405], None), s)))"

section \<open>Facts on the table\<close>

definition valid_table :: "'cb callback_dict \<Rightarrow> bool" where
  "valid_table cbs = (dict_keys cbs = [''GET'', ''POST'', ''UPLOAD''])"

definition http_methods :: "string set" where
  "http_methods = {''GET'', ''POST'', ''UPLOAD''}"

definition has_service :: "'cb callback_dict \<Rightarrow> string \<Rightarrow> int \<Rightarrow> bool" where
  "has_service cbs m i = (case map_of cbs m of None \<Rightarrow> False
     | Some services \<Rightarrow> map_of services i \<noteq> None)"

lemma valid_table_keys: "valid_table cbs \<Longrightarrow> m \<in> http_methods \<longleftrightarrow> (\<exists>services. map_of cbs m = Some services)"
  by (auto simp: valid_table_def http_methods_def in_keys_iff [symmetric])

lemma valid_table_update:
  "valid_table cbs \<Longrightarrow> map_of cbs m = Some services \<Longrightarrow> valid_table (AList.update m v cbs)"
  by (auto simp: valid_table_def update_keys in_keys_iff)

lemma valid_empty [simp]: "valid_table empty_callbacks"
  by (simp add: valid_table_def empty_callbacks_def)

lemma find_has_service: "find_callback cbs m i f = Some cb \<Longrightarrow> has_service cbs m i"
  by (auto simp: find_callback_def has_service_def split: option.splits)

text \<open>
  The interface of a table of handlers: what registering promises. The bulk registration of an
  object's methods is proved once against it.
\<close>

fun register_many ::
  "(string \<Rightarrow> int \<Rightarrow> string \<Rightarrow> 'cb \<Rightarrow> 't \<Rightarrow> exn + 't) \<Rightarrow> int \<Rightarrow> (string \<times> string \<times> 'cb) list \<Rightarrow> 't \<Rightarrow> exn + 't" where
  "register_many reg i [] t = Inr t"
| "register_many reg i ((m, f, cb) # rest) t =
     (case reg m i f cb t of Inl e \<Rightarrow> Inl e | Inr t' \<Rightarrow> register_many reg i rest t')"

locale handler_table =
  fixes find_handler :: "'t \<Rightarrow> string \<Rightarrow> int \<Rightarrow> string \<Rightarrow> 'cb option"
    and register :: "string \<Rightarrow> int \<Rightarrow> string \<Rightarrow> 'cb \<Rightarrow> 't \<Rightarrow> exn + 't"
    and valid :: "'t \<Rightarrow> bool"
    and kinds :: "string set"
  assumes register_total: "valid t \<Longrightarrow> m \<in> kinds \<Longrightarrow> \<exists>t'. register m i f cb t = Inr t' \<and> valid t'"
    and find_register: "valid t \<Longrightarrow> register m i f cb t = Inr t' \<Longrightarrow>
      find_handler t' m' i' f' = (if m' = m \<and> i' = i \<and> f' = f then Some cb else find_handler t m' i' f')"
begin

lemma register_many_total:
  "valid t \<Longrightarrow> fst ` set fs \<subseteq> kinds \<Longrightarrow>
    \<exists>t'. register_many register i fs t = Inr t' \<and> valid t'"
proof (induction fs arbitrary: t)
  case (Cons x fs)
  obtain m f cb where x: "x = (m, f, cb)" by (cases x)
  have "m \<in> kinds" using Cons.prems(2) x by simp
  then obtain t' where t': "register m i f cb t = Inr t'" "valid t'"
    using register_total [OF Cons.prems(1)] by blast
  have "\<exists>t''. register_many register i fs t' = Inr t'' \<and> valid t''"
    by (rule Cons.IH [OF t'(2)]) (use Cons.prems(2) in simp)
  with t' x show ?case by simp
qed simp

lemma find_register_many:
  assumes "valid t" "fst ` set fs \<subseteq> kinds" "register_many register i fs t = Inr t'"
  shows "find_handler t' m' i' f' =
    (if i' = i then (case map_of (rev (map (\<lambda>(m, f, cb). ((m, f), cb)) fs)) (m', f') of
        Some cb \<Rightarrow> Some cb | None \<Rightarrow> find_handler t m' i' f')
     else find_handler t m' i' f')"
  using assms
proof (induction fs arbitrary: t)
  case (Cons x fs)
  obtain m f cb where x: "x = (m, f, cb)" by (cases x)
  have "m \<in> kinds" using Cons.prems(2) x by simp
  then obtain t1 where t1: "register m i f cb t = Inr t1" "valid t1"
    using register_total [OF Cons.prems(1)] by blast
  have many: "register_many register i fs t1 = Inr t'" using Cons.prems(3) x t1(1) by simp
  have kinds: "fst ` set fs \<subseteq> kinds" using Cons.prems(2) by simp
  have step: "find_handler t1 m' i' f' =
      (if m' = m \<and> i' = i \<and> f' = f then Some cb else find_handler t m' i' f')"
    using find_register Cons.prems(1) t1(1) by blast
  show ?case
    unfolding Cons.IH [OF t1(2) kinds many] step
    by (auto simp: x map_add_def split: option.split)
qed simp

end

interpretation cb: handler_table find_callback register_method valid_table http_methods
proof unfold_locales
  fix t :: "'a callback_dict" and m i f and cb :: 'a
  assume "valid_table t" "m \<in> http_methods"
  then show "\<exists>t'. register_method m i f cb t = Inr t' \<and> valid_table t'"
    by (auto simp: register_method_def Let_def valid_table_keys intro!: valid_table_update)
next
  fix t t' :: "'a callback_dict" and m i f m' i' f' and cb :: 'a
  assume reg: "register_method m i f cb t = Inr t'"
  then obtain services where services: "map_of t m = Some services"
    by (auto simp: register_method_def split: option.splits)
  let ?methods = "case map_of services i of None \<Rightarrow> [] | Some ms \<Rightarrow> ms"
  have keys: "i \<notin> set (dict_keys services) \<longleftrightarrow> map_of services i = None"
    by (rule not_in_keys [symmetric])
  have t': "map_of t' = (map_of t)(m \<mapsto> AList.update i (AList.update f cb ?methods)
      (if map_of services i = None then AList.update i [] services else services))"
    using reg services by (auto simp only: register_method_def keys Let_def sum.inject option.case
        dict_map_of_update split: option.split if_split) auto
  show "find_callback t' m' i' f' = (if m' = m \<and> i' = i \<and> f' = f then Some cb else find_callback t m' i' f')"
    unfolding find_callback_def t' by (auto simp: services split: option.split)
qed

lemma register_all_many:
  "register_many register_method i fs cbs = Inr cbs' \<Longrightarrow> register_all i fs cbs = (Inr (), cbs')"
  by (induction i fs cbs rule: register_all.induct) (auto split: sum.splits)

text \<open>A table with three methods, whatever their names.\<close>

lemma deregister3:
  assumes "distinct [a, b, c]"
  shows "deregister_methods i [(a, g), (b, p), (c, u)] =
    (if i \<notin> set (dict_keys g) then (Inl (builtin_exn EKeyError), [(a, g), (b, p), (c, u)])
     else if i \<notin> set (dict_keys p) then (Inl (builtin_exn EKeyError), [(a, AList.delete i g), (b, p), (c, u)])
     else if i \<notin> set (dict_keys u)
     then (Inl (builtin_exn EKeyError), [(a, AList.delete i g), (b, AList.delete i p), (c, u)])
     else (Inr (), [(a, AList.delete i g), (b, AList.delete i p), (c, AList.delete i u)]))"
proof -
  have n: "a \<noteq> b" "b \<noteq> a" "a \<noteq> c" "c \<noteq> a" "b \<noteq> c" "c \<noteq> b" using assms by auto
  show ?thesis by (simp add: deregister_methods_def n del: list.set_map)
qed

definition service_handler :: "(int \<times> (string \<times> 'cb) list) list \<Rightarrow> int \<Rightarrow> string \<Rightarrow> 'cb option" where
  "service_handler services i f = (case map_of services i of None \<Rightarrow> None | Some methods \<Rightarrow> map_of methods f)"

lemma find3: "find_callback [(a, g), (b, p), (c, u)] m i f =
    (if m = a then service_handler g i f else if m = b then service_handler p i f
     else if m = c then service_handler u i f else None)"
  by (simp add: find_callback_def service_handler_def)

lemma service_handler_delete:
  "service_handler (AList.delete i g) i' f = (if i' = i then None else service_handler g i' f)"
  by (simp add: service_handler_def)

lemma deregister3_find:
  assumes "distinct [a, b, c]" "cbs = [(a, g), (b, p), (c, u)]"
  shows "deregister_methods i cbs = (Inr (), cbs') \<Longrightarrow>
      find_callback cbs' m' i' f' = (if i' = i then None else find_callback cbs m' i' f')"
    and "deregister_methods i cbs = (Inl e, cbs') \<Longrightarrow> i' \<noteq> i \<Longrightarrow>
      find_callback cbs' m' i' f' = find_callback cbs m' i' f'"
  unfolding assms(2) deregister3 [OF assms(1)]
  by (auto simp: find3 service_handler_delete split: if_splits)

lemma valid_table_lit: "valid_table cbs \<longleftrightarrow> (\<exists>g p u. cbs = [(''GET'', g), (''POST'', p), (''UPLOAD'', u)])"
  by (auto simp: valid_table_def map_eq_Cons_conv)

lemma method_names: "distinct [''GET'', ''POST'', ''UPLOAD'']"
  by simp

lemma deregister_valid:
  assumes "valid_table cbs"
  shows "deregister_methods i cbs = (r, cbs') \<Longrightarrow> valid_table cbs'"
    and "fst (deregister_methods i cbs) = Inr () \<longleftrightarrow> (\<forall>m \<in> http_methods. has_service cbs m i)"
    and "deregister_methods i cbs = (Inr (), cbs') \<Longrightarrow>
      find_callback cbs' m' i' f' = (if i' = i then None else find_callback cbs m' i' f')"
    and "deregister_methods i cbs = (Inl e, cbs') \<Longrightarrow> i' \<noteq> i \<Longrightarrow>
      find_callback cbs' m' i' f' = find_callback cbs m' i' f'"
proof -
  obtain g p u where cbs: "cbs = [(''GET'', g), (''POST'', p), (''UPLOAD'', u)]"
    using assms by (auto simp: valid_table_lit)
  note run = deregister3 [OF method_names, of i g p u]
  show "deregister_methods i cbs = (r, cbs') \<Longrightarrow> valid_table cbs'"
    unfolding cbs run valid_table_lit by (auto simp del: char.inject split: if_splits)
  show "fst (deregister_methods i cbs) = Inr () \<longleftrightarrow> (\<forall>m \<in> http_methods. has_service cbs m i)"
    unfolding cbs run by (auto simp: has_service_def http_methods_def not_in_keys)
  show "deregister_methods i cbs = (Inr (), cbs') \<Longrightarrow>
      find_callback cbs' m' i' f' = (if i' = i then None else find_callback cbs m' i' f')"
    by (rule deregister3_find(1) [OF method_names cbs])
  show "deregister_methods i cbs = (Inl e, cbs') \<Longrightarrow> i' \<noteq> i \<Longrightarrow>
      find_callback cbs' m' i' f' = find_callback cbs m' i' f'"
    by (rule deregister3_find(2) [OF method_names cbs])
qed

lemma has_service_register:
  "register_method m i f cb cbs = Inr cbs' \<Longrightarrow> has_service cbs' m' j \<Longrightarrow> has_service cbs m' j \<or> j = i"
  by (auto simp: register_method_def has_service_def Let_def split: option.splits if_splits)

lemma has_service_register_all:
  "register_all i fs cbs = (r, cbs') \<Longrightarrow> has_service cbs' m' j \<Longrightarrow> has_service cbs m' j \<or> j = i"
  by (induction i fs cbs rule: register_all.induct) (auto split: sum.splits dest: has_service_register)

lemma has_service_deregister_loop:
  "deregister_loop ms i cbs = (r, cbs') \<Longrightarrow> has_service cbs' m' j \<Longrightarrow> has_service cbs m' j"
proof (induction ms i cbs rule: deregister_loop.induct)
  case (2 m ms i cbs)
  show ?case
  proof (cases "map_of cbs m")
    case (Some services)
    show ?thesis
    proof (cases "i \<in> set (dict_keys services)")
      case True
      have "has_service (AList.update m (AList.delete i services) cbs) m' j"
        using 2 Some True by simp
      with Some show ?thesis by (auto simp: has_service_def split: if_splits option.splits)
    qed (use 2 Some in simp)
  qed (use 2 in simp)
qed simp

lemma has_service_deregister:
  "deregister_methods i cbs = (r, cbs') \<Longrightarrow> has_service cbs' m' j \<Longrightarrow> has_service cbs m' j"
  unfolding deregister_methods_def by (rule has_service_deregister_loop)

text \<open>What an object exposes, flattened.\<close>

fun exposures :: "(string \<times> 'cb attribute) list \<Rightarrow> ((string \<times> string) \<times> 'cb) list" where
  "exposures [] = []"
| "exposures ((name, Plain) # attrs) = exposures attrs"
| "exposures ((name, Exposed m cb) # attrs) = ((m, name), cb) # exposures attrs"

definition exposed_find :: "(string \<times> (string \<times> 'cb) list) list \<Rightarrow> string \<Rightarrow> string \<Rightarrow> 'cb option" where
  "exposed_find e m f = (case map_of e m of None \<Rightarrow> None | Some ms \<Rightarrow> map_of ms f)"

definition exposed_keyed :: "(string \<times> (string \<times> 'cb) list) list \<Rightarrow> bool" where
  "exposed_keyed e \<longleftrightarrow> well_keyed e \<and> (\<forall>m ms. map_of e m = Some ms \<longrightarrow> well_keyed ms)"

lemma exposed_keyed_update:
  "exposed_keyed e \<Longrightarrow> well_keyed ms \<Longrightarrow> exposed_keyed (AList.update m ms e)"
  by (simp add: exposed_keyed_def)

lemma exposed_keyed_methods: "exposed_keyed (get_exposed_methods attrs e)" if "exposed_keyed e"
  using that
proof (induction attrs e rule: get_exposed_methods.induct)
  case (3 name m cb attrs e)
  let ?e = "if m \<notin> set (dict_keys e) then AList.update m [] e else e"
  have "exposed_keyed ?e" using 3 by (simp add: exposed_keyed_update)
  moreover from this have "well_keyed (the (map_of ?e m))"
    by (auto simp: exposed_keyed_def map_of_eq_None_iff [symmetric])
  ultimately show ?case
    using "3.IH" [OF refl refl] by (simp add: exposed_keyed_update Let_def)
qed simp_all

lemma exposed_find_methods:
  "exposed_find (get_exposed_methods attrs e) m f =
    (case map_of (rev (exposures attrs)) (m, f) of Some cb \<Rightarrow> Some cb | None \<Rightarrow> exposed_find e m f)"
proof (induction attrs e rule: get_exposed_methods.induct)
  case (3 name m' cb attrs e)
  let ?e = "if m' \<notin> set (dict_keys e) then AList.update m' [] e else e"
  have upd: "exposed_find (AList.update m' (AList.update name cb (the (map_of ?e m'))) ?e) m f =
      (if m = m' \<and> f = name then Some cb else exposed_find e m f)"
    by (auto simp: exposed_find_def map_of_eq_None_iff [symmetric] split: option.splits)
  show ?case
    unfolding get_exposed_methods.simps Let_def 3 [OF refl refl] upd
    by (auto simp: map_add_def split: option.splits)
qed simp_all

definition flat_exposed where
  "flat_exposed e = map (\<lambda>(m, f, cb). ((m, f), cb)) (exposed_list e)"

lemma flat_exposed_Cons:
  "flat_exposed ((m, ms) # e) = map (\<lambda>(f, cb). ((m, f), cb)) ms @ flat_exposed e"
  by (simp add: flat_exposed_def exposed_list_def o_def split_def)

lemma map_of_pairs: "map_of (map (\<lambda>(f, cb). ((m, f), cb)) ms) (m', f) = (if m' = m then map_of ms f else None)"
  by (induction ms) auto

lemma flat_exposed_keys: "k \<in> set (dict_keys (flat_exposed e)) \<Longrightarrow> fst k \<in> set (dict_keys e)"
proof (induction e)
  case (Cons x e)
  then show ?case by (cases x) (auto simp: flat_exposed_Cons)
qed (simp add: flat_exposed_def exposed_list_def)

lemma map_of_flat: "well_keyed e \<Longrightarrow> map_of (flat_exposed e) (m, f) = exposed_find e m f"
proof (induction e)
  case (Cons x e)
  obtain m0 ms where x: "x = (m0, ms)" by fastforce
  have "m0 \<notin> set (dict_keys e)" "well_keyed e" using Cons.prems x by (simp_all add: well_keyed_def)
  then have "map_of (flat_exposed e) (m0, f) = None"
    using flat_exposed_keys [of "(m0, f)" e] by (auto simp only: not_in_keys fst_conv)
  then show ?case
    using Cons.IH [OF \<open>well_keyed e\<close>]
    by (auto simp: x flat_exposed_Cons map_add_def map_of_pairs exposed_find_def split: option.splits)
qed (simp add: flat_exposed_def exposed_list_def exposed_find_def)

lemma flat_exposed_distinct: "exposed_keyed e \<Longrightarrow> well_keyed (flat_exposed e)"
proof (induction e)
  case (Cons x e)
  obtain m0 ms where x: "x = (m0, ms)" by fastforce
  have m0: "m0 \<notin> set (dict_keys e)" using Cons.prems x by (simp add: well_keyed_def exposed_keyed_def)
  have "exposed_keyed e" using Cons.prems m0 x
    by (auto simp: exposed_keyed_def well_keyed_def simp flip: not_in_keys split: if_splits)
  moreover have "map_of (x # e) m0 = Some ms" by (simp add: x)
  then have "well_keyed ms" using Cons.prems unfolding exposed_keyed_def by blast
  then have "distinct (map fst (map (\<lambda>(f, cb). ((m0, f), cb)) ms))"
    by (auto simp: well_keyed_def distinct_map inj_on_def o_def split_def)
  moreover have "k \<in> set (dict_keys (flat_exposed e)) \<Longrightarrow>
      k \<notin> set (dict_keys (map (\<lambda>(f, cb). ((m0, f), cb)) ms))" for k
    using flat_exposed_keys [of k e] m0 by force
  ultimately show ?case
    using Cons.IH unfolding well_keyed_def x flat_exposed_Cons map_append distinct_append by blast
qed (simp add: flat_exposed_def exposed_list_def)

lemma map_of_rev_keyed: "well_keyed xs \<Longrightarrow> map_of (rev xs) = map_of xs"
  by (rule ext) (metis (no_types, lifting) well_keyed_def distinct_rev map_of_eq_Some_iff option.exhaust rev_map set_rev)

lemma exposed_registered:
  "map_of (rev (flat_exposed (get_exposed_methods attrs []))) (m, f) = map_of (rev (exposures attrs)) (m, f)"
proof -
  have k: "exposed_keyed (get_exposed_methods attrs [])"
    by (rule exposed_keyed_methods) (simp add: exposed_keyed_def)
  then have "well_keyed (get_exposed_methods attrs [])" by (simp add: exposed_keyed_def)
  then show ?thesis
    by (simp add: map_of_rev_keyed [OF flat_exposed_distinct [OF k]] map_of_flat exposed_find_methods)
       (simp add: exposed_find_def split: option.split)
qed

section \<open>Facts on certificates\<close>

lemma map_of_fold_update:
  "map_of (fold (\<lambda>(k, v) d. AList.update k v d) xs d) k =
    (case map_of (rev xs) k of Some v \<Rightarrow> Some v | None \<Rightarrow> map_of d k)"
  by (induction xs arbitrary: d) (auto simp: map_add_def split: option.splits)

lemma subject_dict_fold:
  "subject_dict comps d =
    (if (''CN'', ''CA'') \<in> set comps then None
     else Some (fold (\<lambda>(k, v) d. AList.update k v d) comps d))"
  by (induction comps d rule: subject_dict.induct) auto

text \<open>
  Who may talk to an agent and to a manager. With the library's verdict positive,
  a peer is accepted exactly when its subject names the CA, when its role is the front end,
  or when its role is allowed (manager or agent for an agent, user or manager for a manager)
  and its user (for an agent also its application) is the configured one; the last of
  repeated components counts. In every other case the answer is a refusal or an exception,
  never an acceptance.
\<close>

theorem certificate_rules:
  assumes "cfg_get cfg ''agent'' ''USER_ID'' = Inr uid" "cfg_get cfg ''agent'' ''APP_ID'' = Inr aid"
    and "cfg_get mcfg ''manager'' ''USER_ID'' = Inr muid"
  shows "(conpaas_callback_agent cfg comps ok = Inr True \<longleftrightarrow>
      ok \<and> ((''CN'', ''CA'') \<in> set comps \<or>
        map_of (rev comps) ''role'' = Some ''frontend'' \<or>
        map_of (rev comps) ''role'' \<in> {Some ''manager'', Some ''agent''} \<and>
          map_of (rev comps) ''UID'' = Some uid \<and> map_of (rev comps) ''serviceLocator'' = Some aid)) \<and>
    (conpaas_callback_manager mcfg comps ok = Inr True \<longleftrightarrow>
      ok \<and> ((''CN'', ''CA'') \<in> set comps \<or>
        map_of (rev comps) ''role'' = Some ''frontend'' \<or>
        map_of (rev comps) ''role'' \<in> {Some ''user'', Some ''manager''} \<and>
          map_of (rev comps) ''UID'' = Some muid))"
  using assms
  by (auto simp: conpaas_callback_agent_def conpaas_callback_manager_def subject_dict_fold
      py_lookup_def map_of_fold_update res_elims split: option.splits if_splits)

section \<open>Facts on dispatch\<close>

lemma find_callback_service: "find_callback cbs m i f = Some cb \<Longrightarrow>
   \<exists>services methods. map_of cbs m = Some services \<and> map_of services i = Some methods \<and> map_of methods f = Some cb"
  by (auto simp: find_callback_def split: option.splits)

lemma dispatch_run:
  assumes "map_of d ''service_id'' = Some v" "py_int v = Inr i" "map_of d ''method'' = Some (PStr name)"
    and "find_callback (env_table env s) t i name = Some cb"
    and "t = ''UPLOAD'' \<and> rid = PInt 1 \<and> p = PDict (AList.delete ''method'' (AList.delete ''service_id'' d)) \<or>
         t \<noteq> ''UPLOAD'' \<and> map_of d ''id'' = Some rid \<and>
           p = (case map_of d ''params'' of None \<Rightarrow> PDict [] | Some x \<Rightarrow> x)"
    and "env_call env cb p s = (result, s')"
  shows "dispatch env t (PDict d) s = ((send_response env name i p rid result, None), s')"
proof -
  obtain services methods where s: "map_of (env_table env s) t = Some services"
    "map_of services i = Some methods" "map_of methods name = Some cb"
    using find_callback_service [OF assms(4)] by blast
  have key: "''service_id'' \<in> set (dict_keys d)" "i \<in> set (dict_keys services)"
    using assms(1) s(2) by (auto simp only: in_keys_iff)
  have "dispatch env t (PDict d) s = dispatch_method env t i (AList.delete ''service_id'' d) s"
    using assms(1,2) s(1) key by (simp add: dispatch_def)
  also have "\<dots> = ((send_response env name i p rid result, None), s')"
    using assms(3-6) by (auto simp: dispatch_method_def Let_def)
  finally show ?thesis .
qed

text \<open>
  Claim C26. A well-formed call reaches its handler: when a request names a numeric service,
  a registered method and (outside uploads) an id, the handler registered under that HTTP
  method, service and name is run once on the request's parameters, its state is the
  resulting state, nothing escapes whatever the handler raises, and exactly one reply is
  written (none only for a handler that returns no response object).
\<close>

theorem dispatch_calls_handler:
  assumes "map_of d ''service_id'' = Some v" "py_int v = Inr i" "map_of d ''method'' = Some (PStr name)"
    and "find_callback (env_table env s) t i name = Some cb"
    and "t = ''UPLOAD'' \<and> rid = PInt 1 \<and> p = PDict (AList.delete ''method'' (AList.delete ''service_id'' d)) \<or>
         t \<noteq> ''UPLOAD'' \<and> map_of d ''id'' = Some rid \<and>
           p = (case map_of d ''params'' of None \<Rightarrow> PDict [] | Some x \<Rightarrow> x)"
    and "env_call env cb p s = (result, s')"
  shows "dispatch env t (PDict d) s = ((send_response env name i p rid result, None), s') \<and>
    length (send_response env name i p rid result) = (if result = Inr OtherResponse then 0 else 1)"
  using dispatch_run [OF assms] by (auto simp: send_response_def split: sum.split http_response.split)

lemma dispatch_method_safety:
  "dispatch_method env t i d s = (ans, s') \<Longrightarrow> s' \<noteq> s \<Longrightarrow>
    \<exists>f cb p. find_callback (env_table env s) t i f = Some cb \<and> s' = snd (env_call env cb p s)"
  by (auto simp: dispatch_method_def Let_def split: option.splits pyval.splits prod.splits if_splits)
     (metis snd_conv)+

lemma dispatch_safety:
  "dispatch env t p s = (ans, s') \<Longrightarrow> s' \<noteq> s \<Longrightarrow>
    \<exists>i f cb p. find_callback (env_table env s) t i f = Some cb \<and> s' = snd (env_call env cb p s)"
  by (auto simp: dispatch_def split: sum.splits bool.splits pyval.splits option.splits if_splits
      dest!: dispatch_method_safety)

lemma handle_one_request_safety:
  assumes "handle_one_request env inc s = (ans, s')" "s' \<noteq> s"
  shows "\<exists>rq ctype t i f cb p. inc = Parsed rq \<and> rq_path rq = ''/'' \<and> rq_content_type rq = Some ctype \<and>
    find_callback (env_table env s) t i f = Some cb \<and> s' = snd (env_call env cb p s) \<and>
    (t = ''GET'' \<and> rq_command rq = ''GET'' \<and> ctype \<in> set json_content_types \<or>
     t = ''POST'' \<and> rq_command rq = ''POST'' \<and> ctype \<in> set json_content_types \<or>
     t = ''UPLOAD'' \<and> rq_command rq = ''POST'' \<and> starts_with ctype multipart_content_type)"
  using assms
  by (fastforce simp: handle_one_request_def handle_get_def handle_post_def
      split: incoming.splits if_splits option.splits sum.splits prod.splits dest!: dispatch_safety)

text \<open>
  Claim C28. No request changes the server's state except by running a registered handler,
  and the handler is one registered for the request's own kind: a GET or POST with a JSON
  content type on the path /, or a multipart POST for the upload handlers.
\<close>

theorem request_safety:
  assumes "handle_one_request env inc s = (ans, s')" "s' \<noteq> s"
  shows "\<exists>rq ctype t i f cb p. inc = Parsed rq \<and> rq_path rq = ''/'' \<and> rq_content_type rq = Some ctype \<and>
    find_callback (env_table env s) t i f = Some cb \<and> s' = snd (env_call env cb p s) \<and>
    (t = ''GET'' \<and> rq_command rq = ''GET'' \<and> ctype \<in> set json_content_types \<or>
     t = ''POST'' \<and> rq_command rq = ''POST'' \<and> ctype \<in> set json_content_types \<or>
     t = ''UPLOAD'' \<and> rq_command rq = ''POST'' \<and> starts_with ctype multipart_content_type)"
  using assms by (rule handle_one_request_safety)

text \<open>
  A content length that \<open>int\<close> accepts but \<open>isdigit\<close> does
  not (a sign, blanks) is answered twice: the guard sends status 400 and falls through, and
  the request is then dispatched and run as if it were valid.
\<close>

theorem post_bad_length:
  assumes "rq_path rq = ''/''" "rq_command rq = ''POST''" "rq_content_type rq = Some ''application/json''"
    and "rq_content_length rq = Some len" "\<not> list_all (\<lambda>c. digit_val c \<noteq> None) len" "parse_int len = Some n"
    and "env_loads env (if n < 0 then rq_body rq else take (nat n) (rq_body rq)) = Inr params"
    and "dispatch env ''POST'' params s = ((replies, esc), s')"
  shows "handle_one_request env (Parsed rq) s = ((SendError 400 # replies, esc), s')"
  using assms
  by (simp add: handle_one_request_def handle_post_def json_content_types_def parse_jsonrpc_post_params_def)

definition sample_env :: "(string, int) server_env" where
  "sample_env = \<lparr>env_table = (\<lambda>_. [(''GET'', []), (''POST'', [(0, [(''stop'', ''stop'')])]), (''UPLOAD'', [])]),
     env_call = (\<lambda>cb p s. (Inr (HttpJsonResponse (PInt s)), s + 1)),
     env_loads = (\<lambda>t. Inr (PDict [(''service_id'', PInt 0), (''method'', PStr ''stop''), (''id'', PInt 7)])),
     env_readable = (\<lambda>_. False)\<rparr>"

definition sample_request :: request where
  "sample_request = \<lparr>rq_path = ''/'', rq_command = ''POST'', rq_content_type = Some ''application/json'',
     rq_content_length = Some ''+2'', rq_query = [], rq_body = ''{}'', rq_parts = []\<rparr>"

lemma sample_dispatch:
  "dispatch sample_env ''POST'' (PDict [(''service_id'', PInt 0), (''method'', PStr ''stop''), (''id'', PInt 7)]) 3 =
     (([ResultReply (PInt 3) (PInt 7)], None), 4)"
  by code_simp

theorem post_bad_length_witness:
  "handle_one_request sample_env (Parsed sample_request) 3 =
     (([SendError 400, ResultReply (PInt 3) (PInt 7)], None), 4)"
proof -
  have "parse_int ''+2'' = Some 2" by code_simp
  then show ?thesis
    using post_bad_length [of sample_request "''+2''" 2 sample_env
      "PDict [(''service_id'', PInt 0), (''method'', PStr ''stop''), (''id'', PInt 7)]" 3
      "[ResultReply (PInt 3) (PInt 7)]" None 4] sample_dispatch
    by (simp add: sample_request_def digit_val_def) (simp add: sample_env_def)
qed

theorem request_safety_witness:
  "\<exists>t i f cb. find_callback (env_table sample_env 3) t i f = Some cb \<and> t = ''POST''"
proof -
  have "handle_one_request sample_env (Parsed sample_request) 3 =
     (([SendError 400, ResultReply (PInt 3) (PInt 7)], None), 4)" by code_simp
  from request_safety [OF this] show ?thesis
    by (auto simp: sample_request_def starts_with_def multipart_content_type_def)
qed

theorem dispatch_calls_handler_witness:
  "dispatch sample_env ''POST'' (PDict [(''service_id'', PInt 0), (''method'', PStr ''stop''), (''id'', PInt 7)]) 3 =
     (([ResultReply (PInt 3) (PInt 7)], None), 4)"
  using dispatch_calls_handler [of "[(''service_id'', PInt 0), (''method'', PStr ''stop''), (''id'', PInt 7)]"
      "PInt 0" 0 "''stop''" sample_env 3 "''POST''" "''stop''" "PInt 7" "PDict []" "Inr (HttpJsonResponse (PInt 3))" 4]
  by (simp add: sample_env_def find_callback_def send_response_def)

definition sample_agent_config :: config where
  "sample_agent_config = [(''agent'', [(''user_id'', ''1''), (''app_id'', ''5'')]), (''manager'', [(''user_id'', ''1'')])]"

theorem certificate_rules_witness:
  "conpaas_callback_agent sample_agent_config
     [(''CN'', ''ConPaaS''), (''role'', ''manager''), (''UID'', ''1''), (''serviceLocator'', ''6'')] True \<noteq> Inr True"
proof -
  have "cfg_get sample_agent_config ''agent'' ''USER_ID'' = Inr ''1''"
    "cfg_get sample_agent_config ''agent'' ''APP_ID'' = Inr ''5''"
    "cfg_get sample_agent_config ''manager'' ''USER_ID'' = Inr ''1''" by code_simp+
  from certificate_rules [OF this] show ?thesis by simp
qed

end
