(* ===== verification/Manager.thy ===== *)
theory Manager
  imports Callbacker HttpServer
begin

text \<open>
  \<open>BaseManager\<close> of \<open>conpaas/core/manager.py\<close>: the part every service manager shares. A manager
  object is the record \<open>service\<close> (its class is named by \<open>sv_class\<close>, what a class adds to the state
  is \<open>sv_ext\<close>); the methods a class overrides are the record \<open>svc_class\<close>. Methods run on the
  object and the outside world together.
\<close>

subsection \<open>States\<close>

datatype mstate = S_INIT | S_PROLOGUE | S_RUNNING | S_ADAPTING | S_EPILOGUE | S_STOPPED | S_ERROR

fun state_name :: "mstate \<Rightarrow> string" where
  "state_name S_INIT = ''INIT''"
| "state_name S_PROLOGUE = ''PROLOGUE''"
| "state_name S_RUNNING = ''RUNNING''"
| "state_name S_ADAPTING = ''ADAPTING''"
| "state_name S_EPILOGUE = ''EPILOGUE''"
| "state_name S_STOPPED = ''STOPPED''"
| "state_name S_ERROR = ''ERROR''"

text \<open>
  \<open>self.nodes\<close> normally holds nodes; extending it with an error dictionary adds the dictionary's
  keys, which are strings. Reading an attribute of a string raises.
\<close>

datatype node_entry = VNode service_node | VKey string

definition entry_node :: "node_entry \<Rightarrow> exn + service_node" where
  "entry_node e = (case e of VNode n \<Rightarrow> Inr n | VKey _ \<Rightarrow> Inl (builtin_exn EAttributeError))"

definition entry_id :: "node_entry \<Rightarrow> exn + string" where
  "entry_id e = map_sum id sn_id (entry_node e)"

lemma entry_simps [simp]:
  "entry_node (VNode n) = Inr n" "entry_node (VKey k) = Inl (builtin_exn EAttributeError)"
  "entry_id (VNode n) = Inr (sn_id n)" "entry_id (VKey k) = Inl (builtin_exn EAttributeError)"
  by (simp_all add: entry_node_def entry_id_def)

text \<open>A volume as the application manager files it; \<open>list_volumes\<close> adds the owning service.\<close>

record volume =
  vol_name :: string
  vol_id :: string
  vol_size :: int
  vol_vm_id :: string
  vol_dev_name :: string
  vol_cloud :: string
  vol_service :: "(int \<times> string) option"

record 'x service =
  sv_class :: string
  sv_config :: config
  sv_logfile :: string
  sv_state :: mstate
  sv_state_log :: "(mstate \<times> string) list"
  sv_volumes :: "(string \<times> volume) list"
  sv_nodes :: "node_entry list"
  sv_ext :: 'x

definition state_set :: "mstate \<Rightarrow> string \<Rightarrow> 'x service \<Rightarrow> 'x service" where
  "state_set target msg s =
     s\<lparr>sv_state := target, sv_state_log := sv_state_log s @ [(target, msg)]\<rparr>"

text \<open>\<open>BaseManager.__init__\<close>; the log entry carries no time here.\<close>

definition new_manager :: "string \<Rightarrow> 'x \<Rightarrow> config \<Rightarrow> exn + 'x service" where
  "new_manager cls ext cfg =
     res_bind (cfg_get cfg ''manager'' ''LOG_FILE'') (\<lambda>logfile.
     Inr (state_set S_INIT []
       \<lparr>sv_class = cls, sv_config = cfg, sv_logfile = logfile, sv_state = S_INIT, sv_state_log = [],
        sv_volumes = [], sv_nodes = [], sv_ext = ext\<rparr>))"

definition check_state :: "mstate list \<Rightarrow> 'x service \<Rightarrow> exn + unit" where
  "check_state expected_states s =
     guard (sv_state s \<in> set expected_states)
       (exc ''Wrong service state: was expecting one of %s but current state is %s''
         [PList (map (PStr \<circ> state_name) expected_states), PStr (state_name (sv_state s))])"

subsection \<open>What a class overrides\<close>

text \<open>
  The world a manager lives in: the files on its own disk (path and contents) and everything
  beyond the network.
\<close>

record 'w world =
  wd_disk :: "(string \<times> string) list"
  wd_out :: 'w

type_synonym ('x, 'w) sobj = "'x service \<times> 'w world"

type_synonym ('x, 'w) handler = "kwargs \<Rightarrow> (('x, 'w) sobj, http_response) sx"

record role_log =
  log_filename :: string
  log_description :: string
  log_path :: string

text \<open>
  A constructor may write to the disk. A class whose handlers start threads of their own keeps the
  threads that have not run in its state: \<open>k_threads\<close> counts them and \<open>k_run_thread n\<close> runs one.
\<close>

record ('x, 'w) svc_class =
  k_init :: "config \<Rightarrow> kwargs \<Rightarrow> ('w world, 'x service) sx"
  k_service_type :: string
  k_node_roles :: "string list"
  k_default_role :: string
  k_starting_nodes :: kwargs
  k_role_sninfo :: "string \<Rightarrow> string \<Rightarrow> 'x service \<Rightarrow> exn + sninfo"
  k_role_logs :: "string \<Rightarrow> role_log list"
  k_context :: "'x service \<Rightarrow> kwargs \<times> 'x service"
  k_on_start :: "node_entry list \<Rightarrow> (('x, 'w) sobj, bool) sx"
  k_on_stop :: "(('x, 'w) sobj, node_entry list) sx"
  k_check_add_nodes :: "kwargs \<Rightarrow> (('x, 'w) sobj, unit) sx"
  k_on_add_nodes :: "node_entry list \<Rightarrow> (('x, 'w) sobj, bool) sx"
  k_check_remove_nodes :: "kwargs \<Rightarrow> (('x, 'w) sobj, unit) sx"
  k_on_remove_nodes :: "kwargs \<Rightarrow> (('x, 'w) sobj, node_entry list) sx"
  k_check_create_volume :: "string \<Rightarrow> int \<Rightarrow> string \<Rightarrow> (('x, 'w) sobj, unit) sx"
  k_on_create_volume :: "service_node \<Rightarrow> volume \<Rightarrow> (('x, 'w) sobj, unit) sx"
  k_check_delete_volume :: "service_node \<Rightarrow> volume \<Rightarrow> (('x, 'w) sobj, unit) sx"
  k_on_delete_volume :: "service_node \<Rightarrow> volume \<Rightarrow> (('x, 'w) sobj, unit) sx"
  k_on_git_push :: "(('x, 'w) sobj, unit) sx"
  k_attributes :: "(string \<times> ('x, 'w) handler attribute) list"
  k_threads :: "'x service \<Rightarrow> nat"
  k_run_thread :: "nat \<Rightarrow> (('x, 'w) sobj, unit) sx"

definition role_default :: string where "role_default = ''count''"
definition role_regular :: string where "role_regular = ''node''"

subsection \<open>Numbers of nodes per role\<close>

text \<open>\<open>sum(node_roles.values())\<close>: the counts come from JSON and need not be numbers.\<close>

fun sum_counts :: "pyval list \<Rightarrow> exn + rat" where
  "sum_counts [] = Inr 0"
| "sum_counts (v # vs) =
     (case as_num v of None \<Rightarrow> Inl (builtin_exn ETypeError)
      | Some r \<Rightarrow> map_sum id ((+) r) (sum_counts vs))"

text \<open>
  The loop of \<open>check_node_roles\<close> over a copy of the items; the role \<open>count\<close> is renamed to the
  default role in the dictionary itself, replacing what it had there.
\<close>

fun check_roles_loop :: "('x, 'w) svc_class \<Rightarrow> kwargs \<Rightarrow> kwargs \<Rightarrow> exn + kwargs" where
  "check_roles_loop k [] node_roles = Inr node_roles"
| "check_roles_loop k ((role, count) # items) node_roles =
     (if (case as_num count of Some r \<Rightarrow> r < 0 | None \<Rightarrow> False)
      then Inl (exc ''Invalid number of nodes %s'' [count])
      else if role \<in> set (k_node_roles k) then check_roles_loop k items node_roles
      else if role = role_default
      then check_roles_loop k items
             (AList.update (k_default_role k) count (AList.delete role node_roles))
      else Inl (exc ''Wrong node type '%s' for service type '%s'.'' [PStr role, PStr (k_service_type k)]))"

definition check_node_roles :: "('x, 'w) svc_class \<Rightarrow> kwargs \<Rightarrow> exn + kwargs" where
  "check_node_roles k node_roles =
     res_bind (sum_counts (dict_values node_roles)) (\<lambda>total.
       if total = 0 then Inl (exc ''Need a positive value for at least one role'' [])
       else check_roles_loop k node_roles node_roles)"

text \<open>\<open>check_credits\<close>: a failed call is \<open>False\<close>, which has no item \<open>credit\<close>.\<close>

definition check_credits :: "'w network \<Rightarrow> config \<Rightarrow> ('w, unit) sx" where
  "check_credits net cfg = (\<lambda>w.
     case get_credit net cfg w of
       (ReplyFalse, w') \<Rightarrow> (Inl (builtin_exn ETypeError), w')
     | (ReplyError _, w') \<Rightarrow> (Inl (builtin_exn EKeyError), w')
     | (Reply credit, w') \<Rightarrow> (guard (credit > 0) (exc ''Insufficient credits'' []), w'))"

text \<open>\<open>range(count)\<close> accepts ints and bools; a float raises. A negative count is empty.\<close>

fun py_range :: "pyval \<Rightarrow> exn + nat" where
  "py_range (PBool b) = Inr (if b then 1 else 0)"
| "py_range (PInt i) = Inr (nat i)"
| "py_range _ = Inl (builtin_exn ETypeError)"

definition get_standard_sninfo :: "string \<Rightarrow> string \<Rightarrow> sninfo" where
  "get_standard_sninfo role cloud = \<lparr>si_role = role, si_cloud = cloud, si_volumes = []\<rparr>"

definition get_standard_sninfo_with_volume ::
  "string \<Rightarrow> string \<Rightarrow> string \<Rightarrow> int \<Rightarrow> 'x service \<Rightarrow> exn + sninfo" where
  "get_standard_sninfo_with_volume role cloud name volume_size s =
     res_bind (cfg_get (sv_config s) ''manager'' ''DEV_TARGET'') (\<lambda>device_name.
       Inr ((get_standard_sninfo role cloud)\<lparr>si_volumes := [(name, volume_size, device_name)]\<rparr>))"

fun get_sninfo :: "('x, 'w) svc_class \<Rightarrow> kwargs \<Rightarrow> string \<Rightarrow> 'x service \<Rightarrow> exn + sninfo list" where
  "get_sninfo k [] cloud s = Inr []"
| "get_sninfo k ((role, count) # items) cloud s =
     res_bind (py_range count) (\<lambda>n.
     res_bind (map_res (\<lambda>_. k_role_sninfo k role cloud s) [0..<n]) (\<lambda>infos.
     res_bind (get_sninfo k items cloud s) (\<lambda>rest. Inr (infos @ rest))))"

definition base_role_logs :: "role_log list" where
  "base_role_logs =
     [\<lparr>log_filename = ''cpsagent.log'', log_description = ''agent log'', log_path = ''/var/log/cpsagent.log''\<rparr>]"

text \<open>
  \<open>WrongNrNodesException\<close>: the message shows the count, the role and how many can be removed
  (\<open>none\<close> unless that is positive).
\<close>

definition wrong_nr_nodes :: "pyval \<Rightarrow> int \<Rightarrow> string option \<Rightarrow> exn" where
  "wrong_nr_nodes count current role =
     Raise EWrongNrNodes ''Requesting to delete %(count)s%(role)s nodes while %(current)s can be removed''
       [count, PStr (case role of None \<Rightarrow> [] | Some r \<Rightarrow> if r = [] then [] else '' '' @ r),
        if current > 0 then PInt current else PStr ''none'']"

definition base_check_remove_nodes :: "kwargs \<Rightarrow> 'x service \<Rightarrow> exn + unit" where
  "base_check_remove_nodes node_roles s =
     res_bind (sum_counts (dict_values node_roles)) (\<lambda>count.
       guard (\<not> count \<ge> of_nat (length (sv_nodes s)))
         (wrong_nr_nodes (PFloat count) (int (length (sv_nodes s)) - 1) None))"

text \<open>The methods of the base class that a service does not override.\<close>

definition not_implemented :: "string \<Rightarrow> ('s, 'a) sx" where
  "not_implemented what = sx_raise (exc what [])"

definition with_service :: "('x service \<Rightarrow> exn + 'a) \<Rightarrow> (('x, 'w) sobj, 'a) sx" where
  "with_service f = (\<lambda>s. (f (fst s), s))"

definition with_net :: "('w, 'a) sx \<Rightarrow> (('x, 'w) sobj, 'a) sx" where
  "with_net m = (\<lambda>(s, w). let (r, w') = m (wd_out w) in (r, (s, w\<lparr>wd_out := w'\<rparr>)))"

definition modify_service :: "('x service \<Rightarrow> 'x service) \<Rightarrow> (('x, 'w) sobj, unit) sx" where
  "modify_service f = sx_modify (apfst f)"

text \<open>A constructor that only fills the object.\<close>

definition base_class :: "(config \<Rightarrow> kwargs \<Rightarrow> exn + 'x service) \<Rightarrow> ('x, 'w) svc_class" where
  "base_class init =
     \<lparr>k_init = (\<lambda>cfg kwargs. sx_lift (init cfg kwargs)),
      k_service_type = ''<unnamed service>'',
      k_node_roles = [role_regular],
      k_default_role = role_regular,
      k_starting_nodes = [(role_regular, PInt 1)],
      k_role_sninfo = (\<lambda>role cloud s. Inr (get_standard_sninfo role cloud)),
      k_role_logs = (\<lambda>role. base_role_logs),
      k_context = (\<lambda>s. ([], s)),
      k_on_start = (\<lambda>nodes. not_implemented ''start method not implemented for this service''),
      k_on_stop = not_implemented ''stop method not implemented for this service'',
      k_check_add_nodes = (\<lambda>node_roles. sx_return ()),
      k_on_add_nodes = (\<lambda>nodes. not_implemented ''add_nodes method not implemented for this service''),
      k_check_remove_nodes = (\<lambda>node_roles. with_service (base_check_remove_nodes node_roles)),
      k_on_remove_nodes = (\<lambda>node_roles. not_implemented ''remove_nodes method not implemented for this service''),
      k_check_create_volume = (\<lambda>name volume_size agent_id.
        not_implemented ''create_volume method not currently supported for this service''),
      k_on_create_volume = (\<lambda>node volume. sx_return ()),
      k_check_delete_volume = (\<lambda>node volume.
        not_implemented ''delete_volume method not currently supported for this service''),
      k_on_delete_volume = (\<lambda>node volume. sx_return ()),
      k_on_git_push = sx_return (),
      k_attributes = [],
      k_threads = (\<lambda>s. 0),
      k_run_thread = (\<lambda>n. sx_return ())\<rparr>"

text \<open>
  \<open>range(0, sum(node_roles.values()))\<close>: one float among the counts makes the sum a float.
\<close>

definition sum_range :: "kwargs \<Rightarrow> exn + nat" where
  "sum_range node_roles = res_bind (sum_counts (dict_values node_roles)) (\<lambda>r.
     if list_ex (\<lambda>v. case v of PFloat _ \<Rightarrow> True | _ \<Rightarrow> False) (dict_values node_roles)
     then Inl (builtin_exn ETypeError) else Inr (nat \<lfloor>r\<rfloor>))"

definition logs_json :: "role_log list \<Rightarrow> pyval" where
  "logs_json logs = PList (map (\<lambda>l. PDict [(''filename'', PStr (log_filename l)),
     (''description'', PStr (log_description l)), (''path'', PStr (log_path l))]) logs)"

subsection \<open>Handlers of every manager\<close>

text \<open>A handler without parameters: anything sent is answered with an error.\<close>

definition no_args :: "kwargs \<Rightarrow> ('s, http_response) sx \<Rightarrow> ('s, http_response) sx" where
  "no_args kw m = (case check_arguments [] kw of
     Inl e \<Rightarrow> sx_return (HttpErrorResponse e) | Inr _ \<Rightarrow> m)"

text \<open>
  The pattern \<open>try: self.check_state(...) except: return HttpJsonResponse({})\<close>.
\<close>

definition if_in_state ::
  "mstate list \<Rightarrow> (('x, 'w) sobj, http_response) sx \<Rightarrow> (('x, 'w) sobj, http_response) sx" where
  "if_in_state states m = (\<lambda>(s, w). case check_state states s of
     Inl _ \<Rightarrow> (Inr (HttpJsonResponse (PDict [])), (s, w)) | Inr _ \<Rightarrow> m (s, w))"


text \<open>
  \<open>try: ... except Exception as ex: return HttpErrorResponse("%s" % ex)\<close>.
\<close>

definition or_error_response :: "('s, http_response) sx \<Rightarrow> ('s, http_response) sx" where
  "or_error_response m = sx_try m (\<lambda>e. sx_return (HttpErrorResponse e))"

definition args2 :: "pyval \<Rightarrow> pyval \<times> pyval" where
  "args2 v = (case v of PList [a, b] \<Rightarrow> (a, b) | _ \<Rightarrow> (PNone, PNone))"

definition args3 :: "pyval \<Rightarrow> pyval \<times> pyval \<times> pyval" where
  "args3 v = (case v of PList [a, b, c] \<Rightarrow> (a, b, c) | _ \<Rightarrow> (PNone, PNone, PNone))"

definition py_str :: "pyval \<Rightarrow> string" where
  "py_str v = (case v of PStr s \<Rightarrow> s | PFile n c \<Rightarrow> c | _ \<Rightarrow> [])"

lemma args_simps [simp]:
  "args2 (PList [a, b]) = (a, b)" "args3 (PList [a, b, c]) = (a, b, c)" "py_str (PStr s) = s"
  by (simp_all add: args2_def args3_def py_str_def)

definition file_get_contents :: "string \<Rightarrow> 'w world \<Rightarrow> exn + string" where
  "file_get_contents path w = (case map_of (wd_disk w) path of
     None \<Rightarrow> Inl (builtin_exn EIOError) | Some c \<Rightarrow> Inr c)"

definition file_write_contents :: "string \<Rightarrow> string \<Rightarrow> 'w world \<Rightarrow> 'w world" where
  "file_write_contents path contents w = w\<lparr>wd_disk := AList.update path contents (wd_disk w)\<rparr>"

definition log_entry :: "mstate \<times> string \<Rightarrow> pyval" where
  "log_entry e = PDict [(''state'', PStr (state_name (fst e))), (''reason'', PStr (snd e))]"

definition get_service_history :: "('x, 'w) handler" where
  "get_service_history kw =
     or_error_response
       (sx_bind (sx_lift (check_arguments [] kw)) (\<lambda>_.
        with_service (\<lambda>s. Inr (HttpJsonResponse
          (PDict [(''state_log'', PList (map log_entry (sv_state_log s)))])))))"

definition get_manager_log :: "('x, 'w) handler" where
  "get_manager_log kw =
     or_error_response
       (sx_bind (sx_lift (check_arguments [] kw)) (\<lambda>_ (s, w).
          (Inr (case file_get_contents (sv_logfile s) w of
              Inr contents \<Rightarrow> HttpJsonResponse (PDict [(''log'', PStr contents)])
            | Inl _ \<Rightarrow> HttpErrorResponse (exc ''Failed to read log'' [])), (s, w))))"

text \<open>
  \<open>get_agent_log\<close>: the identifiers are listed before the \<open>try\<close>, so an entry without one makes
  the handler itself raise.
\<close>

definition fetch_agent_log :: "'w network \<Rightarrow> string \<Rightarrow> string option \<Rightarrow> ('w, pyval) sx" where
  "fetch_agent_log net host filename =
     agent_call net (client_check EHttpError) host ''get_log''
       (case filename of None \<Rightarrow> [] | Some f \<Rightarrow> [(''filename'', PStr f)])"

definition find_node :: "string \<Rightarrow> node_entry list \<Rightarrow> exn + service_node" where
  "find_node nid nodes =
     res_bind (filter_res (\<lambda>e. map_sum id (\<lambda>i. i = nid) (entry_id e)) nodes) (\<lambda>es.
     res_bind (py_first es) entry_node)"

definition role_log_path :: "role_log list \<Rightarrow> string \<Rightarrow> exn + string" where
  "role_log_path logs filename =
     res_bind (check_arguments [Mandatory ''filename'' (is_in_list (map (PStr \<circ> log_filename) logs))]
                 [(''filename'', PStr filename)])
       (\<lambda>_. py_first (map log_path (filter (\<lambda>log. log_filename log = filename) logs)))"

definition get_agent_log :: "'w network \<Rightarrow> ('x, 'w) svc_class \<Rightarrow> ('x, 'w) handler" where
  "get_agent_log net k kw =
     sx_bind (with_service (\<lambda>s. map_res entry_id (sv_nodes s))) (\<lambda>node_ids.
     or_error_response
       (sx_bind (sx_lift (check_arguments
           [Mandatory ''agentId'' (is_in_list (map PStr node_ids)), Optional ''filename'' is_string PNone] kw)) (\<lambda>args.
        let (agent_id, filename) = args2 args in
        sx_bind (with_service (\<lambda>s. find_node (py_str agent_id) (sv_nodes s))) (\<lambda>node.
        sx_bind (if py_truth filename
                 then sx_lift (map_sum id Some (role_log_path (k_role_logs k (sn_role node)) (py_str filename)))
                 else sx_return None) (\<lambda>path.
        sx_bind (with_net (fetch_agent_log net (sn_ip node) path)) (\<lambda>res.
          sx_return (HttpJsonResponse res)))))))"

definition default_code_repo :: string where
  "default_code_repo = ''/home/git/code''"

text \<open>What every manager exposes; a class adds its own.\<close>

definition base_attributes ::
  "'w network \<Rightarrow> ('x, 'w) svc_class \<Rightarrow> (string \<times> ('x, 'w) handler attribute) list" where
  "base_attributes net k =
     [(''get_agent_log'', Exposed ''GET'' (get_agent_log net k)),
      (''get_manager_log'', Exposed ''GET'' get_manager_log),
      (''get_service_history'', Exposed ''GET'' get_service_history)]"

end
