(* ===== verification/AppManager.thy ===== *)
theory AppManager
  imports Manager
begin

text \<open>
  \<open>ApplicationManager\<close> of \<open>conpaas/core/manager.py\<close>: the manager of an application, which creates
  and removes service managers, starts, grows, shrinks and stops them, and keeps the
  application's nodes and volumes. Every operation is a handler that answers at once and a job
  that a new thread runs afterwards; \<open>app_jobs\<close> holds the jobs whose threads have not run yet.

  The manager objects are a heap (\<open>app_self\<close> is object 0, the application manager itself);
  \<open>app_live\<close> lists the keys of \<open>httpsserver.instances\<close>. A thread keeps its service manager
  alive after it has left \<open>instances\<close>, so a removed object stays in the heap.
\<close>

datatype job =
    StartJob int string
  | StopJob int bool
  | AddNodesJob int kwargs string
  | RemoveNodesJob int kwargs
  | CreateVolumeJob string int string int
  | DeleteVolumeJob volume service_node int

text \<open>A registered handler is a bound method, of the application manager or of a service.\<close>

datatype ('x, 'w) bound_method = AppMethod string | ServiceMethod int "('x, 'w) handler"

record ('x, 'w) app =
  app_self :: "'x service"
  app_objects :: "(int \<times> 'x service) list"
  app_live :: "int list"
  app_counter :: int
  app_kwargs :: kwargs
  app_callbacks :: "('x, 'w) bound_method callback_dict"
  app_jobs :: "job list"
  app_world :: "'w world"

text \<open>What is installed: the network and the classes that can be loaded.\<close>

datatype ('x, 'w) load_result = NoModule | NoClass | Loaded "('x, 'w) svc_class"

record ('x, 'w) installation =
  in_net :: "'w network"
  in_load :: "string \<Rightarrow> ('x, 'w) load_result"
  in_app_class :: "('x, 'w) svc_class"

definition manager_services :: "string list" where
  "manager_services = [''php'', ''java'', ''helloworld'', ''xtreemfs'', ''mysql'', ''generic'']"

definition class_of :: "('x, 'w) installation \<Rightarrow> 'x service \<Rightarrow> ('x, 'w) svc_class" where
  "class_of inst s = (case in_load inst (sv_class s) of Loaded k \<Rightarrow> k | _ \<Rightarrow> in_app_class inst)"

subsection \<open>Access to the objects\<close>

definition get_object :: "int \<Rightarrow> ('x, 'w) app \<Rightarrow> 'x service option" where
  "get_object i a = (if i = 0 then Some (app_self a) else map_of (app_objects a) i)"

definition put_object :: "int \<Rightarrow> 'x service \<Rightarrow> ('x, 'w) app \<Rightarrow> ('x, 'w) app" where
  "put_object i s a =
     (if i = 0 then a\<lparr>app_self := s\<rparr> else a\<lparr>app_objects := AList.update i s (app_objects a)\<rparr>)"

text \<open>\<open>self.httpsserver.instances[i]\<close>.\<close>

definition instance_at :: "int \<Rightarrow> (('x, 'w) app, 'x service) sx" where
  "instance_at i = (\<lambda>a. (if i \<in> set (app_live a)
     then (case get_object i a of None \<Rightarrow> Inl (builtin_exn EKeyError) | Some s \<Rightarrow> Inr s)
     else Inl (builtin_exn EKeyError), a))"

text \<open>Run a method of object \<open>i\<close>.\<close>

definition on_object :: "int \<Rightarrow> (('x, 'w) sobj, 'a) sx \<Rightarrow> (('x, 'w) app, 'a) sx" where
  "on_object i m = (\<lambda>a. case get_object i a of
       None \<Rightarrow> (Inl (builtin_exn EKeyError), a)
     | Some s \<Rightarrow> let (r, (s', w')) = m (s, app_world a)
                 in (r, put_object i s' (a\<lparr>app_world := w'\<rparr>)))"

definition update_object :: "int \<Rightarrow> ('x service \<Rightarrow> 'x service) \<Rightarrow> (('x, 'w) app, unit) sx" where
  "update_object i f = on_object i (modify_service f)"

definition self_set :: "('x service \<Rightarrow> 'x service) \<Rightarrow> (('x, 'w) app, unit) sx" where
  "self_set f = sx_modify (\<lambda>a. a\<lparr>app_self := f (app_self a)\<rparr>)"

definition on_world :: "('w world, 'a) sx \<Rightarrow> (('x, 'w) app, 'a) sx" where
  "on_world m = (\<lambda>a. let (r, w) = m (app_world a) in (r, a\<lparr>app_world := w\<rparr>))"

definition call_net :: "('w, 'a) sx \<Rightarrow> (('x, 'w) app, 'a) sx" where
  "call_net m = (\<lambda>a. let (r, w') = m (wd_out (app_world a))
     in (r, a\<lparr>app_world := (app_world a)\<lparr>wd_out := w'\<rparr>\<rparr>))"

definition call_director :: "('w \<Rightarrow> 'a \<times> 'w) \<Rightarrow> (('x, 'w) app, 'a) sx" where
  "call_director m = call_net (\<lambda>w. let (r, w') = m w in (Inr r, w'))"

definition self_config :: "('x, 'w) app \<Rightarrow> config" where
  "self_config a = sv_config (app_self a)"

definition spawn :: "job \<Rightarrow> (('x, 'w) app, unit) sx" where
  "spawn j = sx_modify (\<lambda>a. a\<lparr>app_jobs := app_jobs a @ [j]\<rparr>)"

definition json :: "(string \<times> pyval) list \<Rightarrow> http_response" where
  "json d = HttpJsonResponse (PDict d)"

text \<open>The constraint on service identifiers, and the identifier a received value denotes.\<close>

definition is_instance :: "('x, 'w) app \<Rightarrow> constraint" where
  "is_instance a = is_in_list (map PInt (app_live a))"

definition key_of :: "pyval \<Rightarrow> int" where
  "key_of v = (case int_key v of None \<Rightarrow> -1 | Some i \<Rightarrow> i)"

subsection \<open>The configuration of a new service\<close>

definition add_manager_configuration :: "string \<Rightarrow> string \<Rightarrow> config \<Rightarrow> exn + config" where
  "add_manager_configuration service_id service_type cfg =
     res_bind (cfg_set cfg ''manager'' ''TYPE'' service_type) (\<lambda>cfg.
     res_bind (cfg_set cfg ''manager'' ''SERVICE_ID'' service_id) (\<lambda>cfg.
     res_bind (cfg_get cfg ''manager'' ''LOG_FILE'') (\<lambda>logfile.
     res_bind (cfg_set cfg ''manager'' ''LOG_FILE''
                 (py_replace ''manager'' (''manager'' @ service_id) logfile)) (\<lambda>cfg.
     res_bind (cfg_get cfg ''manager'' ''CODE_REPO'') (\<lambda>code_repo.
       cfg_set cfg ''manager'' ''CODE_REPO'' (path_join code_repo service_id))))))"

subsection \<open>Services: creation and removal\<close>

definition script_path :: "string \<Rightarrow> string \<Rightarrow> string" where
  "script_path basedir service_id = path_join (path_join basedir service_id) ''startup.sh''"

text \<open>
  The request for nodes of service \<open>i\<close>: the dictionary of parameters is built first (reading the
  configuration, and the context, which may change the service), then the director is called.
\<close>

definition request_nodes ::
  "('x, 'w) installation \<Rightarrow> int \<Rightarrow> sninfo list \<Rightarrow> (('x, 'w) app, created) sx" where
  "request_nodes inst i sninfos =
     sx_bind (sx_get self_config) (\<lambda>cfg.
     sx_bind (sx_lift (cfg_get cfg ''manager'' ''APP_ID'')) (\<lambda>_.
     sx_bind (sx_lift (cfg_get cfg ''manager'' ''MY_IP'')) (\<lambda>_.
     sx_bind (on_object i (\<lambda>(s, w). let (c, s') = k_context (class_of inst s) s
                           in (Inr (k_service_type (class_of inst s), c), (s', w)))) (\<lambda>(ty, context).
     sx_bind (sx_get (\<lambda>a. wd_disk (app_world a))) (\<lambda>disk.
       call_net (create_nodes (in_net inst) cfg sninfos i ty context
         (\<lambda>basedir. map_of disk (script_path basedir (int_str i)))))))))"

text \<open>What \<open>+=\<close> adds to a list of nodes: \<open>None\<close> raises, the error dictionary adds its key.\<close>

definition created_entries :: "created \<Rightarrow> exn + node_entry list" where
  "created_entries c = (case c of
       CreatedNone \<Rightarrow> Inl (builtin_exn ETypeError)
     | CreatedError _ \<Rightarrow> Inr [VKey ''error'']
     | CreatedNodes ns \<Rightarrow> Inr (map VNode ns))"

definition extend_nodes :: "node_entry list \<Rightarrow> 'x service \<Rightarrow> 'x service" where
  "extend_nodes es s = s\<lparr>sv_nodes := sv_nodes s @ es\<rparr>"

text \<open>
  After an error answer the object's \<open>nodes\<close> is the dictionary with the one key \<open>error\<close>; it is kept as the list of
  its keys, which is what iterating over it gives.
\<close>

definition do_start_service ::
  "('x, 'w) installation \<Rightarrow> int \<Rightarrow> string \<Rightarrow> (('x, 'w) app, unit) sx" where
  "do_start_service inst i cloud =
     sx_bind (instance_at i) (\<lambda>s.
     let k = class_of inst s in
     sx_bind (sx_lift (get_sninfo k (k_starting_nodes k) cloud s)) (\<lambda>sninfos.
     sx_bind (request_nodes inst i sninfos) (\<lambda>created.
     sx_bind (sx_lift (created_entries created)) (\<lambda>nodes.
     sx_bind (self_set (extend_nodes nodes)) (\<lambda>_.
     sx_bind (update_object i (sv_nodes_update (\<lambda>_. nodes))) (\<lambda>_.
     sx_bind (on_object i (k_on_start k nodes)) (\<lambda>ok.
       update_object i (state_set (if ok then S_RUNNING else S_ERROR) []))))))))"

text \<open>
  \<open>self.nodes.remove(filter(lambda n: n.id == nid, self.nodes)[0])\<close>: the first node with that
  id, removed at the first node equal to it.
\<close>

definition remove_entry :: "string \<Rightarrow> node_entry list \<Rightarrow> exn + node_entry list" where
  "remove_entry nid nodes =
     res_bind (find_node nid nodes) (\<lambda>n.
     Inr (let p = (\<lambda>e. case e of VNode m \<Rightarrow> \<not> node_eq m n | VKey _ \<Rightarrow> True)
          in takeWhile p nodes @ drop 1 (dropWhile p nodes)))"

definition drop_volumes :: "node_entry \<Rightarrow> 'x service \<Rightarrow> exn + 'x service" where
  "drop_volumes e s =
     (if sv_volumes s = [] then Inr s
      else res_bind (entry_id e) (\<lambda>nid.
        Inr (s\<lparr>sv_volumes := filter (\<lambda>kv. vol_vm_id (snd kv) \<noteq> nid) (sv_volumes s)\<rparr>)))"

definition forget_node :: "node_entry \<Rightarrow> (('x, 'w) app, unit) sx" where
  "forget_node e =
     sx_bind (sx_get app_self) (\<lambda>s.
     sx_bind (sx_lift (drop_volumes e s)) (\<lambda>s.
     sx_bind (self_set (\<lambda>_. s)) (\<lambda>_.
     sx_bind (sx_lift (if sv_nodes s = [] then Inl (builtin_exn EIndexError)
                       else res_bind (entry_id e) (\<lambda>nid. remove_entry nid (sv_nodes s)))) (\<lambda>nodes.
       self_set (sv_nodes_update (\<lambda>_. nodes))))))"

definition release_nodes :: "('x, 'w) installation \<Rightarrow> node_entry list \<Rightarrow> (('x, 'w) app, unit) sx" where
  "release_nodes inst nodes =
     sx_bind (sx_lift (map_res entry_node nodes)) (\<lambda>ns.
     sx_bind (sx_get self_config) (\<lambda>cfg.
     sx_bind (call_director (remove_nodes (in_net inst) cfg ns)) (\<lambda>_. sx_return ())))"

definition rm_rf :: "string \<Rightarrow> 'w world \<Rightarrow> 'w world" where
  "rm_rf path w = w\<lparr>wd_disk := filter (\<lambda>(f, _). f \<noteq> path \<and> \<not> starts_with f (path @ ''/'')) (wd_disk w)\<rparr>"

definition do_stop_service ::
  "('x, 'w) installation \<Rightarrow> int \<Rightarrow> bool \<Rightarrow> (('x, 'w) app, unit) sx" where
  "do_stop_service inst i remove =
     sx_bind (instance_at i) (\<lambda>s.
     sx_bind
       (if sv_state s \<noteq> S_INIT then
          sx_bind (on_object i (k_on_stop (class_of inst s))) (\<lambda>nodes.
          sx_bind (update_object i (sv_nodes_update (\<lambda>_. []))) (\<lambda>_.
          sx_bind (update_object i (state_set S_STOPPED [])) (\<lambda>_.
          sx_bind (sx_for nodes forget_node) (\<lambda>_.
            release_nodes inst nodes))))
        else update_object i (state_set S_STOPPED [])) (\<lambda>_.
     if remove then
       sx_bind (sx_lift (cfg_get (sv_config s) ''manager'' ''CODE_REPO'')) (\<lambda>code_repo.
       sx_bind (sx_modify (\<lambda>a. a\<lparr>app_world := rm_rf code_repo (app_world a)\<rparr>)) (\<lambda>_.
       sx_bind (sx_modify (\<lambda>a. a\<lparr>app_live := remove1 i (app_live a)\<rparr>)) (\<lambda>_.
       sx_bind (\<lambda>a. let (r, cbs) = deregister_methods i (app_callbacks a)
                    in (r, a\<lparr>app_callbacks := cbs\<rparr>)) (\<lambda>_.
         self_set (state_set S_RUNNING [])))))
     else sx_return ()))"

definition new_service ::
  "('x, 'w) installation \<Rightarrow> string \<Rightarrow> ('x, 'w) svc_class \<Rightarrow> (('x, 'w) app, http_response) sx" where
  "new_service inst service_type k =
     sx_bind (self_set (state_set S_ADAPTING [])) (\<lambda>_.
     sx_bind (sx_modify (\<lambda>a. a\<lparr>app_counter := app_counter a + 1\<rparr>)) (\<lambda>_.
     sx_bind (sx_get (\<lambda>a. (app_counter a, app_kwargs a, self_config a))) (\<lambda>(sid, kwargs, cfg).
     sx_bind (sx_lift (add_manager_configuration (int_str sid) service_type cfg)) (\<lambda>service_cfg.
     sx_bind (on_world (k_init k service_cfg kwargs)) (\<lambda>s.
     sx_bind (sx_modify (\<lambda>a. put_object sid (s\<lparr>sv_class := service_type\<rparr>)
                (a\<lparr>app_live := app_live a @ [sid]\<rparr>))) (\<lambda>_.
     sx_bind (\<lambda>a. let (r, cbs) = register_all sid
                    (exposed_list (get_exposed_methods
                       (map (map_prod id (\<lambda>x. case x of Exposed m h \<Rightarrow> Exposed m (ServiceMethod sid h) | Plain \<Rightarrow> Plain))
                          (k_attributes k)) []))
                    (app_callbacks a)
                  in (r, a\<lparr>app_callbacks := cbs\<rparr>)) (\<lambda>_.
     sx_bind (self_set (state_set S_RUNNING [])) (\<lambda>_.
       sx_return (json [(''service_id'', PInt sid)])))))))))"

definition add_service_params :: "param list" where
  "add_service_params = [Mandatory ''service_type'' (is_in_list (map PStr manager_services))]"

definition add_service ::
  "('x, 'w) installation \<Rightarrow> kwargs \<Rightarrow> (('x, 'w) app, http_response) sx" where
  "add_service inst kw =
     (case check_arguments add_service_params kw of
        Inl e \<Rightarrow> sx_return (HttpErrorResponse e)
      | Inr service_type \<Rightarrow>
          sx_bind (sx_modify (\<lambda>a. a\<lparr>app_kwargs :=
             fold (\<lambda>(k, v) d. AList.update k v d) (args_after add_service_params kw) (app_kwargs a)\<rparr>)) (\<lambda>_.
          case in_load inst (py_str service_type) of
            NoModule \<Rightarrow> sx_bind (self_set (state_set S_ERROR [])) (\<lambda>_.
              sx_raise (exc ''Could not import module containing service class \"%(module)s\"'' [service_type]))
          | NoClass \<Rightarrow> sx_bind (self_set (state_set S_ERROR [])) (\<lambda>_.
              sx_raise (exc ''Could not get service class %s from module %s'' [service_type]))
          | Loaded k \<Rightarrow> new_service inst (py_str service_type) k))"

definition remove_service :: "kwargs \<Rightarrow> (('x, 'w) app, http_response) sx" where
  "remove_service kw = (\<lambda>a.
     case check_arguments [Mandatory ''service_id'' (is_instance a)] kw of
       Inl e \<Rightarrow> (Inr (HttpErrorResponse e), a)
     | Inr service_id \<Rightarrow>
         sx_bind (self_set (state_set S_ADAPTING [])) (\<lambda>_.
         sx_bind (spawn (StopJob (key_of service_id) True)) (\<lambda>_.
           sx_return (HttpJsonResponse (PDict [])))) a)"

subsection \<open>Services: start, stop, grow, shrink\<close>

definition state_reply :: "int \<Rightarrow> (('x, 'w) app, http_response) sx" where
  "state_reply i = on_object i (with_service (\<lambda>s.
     Inr (json [(''state'', PStr (state_name (sv_state s)))])))"

definition app_check_credits :: "('x, 'w) installation \<Rightarrow> (('x, 'w) app, unit) sx" where
  "app_check_credits inst =
     sx_bind (sx_get self_config) (\<lambda>cfg. call_net (check_credits (in_net inst) cfg))"

text \<open>
  In the handlers below, everything up to the change of state stands in the \<open>try\<close> block; the
  value it yields, or the error response, decides how the handler goes on.
\<close>

definition after_checks ::
  "(('x, 'w) app, 'a) sx \<Rightarrow> ('a \<Rightarrow> (('x, 'w) app, http_response) sx) \<Rightarrow> (('x, 'w) app, http_response) sx" where
  "after_checks checks go = (\<lambda>a. case checks a of
       (Inl e, a') \<Rightarrow> (Inr (HttpErrorResponse e), a')
     | (Inr x, a') \<Rightarrow> go x a')"

definition start_service ::
  "('x, 'w) installation \<Rightarrow> kwargs \<Rightarrow> (('x, 'w) app, http_response) sx" where
  "start_service inst kw = (\<lambda>a. after_checks
     (sx_bind (sx_lift (check_arguments
        [Mandatory ''service_id'' (is_instance a), Mandatory ''cloud'' is_string] kw)) (\<lambda>args.
      let (service_id, cloud) = args2 args; i = key_of service_id in
      sx_bind (app_check_credits inst) (\<lambda>_.
      sx_bind (instance_at i) (\<lambda>s.
      sx_bind (sx_lift (check_state [S_INIT, S_STOPPED] s)) (\<lambda>_.
        sx_return (i, py_str cloud))))))
     (\<lambda>(i, cloud).
      sx_bind (update_object i (state_set S_PROLOGUE [])) (\<lambda>_.
      sx_bind (spawn (StartJob i cloud)) (\<lambda>_.
        state_reply i))) a)"

definition stop_service :: "kwargs \<Rightarrow> (('x, 'w) app, http_response) sx" where
  "stop_service kw = (\<lambda>a.
     case check_arguments [Mandatory ''service_id'' (is_instance a)] kw of
       Inl e \<Rightarrow> (Inr (HttpErrorResponse e), a)
     | Inr service_id \<Rightarrow>
         let i = key_of service_id in
         sx_bind (instance_at i) (\<lambda>_.
         sx_bind (update_object i (state_set S_EPILOGUE [])) (\<lambda>_.
         sx_bind (spawn (StopJob i False)) (\<lambda>_.
           state_reply i))) a)"

definition py_dict :: "pyval \<Rightarrow> kwargs" where
  "py_dict v = (case v of PDict d \<Rightarrow> d | _ \<Rightarrow> [])"

text \<open>
  \<open>check_node_roles\<close> changes the dictionary of roles in place, so the job gets the changed one.
\<close>

definition add_nodes ::
  "('x, 'w) installation \<Rightarrow> kwargs \<Rightarrow> (('x, 'w) app, http_response) sx" where
  "add_nodes inst kw = (\<lambda>a. after_checks
     (sx_bind (sx_lift (check_arguments
        [Mandatory ''service_id'' (is_instance a), Mandatory ''nodes'' is_dict,
         Mandatory ''cloud'' is_string] kw)) (\<lambda>args.
      let (service_id, nodes, cloud) = args3 args; i = key_of service_id in
      sx_bind (app_check_credits inst) (\<lambda>_.
      sx_bind (instance_at i) (\<lambda>s.
      let k = class_of inst s in
      sx_bind (sx_lift (check_node_roles k (py_dict nodes))) (\<lambda>node_roles.
      sx_bind (sx_lift (check_state [S_RUNNING] s)) (\<lambda>_.
      sx_bind (on_object i (k_check_add_nodes k node_roles)) (\<lambda>_.
        sx_return (i, node_roles, py_str cloud))))))))
     (\<lambda>(i, node_roles, cloud).
      sx_bind (update_object i (state_set S_ADAPTING [])) (\<lambda>_.
      sx_bind (spawn (AddNodesJob i node_roles cloud)) (\<lambda>_.
        state_reply i))) a)"

definition do_add_nodes ::
  "('x, 'w) installation \<Rightarrow> int \<Rightarrow> kwargs \<Rightarrow> string \<Rightarrow> (('x, 'w) app, unit) sx" where
  "do_add_nodes inst i node_roles cloud =
     sx_bind (instance_at i) (\<lambda>s.
     let k = class_of inst s in
     sx_bind (sx_lift (get_sninfo k node_roles cloud s)) (\<lambda>sninfos.
     sx_bind (request_nodes inst i sninfos) (\<lambda>created.
     sx_bind (sx_lift (created_entries created)) (\<lambda>nodes.
     sx_bind (self_set (extend_nodes nodes)) (\<lambda>_.
     sx_bind (update_object i (extend_nodes nodes)) (\<lambda>_.
     sx_bind (on_object i (k_on_add_nodes k nodes)) (\<lambda>ok.
       update_object i (state_set (if ok then S_RUNNING else S_ERROR) []))))))))"

definition remove_nodes_handler ::
  "('x, 'w) installation \<Rightarrow> kwargs \<Rightarrow> (('x, 'w) app, http_response) sx" where
  "remove_nodes_handler inst kw = (\<lambda>a. after_checks
     (sx_bind (sx_lift (check_arguments
        [Mandatory ''service_id'' (is_instance a), Mandatory ''nodes'' is_dict] kw)) (\<lambda>args.
      let (service_id, nodes) = args2 args; i = key_of service_id in
      sx_bind (instance_at i) (\<lambda>s.
      let k = class_of inst s in
      sx_bind (sx_lift (check_node_roles k (py_dict nodes))) (\<lambda>node_roles.
      sx_bind (sx_lift (check_state [S_RUNNING] s)) (\<lambda>_.
      sx_bind (on_object i (k_check_remove_nodes k node_roles)) (\<lambda>_.
        sx_return (i, node_roles)))))))
     (\<lambda>(i, node_roles).
      sx_bind (update_object i (state_set S_ADAPTING [])) (\<lambda>_.
      sx_bind (spawn (RemoveNodesJob i node_roles)) (\<lambda>_.
        state_reply i))) a)"

text \<open>
  \<open>_do_remove_nodes\<close> leaves the state to \<open>on_remove_nodes\<close>; each node leaves the application's
  list and then the service's.
\<close>

definition forget_service_node :: "int \<Rightarrow> node_entry \<Rightarrow> (('x, 'w) app, unit) sx" where
  "forget_service_node i e =
     sx_bind (forget_node e) (\<lambda>_.
     on_object i (\<lambda>(s, w).
       case (if sv_nodes s = [] then Inl (builtin_exn EIndexError)
             else res_bind (entry_id e) (\<lambda>nid. remove_entry nid (sv_nodes s))) of
         Inl ex \<Rightarrow> (Inl ex, (s, w))
       | Inr nodes \<Rightarrow> (Inr (), (s\<lparr>sv_nodes := nodes\<rparr>, w))))"

definition do_remove_nodes ::
  "('x, 'w) installation \<Rightarrow> int \<Rightarrow> kwargs \<Rightarrow> (('x, 'w) app, unit) sx" where
  "do_remove_nodes inst i node_roles =
     sx_bind (instance_at i) (\<lambda>s.
     sx_bind (on_object i (k_on_remove_nodes (class_of inst s) node_roles)) (\<lambda>nodes.
     sx_bind (sx_for nodes (forget_service_node i)) (\<lambda>_.
       release_nodes inst nodes)))"

subsection \<open>Volumes\<close>

text \<open>
  The pattern \<open>^[A-za-z0-9-_]+$\<close>: the range \<open>A-z\<close> also spans the six characters between \<open>Z\<close> and
  \<open>a\<close>, and \<open>$\<close> matches before a final newline. A name that is not text raises.
\<close>

definition volume_char :: "char \<Rightarrow> bool" where
  "volume_char c = (let n = (of_char c :: nat) in
     65 \<le> n \<and> n \<le> 122 \<or> 48 \<le> n \<and> n \<le> 57 \<or> n = 45 \<or> n = 95)"

definition check_volume_name :: "pyval \<Rightarrow> exn + unit" where
  "check_volume_name v = (case v of
       PStr s \<Rightarrow>
         let body = (if s \<noteq> [] \<and> last s = char_of (10 :: nat) then butlast s else s)
         in guard (body \<noteq> [] \<and> list_all volume_char body)
              (exc ''Volume name contains invalid characters'' [])
     | _ \<Rightarrow> Inl (builtin_exn ETypeError))"

text \<open>\<open>get_service_id_by_vm_id\<close>: \<open>None\<close> when no live service has the machine.\<close>

fun has_vm :: "string \<Rightarrow> node_entry list \<Rightarrow> exn + bool" where
  "has_vm vm_id [] = Inr False"
| "has_vm vm_id (e # es) =
     (case entry_id e of Inl ex \<Rightarrow> Inl ex
      | Inr nid \<Rightarrow> if nid = vm_id then Inr True else has_vm vm_id es)"

fun service_of_vm ::
  "('x, 'w) installation \<Rightarrow> string \<Rightarrow> int list \<Rightarrow> ('x, 'w) app \<Rightarrow> exn + (int \<times> string) option" where
  "service_of_vm inst vm_id [] a = Inr None"
| "service_of_vm inst vm_id (i # is) a =
     (if i = 0 then service_of_vm inst vm_id is a
      else case get_object i a of
          None \<Rightarrow> Inl (builtin_exn EKeyError)
        | Some s \<Rightarrow>
            (case has_vm vm_id (sv_nodes s) of
               Inl e \<Rightarrow> Inl e
             | Inr True \<Rightarrow> Inr (Some (i, k_service_type (class_of inst s)))
             | Inr False \<Rightarrow> service_of_vm inst vm_id is a))"

definition get_service_id_by_vm_id ::
  "('x, 'w) installation \<Rightarrow> string \<Rightarrow> (('x, 'w) app, (int \<times> string) option) sx" where
  "get_service_id_by_vm_id inst vm_id = (\<lambda>a. (service_of_vm inst vm_id (app_live a) a, a))"

text \<open>Unpacking \<open>None\<close> raises.\<close>

definition unpack :: "'a option \<Rightarrow> exn + 'a" where
  "unpack x = (case x of None \<Rightarrow> Inl (builtin_exn ETypeError) | Some y \<Rightarrow> Inr y)"

definition create_volume_handler ::
  "('x, 'w) installation \<Rightarrow> kwargs \<Rightarrow> (('x, 'w) app, http_response) sx" where
  "create_volume_handler inst kw = (\<lambda>a.
     case map_res entry_id (sv_nodes (app_self a)) of
       Inl e \<Rightarrow> (Inl e, a)
     | Inr node_ids \<Rightarrow> after_checks
     (sx_bind (sx_lift (check_arguments
        [Mandatory ''volumeName'' (is_not_in_list (map PStr (dict_keys (sv_volumes (app_self a))))),
         Mandatory ''volumeSize'' is_pos_int,
         Mandatory ''agentId'' (is_in_list (map PStr node_ids))] kw)) (\<lambda>args.
      let (name, volume_size, agent_id) = args3 args in
      sx_bind (sx_lift (check_volume_name name)) (\<lambda>_.
      sx_bind (get_service_id_by_vm_id inst (py_str agent_id)) (\<lambda>owner.
      sx_bind (sx_lift (unpack owner)) (\<lambda>(i, _).
      sx_bind (instance_at i) (\<lambda>s.
      sx_bind (sx_lift (check_state [S_RUNNING] s)) (\<lambda>_.
      sx_bind (on_object i (k_check_create_volume (class_of inst s) (py_str name) (key_of volume_size)
                 (py_str agent_id))) (\<lambda>_.
        sx_return (i, py_str name, key_of volume_size, py_str agent_id)))))))))
     (\<lambda>(i, name, volume_size, agent_id).
      sx_bind (update_object i (state_set S_ADAPTING [])) (\<lambda>_.
      sx_bind (spawn (CreateVolumeJob name volume_size agent_id i)) (\<lambda>_.
        sx_return (json [(''service_id'', PInt i)])))) a)"

text \<open>
  The search for a free device name increments the last character until the name is not in
  use; \<open>chr\<close> raises past 255. The loop ends because the code of that character grows.
\<close>

function next_dev_name :: "string \<Rightarrow> nat \<Rightarrow> string list \<Rightarrow> exn + string" where
  "next_dev_name prefix code in_use =
     (if prefix @ [char_of code] \<in> set in_use
      then if code + 1 > 255 then Inl (builtin_exn EValueError)
           else next_dev_name prefix (code + 1) in_use
      else Inr (prefix @ [char_of code]))"
  by pat_completeness auto
termination
  by (relation "measure (\<lambda>(prefix, code, in_use). 256 - code)") auto

declare next_dev_name.simps [simp del]

definition free_dev_name :: "string \<Rightarrow> string list \<Rightarrow> exn + string" where
  "free_dev_name dev_name in_use =
     (if dev_name = [] then (if [] \<in> set in_use then Inl (builtin_exn EIndexError) else Inr [])
      else next_dev_name (butlast dev_name) (of_char (last dev_name)) in_use)"

text \<open>
  \<open>attach_volume\<close> of the application manager retries ten times on an exception and fails on a
  false result. The call it repeats catches every exception itself, and the result is a pair,
  which is never false: one attempt, always successful.
\<close>

definition app_attach_volume ::
  "('x, 'w) installation \<Rightarrow> string \<Rightarrow> string \<Rightarrow> string \<Rightarrow> string \<Rightarrow> (('x, 'w) app, bool reply \<times> string) sx" where
  "app_attach_volume inst volume_id vm_id device_name cloud =
     sx_bind (sx_get self_config) (\<lambda>cfg.
     sx_bind (call_director (attach_volume (in_net inst) cfg vm_id volume_id device_name cloud)) (\<lambda>ret.
       sx_return (ret, device_name)))"

text \<open>\<open>'error' in ret\<close> raises on the \<open>False\<close> of a failed call.\<close>

definition app_destroy_volume ::
  "('x, 'w) installation \<Rightarrow> string \<Rightarrow> string \<Rightarrow> (('x, 'w) app, unit) sx" where
  "app_destroy_volume inst volume_id cloud =
     sx_bind (sx_get self_config) (\<lambda>cfg.
     sx_bind (call_director (destroy_volume (in_net inst) cfg volume_id cloud)) (\<lambda>ret.
       case ret of
         ReplyFalse \<Rightarrow> sx_raise (builtin_exn ETypeError)
       | ReplyError _ \<Rightarrow> sx_raise (exc ''Error destroying volume %s'' [PStr volume_id])
       | Reply _ \<Rightarrow> sx_return ()))"

definition app_detach_volume ::
  "('x, 'w) installation \<Rightarrow> string \<Rightarrow> string \<Rightarrow> (('x, 'w) app, bool reply) sx" where
  "app_detach_volume inst volume_id cloud =
     sx_bind (sx_get self_config) (\<lambda>cfg.
       call_director (detach_volume (in_net inst) cfg volume_id cloud))"

text \<open>
  \<open>_do_create_volume\<close>. The clean-up calls in the two inner handlers miss the argument
  \<open>service_manager\<close>: they raise \<open>TypeError\<close> before doing anything.
\<close>

definition missing_argument :: "exn \<Rightarrow> ('s, 'a) sx" where
  "missing_argument cause = sx_raise (builtin_exn ETypeError)"

definition create_volume_body ::
  "('x, 'w) installation \<Rightarrow> string \<Rightarrow> int \<Rightarrow> string \<Rightarrow> int \<Rightarrow> (('x, 'w) app, volume) sx" where
  "create_volume_body inst name volume_size agent_id i =
     sx_bind (sx_get (\<lambda>a. find_node agent_id (sv_nodes (app_self a)))) (\<lambda>found.
     sx_bind (sx_lift found) (\<lambda>node.
     sx_bind (sx_get self_config) (\<lambda>cfg.
     sx_bind (call_director (create_volume (in_net inst) cfg volume_size (''vol-'' @ name)
                (sn_vmid node) (sn_cloud_name node))) (\<lambda>ret.
     sx_bind (sx_lift (case ret of
                 ReplyFalse \<Rightarrow> Inl (builtin_exn ETypeError)
               | ReplyError _ \<Rightarrow> Inl (builtin_exn EKeyError)
               | Reply volume_id \<Rightarrow> Inr volume_id)) (\<lambda>volume_id.
     sx_bind (sx_try
       (sx_bind (sx_get (\<lambda>a. map vol_dev_name (filter (\<lambda>v. vol_vm_id v = agent_id)
                            (dict_values (sv_volumes (app_self a)))))) (\<lambda>in_use.
        sx_bind (sx_lift (cfg_get cfg ''manager'' ''DEV_TARGET'')) (\<lambda>dev_target.
        sx_bind (sx_lift (free_dev_name dev_target in_use)) (\<lambda>dev_name.
        sx_bind (app_attach_volume inst volume_id (sn_vmid node) dev_name (sn_cloud_name node))
          (\<lambda>(_, dev_name). sx_return dev_name)))))
       missing_argument) (\<lambda>dev_name.
     let volume = \<lparr>vol_name = name, vol_id = volume_id, vol_size = volume_size, vol_vm_id = agent_id,
                   vol_dev_name = dev_name, vol_cloud = sn_cloud_name node, vol_service = None\<rparr> in
     sx_bind (sx_try
       (on_object i (\<lambda>(s, w). k_on_create_volume (class_of inst s) node volume (s, w)))
       missing_argument) (\<lambda>_.
       sx_return volume)))))))"

definition do_create_volume ::
  "('x, 'w) installation \<Rightarrow> string \<Rightarrow> int \<Rightarrow> string \<Rightarrow> int \<Rightarrow> (('x, 'w) app, unit) sx" where
  "do_create_volume inst name volume_size agent_id i = (\<lambda>a.
     case create_volume_body inst name volume_size agent_id i a of
       (Inl _, a') \<Rightarrow> update_object i (state_set S_ERROR []) a'
     | (Inr volume, a') \<Rightarrow>
         sx_bind (self_set (sv_volumes_update (AList.update name volume))) (\<lambda>_.
           update_object i (state_set S_RUNNING [])) a')"

definition delete_volume_handler ::
  "('x, 'w) installation \<Rightarrow> kwargs \<Rightarrow> (('x, 'w) app, http_response) sx" where
  "delete_volume_handler inst kw = (\<lambda>a. after_checks
     (sx_bind (sx_lift (check_arguments
        [Mandatory ''volumeName'' (is_in_list (map PStr (dict_keys (sv_volumes (app_self a)))))] kw)) (\<lambda>name.
      sx_bind (sx_lift (check_volume_name name)) (\<lambda>_.
      sx_bind (sx_lift (py_lookup (sv_volumes (app_self a)) (py_str name))) (\<lambda>volume.
      sx_bind (sx_lift (find_node (vol_vm_id volume) (sv_nodes (app_self a)))) (\<lambda>node.
      sx_bind (get_service_id_by_vm_id inst (sn_id node)) (\<lambda>owner.
      sx_bind (sx_lift (unpack owner)) (\<lambda>(i, _).
      sx_bind (instance_at i) (\<lambda>s.
      sx_bind (sx_lift (check_state [S_RUNNING] s)) (\<lambda>_.
      sx_bind (on_object i (k_check_delete_volume (class_of inst s) node volume)) (\<lambda>_.
        sx_return (i, volume, node)))))))))))
     (\<lambda>(i, volume, node).
      sx_bind (update_object i (state_set S_ADAPTING [])) (\<lambda>_.
      sx_bind (spawn (DeleteVolumeJob volume node i)) (\<lambda>_.
        sx_return (json [(''service_id'', PInt i)])))) a)"

definition do_delete_volume ::
  "('x, 'w) installation \<Rightarrow> volume \<Rightarrow> service_node \<Rightarrow> int \<Rightarrow> (('x, 'w) app, unit) sx" where
  "do_delete_volume inst volume node i =
     sx_bind (sx_try
       (on_object i (\<lambda>(s, w). k_on_delete_volume (class_of inst s) node volume (s, w)))
       (\<lambda>_. sx_return ())) (\<lambda>_.
     sx_bind (app_detach_volume inst (vol_id volume) (vol_cloud volume)) (\<lambda>_.
     sx_bind (app_destroy_volume inst (vol_id volume) (vol_cloud volume)) (\<lambda>_.
     sx_bind (sx_get (\<lambda>a. py_lookup (sv_volumes (app_self a)) (vol_name volume))) (\<lambda>popped.
     sx_bind (sx_lift popped) (\<lambda>_.
     sx_bind (self_set (sv_volumes_update (AList.delete (vol_name volume)))) (\<lambda>_.
       update_object i (state_set S_RUNNING [])))))))"

definition volume_json :: "volume \<Rightarrow> pyval" where
  "volume_json v = PDict ([(''vol_name'', PStr (vol_name v)), (''vol_id'', PStr (vol_id v)),
     (''vol_size'', PInt (vol_size v)), (''vm_id'', PStr (vol_vm_id v)),
     (''dev_name'', PStr (vol_dev_name v)), (''cloud'', PStr (vol_cloud v))] @
     (case vol_service v of None \<Rightarrow> []
      | Some (i, ty) \<Rightarrow> [(''service_id'', PInt i), (''service_name'', PStr ty)]))"

text \<open>
  The copy of the dictionary is shallow: the loop writes the owner into the volumes themselves.
\<close>

fun list_volumes_loop ::
  "('x, 'w) installation \<Rightarrow> int \<Rightarrow> (string \<times> volume) list \<Rightarrow> pyval list \<Rightarrow> (('x, 'w) app, pyval list) sx" where
  "list_volumes_loop inst service_id [] rep_vols = sx_return rep_vols"
| "list_volumes_loop inst service_id ((name, vol) # vols) rep_vols =
     sx_bind (get_service_id_by_vm_id inst (vol_vm_id vol)) (\<lambda>owner.
     sx_bind (sx_lift (unpack owner)) (\<lambda>(i, ty).
     let vol' = vol\<lparr>vol_service := Some (i, ty)\<rparr> in
     sx_bind (self_set (sv_volumes_update (AList.update name vol'))) (\<lambda>_.
       list_volumes_loop inst service_id vols
         (if service_id = 0 \<or> i = service_id then rep_vols @ [volume_json vol'] else rep_vols))))"

definition list_volumes ::
  "('x, 'w) installation \<Rightarrow> kwargs \<Rightarrow> (('x, 'w) app, http_response) sx" where
  "list_volumes inst kw = (\<lambda>a.
     case check_arguments [Optional ''service_id'' (is_instance a) (PInt 0)] kw of
       Inl e \<Rightarrow> (Inr (HttpErrorResponse e), a)
     | Inr service_id \<Rightarrow>
         (case check_state [S_RUNNING, S_ADAPTING] (app_self a) of
            Inl _ \<Rightarrow> (Inr (json [(''volumes'', PList [])]), a)
          | Inr _ \<Rightarrow>
              sx_bind (list_volumes_loop inst (key_of service_id) (sv_volumes (app_self a)) []) (\<lambda>rep_vols.
                sx_return (json [(''volumes'', PList rep_vols)])) a))"

subsection \<open>The other handlers\<close>

definition check_process :: "kwargs \<Rightarrow> (('x, 'w) app, http_response) sx" where
  "check_process kw = sx_return (case check_arguments [] kw of
     Inl e \<Rightarrow> HttpErrorResponse e | Inr _ \<Rightarrow> HttpJsonResponse (PDict []))"

definition get_manager_states :: "('x, 'w) app \<Rightarrow> (string \<times> pyval) list" where
  "get_manager_states a = concat (map (\<lambda>i. case get_object i a of None \<Rightarrow> []
      | Some s \<Rightarrow> [(int_str i, PStr (state_name (sv_state s)))]) (app_live a))"

definition get_app_info :: "kwargs \<Rightarrow> (('x, 'w) app, http_response) sx" where
  "get_app_info kw = (\<lambda>a.
     case check_arguments [] kw of
       Inl e \<Rightarrow> (Inr (HttpErrorResponse e), a)
     | Inr _ \<Rightarrow>
         (map_sum id (\<lambda>ids. json [(''states'', PDict (get_manager_states a)),
            (''nodes'', PList (map PStr ids)),
            (''volumes'', PList (map PStr (dict_keys (sv_volumes (app_self a)))))])
           (map_res entry_id (sv_nodes (app_self a))), a))"

text \<open>
  \<open>stopall\<close> calls \<open>_do_stop_service\<close> without its second argument: with any service present it
  raises before stopping anything.
\<close>

definition stopall :: "kwargs \<Rightarrow> (('x, 'w) app, http_response) sx" where
  "stopall kw = (\<lambda>a. if list_ex (\<lambda>i. i \<noteq> 0) (app_live a) then (Inl (builtin_exn ETypeError), a)
     else (Inr (HttpJsonResponse (PDict [])), a))"

definition upload_startup_script :: "kwargs \<Rightarrow> (('x, 'w) app, http_response) sx" where
  "upload_startup_script kw =
     (case check_arguments [Mandatory ''script'' is_uploaded_file, Mandatory ''sid'' is_string] kw of
        Inl e \<Rightarrow> sx_return (HttpErrorResponse e)
      | Inr args \<Rightarrow>
          let (script, service_id) = args2 args in
          sx_bind (sx_get self_config) (\<lambda>cfg.
          sx_bind (sx_lift (cfg_get cfg ''manager'' ''CONPAAS_HOME'')) (\<lambda>basedir.
          let fullpath = path_join (path_join basedir (py_str service_id)) ''startup.sh'' in
          sx_bind (sx_modify (\<lambda>a. a\<lparr>app_world := file_write_contents fullpath (py_str script) (app_world a)\<rparr>)) (\<lambda>_.
            sx_return (json [(''filename'', PStr fullpath)])))))"

text \<open>\<open>str(service_id)\<close> of a value equal to an int key: an int, a bool or an integral float.\<close>

fun key_text :: "pyval \<Rightarrow> string" where
  "key_text (PBool b) = (if b then ''True'' else ''False'')"
| "key_text (PFloat r) = int_str \<lfloor>r\<rfloor> @ ''.0''"
| "key_text v = int_str (key_of v)"

definition get_startup_script :: "kwargs \<Rightarrow> (('x, 'w) app, http_response) sx" where
  "get_startup_script kw = (\<lambda>a.
     case check_arguments [Mandatory ''sid'' (is_instance a)] kw of
       Inl e \<Rightarrow> (Inr (HttpErrorResponse e), a)
     | Inr service_id \<Rightarrow>
         (case cfg_get (self_config a) ''manager'' ''CONPAAS_HOME'' of
            Inl e \<Rightarrow> (Inl e, a)
          | Inr basedir \<Rightarrow>
              (Inr (case file_get_contents (script_path basedir (key_text service_id)) (app_world a) of
                 Inr c \<Rightarrow> HttpJsonResponse (PStr c)
               | Inl _ \<Rightarrow> HttpErrorResponse (exc ''No startup script'' [])), a)))"

definition git_push_hook ::
  "('x, 'w) installation \<Rightarrow> kwargs \<Rightarrow> (('x, 'w) app, http_response) sx" where
  "git_push_hook inst kw = (\<lambda>a.
     case check_arguments [] kw of
       Inl e \<Rightarrow> (Inr (HttpErrorResponse e), a)
     | Inr _ \<Rightarrow>
         sx_bind (sx_lift (net_git_version (in_net inst) default_code_repo (wd_out (app_world a)))) (\<lambda>revision.
         sx_bind (sx_for (filter (\<lambda>i. i \<noteq> 0) (app_live a)) (\<lambda>i.
             on_object i (\<lambda>(s, w). k_on_git_push (class_of inst s) (s, w)))) (\<lambda>_.
           sx_return (HttpJsonResponse (PStr (''code version: git-'' @ revision))))) a)"

text \<open>A handler the base class provides, run on the application manager itself.\<close>

definition own_handler :: "('x, 'w) handler \<Rightarrow> kwargs \<Rightarrow> (('x, 'w) app, http_response) sx" where
  "own_handler h kw = on_object 0 (h kw)"

subsection \<open>Running jobs and requests\<close>

definition run_job :: "('x, 'w) installation \<Rightarrow> job \<Rightarrow> (('x, 'w) app, unit) sx" where
  "run_job inst j = (case j of
       StartJob i cloud \<Rightarrow> do_start_service inst i cloud
     | StopJob i remove \<Rightarrow> do_stop_service inst i remove
     | AddNodesJob i node_roles cloud \<Rightarrow> do_add_nodes inst i node_roles cloud
     | RemoveNodesJob i node_roles \<Rightarrow> do_remove_nodes inst i node_roles
     | CreateVolumeJob name volume_size agent_id i \<Rightarrow> do_create_volume inst name volume_size agent_id i
     | DeleteVolumeJob volume node i \<Rightarrow> do_delete_volume inst volume node i)"

definition app_methods ::
  "('x, 'w) installation \<Rightarrow> (string \<times> string \<times> (kwargs \<Rightarrow> (('x, 'w) app, http_response) sx)) list" where
  "app_methods inst =
     [(''add_nodes'', ''POST'', add_nodes inst),
      (''add_service'', ''POST'', add_service inst),
      (''check_process'', ''GET'', check_process),
      (''create_volume'', ''POST'', create_volume_handler inst),
      (''delete_volume'', ''POST'', delete_volume_handler inst),
      (''get_agent_log'', ''GET'', own_handler (get_agent_log (in_net inst) (in_app_class inst))),
      (''get_app_info'', ''GET'', get_app_info),
      (''get_manager_log'', ''GET'', own_handler get_manager_log),
      (''get_service_history'', ''GET'', own_handler get_service_history),
      (''get_startup_script'', ''GET'', get_startup_script),
      (''git_push_hook'', ''POST'', git_push_hook inst),
      (''list_volumes'', ''POST'', list_volumes inst),
      (''remove_nodes'', ''POST'', remove_nodes_handler inst),
      (''remove_service'', ''POST'', remove_service),
      (''start_service'', ''POST'', start_service inst),
      (''stop_service'', ''POST'', stop_service),
      (''stopall'', ''POST'', stopall),
      (''upload_startup_script'', ''UPLOAD'', upload_startup_script)]"

text \<open>
  A call of a bound method with the parameters of a request. Parameters that are not a JSON object
  are not followed into \<open>check_arguments\<close>: the call of \<open>app_server\<close> answers them with an exception.
\<close>

definition call_method ::
  "('x, 'w) installation \<Rightarrow> ('x, 'w) bound_method \<Rightarrow> kwargs \<Rightarrow> (('x, 'w) app, http_response) sx" where
  "call_method inst m kw = (case m of
       AppMethod name \<Rightarrow>
         (case map_of (app_methods inst) name of
            None \<Rightarrow> sx_raise (builtin_exn EKeyError)
          | Some (_, h) \<Rightarrow> h kw)
     | ServiceMethod i h \<Rightarrow> on_object i (h kw))"

definition app_server :: "('x, 'w) installation \<Rightarrow> (string \<Rightarrow> exn + pyval) \<Rightarrow>
    (('x, 'w) bound_method, ('x, 'w) app) server_env" where
  "app_server inst loads =
     \<lparr>env_table = app_callbacks,
      env_call = (\<lambda>m p a. case p of PDict kw \<Rightarrow> call_method inst m kw a
        | _ \<Rightarrow> (Inl (builtin_exn ETypeError), a)),
      env_loads = loads,
      env_readable = (\<lambda>_. True)\<rparr>"

text \<open>
  \<open>ApplicationManager.__init__\<close> and the registration by the server: when Ganglia cannot be
  configured the constructor returns early, with the state still \<open>INIT\<close>.
\<close>

definition start_manager ::
  "('x, 'w) installation \<Rightarrow> 'x \<Rightarrow> config \<Rightarrow> kwargs \<Rightarrow> bool \<Rightarrow> 'w world \<Rightarrow> exn + ('x, 'w) app" where
  "start_manager inst ext cfg kwargs ganglia_configured w =
     res_bind (new_manager ''application'' ext cfg) (\<lambda>s.
     let a = \<lparr>app_self = (if ganglia_configured then state_set S_RUNNING [] s else s),
              app_objects = [], app_live = [0], app_counter = 0, app_kwargs = kwargs,
              app_callbacks = empty_callbacks, app_jobs = [], app_world = w\<rparr>
     in case register_all 0 (exposed_list (get_exposed_methods
               (map (\<lambda>(name, m, h). (name, Exposed m (AppMethod name))) (app_methods inst)) []))
               (app_callbacks a) of
          (Inl e, _) \<Rightarrow> Inl e
        | (Inr _, cbs) \<Rightarrow> Inr (a\<lparr>app_callbacks := cbs\<rparr>))"

end
