(* ===== verification/AppFacts.thy ===== *)
theory AppFacts
  imports AppManager
begin

text \<open>
  The application manager as a transition system: a step serves one request or runs one pending
  thread, in any order. Invariants of every reachable state, proved operation by operation with
  \<^const>\<open>sx_keeps\<close>.
\<close>

section \<open>What the primitives leave alone\<close>

definition object_ids :: "('x, 'w) app \<Rightarrow> int set" where
  "object_ids a = dom (map_of (app_objects a))"

lemma get_object_None: "get_object i a = None \<longleftrightarrow> i \<noteq> 0 \<and> i \<notin> object_ids a"
  by (auto simp: get_object_def object_ids_def)

lemma object_ids_put: "get_object i a \<noteq> None \<Longrightarrow> object_ids (put_object i s a) = object_ids a"
  by (auto simp: object_ids_def put_object_def get_object_def split: if_splits)

lemma on_object_frame:
  assumes "on_object i m a = (r, a')"
  shows "app_live a' = app_live a" "app_counter a' = app_counter a" "app_kwargs a' = app_kwargs a"
    "app_callbacks a' = app_callbacks a" "app_jobs a' = app_jobs a"
    "j \<noteq> i \<Longrightarrow> get_object j a' = get_object j a" "object_ids a' = object_ids a"
  using assms
  by (auto simp: on_object_def put_object_def get_object_def object_ids_def
      split: option.splits prod.splits if_splits)

definition app_ok :: "('x, 'w) app \<Rightarrow> bool" where
  "app_ok a \<longleftrightarrow> distinct (app_live a) \<and> 0 \<le> app_counter a \<and>
     (\<forall>i \<in> set (app_live a). 0 \<le> i \<and> i \<le> app_counter a \<and> (i = 0 \<or> i \<in> object_ids a)) \<and>
     object_ids a \<subseteq> {1..app_counter a} \<and> valid_table (app_callbacks a) \<and>
     (\<forall>m i. has_service (app_callbacks a) m i \<longrightarrow> i \<le> app_counter a)"

definition gone :: "int \<Rightarrow> ('x, 'w) app \<Rightarrow> bool" where
  "gone i a \<longleftrightarrow> i \<le> app_counter a \<and> i \<notin> set (app_live a)"

text \<open>The two predicates depend on the shape of the application only.\<close>

definition shape where
  "shape a = (app_live a, app_counter a, object_ids a, app_callbacks a)"

definition shape_pred :: "(('x, 'w) app \<Rightarrow> bool) \<Rightarrow> bool" where
  "shape_pred p \<longleftrightarrow> (\<forall>a b. shape a = shape b \<longrightarrow> p a \<longrightarrow> p b)"

lemma shape_predI:
  assumes "\<And>a. p a = q (shape a)"
  shows "shape_pred p"
  unfolding shape_pred_def assms by simp

lemma shape_app_ok [simp]: "shape_pred app_ok"
  by (rule shape_predI [where q = "\<lambda>(live, n, ids, cbs). distinct live \<and> 0 \<le> n \<and>
     (\<forall>i \<in> set live. 0 \<le> i \<and> i \<le> n \<and> (i = 0 \<or> i \<in> ids)) \<and> ids \<subseteq> {1..n} \<and> valid_table cbs \<and>
     (\<forall>m i. has_service cbs m i \<longrightarrow> i \<le> n)"])
     (simp only: app_ok_def shape_def prod.case)

lemma shape_gone [simp]: "shape_pred (gone i)"
  by (rule shape_predI [where q = "\<lambda>(live, n, ids, cbs). i \<le> n \<and> i \<notin> set live"])
     (simp add: gone_def shape_def)

lemma shape_predD: "shape_pred p \<Longrightarrow> shape a = shape b \<Longrightarrow> p a \<Longrightarrow> p b"
  unfolding shape_pred_def by blast

definition shape_keeping :: "(('x, 'w) app, 'a) sx \<Rightarrow> bool" where
  "shape_keeping m \<longleftrightarrow> (\<forall>a. shape (snd (m a)) = shape a)"

lemma shape_keeping_keeps: "shape_keeping m \<Longrightarrow> shape_pred p \<Longrightarrow> sx_keeps p m"
  by (metis shape_keeping_def sx_keeps_def shape_pred_def)

lemma shape_keepingI: "(\<And>a r a'. m a = (r, a') \<Longrightarrow> shape a' = shape a) \<Longrightarrow> shape_keeping m"
  by (metis shape_keeping_def prod.collapse)

lemma shape_run: "shape_keeping m \<Longrightarrow> shape (snd (m a)) = shape a"
  by (simp add: shape_keeping_def)

named_theorems shapes \<open>computations that keep the shape\<close>

lemma shape_bind [shapes]: "shape_keeping m \<Longrightarrow> (\<And>x. shape_keeping (f x)) \<Longrightarrow> shape_keeping (sx_bind m f)"
  by (auto simp: shape_keeping_def sx_bind_def split: prod.splits sum.splits) (metis snd_conv)+

lemma shape_try [shapes]: "shape_keeping m \<Longrightarrow> (\<And>e. shape_keeping (h e)) \<Longrightarrow> shape_keeping (sx_try m h)"
  by (auto simp: shape_keeping_def sx_try_def split: prod.splits sum.splits) (metis snd_conv)+

lemma shape_basic [shapes]:
  "shape_keeping (sx_return x)" "shape_keeping (sx_raise e)" "shape_keeping (sx_lift r)"
  "shape_keeping (sx_get g)" "shape_keeping (missing_argument e)"
  by (simp_all add: shape_keeping_def missing_argument_def)

lemma shape_for [shapes]: "(\<And>x. shape_keeping (f x)) \<Longrightarrow> shape_keeping (sx_for xs f)"
  by (induction xs) (auto intro!: shapes)

lemma shape_on_object [shapes]: "shape_keeping (on_object i m)"
  by (rule shape_keepingI) (simp add: shape_def on_object_frame)

lemma shape_prims [shapes]:
  "shape_keeping (instance_at i)" "shape_keeping (update_object i f)" "shape_keeping (self_set g)"
  "shape_keeping (call_net n)" "shape_keeping (call_director d)" "shape_keeping (spawn j)"
  "shape_keeping (get_service_id_by_vm_id inst vm)"
  by (auto simp: update_object_def intro!: shapes)
     (auto simp: shape_keeping_def shape_def object_ids_def instance_at_def self_set_def call_net_def call_director_def
       spawn_def get_service_id_by_vm_id_def split: prod.splits option.splits)

lemma shape_if [shapes]:
  "shape_keeping m \<Longrightarrow> shape_keeping n \<Longrightarrow> shape_keeping (if b then m else n)"
  by simp

lemma shape_disk [shapes]: "shape_keeping (sx_modify (\<lambda>a. a\<lparr>app_world := f a\<rparr>))"
  by (simp add: shape_keeping_def shape_def object_ids_def)

lemma shape_read: "(\<And>a. shape_keeping (m a)) \<Longrightarrow> shape_keeping (\<lambda>a. m a a)"
  by (simp add: shape_keeping_def)

lemma shape_checks [shapes]:
  "shape_keeping c \<Longrightarrow> (\<And>x. shape_keeping (go x)) \<Longrightarrow> shape_keeping (after_checks c go)"
  by (auto simp: shape_keeping_def after_checks_def split: prod.splits sum.splits) (metis snd_conv)+

section \<open>What the operations leave alone\<close>

lemma shape_let [shapes]: "shape_keeping (f x) \<Longrightarrow> shape_keeping (let y = x in f y)"
  by simp

lemma shape_pair [shapes]: "(\<And>x y. shape_keeping (f x y)) \<Longrightarrow> shape_keeping (case z of (x, y) \<Rightarrow> f x y)"
  by (cases z) simp

lemma shape_request_nodes [shapes]: "shape_keeping (request_nodes inst i infos)"
  unfolding request_nodes_def by (intro shapes)

lemma shape_start [shapes]: "shape_keeping (do_start_service inst i cloud)"
  unfolding do_start_service_def by (intro shapes)

lemma shape_forget [shapes]: "shape_keeping (forget_node e)" "shape_keeping (forget_service_node i e)"
  unfolding forget_service_node_def forget_node_def by (intro shapes)+

lemma shape_release [shapes]: "shape_keeping (release_nodes inst nodes)"
  unfolding release_nodes_def by (intro shapes)

lemma shape_add_nodes [shapes]: "shape_keeping (do_add_nodes inst i roles cloud)"
  unfolding do_add_nodes_def by (intro shapes)

lemma shape_remove_nodes [shapes]: "shape_keeping (do_remove_nodes inst i roles)"
  unfolding do_remove_nodes_def by (intro shapes)

lemma shape_volumes [shapes]:
  "shape_keeping (app_attach_volume inst v vm d c)" "shape_keeping (app_detach_volume inst v c)"
  "shape_keeping (app_destroy_volume inst v c)"
  unfolding app_attach_volume_def app_detach_volume_def app_destroy_volume_def
  by (intro shapes; auto intro!: shapes split: reply.split)+

lemma shape_create_body [shapes]: "shape_keeping (create_volume_body inst n s ag i)"
  unfolding create_volume_body_def by (intro shapes)

lemma shape_create [shapes]: "shape_keeping (do_create_volume inst n s ag i)"
proof (rule shape_keepingI)
  fix a r a' assume run: "do_create_volume inst n s ag i a = (r, a')"
  obtain q b where q: "create_volume_body inst n s ag i a = (q, b)" by fastforce
  then have b: "shape b = shape a" using shape_create_body by (metis shape_keeping_def snd_conv)
  have tail: "shape (snd (sx_bind (self_set f) (\<lambda>_. update_object i g) b)) = shape b"
    "shape (snd (update_object i g b)) = shape b" for f g
    by (rule shape_run; intro shapes)+
  have "shape a' = shape b"
  proof (cases q)
    case (Inl e)
    with run q tail(2) show ?thesis by (simp add: do_create_volume_def) (metis snd_conv)
  next
    case (Inr v)
    with run q tail(1) show ?thesis by (simp add: do_create_volume_def) (metis snd_conv)
  qed
  with b show "shape a' = shape a" by simp
qed

lemma shape_delete [shapes]: "shape_keeping (do_delete_volume inst v n i)"
  unfolding do_delete_volume_def by (intro shapes)

lemma shape_list_loop [shapes]: "shape_keeping (list_volumes_loop inst i vols rep)"
  by (induction inst i vols rep rule: list_volumes_loop.induct) (auto intro!: shapes simp: Let_def simp del: sx_runs)

section \<open>Invariants of the operations\<close>

lemma register_method_valid:
  "register_method m i f cb cbs = Inr cbs' \<Longrightarrow> valid_table cbs \<Longrightarrow> valid_table cbs'"
  by (auto simp: register_method_def Let_def split: option.splits intro: valid_table_update)

lemma register_all_valid:
  "register_all i fs cbs = (r, cbs') \<Longrightarrow> valid_table cbs \<Longrightarrow> valid_table cbs'"
  by (induction i fs cbs rule: register_all.induct) (auto split: sum.splits dest: register_method_valid)

named_theorems keeps \<open>computations that keep a predicate on the shape\<close>

lemma keeps_shape: "shape_pred p \<Longrightarrow> shape_keeping m \<Longrightarrow> sx_keeps p m"
  by (rule shape_keeping_keeps)

lemma keeps_cases [keeps]:
  "sx_keeps p m \<Longrightarrow> sx_keeps p n \<Longrightarrow> sx_keeps p (if b then m else n)"
  by simp

lemma stop_keeps:
  assumes "shape_pred p"
    and "\<And>a live. p a \<Longrightarrow> p (a\<lparr>app_live := remove1 i (app_live a)\<rparr>)"
    and "\<And>a r cbs. p a \<Longrightarrow> deregister_methods i (app_callbacks a) = (r, cbs) \<Longrightarrow> p (a\<lparr>app_callbacks := cbs\<rparr>)"
  shows "sx_keeps p (do_stop_service inst i rem)"
proof -
  have live: "sx_keeps p (sx_modify (\<lambda>a. a\<lparr>app_live := remove1 i (app_live a)\<rparr>))"
    by (simp add: sx_keeps_modify assms(2))
  have dereg: "sx_keeps p (\<lambda>a. let (r, cbs) = deregister_methods i (app_callbacks a)
      in (r, a\<lparr>app_callbacks := cbs\<rparr>))"
    by (rule sx_keepsI) (auto split: prod.splits intro: assms(3))
  show ?thesis
    unfolding do_stop_service_def
    by (intro sx_keeps_bind keeps_cases live dereg keeps_shape [OF assms(1)] shapes)
qed

lemma stop_keeps_ok: "sx_keeps app_ok (do_stop_service inst i rem)"
  by (rule stop_keeps)
     (auto simp: app_ok_def object_ids_def deregister_valid(1) set_remove1_eq dest: in_set_remove1 has_service_deregister)

lemma stop_keeps_gone: "sx_keeps (gone j) (do_stop_service inst i rem)"
  by (rule stop_keeps) (auto simp: gone_def dest: notin_set_remove1)

lemma object_ids_simps [simp]:
  "object_ids (a\<lparr>app_self := s\<rparr>) = object_ids a" "object_ids (a\<lparr>app_live := l\<rparr>) = object_ids a"
  "object_ids (a\<lparr>app_counter := n\<rparr>) = object_ids a" "object_ids (a\<lparr>app_kwargs := kw\<rparr>) = object_ids a"
  "object_ids (a\<lparr>app_callbacks := c\<rparr>) = object_ids a" "object_ids (a\<lparr>app_jobs := js\<rparr>) = object_ids a"
  "object_ids (a\<lparr>app_world := w\<rparr>) = object_ids a"
  "object_ids (a\<lparr>app_objects := AList.update i x (app_objects b)\<rparr>) = insert i (object_ids b)"
  by (auto simp: object_ids_def)

lemma new_service_shape:
  assumes "new_service inst ty k a = (r, a')" "0 \<le> app_counter a"
  shows "app_counter a' = app_counter a + 1"
    "app_live a' = app_live a \<and> object_ids a' = object_ids a \<or>
     app_live a' = app_live a @ [app_counter a + 1] \<and> object_ids a' = insert (app_counter a + 1) (object_ids a)"
    "valid_table (app_callbacks a) \<Longrightarrow> valid_table (app_callbacks a')"
    "has_service (app_callbacks a') m i \<Longrightarrow> has_service (app_callbacks a) m i \<or> i = app_counter a + 1"
  using assms
  by (auto simp: new_service_def sx_bind_run self_set_def self_config_def put_object_def on_world_def
      split: sum.splits prod.splits dest: register_all_valid has_service_register_all)

lemma new_service_keeps: "sx_keeps app_ok (new_service inst ty k)" "sx_keeps (gone j) (new_service inst ty k)"
proof -
  show "sx_keeps app_ok (new_service inst ty k)"
  proof (rule sx_keepsI)
    fix a :: "('a, 'b) app" assume ok: "app_ok a"
    obtain r a' where run: "new_service inst ty k a = (r, a')" by fastforce
    have c: "0 \<le> app_counter a" using ok by (simp add: app_ok_def)
    have live: "\<forall>i \<in> set (app_live a). 0 \<le> i \<and> i \<le> app_counter a + 1 \<and> i \<noteq> app_counter a + 1 \<and>
        (i = 0 \<or> i \<in> object_ids a)"
      using ok by (force simp: app_ok_def)
    have ids: "\<forall>i \<in> object_ids a. 1 \<le> i \<and> i \<le> app_counter a + 1"
      using ok by (fastforce simp: app_ok_def)
    have "valid_table (app_callbacks a')" "distinct (app_live a)"
      using ok new_service_shape(3) [OF run c] by (auto simp: app_ok_def)
    moreover have "\<forall>m i. has_service (app_callbacks a') m i \<longrightarrow> i \<le> app_counter a + 1"
      using ok new_service_shape(4) [OF run c] by (force simp: app_ok_def)
    ultimately show "app_ok (snd (new_service inst ty k a))"
      using live ids c new_service_shape(1,2) [OF run c] by (auto simp: run app_ok_def)
  qed
  show "sx_keeps (gone j) (new_service inst ty k)"
  proof (rule sx_keepsI)
    fix a :: "('a, 'b) app" assume "gone j a"
    then show "gone j (snd (new_service inst ty k a))"
      by (auto simp: gone_def new_service_def sx_bind_run self_set_def put_object_def on_world_def split: sum.splits prod.splits)
  qed
qed

section \<open>Requests and threads\<close>

lemma shape_eq: "m a = (r, a') \<Longrightarrow> shape_keeping m \<Longrightarrow> shape a' = shape a"
  by (metis shape_keeping_def snd_conv)

lemma shape_state_reply [shapes]: "shape_keeping (state_reply i)"
  unfolding state_reply_def by (intro shapes)

lemma shape_credits [shapes]: "shape_keeping (app_check_credits inst)"
  unfolding app_check_credits_def by (intro shapes)

lemma shape_handlers:
  "shape_keeping (start_service inst kw)" "shape_keeping (add_nodes inst kw)"
  "shape_keeping (remove_nodes_handler inst kw)" "shape_keeping (delete_volume_handler inst kw)"
  by (rule shape_keepingI, simp only: start_service_def add_nodes_def remove_nodes_handler_def
      delete_volume_handler_def, erule shape_eq, intro shapes)+

lemma shape_handlers_checked:
  "shape_keeping (stop_service kw)" "shape_keeping (remove_service kw)"
  "shape_keeping (create_volume_handler inst kw)" "shape_keeping (list_volumes inst kw)"
  "shape_keeping (git_push_hook inst kw)"
  by (rule shape_keepingI, simp only: stop_service_def remove_service_def list_volumes_def
      create_volume_handler_def git_push_hook_def Let_def split: sum.splits,
      (auto; fail | erule shape_eq, intro shapes | clarsimp, erule shape_eq, intro shapes)+)+

lemma shape_simple_handlers:
  "shape_keeping (check_process kw)" "shape_keeping (get_app_info kw)" "shape_keeping (stopall kw)"
  "shape_keeping (get_startup_script kw)" "shape_keeping (own_handler h kw)"
  by (auto simp: check_process_def own_handler_def intro!: shapes)
     (auto simp: shape_keeping_def get_app_info_def stopall_def get_startup_script_def split: sum.splits)

lemma shape_upload: "shape_keeping (upload_startup_script kw)"
  unfolding upload_startup_script_def by (auto intro!: shapes simp: Let_def split: sum.split simp del: sx_runs)

lemma add_service_keeps:
  assumes "shape_pred p" "\<And>ty k. sx_keeps p (new_service inst ty k)"
  shows "sx_keeps p (add_service inst kw)"
proof -
  have kw: "shape_keeping (sx_modify (\<lambda>a. a\<lparr>app_kwargs := g a\<rparr>))" for g :: "('a, 'b) app \<Rightarrow> kwargs"
    by (simp add: shape_keeping_def shape_def)
  show ?thesis
  proof (cases "check_arguments add_service_params kw")
    case (Inl e)
    then show ?thesis by (simp add: add_service_def del: sx_runs)
  next
    case (Inr ty)
    have "sx_keeps p (case in_load inst (py_str ty) of
            NoModule \<Rightarrow> sx_bind (self_set (state_set S_ERROR [])) (\<lambda>_.
              sx_raise (exc ''Could not import module containing service class \"%(module)s\"'' [ty]))
          | NoClass \<Rightarrow> sx_bind (self_set (state_set S_ERROR [])) (\<lambda>_.
              sx_raise (exc ''Could not get service class %s from module %s'' [ty]))
          | Loaded k \<Rightarrow> new_service inst (py_str ty) k)"
      by (auto split: load_result.split intro!: assms(2) shape_keeping_keeps [OF _ assms(1)] shapes)
    then show ?thesis
      unfolding add_service_def Inr sum.case
      by (intro sx_keeps_bind shape_keeping_keeps [OF kw assms(1)])
  qed
qed

lemma call_method_keeps:
  assumes "shape_pred p" "\<And>ty k. sx_keeps p (new_service inst ty k)"
  shows "sx_keeps p (call_method inst m kw)"
proof (cases m)
  case (ServiceMethod i h)
  then show ?thesis
    by (simp add: call_method_def shape_keeping_keeps [OF _ assms(1)] shapes)
next
  case (AppMethod name)
  show ?thesis
  proof (cases "map_of (app_methods inst) name")
    case None
    then show ?thesis by (simp add: call_method_def AppMethod)
  next
    case (Some x)
    obtain ty h where x: "x = (ty, h)" by fastforce
    have "(name, ty, h) \<in> set (app_methods inst)"
      using Some x by (simp add: map_of_SomeD)
    then have "h = add_service inst \<or> shape_keeping (h kw)"
      by (auto simp: app_methods_def shape_handlers shape_handlers_checked shape_simple_handlers shape_upload)
    then have "sx_keeps p (h kw)"
      using add_service_keeps [OF assms] shape_keeping_keeps [OF _ assms(1)] by blast
    then show ?thesis by (simp add: call_method_def AppMethod Some x)
  qed
qed

lemma run_job_keeps:
  assumes "shape_pred p" "\<And>i rem. sx_keeps p (do_stop_service inst i rem)"
  shows "sx_keeps p (run_job inst j)"
  by (cases j) (auto simp: run_job_def intro!: assms(2) shape_keeping_keeps [OF _ assms(1)] shapes)

text \<open>
  A step of the whole: the server handles one request, or one of the pending threads, of the
  application manager or of a service, whichever the scheduler picks, runs to its end.
\<close>

inductive app_step :: "('x, 'w) installation \<Rightarrow> ('x, 'w) app \<Rightarrow> ('x, 'w) app \<Rightarrow> bool"
  for inst where
  request: "handle_one_request (app_server inst loads) inc a = (ans, a') \<Longrightarrow> app_step inst a a'"
| thread: "n < length (app_jobs a) \<Longrightarrow>
    run_job inst (app_jobs a ! n)
      (a\<lparr>app_jobs := take n (app_jobs a) @ drop (Suc n) (app_jobs a)\<rparr>) = (r, a') \<Longrightarrow>
    app_step inst a a'"
| service_thread: "get_object i a = Some s \<Longrightarrow> n < k_threads (class_of inst s) s \<Longrightarrow>
    on_object i (k_run_thread (class_of inst s) n) a = (r, a') \<Longrightarrow> app_step inst a a'"

inductive_cases app_stepE: "app_step inst a a'"

inductive app_reachable :: "('x, 'w) installation \<Rightarrow> ('x, 'w) app \<Rightarrow> bool" for inst where
  initial: "start_manager inst ext cfg kwargs ganglia w = Inr a \<Longrightarrow> app_reachable inst a"
| step: "app_reachable inst a \<Longrightarrow> app_step inst a a' \<Longrightarrow> app_reachable inst a'"

lemma app_step_keeps:
  assumes "app_step inst a a'" "p a" "shape_pred p"
    and "\<And>ty k. sx_keeps p (new_service inst ty k)" "\<And>i rem. sx_keeps p (do_stop_service inst i rem)"
  shows "p a'"
  using assms(1)
proof (cases rule: app_step.cases)
  case (request loads inc ans)
  show ?thesis
  proof (cases "a' = a")
    case False
    from handle_one_request_safety [OF request False] obtain m q where
      "a' = snd (env_call (app_server inst loads) m q a)" by blast
    then show ?thesis
      using call_method_keeps [OF assms(3,4), of m] assms(2)
      by (auto simp: app_server_def sx_keeps_def split: pyval.splits)
  qed (use assms(2) in simp)
next
  case (thread n r)
  have "p (a\<lparr>app_jobs := take n (app_jobs a) @ drop (Suc n) (app_jobs a)\<rparr>)"
    by (rule shape_predD [OF assms(3) _ assms(2)]) (simp add: shape_def)
  then show ?thesis
    using run_job_keeps [OF assms(3,5)] thread(2) sx_keepsD by metis
next
  case (service_thread i s n r)
  then show ?thesis
    using sx_keepsD [OF shape_keeping_keeps [OF shape_on_object assms(3)] assms(2)] by blast
qed

lemma app_ok_step: "app_step inst a a' \<Longrightarrow> app_ok a \<Longrightarrow> app_ok a'"
  by (rule app_step_keeps) (simp_all add: new_service_keeps stop_keeps_ok)

lemma gone_step: "app_step inst a a' \<Longrightarrow> gone i a \<Longrightarrow> gone i a'"
  by (rule app_step_keeps) (simp_all add: new_service_keeps stop_keeps_gone)

lemma app_ok_start:
  fixes a :: "('x, 'w) app"
  assumes "start_manager inst ext cfg kwargs ganglia w = Inr a"
  shows "app_ok a"
proof -
  obtain s where s: "new_manager ''application'' ext cfg = Inr s"
    using assms by (auto simp: start_manager_def res_elims)
  obtain r cbs where cbs: "register_all 0 (exposed_list (get_exposed_methods
       (map (\<lambda>(name, m, h). (name, Exposed m (AppMethod name))) (app_methods inst)) [])) (empty_callbacks :: ('x, 'w) bound_method callback_dict) = (r, cbs)"
    by fastforce
  have "valid_table cbs" using register_all_valid [OF cbs] by simp
  moreover have "has_service cbs m i \<Longrightarrow> i \<le> 0" for m i
    using has_service_register_all [OF cbs, of m i] by (auto simp: has_service_def empty_callbacks_def split: if_splits)
  moreover have "app_live a = [0]" "app_counter a = 0" "app_objects a = []" "app_callbacks a = cbs"
    using assms cbs by (cases r, auto simp: start_manager_def s Let_def)+
  ultimately show ?thesis by (simp add: app_ok_def object_ids_def)
qed

lemma reachable_ok: "app_reachable inst a \<Longrightarrow> app_ok a"
  by (induction rule: app_reachable.induct) (auto intro: app_ok_start app_ok_step)

end
