(* ===== verification/HelloWorld.thy ===== *)
theory HelloWorld
  imports Manager
begin

text \<open>
  The smallest service (\<open>services/helloworld/manager/manager.py\<close> and its agent client): a class
  over \<open>BaseManager\<close> with no state of its own.
\<close>

definition hello_call :: "'w network \<Rightarrow> string \<Rightarrow> string \<Rightarrow> ('w, pyval) sx" where
  "hello_call net ip method = agent_call net (client_check EException) ip method []"

text \<open>\<open>on_new_nodes\<close>: every exception of the loop makes it answer \<open>False\<close>.\<close>

definition hello_startup :: "'w network \<Rightarrow> node_entry list \<Rightarrow> (('x, 'w) sobj, unit) sx" where
  "hello_startup net nodes =
     sx_for nodes (\<lambda>e. sx_bind (sx_lift (entry_node e)) (\<lambda>n.
       sx_bind (with_net (hello_call net (sn_ip n) ''startup'')) (\<lambda>_. sx_return ())))"

definition hello_on_new_nodes :: "'w network \<Rightarrow> node_entry list \<Rightarrow> (('x, 'w) sobj, bool) sx" where
  "hello_on_new_nodes net nodes =
     sx_try (sx_bind (hello_startup net nodes) (\<lambda>_. sx_return True)) (\<lambda>_. sx_return False)"

text \<open>\<open>on_stop\<close>: the log line reads every node's id before the nodes are returned.\<close>

definition hello_on_stop :: "(('x, 'w) sobj, node_entry list) sx" where
  "hello_on_stop = with_service (\<lambda>s. res_bind (map_res entry_id (sv_nodes s)) (\<lambda>_. Inr (sv_nodes s)))"

text \<open>
  \<open>on_remove_nodes\<close> pops the last nodes and writes \<open>self.state\<close> directly, without a log entry.
\<close>

fun pop_last :: "nat \<Rightarrow> 'a list \<Rightarrow> 'a list \<Rightarrow> exn + 'a list \<times> 'a list" where
  "pop_last 0 cp_nodes del_nodes = Inr (cp_nodes, del_nodes)"
| "pop_last (Suc n) cp_nodes del_nodes =
     (if cp_nodes = [] then Inl (builtin_exn EIndexError)
      else pop_last n (butlast cp_nodes) (del_nodes @ [last cp_nodes]))"

definition hello_on_remove_nodes :: "kwargs \<Rightarrow> (('x, 'w) sobj, node_entry list) sx" where
  "hello_on_remove_nodes node_roles =
     sx_bind (sx_lift (sum_range node_roles)) (\<lambda>count.
     sx_bind (with_service (\<lambda>s. pop_last count (sv_nodes s) [])) (\<lambda>(cp_nodes, del_nodes).
     sx_bind (modify_service (sv_state_update (\<lambda>_. if cp_nodes = [] then S_STOPPED else S_RUNNING))) (\<lambda>_.
     sx_bind (sx_lift (map_res entry_id del_nodes)) (\<lambda>_.
       sx_return del_nodes))))"

subsection \<open>Handlers\<close>

definition hello_list_nodes :: "('x, 'w) handler" where
  "hello_list_nodes kw = no_args kw (if_in_state [S_RUNNING, S_ADAPTING]
     (with_service (\<lambda>s. res_bind (map_res entry_id (sv_nodes s)) (\<lambda>ids.
        Inr (HttpJsonResponse (PDict [(''helloworld'', PList (map PStr ids))]))))))"

definition hello_get_service_info :: "('x, 'w) handler" where
  "hello_get_service_info kw = no_args kw (with_service (\<lambda>s.
     Inr (HttpJsonResponse (PDict [(''state'', PStr (state_name (sv_state s))), (''type'', PStr ''helloworld'')]))))"

definition hello_node_json :: "service_node \<Rightarrow> pyval" where
  "hello_node_json n = PDict [(''serviceNode'', PDict
     [(''id'', PStr (sn_id n)), (''ip'', PStr (sn_ip n)), (''vmid'', PStr (sn_vmid n)),
      (''cloud'', PStr (sn_cloud_name n)), (''role'', PStr (sn_role n)), (''logs'', logs_json base_role_logs)])]"

text \<open>The loop stops at the first node with the id; the ids were all read before it.\<close>

definition hello_get_node_info :: "('x, 'w) handler" where
  "hello_get_node_info kw =
     sx_bind (with_service (\<lambda>s. map_res entry_id (sv_nodes s))) (\<lambda>node_ids.
       case check_arguments [Mandatory ''serviceNodeId'' (is_in_list (map PStr node_ids))] kw of
         Inl e \<Rightarrow> sx_return (HttpErrorResponse e)
       | Inr nid \<Rightarrow>
           with_service (\<lambda>s. res_bind (find_node (py_str nid) (sv_nodes s)) (\<lambda>n.
             Inr (HttpJsonResponse (hello_node_json n)))))"

text \<open>
  \<open>get_helloworld\<close> asks every agent; the agents answer \<open>{'result': text}\<close>. The loop is outside the
  \<open>try\<close>, so one agent that fails makes the handler raise.
\<close>

fun ask_agents :: "'w network \<Rightarrow> node_entry list \<Rightarrow> string list \<Rightarrow> (('x, 'w) sobj, string list) sx" where
  "ask_agents net [] messages = sx_return messages"
| "ask_agents net (e # es) messages =
     sx_bind (sx_lift (entry_node e)) (\<lambda>n.
     sx_bind (with_net (hello_call net (sn_ip n) ''get_helloworld'')) (\<lambda>data.
     sx_bind (sx_lift (case data of PDict d \<Rightarrow> py_lookup d ''result'' | _ \<Rightarrow> Inl (builtin_exn ETypeError))) (\<lambda>result.
       ask_agents net es (messages @ [''Received '' @ py_str result @ '' from '' @ sn_id n]))))"

fun join_lines :: "string list \<Rightarrow> string" where
  "join_lines [] = []"
| "join_lines [m] = m"
| "join_lines (m # ms) = m @ [char_of (10 :: nat)] @ join_lines ms"

definition get_helloworld :: "'w network \<Rightarrow> ('x, 'w) handler" where
  "get_helloworld net kw = (\<lambda>(s, w).
     case res_bind (check_arguments [] kw) (\<lambda>_. check_state [S_RUNNING] s) of
       Inl e \<Rightarrow> (Inr (HttpErrorResponse e), (s, w))
     | Inr _ \<Rightarrow>
         sx_bind (ask_agents net (sv_nodes s) []) (\<lambda>messages.
           sx_return (HttpJsonResponse (PDict [(''helloworld'', PStr (join_lines messages))]))) (s, w))"

subsection \<open>The class\<close>

text \<open>
  \<open>HelloWorldManager.__init__\<close> runs the base constructor and sets the state once more.
\<close>

definition hello_init :: "'x \<Rightarrow> config \<Rightarrow> kwargs \<Rightarrow> exn + 'x service" where
  "hello_init ext cfg kwargs =
     map_sum id (sv_state_update (\<lambda>_. S_INIT)) (new_manager ''helloworld'' ext cfg)"

definition hello_base :: "'x \<Rightarrow> 'w network \<Rightarrow> ('x, 'w) svc_class" where
  "hello_base ext net = (base_class (hello_init ext))
     \<lparr>k_service_type := ''helloworld'',
      k_context := (\<lambda>s. ([(''STRING'', PStr ''helloworld'')], s)),
      k_on_start := hello_on_new_nodes net,
      k_on_stop := hello_on_stop,
      k_on_add_nodes := hello_on_new_nodes net,
      k_on_remove_nodes := hello_on_remove_nodes\<rparr>"

definition hello_class :: "'x \<Rightarrow> 'w network \<Rightarrow> ('x, 'w) svc_class" where
  "hello_class ext net = (hello_base ext net)
     \<lparr>k_attributes := base_attributes net (hello_base ext net) @
        [(''get_helloworld'', Exposed ''GET'' (get_helloworld net)),
         (''get_node_info'', Exposed ''GET'' hello_get_node_info),
         (''get_service_info'', Exposed ''GET'' hello_get_service_info),
         (''list_nodes'', Exposed ''GET'' hello_list_nodes)]\<rparr>"

end
