(* ===== verification/Scenario.thy ===== *)
theory Scenario
  imports AppFacts HelloWorld
begin

text \<open>
  A concrete installation to run the model on: a director that hands out machines numbered from
  the state \<open>w\<close> of the world and agents that always answer, the service \<open>helloworld\<close>, and an
  application manager freshly started. The witnesses of the properties are runs of it.
\<close>

definition sample_node :: "int \<Rightarrow> sninfo \<Rightarrow> node_dict" where
  "sample_node w info = node_to_dict (new_service_node 0 (int_str w) (''10.0.0.'' @ int_str w)
     (''10.0.0.'' @ int_str w) (if si_cloud info = ''default'' then ''iaas'' else si_cloud info) default_weight (si_role info))"

definition sample_net :: "int network" where
  "sample_net =
     \<lparr>net_create_nodes = (\<lambda>p w. (Inr (JOk (map (\<lambda>(i, info). sample_node i info)
          (zip [w..w + int (length (cp_nodes_info p)) - 1] (cp_nodes_info p)))),
        w + int (length (cp_nodes_info p)))),
      net_remove_nodes = (\<lambda>ns w. (Inr (JOk True), w)),
      net_create_volume = (\<lambda>s n vm c w. (Inr (JOk (''id-'' @ n)), w)),
      net_attach_volume = (\<lambda>vm v d c w. (Inl (builtin_exn ESocketError), w)),
      net_detach_volume = (\<lambda>v c w. (Inr (JOk True), w)),
      net_destroy_volume = (\<lambda>v c w. (Inr (JOk True), w)),
      net_credit = (\<lambda>w. (Inr (JOk 10), w)),
      net_agent = (\<lambda>ip m p w. (Inr (200, PDict [(''error'', PNone), (''result'', PDict [])]), w)),
      net_git_version = (\<lambda>r w. Inr ''abcdefg''),
      net_git_description = (\<lambda>r w. Inr ''initial''),
      net_now = (\<lambda>w. 0)\<rparr>"

definition sample_config :: config where
  "sample_config = [(''manager'',
     [(''log_file'', ''/var/log/cpsmanager.log''), (''app_id'', ''1''), (''my_ip'', ''10.0.0.1''),
      (''conpaas_home'', ''/root''), (''code_repo'', ''/root/code''), (''dev_target'', ''sda''),
      (''director_url'', ''https://director:5555''), (''user_id'', ''1'')])]"

definition sample_inst :: "(unit, int) installation" where
  "sample_inst =
     \<lparr>in_net = sample_net,
      in_load = (\<lambda>ty. if ty = ''helloworld'' then Loaded (hello_class () sample_net) else NoModule),
      in_app_class = base_class (\<lambda>cfg kw. new_manager ''application'' () cfg)\<rparr>"

definition sample_app :: "(unit, int) app" where
  "sample_app = (case start_manager sample_inst () sample_config [] True \<lparr>wd_disk = [], wd_out = 1\<rparr> of
     Inr a \<Rightarrow> a | Inl _ \<Rightarrow> undefined)"


lemma sample_start:
  "start_manager sample_inst () sample_config [] True \<lparr>wd_disk = [], wd_out = 1\<rparr> = Inr sample_app"
proof -
  have "case start_manager sample_inst () sample_config [] True \<lparr>wd_disk = [], wd_out = 1\<rparr> of
      Inr a \<Rightarrow> True | Inl _ \<Rightarrow> False"
    by code_simp
  then show ?thesis by (auto simp: sample_app_def split: sum.splits)
qed

text \<open>Runs: a POST of a method of the application manager, or the next thread at a position.\<close>

datatype action = Post string kwargs | Thread nat

definition post_request :: request where
  "post_request = \<lparr>rq_path = ''/'', rq_command = ''POST'', rq_content_type = Some ''application/json'',
     rq_content_length = Some ''2'', rq_query = [], rq_body = ''{}'', rq_parts = []\<rparr>"

definition post_body :: "string \<Rightarrow> kwargs \<Rightarrow> string \<Rightarrow> exn + pyval" where
  "post_body method kw = (\<lambda>_. Inr (PDict [(''service_id'', PInt 0), (''method'', PStr method),
     (''params'', PDict kw), (''id'', PInt 1)]))"

definition perform :: "('x, 'w) installation \<Rightarrow> action \<Rightarrow> ('x, 'w) app \<Rightarrow> ('x, 'w) app" where
  "perform inst act a = (case act of
       Post method kw \<Rightarrow> snd (handle_one_request (app_server inst (post_body method kw)) (Parsed post_request) a)
     | Thread n \<Rightarrow> if n < length (app_jobs a)
         then snd (run_job inst (app_jobs a ! n) (a\<lparr>app_jobs := take n (app_jobs a) @ drop (Suc n) (app_jobs a)\<rparr>))
         else a)"

lemma perform_step: "perform inst act a = a \<or> app_step inst a (perform inst act a)"
proof (cases act)
  case (Post meth kw)
  obtain ans a' where h: "handle_one_request (app_server inst (post_body meth kw)) (Parsed post_request) a = (ans, a')"
    by fastforce
  from app_step.request [OF this] h show ?thesis by (simp add: perform_def Post)
next
  case (Thread n)
  obtain r a' where h: "run_job inst (app_jobs a ! n) (a\<lparr>app_jobs := take n (app_jobs a) @ drop (Suc n) (app_jobs a)\<rparr>) = (r, a')"
    by fastforce
  from app_step.thread [OF _ this] h show ?thesis by (simp add: perform_def Thread)
qed

lemma perform_reachable: "app_reachable inst a \<Longrightarrow> app_reachable inst (fold (perform inst) acts a)"
proof (induction acts arbitrary: a)
  case (Cons act acts)
  then show ?case using perform_step [of inst act a] by (auto intro: app_reachable.step)
qed simp

lemma sample_reachable: "app_reachable sample_inst (fold (perform sample_inst) acts sample_app)"
  by (intro perform_reachable app_reachable.initial) (rule sample_start)

definition sample_started :: "action list" where
  "sample_started = [Post ''add_service'' [(''service_type'', PStr ''helloworld'')],
     Post ''start_service'' [(''service_id'', PInt 1), (''cloud'', PStr ''default'')], Thread 0]"

end
