(* ===== verification/AppProps.thy ===== *)
theory AppProps
  imports Scenario
begin

text \<open>
  What the application manager guarantees, and where it does not do what its code means to: the
  properties of \<open>AppManager\<close>, each with a run of the sample installation as witness.
\<close>

section \<open>Identifiers and handlers\<close>

text \<open>
  Claim C1. In every state the application manager can reach, by any requests and any order of its
  threads: the live services have distinct identifiers between 0 and the counter, each of them
  (but the manager itself, 0) has its object, no object or handler has an identifier beyond the
  counter, and the table of handlers has exactly the three HTTP methods.
\<close>

theorem app_invariant:
  assumes "app_reachable inst a"
  shows "distinct (app_live a) \<and>
    (\<forall>i \<in> set (app_live a). 0 \<le> i \<and> i \<le> app_counter a \<and> get_object i a \<noteq> None) \<and>
    (\<forall>i. i \<noteq> 0 \<longrightarrow> get_object i a \<noteq> None \<longrightarrow> 1 \<le> i \<and> i \<le> app_counter a) \<and>
    (\<forall>m i f cb. find_callback (app_callbacks a) m i f = Some cb \<longrightarrow>
       i \<le> app_counter a \<and> m \<in> {''GET'', ''POST'', ''UPLOAD''})"
proof -
  have ok: "app_ok a" using assms by (rule reachable_ok)
  have "get_object i a \<noteq> None \<longleftrightarrow> i = 0 \<or> i \<in> object_ids a" for i
    by (simp add: get_object_None)
  moreover have "find_callback (app_callbacks a) m i f = Some cb \<Longrightarrow> m \<in> http_methods" for m i f cb
    using ok find_callback_service [of "app_callbacks a" m i f cb] valid_table_keys [of "app_callbacks a" m]
    by (auto simp: app_ok_def)
  ultimately show ?thesis
    using ok by (auto simp: app_ok_def http_methods_def dest: find_has_service)
qed

theorem app_invariant_witness:
  "app_live (fold (perform sample_inst) sample_started sample_app) = [0, 1] \<and>
   get_object 1 (fold (perform sample_inst) sample_started sample_app) \<noteq> None"
proof -
  let ?a = "fold (perform sample_inst) sample_started sample_app"
  have live: "app_live ?a = [0, 1]" by code_simp
  have "\<forall>i \<in> set (app_live ?a). 0 \<le> i \<and> i \<le> app_counter ?a \<and> get_object i ?a \<noteq> None"
    using app_invariant [OF sample_reachable [of sample_started]] by (elim conjE)
  then have "1 \<in> set (app_live ?a) \<longrightarrow> get_object 1 ?a \<noteq> None" by blast
  then have "get_object 1 ?a \<noteq> None" unfolding live by simp
  with live show ?thesis by (rule conjI)
qed

lemma gone_steps: "(app_step inst)\<^sup>*\<^sup>* a a' \<Longrightarrow> gone i a \<Longrightarrow> gone i a'"
  by (induction rule: rtranclp_induct) (auto intro: gone_step)

text \<open>
  Claim C21. Identifiers are never used again: an identifier that was handed out, which are those from 1 up to
  the counter, and whose service is gone stays without a service in every later state.
\<close>

theorem service_ids_never_reused:
  assumes "(app_step inst)\<^sup>*\<^sup>* a a'" "0 < i" "i \<le> app_counter a" "i \<notin> set (app_live a)"
  shows "i \<notin> set (app_live a')"
  using gone_steps [OF assms(1), of i] assms(3,4) by (simp add: gone_def)

text \<open>A service is added and removed again; the next one does not get its identifier.\<close>

definition add_hello :: action where
  "add_hello = Post ''add_service'' [(''service_type'', PStr ''helloworld'')]"

definition removed_app :: "(unit, int) app" where
  "removed_app = snd (run_job sample_inst (StopJob 1 True) (perform sample_inst add_hello sample_app))"

definition id_sketch :: "(unit, int) app \<Rightarrow> int list \<times> int" where
  "id_sketch a = (app_live a, app_counter a)"

lemma added_ids: "id_sketch (perform sample_inst add_hello sample_app) = ([0, 1], 1)"
  by code_simp

lemma removed_ids: "id_sketch removed_app = ([0], 1)"
  by code_simp

theorem service_ids_never_reused_witness:
  "1 \<in> set (app_live (perform sample_inst add_hello sample_app)) \<and> app_live removed_app = [0] \<and>
   1 \<notin> set (app_live (perform sample_inst add_hello removed_app))"
proof -
  have "(app_step sample_inst)\<^sup>*\<^sup>* removed_app (perform sample_inst add_hello removed_app)"
    using perform_step [of sample_inst add_hello removed_app] by auto
  from service_ids_never_reused [OF this, of 1] added_ids removed_ids show ?thesis by (simp add: id_sketch_def)
qed

lemma exposures_map:
  "exposures (map (map_prod id (\<lambda>x. case x of Exposed m h \<Rightarrow> Exposed m (g h) | Plain \<Rightarrow> Plain)) attrs) =
    map (map_prod id g) (exposures attrs)"
  by (induction attrs rule: exposures.induct) auto

lemma map_of_map_prod: "map_of (map (map_prod id g) xs) k = map_option g (map_of xs k)"
  by (induction xs) auto

lemma exposed_list_kinds:
  assumes "(m, f, cb) \<in> set (exposed_list (get_exposed_methods attrs []))"
  shows "(m, f) \<in> fst ` set (exposures attrs)"
proof -
  have "((m, f), cb) \<in> set (rev (flat_exposed (get_exposed_methods attrs [])))"
    using assms by (force simp: flat_exposed_def)
  then have "map_of (rev (flat_exposed (get_exposed_methods attrs []))) (m, f) \<noteq> None"
    by (metis fst_conv image_eqI map_of_eq_None_iff)
  then have "map_of (rev (exposures attrs)) (m, f) \<noteq> None"
    by (simp only: exposed_registered not_False_eq_True)
  then show ?thesis by (simp add: map_of_eq_None_iff)
qed

end
