(* ===== verification/ServiceProps.thy ===== *)
theory ServiceProps
  imports AppProps
begin

text \<open>
  What the handlers and threads of the application manager do: services added, started and removed,
  and what a director that refuses or keeps silent leaves behind.
\<close>

section \<open>The table of handlers\<close>

text \<open>The abstract table: a partial function of HTTP method, service and name.\<close>

definition abs_table :: "'cb callback_dict \<Rightarrow> string \<times> int \<times> string \<rightharpoonup> 'cb" where
  "abs_table cbs = (\<lambda>(m, i, f). find_callback cbs m i f)"

text \<open>
  Claim C5. The nested dictionaries of handlers refine a partial function: registering is an update at
  one point, removing a service with handlers under all three methods removes its points and no other,
  and any other removal raises and keeps the handlers of the other services.
\<close>

theorem table_refines_map:
  assumes "valid_table cbs"
  shows "(m \<in> http_methods \<longrightarrow> (\<exists>cbs'. register_method m i f cb cbs = Inr cbs' \<and> valid_table cbs' \<and>
      abs_table cbs' = (abs_table cbs)((m, i, f) \<mapsto> cb))) \<and>
    (\<exists>r cbs'. deregister_methods i cbs = (r, cbs') \<and> valid_table cbs' \<and>
      (r = Inr () \<longleftrightarrow> (\<forall>m \<in> http_methods. has_service cbs m i)) \<and>
      (if r = Inr () then abs_table cbs' = (abs_table cbs) |` {(m, j, f). j \<noteq> i}
       else abs_table cbs' |` {(m, j, f). j \<noteq> i} = abs_table cbs |` {(m, j, f). j \<noteq> i}))"
proof (intro conjI)
  show "m \<in> http_methods \<longrightarrow> (\<exists>cbs'. register_method m i f cb cbs = Inr cbs' \<and> valid_table cbs' \<and>
      abs_table cbs' = (abs_table cbs)((m, i, f) \<mapsto> cb))"
  proof
    assume "m \<in> http_methods"
    then obtain cbs' where reg: "register_method m i f cb cbs = Inr cbs'" "valid_table cbs'"
      using cb.register_total [OF assms] by blast
    then show "\<exists>cbs'. register_method m i f cb cbs = Inr cbs' \<and> valid_table cbs' \<and>
        abs_table cbs' = (abs_table cbs)((m, i, f) \<mapsto> cb)"
      using cb.find_register [OF assms reg(1)] by (auto simp: abs_table_def fun_eq_iff)
  qed
next
  obtain r cbs' where run: "deregister_methods i cbs = (r, cbs')" by fastforce
  have "(r = Inr () \<longleftrightarrow> (\<forall>m \<in> http_methods. has_service cbs m i)) \<and> valid_table cbs'"
    using deregister_valid(1,2) [OF assms, of i] run by simp
  moreover have "abs_table cbs' = (abs_table cbs) |` {(m, j, f). j \<noteq> i}" if "r = Inr ()"
    using deregister_valid(3) [OF assms] run that
    by (auto simp: abs_table_def restrict_map_def fun_eq_iff)
  moreover have "abs_table cbs' |` {(m, j, f). j \<noteq> i} = abs_table cbs |` {(m, j, f). j \<noteq> i}" if "r = Inl e" for e
    using deregister_valid(4) [OF assms] run that
    by (auto simp: abs_table_def restrict_map_def fun_eq_iff)
  ultimately show "\<exists>r cbs'. deregister_methods i cbs = (r, cbs') \<and> valid_table cbs' \<and>
      (r = Inr () \<longleftrightarrow> (\<forall>m \<in> http_methods. has_service cbs m i)) \<and>
      (if r = Inr () then abs_table cbs' = (abs_table cbs) |` {(m, j, f). j \<noteq> i}
       else abs_table cbs' |` {(m, j, f). j \<noteq> i} = abs_table cbs |` {(m, j, f). j \<noteq> i})"
    using run by (cases r) auto
qed

theorem table_refines_map_witness:
  "abs_table (empty_callbacks :: nat callback_dict) = Map.empty \<and>
   (\<exists>cbs'. register_method ''GET'' 1 ''f'' (7 :: nat) empty_callbacks = Inr cbs' \<and>
      abs_table cbs' = [(''GET'', 1, ''f'') \<mapsto> 7])"
proof
  show none: "abs_table (empty_callbacks :: nat callback_dict) = Map.empty"
    by (auto simp: abs_table_def empty_callbacks_def find_callback_def fun_eq_iff split: option.split if_split)
  have "''GET'' \<in> http_methods" by (simp add: http_methods_def)
  then show "\<exists>cbs'. register_method ''GET'' 1 ''f'' (7 :: nat) empty_callbacks = Inr cbs' \<and>
      abs_table cbs' = [(''GET'', 1, ''f'') \<mapsto> 7]"
    using table_refines_map [of "empty_callbacks :: nat callback_dict" "''GET''" 1 "''f''" 7] none by auto
qed

section \<open>Adding a service\<close>

lemma app_ok_fresh:
  assumes "app_ok a"
  shows "app_counter a + 1 \<notin> set (app_live a)" "app_counter a + 1 \<noteq> 0"
    "get_object (app_counter a + 1) a = None" "find_callback (app_callbacks a) m (app_counter a + 1) f = None"
proof -
  show "app_counter a + 1 \<notin> set (app_live a)" "app_counter a + 1 \<noteq> 0"
    using assms by (force simp: app_ok_def)+
  moreover have "app_counter a + 1 \<notin> object_ids a" using assms by (force simp: app_ok_def)
  ultimately show "get_object (app_counter a + 1) a = None" by (simp add: get_object_None)
  show "find_callback (app_callbacks a) m (app_counter a + 1) f = None"
    using assms find_has_service [of "app_callbacks a" m "app_counter a + 1" f] by (force simp: app_ok_def)
qed

lemma register_service:
  assumes "valid_table cbs" "(fst \<circ> fst) ` set (exposures attrs) \<subseteq> http_methods"
    and g: "\<And>m h. g (Exposed m h) = Exposed m (w h)" "g Plain = Plain"
  obtains cbs' where "register_all i (exposed_list (get_exposed_methods (map (map_prod id g) attrs) [])) cbs = (Inr (), cbs')"
    "\<And>m j f. find_callback cbs' m j f = (if j = i then (case map_of (rev (exposures attrs)) (m, f) of
        Some h \<Rightarrow> Some (w h) | None \<Rightarrow> find_callback cbs m j f) else find_callback cbs m j f)"
proof -
  let ?fs = "exposed_list (get_exposed_methods (map (map_prod id g) attrs) [])"
  have geq: "g = (\<lambda>x. case x of Exposed m h \<Rightarrow> Exposed m (w h) | Plain \<Rightarrow> Plain)"
    using g by (auto simp: fun_eq_iff split: attribute.split)
  have ex: "exposures (map (map_prod id g) attrs) = map (map_prod id w) (exposures attrs)"
    unfolding geq by (rule exposures_map)
  have kinds: "fst ` set ?fs \<subseteq> http_methods"
  proof
    fix m assume "m \<in> fst ` set ?fs"
    then obtain f cb where "(m, f, cb) \<in> set ?fs" by force
    then have "(m, f) \<in> fst ` set (exposures attrs)" using exposed_list_kinds ex by (force simp: image_image)
    then show "m \<in> http_methods" using assms(2) by force
  qed
  obtain cbs' where many: "register_many register_method i ?fs cbs = Inr cbs'"
    using cb.register_many_total [OF assms(1) kinds] by blast
  have "find_callback cbs' m j f = (if j = i then (case map_of (rev (exposures attrs)) (m, f) of
        Some h \<Rightarrow> Some (w h) | None \<Rightarrow> find_callback cbs m j f) else find_callback cbs m j f)" for m j f
    using cb.find_register_many [OF assms(1) kinds many, of m j f]
    unfolding flat_exposed_def [symmetric] exposed_registered ex rev_map map_of_map_prod
    by (simp split: option.split)
  with register_all_many [OF many] show ?thesis by (rule that)
qed

text \<open>
  The constructor of a class of services builds on that of \<open>BaseManager\<close>: whatever the configuration and the
  arguments, an object it returns is in the state \<open>INIT\<close>.
\<close>

definition constructs_init :: "('x, 'w) svc_class \<Rightarrow> bool" where
  "constructs_init k \<longleftrightarrow> (\<forall>cfg kwargs w s w'. k_init k cfg kwargs w = (Inr s, w') \<longrightarrow> sv_state s = S_INIT)"

lemma hello_constructs_init: "constructs_init (hello_class ext net)"
  by (auto simp: constructs_init_def hello_class_def hello_base_def base_class_def hello_init_def)

text \<open>
  Claim C6. Adding a service of a known type whose constructor succeeds: the answer is the next
  identifier, the counter moves to it, the service is live with the constructed object, which is in the state
  \<open>INIT\<close>, the table gets exactly the methods its class exposes, the world is as the constructor left it, and
  every other object, handler and thread stays as it is. The class is one whose constructor builds on that of
  the base class, as those of all the services here do.
\<close>

theorem add_service_effect:
  assumes "app_reachable inst a" "ty \<in> set manager_services" "in_load inst ty = Loaded k"
    and "add_manager_configuration (int_str (app_counter a + 1)) ty (self_config a) = Inr cfg" "constructs_init k"
    and "k_init k cfg (app_kwargs a) (app_world a) = (Inr s, w)"
    and "(fst \<circ> fst) ` set (exposures (k_attributes k)) \<subseteq> http_methods"
  shows "\<exists>a'. add_service inst [(''service_type'', PStr ty)] a = (Inr (json [(''service_id'', PInt (app_counter a + 1))]), a') \<and>
    app_counter a' = app_counter a + 1 \<and> app_live a' = app_live a @ [app_counter a + 1] \<and>
    get_object (app_counter a + 1) a' = Some (s\<lparr>sv_class := ty\<rparr>) \<and> sv_state s = S_INIT \<and>
    (\<forall>j. j \<noteq> 0 \<longrightarrow> j \<noteq> app_counter a + 1 \<longrightarrow> get_object j a' = get_object j a) \<and>
    sv_state (app_self a') = S_RUNNING \<and> sv_nodes (app_self a') = sv_nodes (app_self a) \<and>
    app_jobs a' = app_jobs a \<and> app_world a' = w \<and>
    (\<forall>m j f. find_callback (app_callbacks a') m j f =
       (if j = app_counter a + 1
        then map_option (ServiceMethod j) (map_of (rev (exposures (k_attributes k))) (m, f))
        else find_callback (app_callbacks a) m j f))"
proof -
  let ?i = "app_counter a + 1"
  have ok: "app_ok a" using assms(1) by (rule reachable_ok)
  note fresh = app_ok_fresh [OF ok]
  have args: "check_arguments add_service_params [(''service_type'', PStr ty)] = Inr (PStr ty)"
    using assms(2) by (simp add: check_arguments_def add_service_params_def is_in_list_def is_constraint_def py_simps unwrap_parsed_def)
  have table: "valid_table (app_callbacks a)" using ok by (simp add: app_ok_def)
  obtain cbs' where cbs': "register_all ?i (exposed_list (get_exposed_methods
      (map (map_prod id (\<lambda>x. case x of Exposed m h \<Rightarrow> Exposed m (ServiceMethod ?i h) | Plain \<Rightarrow> Plain)) (k_attributes k)) []))
      (app_callbacks a) = (Inr (), cbs')"
    "\<And>m j f. find_callback cbs' m j f = (if j = ?i then (case map_of (rev (exposures (k_attributes k))) (m, f) of
        Some h \<Rightarrow> Some (ServiceMethod ?i h) | None \<Rightarrow> find_callback (app_callbacks a) m j f) else find_callback (app_callbacks a) m j f)"
    by (rule register_service [OF table assms(7), of
        "\<lambda>x. case x of Exposed m h \<Rightarrow> Exposed m (ServiceMethod ?i h) | Plain \<Rightarrow> Plain" "ServiceMethod ?i" ?i]) simp_all
  have init: "sv_state s = S_INIT" using assms(5,6) unfolding constructs_init_def by blast
  show ?thesis
    using args_after_success [OF args] fresh(2,3) assms(3,4,6) cbs' init
    by (simp add: add_service_def args new_service_def sx_bind_run self_set_def self_config_def put_object_def on_world_def
        state_set_def get_object_def fresh(4) split: option.split)
qed

theorem add_service_effect_witness:
  "\<exists>a'. add_service sample_inst [(''service_type'', PStr ''helloworld'')] sample_app = (Inr (json [(''service_id'', PInt 1)]), a') \<and>
     app_live a' = [0, 1] \<and> find_callback (app_callbacks a') ''GET'' 1 ''get_helloworld'' \<noteq> None"
proof -
  have a: "app_counter sample_app = 0 \<and> app_live sample_app = [0] \<and> self_config sample_app = sample_config"
    by code_simp
  have reach: "app_reachable sample_inst sample_app" using sample_reachable [of "[]"] by simp
  have load: "in_load sample_inst ''helloworld'' = Loaded (hello_class () sample_net)" by (simp add: sample_inst_def)
  have ty: "''helloworld'' \<in> set manager_services" by (simp add: manager_services_def)
  have "case add_manager_configuration (int_str 1) ''helloworld'' sample_config of Inl _ \<Rightarrow> False | Inr cfg \<Rightarrow>
        (case new_manager ''helloworld'' () cfg of Inl _ \<Rightarrow> False | Inr _ \<Rightarrow> True)"
    by code_simp
  then obtain cfg s where cfg: "add_manager_configuration (int_str 1) ''helloworld'' sample_config = Inr cfg"
    and s: "k_init (hello_class () sample_net) cfg (app_kwargs sample_app) (app_world sample_app) = (Inr s, app_world sample_app)"
    by (auto simp: hello_class_def hello_base_def base_class_def hello_init_def split: sum.splits)
  have kinds: "(fst \<circ> fst) ` set (exposures (k_attributes (hello_class () sample_net))) \<subseteq> http_methods"
  proof -
    have "list_all (\<lambda>m. m = ''GET'' \<or> m = ''POST'' \<or> m = ''UPLOAD'')
        (map (fst \<circ> fst) (exposures (k_attributes (hello_class () sample_net))))" by code_simp
    then show ?thesis by (auto simp: list_all_iff http_methods_def)
  qed
  have "map_of (rev (exposures (k_attributes (hello_class () sample_net)))) (''GET'', ''get_helloworld'') \<noteq> None"
  proof -
    have "(''GET'', ''get_helloworld'') \<in> set (map fst (exposures (k_attributes (hello_class () sample_net))))" by code_simp
    then show ?thesis by (simp add: map_of_eq_None_iff)
  qed
  then show ?thesis
    using add_service_effect [OF reach ty load _ hello_constructs_init s kinds] cfg a by auto
qed

section \<open>Starting a service\<close>

lemma start_args:
  assumes "i \<in> set (app_live a)"
  shows "check_arguments [Mandatory ''service_id'' (is_instance a), Mandatory ''cloud'' is_string]
    [(''service_id'', PInt i), (''cloud'', PStr c)] = Inr (PList [PInt i, PStr c])"
  using assms by (simp add: check_arguments_def is_instance_def is_in_list_def is_string_def type_constraint_def
      is_constraint_def py_simps unwrap_parsed_def)

lemma stop_args:
  assumes "i \<in> set (app_live a)"
  shows "check_arguments [Mandatory ''service_id'' (is_instance a)] [(''service_id'', PInt i)] = Inr (PInt i)"
  using assms by (simp add: check_arguments_def is_instance_def is_in_list_def is_constraint_def py_simps unwrap_parsed_def)

lemma start_service_run:
  assumes "i \<in> set (app_live a)" "get_object i a = Some s"
    and "check_credits (in_net inst) (self_config a) (wd_out (app_world a)) = (credit, w)"
  shows "start_service inst [(''service_id'', PInt i), (''cloud'', PStr c)] a =
    (let a1 = a\<lparr>app_world := (app_world a)\<lparr>wd_out := w\<rparr>\<rparr> in
     case res_bind credit (\<lambda>_. check_state [S_INIT, S_STOPPED] s) of
       Inl e \<Rightarrow> (Inr (HttpErrorResponse e), a1)
     | Inr _ \<Rightarrow> (Inr (json [(''state'', PStr ''PROLOGUE'')]),
         (put_object i (state_set S_PROLOGUE [] s) a1)\<lparr>app_jobs := app_jobs a @ [StartJob i c]\<rparr>))"
  using assms
  by (cases credit) (auto simp: start_service_def after_checks_def start_args sx_bind_run app_check_credits_def call_net_def
      instance_at_def get_object_def key_of_def Let_def py_str_def update_object_def on_object_def put_object_def
      modify_service_def spawn_def state_reply_def with_service_def state_set_def split: sum.splits)

lemma get_put_object: "get_object i a = Some s \<Longrightarrow> get_object i (put_object i s' b) = Some s'"
  by (simp add: get_object_def put_object_def)

text \<open>
  Claim C7. A request to start a live service is accepted exactly when the director reports a positive
  credit and the service is \<open>INIT\<close> or \<open>STOPPED\<close>; then the service is in its prologue, one thread is
  queued and nothing else changes but the world beyond the director. Refused, it changes nothing else at
  all; and once one start is accepted, a second one before its thread has run is refused.
\<close>

theorem start_service_decision:
  assumes "i \<in> set (app_live a)" "get_object i a = Some s"
    and "check_credits (in_net inst) (self_config a) (wd_out (app_world a)) = (credit, w)"
    and "start_service inst [(''service_id'', PInt i), (''cloud'', PStr c)] a = (r, a')"
  shows "(app_jobs a' \<noteq> app_jobs a \<longleftrightarrow> (\<exists>u. credit = Inr u) \<and> sv_state s \<in> {S_INIT, S_STOPPED}) \<and>
    (if app_jobs a' \<noteq> app_jobs a
     then r = Inr (json [(''state'', PStr ''PROLOGUE'')]) \<and>
       a' = (put_object i (state_set S_PROLOGUE [] s) (a\<lparr>app_world := (app_world a)\<lparr>wd_out := w\<rparr>\<rparr>))
              \<lparr>app_jobs := app_jobs a @ [StartJob i c]\<rparr>
     else (\<exists>e. r = Inr (HttpErrorResponse e)) \<and> a' = a\<lparr>app_world := (app_world a)\<lparr>wd_out := w\<rparr>\<rparr>) \<and>
    (app_jobs a' \<noteq> app_jobs a \<longrightarrow>
       (\<exists>e. fst (start_service inst [(''service_id'', PInt i), (''cloud'', PStr c')] a') = Inr (HttpErrorResponse e)) \<and>
       app_jobs (snd (start_service inst [(''service_id'', PInt i), (''cloud'', PStr c')] a')) = app_jobs a')"
proof -
  let ?a1 = "a\<lparr>app_world := (app_world a)\<lparr>wd_out := w\<rparr>\<rparr>"
  let ?a2 = "(put_object i (state_set S_PROLOGUE [] s) ?a1)\<lparr>app_jobs := app_jobs a @ [StartJob i c]\<rparr>"
  note run = start_service_run [OF assms(1-3), of c]
  have again: "i \<in> set (app_live ?a2)" "get_object i ?a2 = Some (state_set S_PROLOGUE [] s)"
    using assms(1,2) by (auto simp: put_object_def get_object_def)
  obtain credit2 w2 where "check_credits (in_net inst) (self_config ?a2) (wd_out (app_world ?a2)) = (credit2, w2)"
    by fastforce
  note run2 = start_service_run [OF again this, of c']
  have refused: "\<exists>e. res_bind credit2 (\<lambda>_. check_state [S_INIT, S_STOPPED] (state_set S_PROLOGUE [] s)) = Inl e"
    by (cases credit2) (simp_all add: check_state_def state_set_def)
  show ?thesis
  proof (cases "res_bind credit (\<lambda>_. check_state [S_INIT, S_STOPPED] s)")
    case (Inl e)
    then show ?thesis
      using run assms(4) by (cases credit) (auto simp: check_state_def)
  next
    case (Inr u)
    then have "a' = ?a2" "r = Inr (json [(''state'', PStr ''PROLOGUE'')])" "credit = Inr ()" "sv_state s \<in> {S_INIT, S_STOPPED}"
      using run assms(4) by (cases credit; simp add: check_state_def)+
    then show ?thesis using refused run2 by (auto simp: Let_def)
  qed
qed

theorem start_service_decision_witness:
  "let a = fold (perform sample_inst) [Post ''add_service'' [(''service_type'', PStr ''helloworld'')]] sample_app;
       a' = snd (start_service sample_inst [(''service_id'', PInt 1), (''cloud'', PStr ''default'')] a)
   in app_jobs a' \<noteq> app_jobs a \<and>
     app_jobs (snd (start_service sample_inst [(''service_id'', PInt 1), (''cloud'', PStr ''default'')] a')) = app_jobs a'"
proof -
  let ?a = "fold (perform sample_inst) [Post ''add_service'' [(''service_type'', PStr ''helloworld'')]] sample_app"
  have live: "1 \<in> set (app_live ?a)" and init: "map_option sv_state (get_object 1 ?a) = Some S_INIT" by code_simp+
  have credit: "fst (check_credits (in_net sample_inst) (self_config ?a) (wd_out (app_world ?a))) = Inr ()" by code_simp
  obtain s where s: "get_object 1 ?a = Some s" "sv_state s = S_INIT" using init by auto
  obtain w where w: "check_credits (in_net sample_inst) (self_config ?a) (wd_out (app_world ?a)) = (Inr (), w)"
    using credit by (metis prod.collapse)
  obtain r a' where run: "start_service sample_inst [(''service_id'', PInt 1), (''cloud'', PStr ''default'')] ?a = (r, a')"
    by fastforce
  show ?thesis
    using start_service_decision [OF live s(1) w run, of "''default''"] s(2) unfolding Let_def run snd_conv by simp
qed

section \<open>A director that fails\<close>

text \<open>The request for nodes: what it leaves of the application, and when it cannot return nodes.\<close>

definition context_safe :: "('x, 'w) svc_class \<Rightarrow> bool" where
  "context_safe k \<longleftrightarrow> (\<forall>t. sv_state (snd (k_context k t)) = sv_state t \<and>
     sv_nodes (snd (k_context k t)) = sv_nodes t \<and> sv_class (snd (k_context k t)) = sv_class t)"

lemma request_nodes_frame:
  assumes "request_nodes inst i infos a = (r, a')" "get_object i a = Some s" "context_safe (class_of inst s)"
  shows "app_live a' = app_live a \<and> app_jobs a' = app_jobs a \<and>
    (\<exists>t. get_object i a' = Some t \<and> sv_state t = sv_state s \<and> sv_nodes t = sv_nodes s \<and> sv_class t = sv_class s) \<and>
    (i \<noteq> 0 \<longrightarrow> app_self a' = app_self a)"
proof -
  obtain c s1 where c: "k_context (class_of inst s) s = (c, s1)" by fastforce
  have "sv_state s1 = sv_state s" "sv_nodes s1 = sv_nodes s" "sv_class s1 = sv_class s"
    using assms(3) [unfolded context_safe_def, rule_format, of s] c by simp_all
  then show ?thesis
    using assms(1,2) c
    by (auto simp: request_nodes_def sx_bind_run call_net_def on_object_def self_config_def get_object_def put_object_def
       split: sum.splits prod.splits if_splits)
qed

lemma silent_create:
  assumes "\<forall>p w. \<exists>e w'. net_create_nodes net p w = (Inl e, w')" "create_nodes net cfg infos j ty c sc w = (r, w')"
  shows "(\<exists>e. r = Inl e) \<or> r = Inr CreatedNone"
proof -
  have failed: "dic_callback cfg (net_create_nodes net p) w = (x, y) \<Longrightarrow> x = ReplyFalse" for p x y
    using assms(1) [rule_format, of p w] by (auto simp: dic_callback_def split: sum.splits)
  then show ?thesis
    using assms(2) by (auto simp: create_nodes_def sx_bind_run Let_def split: sum.splits prod.splits dest!: failed)
qed

lemma silent_request:
  assumes "\<forall>p w. \<exists>e w'. net_create_nodes (in_net inst) p w = (Inl e, w')"
    and "request_nodes inst i infos a = (r, a')"
  shows "\<exists>e. res_bind r created_entries = Inl e"
  using assms(2) silent_create [OF assms(1)]
  by (fastforce simp: request_nodes_def sx_bind_run call_net_def created_entries_def split: sum.splits prod.splits)

lemma stop_service_run:
  assumes "i \<in> set (app_live a)" "get_object i a = Some s"
  shows "stop_service [(''service_id'', PInt i)] a = (Inr (json [(''state'', PStr ''EPILOGUE'')]),
    (put_object i (state_set S_EPILOGUE [] s) a)\<lparr>app_jobs := app_jobs a @ [StopJob i False]\<rparr>)"
  using assms
  by (simp add: stop_service_def stop_args sx_bind_run instance_at_def get_object_def key_of_def Let_def update_object_def
      on_object_def put_object_def modify_service_def spawn_def state_reply_def with_service_def state_set_def)

text \<open>
  Claim C8. A director that cannot be reached leaves a started service in its prologue: the thread of the start
  raises, the service keeps the state \<open>PROLOGUE\<close>, which nobody is told, and nothing is queued that would end it.
  A start of the service is refused in this state. A stop is not: it is accepted whatever the state, puts the
  service into its epilogue and queues the thread that stops it.
\<close>

theorem silent_director_sticks:
  assumes "i \<in> set (app_live a)" "get_object i a = Some s" "sv_state s = S_PROLOGUE"
    and "context_safe (class_of inst s)"
    and silent: "\<forall>p w. \<exists>e w'. net_create_nodes (in_net inst) p w = (Inl e, w')"
    and run: "do_start_service inst i cloud a = (r, a')"
  shows "(\<exists>e. r = Inl e) \<and> map_option sv_state (get_object i a') = Some S_PROLOGUE \<and> app_jobs a' = app_jobs a \<and>
    (\<exists>e. fst (start_service inst [(''service_id'', PInt i), (''cloud'', PStr c')] a') = Inr (HttpErrorResponse e)) \<and>
    (\<exists>a''. stop_service [(''service_id'', PInt i)] a' = (Inr (json [(''state'', PStr ''EPILOGUE'')]), a'') \<and>
       map_option sv_state (get_object i a'') = Some S_EPILOGUE \<and> app_jobs a'' = app_jobs a @ [StopJob i False])"
proof -
  have "(\<exists>e. r = Inl e) \<and> app_live a' = app_live a \<and> app_jobs a' = app_jobs a \<and>
      (\<exists>t. get_object i a' = Some t \<and> sv_state t = S_PROLOGUE)"
  proof (cases "get_sninfo (class_of inst s) (k_starting_nodes (class_of inst s)) cloud s")
    case (Inl e)
    then show ?thesis using run assms(1-3) by (auto simp: do_start_service_def sx_bind_run instance_at_def Let_def)
  next
    case (Inr infos)
    obtain q b where req: "request_nodes inst i infos a = (q, b)" by fastforce
    obtain e where e: "res_bind q created_entries = Inl e" using silent_request [OF silent req] by blast
    have "(r, a') = (Inl e, b)"
      using run assms(1,2) Inr req e
      by (cases q) (simp_all add: do_start_service_def sx_bind_run instance_at_def Let_def)
    then show ?thesis using request_nodes_frame [OF req assms(2,4)] assms(3) by auto
  qed
  then obtain t where t: "\<exists>e. r = Inl e" "i \<in> set (app_live a')" "app_jobs a' = app_jobs a"
      "get_object i a' = Some t" "sv_state t = S_PROLOGUE"
    using assms(1) by auto
  obtain credit w where "check_credits (in_net inst) (self_config a') (wd_out (app_world a')) = (credit, w)" by fastforce
  note start_service_run [OF t(2,4) this, of c']
  moreover have "\<exists>e. res_bind credit (\<lambda>_. check_state [S_INIT, S_STOPPED] t) = Inl e"
    using t(5) by (cases credit) (simp_all add: check_state_def)
  moreover have "get_object i ((put_object i (state_set S_EPILOGUE [] t) a')\<lparr>app_jobs := js\<rparr>) = Some (state_set S_EPILOGUE [] t)" for js
    using t(4) by (simp add: get_object_def put_object_def)
  ultimately show ?thesis using t stop_service_run [OF t(2,4)] by (auto simp: Let_def state_set_def)
qed

lemma hello_context_safe: "context_safe (hello_class ext net)"
  by (simp add: context_safe_def hello_class_def hello_base_def base_class_def)

definition silent_inst :: "(unit, int) installation" where
  "silent_inst = sample_inst\<lparr>in_net := sample_net\<lparr>net_create_nodes := \<lambda>p w. (Inl (builtin_exn ESocketError), w)\<rparr>\<rparr>"

definition refusing_inst :: "(unit, int) installation" where
  "refusing_inst = sample_inst\<lparr>in_net := sample_net\<lparr>net_create_nodes := \<lambda>p w. (Inr (JError ''no machines''), w)\<rparr>\<rparr>"

text \<open>The service of the sample, started and waiting for its thread.\<close>

definition starting_app :: "(unit, int) app" where
  "starting_app = fold (perform sample_inst) (butlast sample_started) sample_app"

text \<open>What the witnesses need of a state, computed at once.\<close>

definition sketch :: "(unit, int) app \<Rightarrow> int list \<times> (mstate \<times> string) option \<times> node_entry list \<times> (string \<times> volume) list \<times> config \<times> int" where
  "sketch a = (app_live a, map_option (\<lambda>s. (sv_state s, sv_class s)) (get_object 1 a), sv_nodes (app_self a),
     sv_volumes (app_self a), self_config a, wd_out (app_world a))"

lemma starting_sketch: "sketch starting_app = ([0, 1], Some (S_PROLOGUE, ''helloworld''), [], [], sample_config, 1)"
  by code_simp

lemma starting_state:
  "1 \<in> set (app_live starting_app) \<and> map_option sv_state (get_object 1 starting_app) = Some S_PROLOGUE \<and>
   map_option sv_class (get_object 1 starting_app) = Some ''helloworld'' \<and> self_config starting_app = sample_config \<and>
   sv_nodes (app_self starting_app) = []"
  using starting_sketch by (auto simp: sketch_def)

lemma sample_hello:
  assumes "in_load inst = in_load sample_inst" "sv_class s = ''helloworld''"
  shows "class_of inst s = hello_class () sample_net"
  using assms by (simp add: class_of_def sample_inst_def)

theorem silent_director_sticks_witness:
  "map_option sv_state (get_object 1 (snd (do_start_service silent_inst 1 ''default'' starting_app))) = Some S_PROLOGUE"
proof -
  obtain s where s: "get_object 1 starting_app = Some s" "sv_state s = S_PROLOGUE" "sv_class s = ''helloworld''"
    and live: "1 \<in> set (app_live starting_app)" using starting_state by auto
  have safe: "context_safe (class_of silent_inst s)"
    using sample_hello [of silent_inst, OF _ s(3)] by (simp add: silent_inst_def hello_context_safe)
  have "\<forall>p w. \<exists>e w'. net_create_nodes (in_net silent_inst) p w = (Inl e, w')" by (simp add: silent_inst_def)
  from silent_director_sticks [OF live s(1,2) safe this prod.collapse [symmetric], of "''default''" "''default''"]
  show ?thesis by (elim conjE)
qed

lemma key_entries:
  assumes "VKey k \<in> set es"
  shows "map_res entry_id es = Inl (builtin_exn EAttributeError)"
  using assms
proof (induction es)
  case (Cons e es)
  then show ?case by (cases e) auto
qed simp

text \<open>
  Claim C9. A director that answers a request for nodes with an error poisons the manager: the key
  \<open>error\<close> of its answer is filed among the application's nodes, and from then on asking for the
  application or for a volume raises \<open>AttributeError\<close>, whatever the arguments.
\<close>

theorem refused_nodes_poison:
  assumes "i \<in> set (app_live a)" "get_object i a = Some s" "i \<noteq> 0" "context_safe (class_of inst s)"
    and refused: "\<forall>p w. \<exists>e w'. net_create_nodes (in_net inst) p w = (Inr (JError e), w')"
    and config: "\<forall>key \<in> {''DIRECTOR_URL'', ''APP_ID'', ''MY_IP'', ''CONPAAS_HOME''}. \<exists>v. cfg_get (self_config a) ''manager'' key = Inr v"
    and infos: "get_sninfo (class_of inst s) (k_starting_nodes (class_of inst s)) cloud s = Inr infos"
    and run: "do_start_service inst i cloud a = (r, a')"
  shows "sv_nodes (app_self a') = sv_nodes (app_self a) @ [VKey ''error''] \<and>
    get_app_info [] a' = (Inl (builtin_exn EAttributeError), a') \<and>
    create_volume_handler inst kw a' = (Inl (builtin_exn EAttributeError), a')"
proof -
  let ?k = "class_of inst s"
  obtain c s1 where c: "k_context ?k s = (c, s1)" by fastforce
  let ?b = "put_object i s1 a"
  obtain url app_id ip home where keys: "cfg_get (self_config a) ''manager'' ''DIRECTOR_URL'' = Inr url"
      "cfg_get (self_config a) ''manager'' ''APP_ID'' = Inr app_id" "cfg_get (self_config a) ''manager'' ''MY_IP'' = Inr ip"
      "cfg_get (self_config a) ''manager'' ''CONPAAS_HOME'' = Inr home"
    using config by auto
  have made: "\<exists>e w'. create_nodes (in_net inst) (self_config a) infos i ty c sc w = (Inr (CreatedError e), w')" for ty sc w
  proof -
    let ?p = "\<lparr>cp_nodes_info = map default_cloud infos, cp_app_id = app_id, cp_service_id = i, cp_manager_ip = ip,
      cp_service_type = ty, cp_context = c, cp_startup_script = sc home\<rparr>"
    obtain e w' where "net_create_nodes (in_net inst) ?p w = (Inr (JError e), w')" using refused by blast
    then show ?thesis by (simp add: create_nodes_def sx_bind_run keys dic_callback_def)
  qed
  let ?sc = "\<lambda>basedir. map_of (wd_disk (app_world a)) (script_path basedir (int_str i))"
  obtain e w where made_here: "create_nodes (in_net inst) (self_config a) infos i (k_service_type ?k) c ?sc (wd_out (app_world a)) = (Inr (CreatedError e), w)"
    using made by blast
  have req: "request_nodes inst i infos a = (Inr (CreatedError e), ?b\<lparr>app_world := (app_world a)\<lparr>wd_out := w\<rparr>\<rparr>)"
    using assms(2,3) keys c made_here
    by (simp add: request_nodes_def sx_bind_run call_net_def on_object_def self_config_def put_object_def get_object_def)
  have nodes: "sv_nodes (app_self a') = sv_nodes (app_self a) @ [VKey ''error'']"
    using run assms(1-3) infos req
    by (auto simp: do_start_service_def sx_bind_run instance_at_def Let_def created_entries_def self_set_def extend_nodes_def
       update_object_def on_object_def modify_service_def put_object_def get_object_def split: sum.splits prod.splits)
  then have "map_res entry_id (sv_nodes (app_self a')) = Inl (builtin_exn EAttributeError)"
    by (intro key_entries [of "''error''"]) simp
  with nodes show ?thesis
    by (simp add: get_app_info_def create_volume_handler_def check_arguments_def unwrap_parsed_def)
qed

theorem refused_nodes_poison_witness:
  "let a' = snd (do_start_service refusing_inst 1 ''default'' starting_app) in
   sv_nodes (app_self a') = [VKey ''error''] \<and> get_app_info [] a' = (Inl (builtin_exn EAttributeError), a')"
proof -
  obtain s where s: "get_object 1 starting_app = Some s" "sv_class s = ''helloworld''"
    and live: "1 \<in> set (app_live starting_app)" and cfg: "self_config starting_app = sample_config"
    using starting_state by auto
  have k: "class_of refusing_inst s = hello_class () sample_net"
    using sample_hello [of refusing_inst, OF _ s(2)] by (simp add: refusing_inst_def)
  have refused: "\<forall>p w. \<exists>e w'. net_create_nodes (in_net refusing_inst) p w = (Inr (JError e), w')" by (simp add: refusing_inst_def)
  have config: "\<forall>key \<in> {''DIRECTOR_URL'', ''APP_ID'', ''MY_IP'', ''CONPAAS_HOME''}. \<exists>v. cfg_get (self_config starting_app) ''manager'' key = Inr v"
  proof -
    have "list_all (\<lambda>key. case cfg_get sample_config ''manager'' key of Inl _ \<Rightarrow> False | Inr _ \<Rightarrow> True)
        [''DIRECTOR_URL'', ''APP_ID'', ''MY_IP'', ''CONPAAS_HOME'']" by code_simp
    then show ?thesis unfolding cfg by (auto split: sum.splits)
  qed
  have infos: "get_sninfo (class_of refusing_inst s) (k_starting_nodes (class_of refusing_inst s)) ''default'' s =
      Inr [get_standard_sninfo ''node'' ''default'']"
    unfolding k by (simp add: hello_class_def hello_base_def base_class_def role_regular_def)
  have "sv_nodes (app_self starting_app) = []" using starting_state by (elim conjE)
  moreover have "context_safe (class_of refusing_inst s)" unfolding k by (rule hello_context_safe)
  ultimately show ?thesis
    using refused_nodes_poison [OF live s(1) _ _ refused config infos prod.collapse [symmetric]]
    unfolding Let_def by simp
qed

section \<open>Removing a service\<close>

lemma deregister_outcome:
  "fst (deregister_loop ms i cbs) = Inr () \<or> fst (deregister_loop ms i cbs) = Inl (builtin_exn EKeyError)"
  by (induction ms i cbs rule: deregister_loop.induct) (auto split: option.splits)

text \<open>
  Claim C10. Removing a service that never started: it leaves the live services whatever happens, but
  the manager goes back to \<open>RUNNING\<close> only if the service has handlers under each of the three HTTP
  methods; otherwise the thread raises \<open>KeyError\<close> and the manager keeps the state it had, \<open>ADAPTING\<close>
  after a request.
\<close>

theorem removal_outcome:
  assumes "app_reachable inst a" "i \<in> set (app_live a)" "i \<noteq> 0" "get_object i a = Some s" "sv_state s = S_INIT"
    and "cfg_get (sv_config s) ''manager'' ''CODE_REPO'' = Inr repo"
    and "do_stop_service inst i True a = (r, a')"
  shows "i \<notin> set (app_live a') \<and> (\<forall>j. j \<noteq> i \<longrightarrow> (j \<in> set (app_live a') \<longleftrightarrow> j \<in> set (app_live a))) \<and>
    (if \<forall>m \<in> http_methods. has_service (app_callbacks a) m i
     then r = Inr () \<and> sv_state (app_self a') = S_RUNNING \<and> (\<forall>m f. find_callback (app_callbacks a') m i f = None)
     else r = Inl (builtin_exn EKeyError) \<and> sv_state (app_self a') = sv_state (app_self a)) \<and>
    (\<forall>m j f. j \<noteq> i \<longrightarrow> find_callback (app_callbacks a') m j f = find_callback (app_callbacks a) m j f)"
proof -
  have ok: "app_ok a" using assms(1) by (rule reachable_ok)
  then have table: "valid_table (app_callbacks a)" "distinct (app_live a)" by (simp_all add: app_ok_def)
  obtain q cbs' where dereg: "deregister_methods i (app_callbacks a) = (q, cbs')" by fastforce
  have q: "q = Inr () \<longleftrightarrow> (\<forall>m \<in> http_methods. has_service (app_callbacks a) m i)"
    using deregister_valid(2) [OF table(1), of i] dereg by simp
  have key: "q = Inr () \<or> q = Inl (builtin_exn EKeyError)"
    using deregister_outcome [of "dict_keys (app_callbacks a)" i "app_callbacks a"] dereg by (simp add: deregister_methods_def)
  have callbacks: "find_callback cbs' m j f = find_callback (app_callbacks a) m j f" if "j \<noteq> i" for m j f
    using deregister_valid(3,4) [OF table(1), of i] dereg that by (cases q) auto
  have none: "q = Inr () \<Longrightarrow> find_callback cbs' m i f = None" for m f
    using deregister_valid(3) [OF table(1), of i cbs' m i f] dereg by simp
  have run: "r = q \<and> app_live a' = remove1 i (app_live a) \<and> app_callbacks a' = cbs' \<and>
      sv_state (app_self a') = (if q = Inr () then S_RUNNING else sv_state (app_self a))"
    using assms(2-7) dereg
    by (cases q) (auto simp: do_stop_service_def sx_bind_run instance_at_def update_object_def on_object_def modify_service_def
        put_object_def get_object_def self_set_def state_set_def)
  show ?thesis
    using run q key callbacks none table(2) by (cases q) (auto simp: set_remove1_eq)
qed

text \<open>The sample with one service added and not started: \<open>helloworld\<close> exposes only GET methods.\<close>

definition added_app :: "(unit, int) app" where
  "added_app = fold (perform sample_inst) (take 1 sample_started) sample_app"

lemma added_state:
  "1 \<in> set (app_live added_app) \<and> map_option sv_state (get_object 1 added_app) = Some S_INIT \<and>
   (case get_object 1 added_app of None \<Rightarrow> False | Some s \<Rightarrow>
     (case cfg_get (sv_config s) ''manager'' ''CODE_REPO'' of Inl _ \<Rightarrow> False | Inr _ \<Rightarrow> True)) \<and>
   \<not> has_service (app_callbacks added_app) ''POST'' 1"
  by code_simp

theorem removal_outcome_witness:
  "1 \<notin> set (app_live (snd (do_stop_service sample_inst 1 True added_app))) \<and>
   fst (do_stop_service sample_inst 1 True added_app) = Inl (builtin_exn EKeyError)"
proof -
  obtain s repo where s: "get_object 1 added_app = Some s" "sv_state s = S_INIT"
      "cfg_get (sv_config s) ''manager'' ''CODE_REPO'' = Inr repo"
    using added_state by (auto split: option.splits sum.splits)
  have reach: "app_reachable sample_inst added_app" unfolding added_app_def by (rule sample_reachable)
  have live: "1 \<in> set (app_live added_app)" using added_state by (elim conjE)
  have "\<not> has_service (app_callbacks added_app) ''POST'' 1" using added_state by (elim conjE)
  then have "\<not> (\<forall>m \<in> http_methods. has_service (app_callbacks added_app) m 1)"
    by (auto simp: http_methods_def)
  with removal_outcome [OF reach live _ s(1,2,3) prod.collapse [symmetric]] show ?thesis by simp
qed

section \<open>Volumes\<close>

lemma next_dev_name_run:
  assumes "code < 256"
  shows "case next_dev_name prefix code in_use of
      Inr name \<Rightarrow> (\<exists>n. code \<le> n \<and> n < 256 \<and> name = prefix @ [char_of n] \<and> name \<notin> set in_use \<and>
        (\<forall>j. code \<le> j \<and> j < n \<longrightarrow> prefix @ [char_of j] \<in> set in_use))
    | Inl e \<Rightarrow> (\<forall>j. code \<le> j \<and> j < 256 \<longrightarrow> prefix @ [char_of j] \<in> set in_use) \<and> e = builtin_exn EValueError"
  using assms
proof (induction prefix code in_use rule: next_dev_name.induct)
  case (1 prefix code in_use)
  show ?case
  proof (cases "prefix @ [char_of code] \<in> set in_use")
    case used: True
    show ?thesis
    proof (cases "code + 1 > 255")
      case True
      then have "code = 255" using 1(2) by simp
      then show ?thesis using used by (subst next_dev_name.simps) (auto simp: le_less_Suc_eq numeral_eq_Suc)
    next
      case False
      then have step: "next_dev_name prefix code in_use = next_dev_name prefix (code + 1) in_use"
        using used by (subst next_dev_name.simps) simp
      have here: "prefix @ [char_of j] \<in> set in_use" if "code \<le> j" "code + 1 \<le> j \<Longrightarrow> prefix @ [char_of j] \<in> set in_use" for j
        using that used by (cases "j = code") auto
      show ?thesis
      proof (cases "next_dev_name prefix (code + 1) in_use")
        case (Inl e)
        with "1.IH" [OF used False] False show ?thesis unfolding step by (auto intro: here)
      next
        case (Inr name)
        then obtain n where n: "code + 1 \<le> n" "n < 256" "name = prefix @ [char_of n]" "name \<notin> set in_use"
            "\<forall>j. code + 1 \<le> j \<and> j < n \<longrightarrow> prefix @ [char_of j] \<in> set in_use"
          using "1.IH" [OF used False] False by auto
        then have "\<forall>j. code \<le> j \<and> j < n \<longrightarrow> prefix @ [char_of j] \<in> set in_use" by (auto intro: here)
        with n show ?thesis unfolding step Inr by (auto intro!: exI [of _ n])
      qed
    qed
  qed (use 1 in \<open>subst next_dev_name.simps, auto\<close>)
qed

text \<open>
  Claim C12. The device name of a new volume: the configured one with its last character raised by the
  least number of steps that leads to a name not in use; the search raises exactly when every name up to
  the last of the 256 characters is taken.
\<close>

theorem free_device_name:
  assumes "dev_name = prefix @ [c]"
  shows "case free_dev_name dev_name in_use of
      Inr name \<Rightarrow> \<exists>n. of_char c \<le> n \<and> n < (256 :: nat) \<and> name = prefix @ [char_of n] \<and> name \<notin> set in_use \<and>
        (\<forall>j. of_char c \<le> j \<and> j < n \<longrightarrow> prefix @ [char_of j] \<in> set in_use)
    | Inl e \<Rightarrow> (\<forall>j. of_char c \<le> j \<and> j < (256 :: nat) \<longrightarrow> prefix @ [char_of j] \<in> set in_use)"
proof -
  have run: "free_dev_name dev_name in_use = next_dev_name prefix (of_char c) in_use"
    using assms by (simp add: free_dev_name_def)
  show ?thesis
    using next_dev_name_run [of "of_char c" prefix in_use] unfolding run by (auto split: sum.splits)
qed

theorem free_device_name_witness:
  "\<exists>n. free_dev_name ''sda'' [''sda'', ''sdb''] = Inr (''sd'' @ [char_of n]) \<and> n < (256 :: nat)"
proof -
  have "''sda'' = ''sd'' @ [CHR ''a'']" by simp
  from free_device_name [OF this, of "[''sda'', ''sdb'']"]
  show ?thesis by (cases "free_dev_name ''sda'' [''sda'', ''sdb'']") (auto dest!: spec [of _ 99] simp: char_of_def)
qed

text \<open>
  The attachment of a new volume is never checked: whatever the director answers to it, the
  volume is filed under its name with the device it should have had, and the service is \<open>RUNNING\<close>.
\<close>

theorem attachment_unchecked:
  assumes "i \<noteq> 0" "get_object i a = Some s" "find_node agent_id (sv_nodes (app_self a)) = Inr node"
    and "create_volume (in_net inst) (self_config a) volume_size (''vol-'' @ name) (sn_vmid node) (sn_cloud_name node)
      (wd_out (app_world a)) = (Reply volume_id, w)"
    and "cfg_get (self_config a) ''manager'' ''DEV_TARGET'' = Inr target"
    and "free_dev_name target (map vol_dev_name (filter (\<lambda>v. vol_vm_id v = agent_id) (dict_values (sv_volumes (app_self a))))) = Inr dev"
    and hook: "\<forall>vol t. k_on_create_volume (class_of inst s) node vol t = (Inr (), t)"
    and "do_create_volume inst name volume_size agent_id i a = (r, a')"
  shows "r = Inr () \<and> map_of (sv_volumes (app_self a')) name = Some \<lparr>vol_name = name, vol_id = volume_id, vol_size = volume_size,
      vol_vm_id = agent_id, vol_dev_name = dev, vol_cloud = sn_cloud_name node, vol_service = None\<rparr> \<and>
    map_option sv_state (get_object i a') = Some S_RUNNING"
proof -
  let ?a1 = "a\<lparr>app_world := (app_world a)\<lparr>wd_out := w\<rparr>\<rparr>"
  obtain ret w2 where attach: "attach_volume (in_net inst) (self_config a) (sn_vmid node) volume_id dev (sn_cloud_name node) w = (ret, w2)"
    by fastforce
  have "create_volume_body inst name volume_size agent_id i a =
    (Inr \<lparr>vol_name = name, vol_id = volume_id, vol_size = volume_size, vol_vm_id = agent_id, vol_dev_name = dev,
       vol_cloud = sn_cloud_name node, vol_service = None\<rparr>, put_object i s (a\<lparr>app_world := (app_world a)\<lparr>wd_out := w2\<rparr>\<rparr>))"
    using assms(1-6) attach hook
    by (simp add: create_volume_body_def sx_bind_run call_director_def call_net_def self_config_def sx_try_def
        app_attach_volume_def on_object_def put_object_def get_object_def Let_def)
  then show ?thesis
    using assms(1,2,8)
    by (auto simp: do_create_volume_def sx_bind_run self_set_def update_object_def on_object_def modify_service_def
        put_object_def get_object_def state_set_def)
qed

definition running_app :: "(unit, int) app" where
  "running_app = fold (perform sample_inst) sample_started sample_app"

definition first_node :: service_node where
  "first_node = new_service_node 0 ''1'' ''10.0.0.1'' ''10.0.0.1'' ''iaas'' default_weight ''node''"

lemma running_sketch:
  "sketch running_app = ([0, 1], Some (S_RUNNING, ''helloworld''), [VNode first_node], [], sample_config, 2)"
  by code_simp

theorem attachment_unchecked_witness:
  "map_option vol_dev_name (map_of (sv_volumes (app_self (snd
     (do_create_volume sample_inst ''data'' 10 ''iaas1'' 1 running_app)))) ''data'') = Some ''sda''"
proof -
  obtain s where s: "get_object 1 running_app = Some s" "sv_class s = ''helloworld''"
    using running_sketch by (auto simp: sketch_def)
  have a: "sv_nodes (app_self running_app) = [VNode first_node]" "sv_volumes (app_self running_app) = []"
      "self_config running_app = sample_config" "wd_out (app_world running_app) = 2"
    using running_sketch by (simp_all add: sketch_def)
  have node: "find_node ''iaas1'' (sv_nodes (app_self running_app)) = Inr first_node" unfolding a by code_simp
  have vol: "create_volume (in_net sample_inst) (self_config running_app) 10 (''vol-'' @ ''data'') (sn_vmid first_node)
      (sn_cloud_name first_node) (wd_out (app_world running_app)) = (Reply ''id-vol-data'', 2)" unfolding a by code_simp
  have target: "cfg_get (self_config running_app) ''manager'' ''DEV_TARGET'' = Inr ''sda''" unfolding a by code_simp
  have dev: "free_dev_name ''sda'' (map vol_dev_name (filter (\<lambda>v. vol_vm_id v = ''iaas1'')
      (dict_values (sv_volumes (app_self running_app))))) = Inr ''sda''" unfolding a by code_simp
  have hook: "\<forall>vol t. k_on_create_volume (class_of sample_inst s) first_node vol t = (Inr (), t)"
    using sample_hello [OF refl s(2)] by (simp add: hello_class_def hello_base_def base_class_def)
  from attachment_unchecked [OF _ s(1) node vol target dev hook prod.collapse [symmetric]] show ?thesis by simp
qed

end
