(* ===== verification/PyText.thy ===== *)
theory PyText
  imports PyMisc
begin

text \<open>
  Text functions of the standard library that the director uses: \<open>split\<close> on a separator,
  \<open>Template.safe_substitute\<close>, and \<open>%\<close> formatting with a dictionary.
\<close>

subsection \<open>Split\<close>

fun split_on :: "char \<Rightarrow> string \<Rightarrow> string list" where
  "split_on c [] = [[]]"
| "split_on c (x # xs) =
     (if x = c then [] # split_on c xs
      else (case split_on c xs of [] \<Rightarrow> [[x]] | w # ws \<Rightarrow> (x # w) # ws))"

lemma split_on_nonempty: "split_on c s \<noteq> []"
  by (induction s) (auto split: list.split)

lemma split_on_single: "c \<notin> set s \<Longrightarrow> split_on c s = [s]"
  by (induction s) auto

fun join_with :: "string \<Rightarrow> string list \<Rightarrow> string" where
  "join_with sep [] = []"
| "join_with sep [w] = w"
| "join_with sep (w # ws) = w @ sep @ join_with sep ws"

lemma join_with_Cons: "ws \<noteq> [] \<Longrightarrow> join_with sep (w # ws) = w @ sep @ join_with sep ws"
  by (cases ws) auto

lemma join_split: "join_with [c] (split_on c s) = s"
proof (induction s)
  case (Cons x s)
  obtain w ws where w: "split_on c s = w # ws" using split_on_nonempty by (cases "split_on c s") auto
  show ?case
  proof (cases "x = c")
    case True
    then show ?thesis using Cons w by (simp add: join_with_Cons)
  next
    case False
    then show ?thesis using Cons w by (cases ws) auto
  qed
qed simp

subsection \<open>Templates\<close>

text \<open>
  \<open>string.Template\<close>: \<open>$$\<close> is an escaped dollar, \<open>$name\<close> and \<open>${name}\<close> are replaced when the
  name is a key and stay as they are otherwise, every other dollar stays.
\<close>

definition ident_start :: "char \<Rightarrow> bool" where
  "ident_start c = (let n = (of_char c :: nat) in 65 \<le> n \<and> n \<le> 90 \<or> 97 \<le> n \<and> n \<le> 122 \<or> n = 95)"

definition ident_char :: "char \<Rightarrow> bool" where
  "ident_char c = (ident_start c \<or> (let n = (of_char c :: nat) in 48 \<le> n \<and> n \<le> 57))"

lemma length_dropWhile_less [termination_simp]: "length (dropWhile p xs) < Suc (length xs)"
  by (simp add: le_imp_less_Suc length_dropWhile_le)

definition template_value :: "(string \<times> string) list \<Rightarrow> string \<Rightarrow> string \<Rightarrow> string" where
  "template_value m name original = (case map_of m name of Some v \<Rightarrow> v | None \<Rightarrow> original)"

text \<open>The placeholder after a dollar: its name, its text without the dollar, and what follows.\<close>

definition placeholder :: "string \<Rightarrow> (string \<times> string \<times> string) option" where
  "placeholder cs = (case cs of
       [] \<Rightarrow> None
     | d # ds \<Rightarrow>
         if ident_start d then Some (takeWhile ident_char cs, takeWhile ident_char cs, dropWhile ident_char cs)
         else if d = CHR ''{'' then
           (let name = takeWhile ident_char ds in
            case dropWhile ident_char ds of
              [] \<Rightarrow> None
            | e # rest \<Rightarrow> if e = CHR ''}'' \<and> name \<noteq> [] \<and> ident_start (hd name)
                          then Some (name, d # name @ [e], rest) else None)
         else None)"

lemma placeholder_shorter: "placeholder cs = Some (name, t, rest) \<Longrightarrow> length rest < length cs"
proof (cases cs)
  case (Cons d ds)
  assume p: "placeholder cs = Some (name, t, rest)"
  have le: "length (dropWhile ident_char ds) \<le> length ds" by (rule length_dropWhile_le)
  from p Cons show ?thesis
  proof (cases "ident_start d")
    case True
    then have "rest = dropWhile ident_char ds" using p Cons by (auto simp: placeholder_def ident_char_def)
    then show ?thesis using le Cons by simp
  next
    case False
    then obtain e where "dropWhile ident_char ds = e # rest"
      using p Cons by (auto simp: placeholder_def Let_def split: list.splits if_splits)
    then show ?thesis using le Cons by simp
  qed
qed (simp add: placeholder_def)

function safe_substitute :: "(string \<times> string) list \<Rightarrow> string \<Rightarrow> string" where
  "safe_substitute m [] = []"
| "safe_substitute m (c # cs) =
     (if c \<noteq> CHR ''$'' then c # safe_substitute m cs
      else if cs \<noteq> [] \<and> hd cs = CHR ''$'' then c # safe_substitute m (tl cs)
      else (case placeholder cs of
              None \<Rightarrow> c # safe_substitute m cs
            | Some (name, original, rest) \<Rightarrow>
                template_value m name (c # original) @ safe_substitute m rest))"
  by pat_completeness auto
termination
  by (relation "measure (\<lambda>(m, s). length s)")
     (auto dest: placeholder_shorter simp: less_SucI)

lemma safe_substitute_plain: "CHR ''$'' \<notin> set s \<Longrightarrow> safe_substitute m s = s"
  by (induction s) auto

subsection \<open>Formatting with a dictionary\<close>

text \<open>
  \<open>text % d\<close> with the conversions \<open>%(key)s\<close> and \<open>%%\<close>; every other use of \<open>%\<close> is outside the
  model and taken as the \<open>ValueError\<close> of an unsupported format.
\<close>

lemma dropWhile_two_shorter: "dropWhile p es = f # s # rest \<Longrightarrow> length rest < Suc (length es)"
  by (metis length_Cons length_dropWhile_le lessI less_SucI less_le_trans)

function format_dict :: "(string \<Rightarrow> string option) \<Rightarrow> string \<Rightarrow> exn + string" where
  "format_dict d [] = Inr []"
| "format_dict d (c # cs) =
     (if c \<noteq> CHR ''%'' then map_sum id ((#) c) (format_dict d cs)
      else (case cs of
          [] \<Rightarrow> Inl (builtin_exn EValueError)
        | e # es \<Rightarrow>
            if e = CHR ''%'' then map_sum id ((#) c) (format_dict d es)
            else if e = CHR ''('' then
              (case dropWhile (\<lambda>x. x \<noteq> CHR '')'') es of
                 f # s # rest \<Rightarrow>
                   if s \<noteq> CHR ''s'' then Inl (builtin_exn EValueError)
                   else (case d (takeWhile (\<lambda>x. x \<noteq> CHR '')'') es) of
                       None \<Rightarrow> Inl (builtin_exn EKeyError)
                     | Some v \<Rightarrow> map_sum id ((@) v) (format_dict d rest))
               | _ \<Rightarrow> Inl (builtin_exn EValueError))
            else Inl (builtin_exn EValueError)))"
  by pat_completeness auto
termination
  by (relation "measure (\<lambda>(d, s). length s)") (auto dest: dropWhile_two_shorter)

lemma format_dict_plain: "CHR ''%'' \<notin> set s \<Longrightarrow> format_dict d s = Inr s"
  by (induction s) auto

subsection \<open>Booleans of a configuration\<close>

text \<open>\<open>ConfigParser.getboolean\<close> on the text of an option.\<close>

definition config_boolean :: "string \<Rightarrow> exn + bool" where
  "config_boolean v = (let w = map lower_char v in
     if w \<in> set [''1'', ''yes'', ''true'', ''on''] then Inr True
     else if w \<in> set [''0'', ''no'', ''false'', ''off''] then Inr False
     else Inl (builtin_exn EValueError))"

end
