(* ===== verification/Clouds.thy ===== *)
theory Clouds
  imports Config Node PyText
begin

text \<open>
  The director's clouds (\<open>cpsdirector/iaas/iaas.py\<close> and \<open>cpsdirector/iaas/clouds/\<close>): cloud objects
  of the four kinds over a driver of the vendored library \<open>libcloud\<close>, which is the parameter
  \<open>'w driver\<close>. A method runs on the cloud object and the outside world \<open>'w\<close> together.
\<close>

subsection \<open>The driver\<close>

record lc_node =
  lc_id :: string
  lc_public_ips :: "string list"
  lc_private_ips :: "string list"
  lc_availability :: string

text \<open>\<open>lv_state\<close> is \<open>extra['state']\<close>, \<open>lv_server\<close> and \<open>lv_device\<close> the attachment, if any.\<close>

record lc_volume =
  lv_id :: string
  lv_state :: string
  lv_server :: "string option"
  lv_device :: string

record labelled =
  nm_id :: string
  nm_name :: string

record create_args =
  ca_size :: string
  ca_image :: string
  ca_name :: string
  ca_group :: string
  ca_key :: string
  ca_userdata :: "string option"
  ca_network :: "string option"

text \<open>Every operation of a driver is addressed by the name of the cloud.\<close>

record 'w driver =
  dr_connect :: "string \<Rightarrow> ('w, unit) sx"
  dr_create_node :: "string \<Rightarrow> create_args \<Rightarrow> ('w, lc_node) sx"
  dr_destroy_node :: "string \<Rightarrow> string \<Rightarrow> ('w, bool) sx"
  dr_list_nodes :: "string \<Rightarrow> ('w, lc_node list) sx"
  dr_list_sizes :: "string \<Rightarrow> ('w, labelled list) sx"
  dr_list_images :: "string \<Rightarrow> ('w, labelled list) sx"
  dr_list_networks :: "string \<Rightarrow> ('w, labelled list) sx"
  dr_list_locations :: "string \<Rightarrow> ('w, string list) sx"
  dr_list_volumes :: "string \<Rightarrow> ('w, lc_volume list) sx"
  dr_create_volume :: "string \<Rightarrow> int \<Rightarrow> string \<Rightarrow> string option \<Rightarrow> ('w, string) sx"
  dr_attach_volume :: "string \<Rightarrow> string \<Rightarrow> string \<Rightarrow> string option \<Rightarrow> ('w, bool) sx"
  dr_detach_volume :: "string \<Rightarrow> string \<Rightarrow> ('w, bool) sx"
  dr_destroy_volume :: "string \<Rightarrow> string \<Rightarrow> ('w, bool) sx"
  dr_floating_pools :: "string \<Rightarrow> ('w, string list) sx"
  dr_floating_ips :: "string \<Rightarrow> ('w, (string \<times> string option) list) sx"
  dr_create_floating :: "string \<Rightarrow> string \<Rightarrow> ('w, string) sx"
  dr_attach_floating :: "string \<Rightarrow> string \<Rightarrow> string \<Rightarrow> ('w, unit) sx"
  dr_now :: "'w \<Rightarrow> int"
  dr_patience :: nat

subsection \<open>Cloud objects\<close>

datatype cloud_kind = OpenNebula | EC2 | OpenStack | Dummy

fun kind_name :: "cloud_kind \<Rightarrow> string" where
  "kind_name OpenNebula = ''opennebula''"
| "kind_name EC2 = ''ec2''"
| "kind_name OpenStack = ''openstack''"
| "kind_name Dummy = ''dummy''"

record os_attributes =
  oa_img :: labelled
  oa_size :: labelled
  oa_network :: "labelled option"
  oa_floating_pool :: string
  oa_auto_floating :: bool

record cloud =
  cl_name :: string
  cl_kind :: cloud_kind
  cl_cfg :: config
  cl_connected :: bool
  cl_context :: "string option"
  cl_os :: "os_attributes option"

type_synonym ('w, 'a) cx = "(cloud \<times> 'w, 'a) sx"

definition cloud_params :: "cloud_kind \<Rightarrow> string list" where
  "cloud_params k = (case k of
       OpenNebula \<Rightarrow> [''URL'', ''USER'', ''PASSWORD'', ''IMAGE_ID'', ''INST_TYPE'', ''NET_ID'', ''NET_GATEWAY'',
         ''NET_NETMASK'', ''NET_NAMESERVER'', ''OS_ARCH'', ''OS_ROOT'', ''DISK_TARGET'', ''CONTEXT_TARGET'']
     | EC2 \<Rightarrow> [''USER'', ''PASSWORD'', ''IMAGE_ID'', ''SIZE_ID'', ''SECURITY_GROUP_NAME'', ''KEY_NAME'', ''REGION'']
     | OpenStack \<Rightarrow> [''USER'', ''PASSWORD'', ''HOST'', ''IMAGE_ID'', ''SIZE_ID'', ''KEY_NAME'', ''SECURITY_GROUP_NAME'']
     | Dummy \<Rightarrow> [])"

fun check_cloud_params :: "config \<Rightarrow> string \<Rightarrow> cloud_kind \<Rightarrow> string list \<Rightarrow> exn + unit" where
  "check_cloud_params cfg name k [] = Inr ()"
| "check_cloud_params cfg name k (field # fs) =
     (if \<not> has_option cfg name field
      then Inl (exc ''Missing %s config param %s for %s'' [PStr (kind_name k), PStr field, PStr name])
      else if cfg_get cfg name field = Inr []
      then Inl (exc ''Empty %s config param %s for %s'' [PStr (kind_name k), PStr field, PStr name])
      else check_cloud_params cfg name k fs)"

definition new_cloud :: "string \<Rightarrow> cloud_kind \<Rightarrow> config \<Rightarrow> exn + cloud" where
  "new_cloud name k cfg =
     res_bind (check_cloud_params cfg name k (cloud_params k)) (\<lambda>_.
       Inr \<lparr>cl_name = name, cl_kind = k, cl_cfg = cfg, cl_connected = False, cl_context = None, cl_os = None\<rparr>)"

text \<open>\<open>federation\<close> is recognised and then falls through to the exception.\<close>

definition get_cloud_instance :: "string \<Rightarrow> string \<Rightarrow> config \<Rightarrow> exn + cloud" where
  "get_cloud_instance name cloud_type cfg =
     (if cloud_type = ''opennebula'' then new_cloud name OpenNebula cfg
      else if cloud_type = ''ec2'' then new_cloud name EC2 cfg
      else if cloud_type = ''openstack'' then new_cloud name OpenStack cfg
      else if cloud_type = ''dummy'' then new_cloud name Dummy cfg
      else Inl (exc ''Cannot get_cloud_instance(%s, %s): No module found for cloud_type %s''
                 [PStr name, PStr cloud_type, PStr cloud_type]))"

definition get_clouds :: "config \<Rightarrow> exn + cloud list" where
  "get_clouds cfg =
     res_bind (cfg_get cfg ''iaas'' ''OTHER_CLOUDS'') (\<lambda>others.
       map_res (\<lambda>name. res_bind (cfg_get cfg name ''DRIVER'') (\<lambda>ty.
                  get_cloud_instance name (map lower_char ty) cfg))
         (filter (has_section cfg) (split_on (CHR '','') others)))"

definition set_context :: "string \<Rightarrow> cloud \<Rightarrow> cloud" where
  "set_context ctx c = c\<lparr>cl_context := Some ctx\<rparr>"

text \<open>\<open>_mapping_vars\<close> is always empty: nothing calls \<open>add_context_replacement\<close>.\<close>

definition get_context :: "cloud \<Rightarrow> string option" where
  "get_context c = map_option (safe_substitute []) (cl_context c)"

definition with_driver :: "('w, 'a) sx \<Rightarrow> ('w, 'a) cx" where
  "with_driver m = (\<lambda>(c, w). let (r, w') = m w in (r, (c, w')))"

definition option_of :: "string \<Rightarrow> ('w, string) cx" where
  "option_of field = (\<lambda>(c, w). (cfg_get (cl_cfg c) (cl_name c) field, (c, w)))"

definition cloud_name :: "('w, string) cx" where
  "cloud_name = sx_get (\<lambda>(c, w). cl_name c)"

subsection \<open>Connecting\<close>

definition ec2_regions :: "string list" where
  "ec2_regions = [''ec2.us-east-1.amazonaws.com'', ''ec2.us-west-1.amazonaws.com'', ''ec2.us-west-2.amazonaws.com'',
     ''ec2.eu-west-1.amazonaws.com'', ''ec2.sa-east-1.amazonaws.com'', ''ec2.ap-northeast-1.amazonaws.com'',
     ''ec2.ap-southeast-1.amazonaws.com'', ''ec2.ap-southeast-2.amazonaws.com'']"

definition get_by_id_or_name :: "string \<Rightarrow> string \<Rightarrow> labelled list \<Rightarrow> exn + labelled" where
  "get_by_id_or_name label x rlist =
     (case filter (\<lambda>r. nm_id r = x) rlist of
        r # _ \<Rightarrow> Inr r
      | [] \<Rightarrow> (case filter (\<lambda>r. nm_name r = x) rlist of
            r # _ \<Rightarrow> Inr r
          | [] \<Rightarrow> Inl (Raise EValueError ''%s is not a valid value for %s'' [PStr x, PStr label])))"

definition set_instance_attributes :: "'w driver \<Rightarrow> ('w, unit) cx" where
  "set_instance_attributes drv =
     sx_bind cloud_name (\<lambda>name.
     sx_bind (option_of ''IMAGE_ID'') (\<lambda>image_id.
     sx_bind (with_driver (dr_list_images drv name)) (\<lambda>images.
     sx_bind (sx_lift (get_by_id_or_name ''IMAGE_ID'' image_id images)) (\<lambda>img.
     sx_bind (option_of ''SIZE_ID'') (\<lambda>size_id.
     sx_bind (with_driver (dr_list_sizes drv name)) (\<lambda>sizes.
     sx_bind (sx_lift (get_by_id_or_name ''SIZE_ID'' size_id sizes)) (\<lambda>size.
     sx_bind (sx_get (\<lambda>(c, w). has_option (cl_cfg c) name ''NETWORK_ID'')) (\<lambda>has_network.
     sx_bind (if has_network
              then sx_bind (option_of ''NETWORK_ID'') (\<lambda>network_id.
                   sx_bind (with_driver (dr_list_networks drv name)) (\<lambda>networks.
                     sx_lift (map_sum id Some (get_by_id_or_name ''NETWORK_ID'' network_id networks))))
              else sx_return None) (\<lambda>network.
     sx_bind (with_driver (dr_floating_pools drv name)) (\<lambda>pools.
     sx_bind (sx_lift (py_first pools)) (\<lambda>pool.
     sx_bind (option_of ''KEY_NAME'') (\<lambda>_.
     sx_bind (option_of ''SECURITY_GROUP_NAME'') (\<lambda>_.
     sx_bind (sx_get (\<lambda>(c, w). has_option (cl_cfg c) name ''AUTO_ASSIGN_FLOATING_IP'')) (\<lambda>has_auto.
     sx_bind (if has_auto then sx_bind (option_of ''AUTO_ASSIGN_FLOATING_IP'') (\<lambda>v. sx_lift (config_boolean v))
              else sx_return True) (\<lambda>auto.
       sx_modify (apfst (\<lambda>c. c\<lparr>cl_os := Some \<lparr>oa_img = img, oa_size = size, oa_network = network,
                    oa_floating_pool = pool, oa_auto_floating = auto\<rparr>\<rparr>)))))))))))))))))"

definition cloud_connect :: "'w driver \<Rightarrow> ('w, unit) cx" where
  "cloud_connect drv =
     sx_bind (sx_get fst) (\<lambda>c.
     sx_bind (if cl_kind c = EC2
              then sx_bind (option_of ''REGION'') (\<lambda>region.
                     sx_lift (guard (region \<in> set ec2_regions) (exc ''Unknown EC2 region: %s'' [PStr region])))
              else sx_return ()) (\<lambda>_.
     sx_bind (with_driver (dr_connect drv (cl_name c))) (\<lambda>_.
     sx_bind (if cl_kind c = OpenStack then set_instance_attributes drv else sx_return ()) (\<lambda>_.
       sx_modify (apfst (cl_connected_update (\<lambda>_. True)))))))"

definition ensure_connected :: "'w driver \<Rightarrow> ('w, unit) cx" where
  "ensure_connected drv =
     sx_bind (sx_get (\<lambda>(c, w). cl_connected c)) (\<lambda>connected.
       if connected then sx_return () else cloud_connect drv)"

subsection \<open>Service nodes from instances\<close>

text \<open>The dictionary of a requested node, as the managers send it and \<open>new_instances\<close> completes it.\<close>

record node_info =
  ni_cloud :: string
  ni_role :: "string option"
  ni_inst_type :: "string option"
  ni_volumes :: "volume_dict list option"
  ni_name :: string
  ni_id :: "string option"

definition first_or_empty :: "string list \<Rightarrow> string" where
  "first_or_empty xs = (case xs of [] \<Rightarrow> [] | x # _ \<Rightarrow> x)"

definition create_one_service_node ::
  "int \<Rightarrow> string \<Rightarrow> lc_node \<Rightarrow> volume_dict list \<Rightarrow> bool \<Rightarrow> string \<Rightarrow> exn + service_node" where
  "create_one_service_node now name inst volumes has_private_ip role =
     (let ip = first_or_empty (lc_public_ips inst);
          private_ip = (if has_private_ip then first_or_empty (lc_private_ips inst) else ip)
      in res_bind (map_res volume_from_dict volumes) (\<lambda>svols.
           Inr ((new_service_node now (lc_id inst) ip private_ip name default_weight role)\<lparr>sn_volumes := svols\<rparr>)))"

text \<open>
  \<open>_create_service_nodes\<close> on a list. The variable \<open>volumes\<close> is set before the loop and only written
  when a node's request has volumes, so a request without the key inherits those of the node before.
\<close>

fun create_service_nodes ::
  "int \<Rightarrow> string \<Rightarrow> node_info list \<Rightarrow> volume_dict list \<Rightarrow> lc_node list \<Rightarrow> exn + service_node list" where
  "create_service_nodes now name infos volumes [] = Inr []"
| "create_service_nodes now name infos volumes (inst # insts) =
     res_bind (if infos = [] then Inr (volumes, ''manager'')
               else map_sum id (\<lambda>info. (case ni_volumes info of Some v \<Rightarrow> v | None \<Rightarrow> volumes,
                                        case ni_role info of Some r \<Rightarrow> r | None \<Rightarrow> ''node''))
                      (py_first (filter (\<lambda>n. ni_id n = Some (lc_id inst)) infos))) (\<lambda>(volumes, role).
     res_bind (create_one_service_node now name inst volumes True role) (\<lambda>sn.
     res_bind (create_service_nodes now name infos volumes insts) (\<lambda>sns. Inr (sn # sns))))"

definition list_vms :: "'w driver \<Rightarrow> ('w, service_node list) cx" where
  "list_vms drv =
     sx_bind (ensure_connected drv) (\<lambda>_.
     sx_bind cloud_name (\<lambda>name.
     sx_bind (with_driver (dr_list_nodes drv name)) (\<lambda>insts.
     sx_bind (sx_get (\<lambda>(c, w). dr_now drv w)) (\<lambda>now.
       sx_lift (create_service_nodes now name [] [] insts)))))"

subsection \<open>Volumes\<close>

text \<open>Volume sizes come in MiB and are rounded up to GiB.\<close>

definition to_gib :: "int \<Rightarrow> int" where
  "to_gib mib = \<lceil>(of_int mib :: rat) / 1024\<rceil>"

text \<open>
  The loop that waits for a new node polls without end: \<open>fuel\<close> bounds the number of polls and
  \<open>EDiverges\<close> stands for not returning.
\<close>

fun wait_for_instance :: "'w driver \<Rightarrow> string \<Rightarrow> string \<Rightarrow> nat \<Rightarrow> ('w, lc_node) sx" where
  "wait_for_instance drv name vm_id 0 = sx_raise (builtin_exn EDiverges)"
| "wait_for_instance drv name vm_id (Suc fuel) = (\<lambda>w.
     case dr_list_nodes drv name w of
       (Inl _, w') \<Rightarrow> wait_for_instance drv name vm_id fuel w'
     | (Inr nodes, w') \<Rightarrow>
         (case filter (\<lambda>n. lc_id n = vm_id) nodes of
            n # _ \<Rightarrow> (Inr n, w')
          | [] \<Rightarrow> wait_for_instance drv name vm_id fuel w'))"

definition cloud_create_volume :: "'w driver \<Rightarrow> int \<Rightarrow> string \<Rightarrow> string \<Rightarrow> ('w, string) cx" where
  "cloud_create_volume drv sz name vm_id =
     sx_bind (sx_get fst) (\<lambda>c. case cl_kind c of
       EC2 \<Rightarrow>
         sx_bind (with_driver (wait_for_instance drv (cl_name c) vm_id (dr_patience drv))) (\<lambda>node.
         sx_bind (with_driver (dr_list_locations drv (cl_name c))) (\<lambda>locations.
         sx_bind (sx_lift (py_first (filter (\<lambda>l. l = lc_availability node) locations))) (\<lambda>location.
           with_driver (dr_create_volume drv (cl_name c) (to_gib sz) name (Some location)))))
     | OpenStack \<Rightarrow> with_driver (dr_create_volume drv (cl_name c) (to_gib sz) name None)
     | _ \<Rightarrow> with_driver (dr_create_volume drv (cl_name c) sz name None))"

text \<open>Ten attempts; EC2 answers \<open>None\<close> after the last, OpenStack \<open>False\<close>: both are false.\<close>

fun retry :: "nat \<Rightarrow> ('w, bool) sx \<Rightarrow> ('w, bool) sx" where
  "retry 0 m = sx_return False"
| "retry (Suc n) m = sx_try m (\<lambda>_. retry n m)"

definition cloud_attach_volume :: "'w driver \<Rightarrow> string \<Rightarrow> string \<Rightarrow> string option \<Rightarrow> ('w, bool) cx" where
  "cloud_attach_volume drv vm_id volume_id device =
     sx_bind (sx_get fst) (\<lambda>c. with_driver (case cl_kind c of
         EC2 \<Rightarrow> retry 10 (dr_attach_volume drv (cl_name c) vm_id volume_id device)
       | OpenStack \<Rightarrow> retry 10 (dr_attach_volume drv (cl_name c) vm_id volume_id
           (Some (''/dev/'' @ (case device of None \<Rightarrow> ''None'' | Some d \<Rightarrow> d))))
       | _ \<Rightarrow> dr_attach_volume drv (cl_name c) vm_id volume_id device))"

definition cloud_detach_volume :: "'w driver \<Rightarrow> string \<Rightarrow> ('w, bool) cx" where
  "cloud_detach_volume drv volume_id =
     sx_bind (sx_get fst) (\<lambda>c. with_driver (case cl_kind c of
         OpenStack \<Rightarrow>
           sx_bind (dr_list_volumes drv (cl_name c)) (\<lambda>volumes.
           sx_bind (sx_lift (py_first (filter (\<lambda>v. lv_id v = volume_id) volumes))) (\<lambda>v.
             dr_detach_volume drv (cl_name c) (lv_id v)))
       | _ \<Rightarrow> dr_detach_volume drv (cl_name c) volume_id))"

definition cloud_destroy_volume :: "'w driver \<Rightarrow> string \<Rightarrow> ('w, bool) cx" where
  "cloud_destroy_volume drv volume_id =
     sx_bind (sx_get fst) (\<lambda>c. with_driver (case cl_kind c of
         EC2 \<Rightarrow> retry 10 (dr_destroy_volume drv (cl_name c) volume_id)
       | _ \<Rightarrow> dr_destroy_volume drv (cl_name c) volume_id))"

subsection \<open>Killing instances\<close>

definition list_instance_volumes :: "'w driver \<Rightarrow> string \<Rightarrow> ('w, lc_volume list) cx" where
  "list_instance_volumes drv vm_id =
     sx_bind (sx_get fst) (\<lambda>c. case cl_kind c of
         EC2 \<Rightarrow> sx_bind (with_driver (dr_list_volumes drv (cl_name c))) (\<lambda>vs.
           sx_return (filter (\<lambda>v. lv_server v = Some vm_id \<and> lv_device v \<noteq> ''/dev/sda1'') vs))
       | OpenStack \<Rightarrow> sx_bind (with_driver (dr_list_volumes drv (cl_name c))) (\<lambda>vs.
           sx_return (filter (\<lambda>v. lv_server v = Some vm_id) vs))
       | _ \<Rightarrow> sx_raise (Raise ENotImplementedError ''list_instance_volumes not implemented for this cloud driver'' []))"

fun wait_available :: "'w driver \<Rightarrow> string \<Rightarrow> string \<Rightarrow> nat \<Rightarrow> string \<Rightarrow> ('w, unit) sx" where
  "wait_available drv name volume_id 0 status = sx_return ()"
| "wait_available drv name volume_id (Suc max_trials) status =
     (if status = ''available'' then sx_return ()
      else sx_bind (dr_list_volumes drv name) (\<lambda>vs.
           sx_bind (sx_lift (py_first (filter (\<lambda>v. lv_id v = volume_id) vs))) (\<lambda>v.
             wait_available drv name volume_id max_trials (lv_state v))))"

definition kill_instance :: "'w driver \<Rightarrow> service_node \<Rightarrow> ('w, bool) cx" where
  "kill_instance drv node =
     sx_bind (sx_get fst) (\<lambda>c.
     if cl_kind c = Dummy then
       (if cl_connected c then sx_return True else sx_raise (exc ''Not connected to cloud'' []))
     else
       sx_bind (ensure_connected drv) (\<lambda>_.
       sx_bind (list_instance_volumes drv (sn_vmid node)) (\<lambda>volumes.
       if cl_kind c = EC2 then
         sx_bind (with_driver (dr_destroy_node drv (cl_name c) (sn_vmid node))) (\<lambda>destroy_res.
         sx_bind (sx_for volumes (\<lambda>v.
            sx_bind (with_driver (wait_available drv (cl_name c) (lv_id v) 20 (lv_state v))) (\<lambda>_.
            sx_bind (with_driver (dr_destroy_volume drv (cl_name c) (lv_id v))) (\<lambda>_. sx_return ())))) (\<lambda>_.
           sx_return destroy_res))
       else
         sx_bind (sx_for volumes (\<lambda>v.
            sx_bind (cloud_detach_volume drv (lv_id v)) (\<lambda>_.
            sx_bind (with_driver (wait_available drv (cl_name c) (lv_id v) 20 (lv_state v))) (\<lambda>_.
            sx_bind (with_driver (dr_destroy_volume drv (cl_name c) (lv_id v))) (\<lambda>_. sx_return ()))))) (\<lambda>_.
           with_driver (dr_destroy_node drv (cl_name c) (sn_vmid node))))))"

end
