(* ===== verification/Instances.thy ===== *)
theory Instances
  imports Clouds
begin

text \<open>
  \<open>new_instances\<close> of the four clouds: starting the virtual machines a list of requests asks for, with
  their volumes. Whatever was started before an exception stays started.
\<close>

text \<open>The keys of a volume request as \<open>%\<close> formatting sees them; \<open>None\<close> prints as a word.\<close>

definition none_text :: "string option \<Rightarrow> string" where
  "none_text x = (case x of None \<Rightarrow> ''None'' | Some s \<Rightarrow> s)"

definition volume_key :: "volume_dict \<Rightarrow> string \<Rightarrow> string option" where
  "volume_key v key =
     (if key = ''vol_name'' then vd_vol_name v
      else if key = ''vol_size'' then map_option int_str (vd_vol_size v)
      else if key = ''vol_id'' then map_option none_text (vd_vol_id v)
      else if key = ''vm_id'' then map_option none_text (vd_vm_id v)
      else if key = ''dev_name'' then map_option none_text (vd_dev_name v)
      else if key = ''cloud'' then map_option none_text (vd_cloud v)
      else None)"

definition new_volume :: "'w driver \<Rightarrow> string \<Rightarrow> volume_dict \<Rightarrow> ('w, volume_dict) cx" where
  "new_volume drv vm_id vol =
     (let vol = vol\<lparr>vd_vm_id := Some (Some vm_id)\<rparr> in
      sx_bind (sx_lift (need_key (vd_vol_name vol))) (\<lambda>template.
      sx_bind (sx_lift (format_dict (volume_key vol) template)) (\<lambda>name.
      let vol = vol\<lparr>vd_vol_name := Some name\<rparr> in
      sx_bind (sx_lift (need_key (vd_vol_size vol))) (\<lambda>vol_size.
      sx_bind (cloud_create_volume drv vol_size name vm_id) (\<lambda>volume_id.
      let vol = vol\<lparr>vd_vol_id := Some (Some volume_id)\<rparr> in
      sx_bind (sx_lift (need_key (vd_dev_name vol))) (\<lambda>dev_name.
      sx_bind (cloud_attach_volume drv vm_id volume_id dev_name) (\<lambda>_.
        sx_return vol)))))))"

text \<open>What each node is created with; a size that is not offered raises.\<close>

definition size_index :: "string \<Rightarrow> string list \<Rightarrow> exn + unit" where
  "size_index inst_type size_ids =
     guard (inst_type \<in> set size_ids)
       (exc ''Requested size not found. '%s' not in %s'' [PStr inst_type, PList (map PStr size_ids)])"

definition ec2_args :: "'w driver \<Rightarrow> node_info \<Rightarrow> ('w, create_args) cx" where
  "ec2_args drv info =
     sx_bind (sx_get fst) (\<lambda>c.
     sx_bind (case ni_inst_type info of Some t \<Rightarrow> sx_return t | None \<Rightarrow> option_of ''SIZE_ID'') (\<lambda>inst_type.
     sx_bind (with_driver (dr_list_sizes drv (cl_name c))) (\<lambda>sizes.
     sx_bind (sx_lift (size_index inst_type (map nm_id sizes))) (\<lambda>_.
     sx_bind (option_of ''IMAGE_ID'') (\<lambda>img_id.
     sx_bind (option_of ''SECURITY_GROUP_NAME'') (\<lambda>sg.
     sx_bind (option_of ''KEY_NAME'') (\<lambda>key_name.
       sx_return \<lparr>ca_size = inst_type, ca_image = img_id, ca_name = ni_name info, ca_group = sg,
                  ca_key = key_name, ca_userdata = get_context c, ca_network = None\<rparr>)))))))"

definition os_attrs :: "('w, os_attributes) cx" where
  "os_attrs = (\<lambda>(c, w). (case cl_os c of None \<Rightarrow> Inl (builtin_exn EAttributeError) | Some attrs \<Rightarrow> Inr attrs, (c, w)))"

definition openstack_args :: "'w driver \<Rightarrow> node_info \<Rightarrow> ('w, create_args) cx" where
  "openstack_args drv info =
     sx_bind (sx_get fst) (\<lambda>c.
     sx_bind os_attrs (\<lambda>attrs.
     sx_bind (case ni_inst_type info of
                None \<Rightarrow> sx_return (oa_size attrs)
              | Some t \<Rightarrow> sx_bind (with_driver (dr_list_sizes drv (cl_name c))) (\<lambda>sizes.
                            sx_lift (get_by_id_or_name ''SIZE_ID'' t sizes))) (\<lambda>flavor.
     sx_bind (option_of ''SECURITY_GROUP_NAME'') (\<lambda>sg.
     sx_bind (option_of ''KEY_NAME'') (\<lambda>key_name.
       sx_return \<lparr>ca_size = nm_id flavor, ca_image = nm_id (oa_img attrs), ca_name = ni_name info, ca_group = sg,
                  ca_key = key_name, ca_userdata = get_context c,
                  ca_network = map_option nm_id (oa_network attrs)\<rparr>)))))"

definition new_instance ::
  "'w driver \<Rightarrow> ('w, create_args) cx \<Rightarrow> node_info \<Rightarrow> ('w, node_info \<times> lc_node) cx" where
  "new_instance drv args info =
     sx_bind args (\<lambda>args.
     sx_bind cloud_name (\<lambda>name.
     sx_bind (with_driver (dr_create_node drv name args)) (\<lambda>inst.
     let info = info\<lparr>ni_id := Some (lc_id inst)\<rparr> in
     sx_bind (case ni_volumes info of
                None \<Rightarrow> sx_return info
              | Some vols \<Rightarrow> sx_bind (sx_map (new_volume drv (lc_id inst)) vols) (\<lambda>vols.
                  sx_return (info\<lparr>ni_volumes := Some vols\<rparr>))) (\<lambda>info.
       sx_return (info, inst)))))"

definition to_service_nodes :: "'w driver \<Rightarrow> (node_info \<times> lc_node) list \<Rightarrow> ('w, service_node list) cx" where
  "to_service_nodes drv created =
     sx_bind cloud_name (\<lambda>name.
     sx_bind (sx_get (\<lambda>(c, w). dr_now drv w)) (\<lambda>now.
       sx_lift (create_service_nodes now name (map fst created) [] (map snd created))))"

subsection \<open>Floating addresses of OpenStack\<close>

definition get_floating_ip :: "'w driver \<Rightarrow> string \<Rightarrow> string \<Rightarrow> ('w, string) sx" where
  "get_floating_ip drv name pool =
     sx_bind (dr_floating_ips drv name) (\<lambda>ips.
       case filter (\<lambda>ip. snd ip = None) ips of
         ip # _ \<Rightarrow> sx_return (fst ip)
       | [] \<Rightarrow> dr_create_floating drv name pool)"

definition is_base_http_error :: "exn \<Rightarrow> bool" where
  "is_base_http_error e = (case e of Raise k _ _ \<Rightarrow> k = EBaseHTTPError | _ \<Rightarrow> False)"

text \<open>One instance; the result is the number of attempts left for all the others.\<close>

fun attach_floating :: "'w driver \<Rightarrow> string \<Rightarrow> string \<Rightarrow> lc_node \<Rightarrow> nat \<Rightarrow> ('w, nat) sx" where
  "attach_floating drv name pool inst 0 = sx_return 0"
| "attach_floating drv name pool inst (Suc n) =
     sx_try (sx_bind (get_floating_ip drv name pool) (\<lambda>ip.
             sx_bind (dr_attach_floating drv name (lc_id inst) ip) (\<lambda>_. sx_return (Suc n))))
       (\<lambda>e. if is_base_http_error e then attach_floating drv name pool inst n else sx_raise e)"

fun floating_loop :: "'w driver \<Rightarrow> string \<Rightarrow> string \<Rightarrow> lc_node list \<Rightarrow> nat \<Rightarrow> ('w, nat) sx" where
  "floating_loop drv name pool [] n = sx_return n"
| "floating_loop drv name pool (inst # insts) n =
     sx_bind (attach_floating drv name pool inst n) (floating_loop drv name pool insts)"

text \<open>
  Without an instance there are no attempts to begin with, and the check after the loop takes the
  zero for exhaustion.
\<close>

definition associate_floating_ips :: "'w driver \<Rightarrow> string \<Rightarrow> string \<Rightarrow> lc_node list \<Rightarrow> ('w, unit) sx" where
  "associate_floating_ips drv name pool insts =
     sx_bind (floating_loop drv name pool insts (3 * length insts)) (\<lambda>nr_attempts.
       if nr_attempts = 0 then sx_raise (exc ''Error assigning floating IPs'' []) else sx_return ())"

subsection \<open>\<open>new_instances\<close>\<close>

text \<open>
  The OpenNebula and the dummy cloud still expect a number of nodes: \<open>range\<close> of the list of requests
  raises, for OpenNebula after the size and the context have been looked up.
\<close>

definition new_instances :: "'w driver \<Rightarrow> node_info list \<Rightarrow> ('w, service_node list) cx" where
  "new_instances drv infos =
     sx_bind (ensure_connected drv) (\<lambda>_.
     sx_bind (sx_get fst) (\<lambda>c. case cl_kind c of
       EC2 \<Rightarrow>
         sx_bind (sx_map (\<lambda>info. new_instance drv (ec2_args drv info) info) infos) (to_service_nodes drv)
     | OpenStack \<Rightarrow>
         sx_bind (sx_map (\<lambda>info. new_instance drv (openstack_args drv info) info) infos) (\<lambda>created.
         sx_bind os_attrs (\<lambda>attrs.
         sx_bind (if oa_auto_floating attrs then sx_return ()
                  else with_driver (associate_floating_ips drv (cl_name c) (oa_floating_pool attrs) (map snd created))) (\<lambda>_.
           to_service_nodes drv created)))
     | OpenNebula \<Rightarrow>
         sx_bind (option_of ''INST_TYPE'') (\<lambda>inst_type.
         sx_bind (with_driver (dr_list_sizes drv (cl_name c))) (\<lambda>sizes.
         sx_bind (sx_lift (size_index inst_type (map nm_name sizes))) (\<lambda>_.
         sx_bind (sx_lift (case get_context c of None \<Rightarrow> Inl (builtin_exn EAttributeError) | Some _ \<Rightarrow> Inr ())) (\<lambda>_.
           sx_raise (builtin_exn ETypeError)))))
     | Dummy \<Rightarrow> sx_raise (builtin_exn ETypeError)))"

end
