(* ===== verification/Controller.thy ===== *)
theory Controller
  imports Instances Callbacker
begin

text \<open>
  \<open>cpsdirector/iaas/controller.py\<close>: the controller the director builds for each request. It owns the
  cloud objects, starts nodes and waits for their agents, deletes nodes, and forwards volume calls.
  A method runs on the list of cloud objects and the outside world. The commented-out code of the
  file is not modelled; the locks are, as the operations here run one at a time.
\<close>

subsection \<open>The environment of the director\<close>

text \<open>
  Everything the director's process depends on: its configuration, the cloud library, the files of
  the configuration directory, the certificate authority, the HTTPS client and
  the JSON parser (a reply is decoded, one that is not JSON is its text), the hash function,
  \<open>str\<close> and dates as text, the database's choice of a new key, and the address library \<open>netaddr\<close>.
\<close>

record cert_subject =
  cs_uid :: string
  cs_aid :: string
  cs_role :: string
  cs_email :: string
  cs_cn :: string
  cs_org :: string

record certs =
  ce_ca_cert :: string
  ce_key :: string
  ce_cert :: string

record 'w denv =
  de_cfg :: config
  de_driver :: "'w driver"
  de_read :: "string \<Rightarrow> exn + string"
  de_certificate :: "string \<Rightarrow> cert_subject \<Rightarrow> ('w, certs) sx"
  de_get :: "string \<Rightarrow> int \<Rightarrow> string \<Rightarrow> int \<Rightarrow> kwargs \<Rightarrow> ('w, int \<times> pyval) sx"
  de_post :: "string \<Rightarrow> int \<Rightarrow> string \<Rightarrow> int \<Rightarrow> kwargs \<Rightarrow> ('w, int \<times> pyval) sx"
  de_upload :: "string \<Rightarrow> int \<Rightarrow> kwargs \<Rightarrow> (string \<times> string \<times> string) list \<Rightarrow> ('w, int \<times> pyval) sx"
  de_loads :: "string \<Rightarrow> exn + pyval"
  de_md5 :: "string \<Rightarrow> string"
  de_str :: "pyval \<Rightarrow> string"
  de_date :: "int \<Rightarrow> string"
  de_fresh :: "int list \<Rightarrow> int"
  de_prefixlen :: "string \<Rightarrow> exn + int"
  de_subnets :: "string \<Rightarrow> int \<Rightarrow> string list"

record controller =
  ct_cfg :: config
  ct_role :: string
  ct_port :: int
  ct_user_id :: string
  ct_app_id :: string
  ct_deployment :: string
  ct_service_id :: string
  ct_service_type :: string

type_synonym ('w, 'a) tx = "(cloud list \<times> 'w, 'a) sx"

definition with_world :: "('w, 'a) sx \<Rightarrow> ('w, 'a) tx" where
  "with_world m = (\<lambda>(cs, w). let (r, w') = m w in (r, (cs, w')))"

subsection \<open>Clouds of a controller\<close>

definition set_clouds :: "config \<Rightarrow> exn + cloud list" where
  "set_clouds cfg =
     res_bind (if has_option cfg ''iaas'' ''DRIVER''
               then res_bind (cfg_get cfg ''iaas'' ''DRIVER'') (\<lambda>ty.
                      map_sum id (\<lambda>c. [c]) (get_cloud_instance ''iaas'' (map lower_char ty) cfg))
               else Inr []) (\<lambda>default_cloud.
     res_bind (if has_option cfg ''iaas'' ''OTHER_CLOUDS'' then get_clouds cfg else Inr []) (\<lambda>others.
       Inr (default_cloud @ others)))"

definition default_controller :: "config \<Rightarrow> controller" where
  "default_controller cfg = \<lparr>ct_cfg = cfg, ct_role = [], ct_port = 0, ct_user_id = [], ct_app_id = [],
     ct_deployment = [], ct_service_id = [], ct_service_type = []\<rparr>"

definition setup_default :: "'w denv \<Rightarrow> exn + controller \<times> cloud list" where
  "setup_default env = map_sum id (\<lambda>cs. (default_controller (de_cfg env), cs)) (set_clouds (de_cfg env))"

definition create_manager_config :: "config \<Rightarrow> string \<Rightarrow> string \<Rightarrow> exn + config" where
  "create_manager_config cfg user_id app_id =
     (let cfg = (if has_section cfg ''manager'' then cfg else cfg_add_section cfg ''manager'') in
      res_bind (if has_option cfg ''conpaas'' ''DEPLOYMENT_NAME'' then cfg_get cfg ''conpaas'' ''DEPLOYMENT_NAME''
                else Inr ''conpaas'') (\<lambda>name.
      res_bind (cfg_set cfg ''manager'' ''DEPLOYMENT_NAME'' name) (\<lambda>cfg.
      res_bind (cfg_set cfg ''manager'' ''USER_ID'' user_id) (\<lambda>cfg.
        cfg_set cfg ''manager'' ''APP_ID'' app_id))))"

definition create_agent_config ::
  "config \<Rightarrow> string \<Rightarrow> string \<Rightarrow> string \<Rightarrow> string \<Rightarrow> string \<Rightarrow> exn + config" where
  "create_agent_config cfg user_id app_id service_id service_type manager_ip =
     res_bind (create_manager_config cfg user_id app_id) (\<lambda>cfg.
     res_bind (cfg_set cfg ''manager'' ''SERVICE_ID'' service_id) (\<lambda>cfg.
     res_bind (cfg_set cfg ''manager'' ''TYPE'' service_type) (\<lambda>cfg.
       cfg_set cfg ''manager'' ''MANAGER_IP'' manager_ip)))"

text \<open>\<open>_setup\<close> reads the user, the application and the deployment, then creates the clouds.\<close>

definition setup_controller :: "config \<Rightarrow> string \<Rightarrow> int \<Rightarrow> string \<Rightarrow> string \<Rightarrow> exn + controller \<times> cloud list" where
  "setup_controller cfg role port service_id service_type =
     res_bind (cfg_get cfg ''manager'' ''USER_ID'') (\<lambda>user_id.
     res_bind (cfg_get cfg ''manager'' ''APP_ID'') (\<lambda>app_id.
     res_bind (cfg_get cfg ''manager'' ''DEPLOYMENT_NAME'') (\<lambda>name.
     res_bind (set_clouds cfg) (\<lambda>cs.
       Inr (\<lparr>ct_cfg = cfg, ct_role = role, ct_port = port, ct_user_id = user_id, ct_app_id = app_id,
             ct_deployment = name, ct_service_id = service_id, ct_service_type = service_type\<rparr>, cs)))))"

definition manager_controller :: "config \<Rightarrow> string \<Rightarrow> string \<Rightarrow> exn + controller \<times> cloud list" where
  "manager_controller cfg user_id app_id =
     res_bind (create_manager_config cfg user_id app_id) (\<lambda>cfg.
       setup_controller cfg ''manager'' 443 [] [])"

definition agent_controller ::
  "config \<Rightarrow> string \<Rightarrow> string \<Rightarrow> string \<Rightarrow> string \<Rightarrow> string \<Rightarrow> exn + controller \<times> cloud list" where
  "agent_controller cfg user_id app_id service_id service_type manager_ip =
     res_bind (create_agent_config cfg user_id app_id service_id service_type manager_ip) (\<lambda>cfg.
       setup_controller cfg ''agent'' 5555 service_id service_type)"

text \<open>\<open>get_cloud_by_name\<close>: the first cloud with the name; the default cloud is called \<open>iaas\<close>.\<close>

definition canonical_cloud :: "string \<Rightarrow> string" where
  "canonical_cloud name = (if name = ''default'' \<or> name = ''None'' then ''iaas'' else name)"

definition cloud_index :: "string \<Rightarrow> cloud list \<Rightarrow> exn + nat" where
  "cloud_index name cs =
     (case filter (\<lambda>i. cl_name (cs ! i) = canonical_cloud name) [0..<length cs] of
        i # _ \<Rightarrow> Inr i
      | [] \<Rightarrow> Inl (exc ''Unknown cloud: %s. Available clouds: %s''
                 [PStr (canonical_cloud name), PList (map (PStr \<circ> cl_name) cs)]))"

definition get_cloud_by_name :: "string \<Rightarrow> ('w, nat) tx" where
  "get_cloud_by_name name = (\<lambda>(cs, w). (cloud_index name cs, (cs, w)))"

definition on_cloud_at :: "nat \<Rightarrow> ('w, 'a) cx \<Rightarrow> ('w, 'a) tx" where
  "on_cloud_at i m = (\<lambda>(cs, w). let (r, (c', w')) = m (cs ! i, w) in (r, (cs[i := c'], w')))"

definition on_cloud :: "string \<Rightarrow> ('w, 'a) cx \<Rightarrow> ('w, 'a) tx" where
  "on_cloud name m = sx_bind (get_cloud_by_name name) (\<lambda>i. on_cloud_at i m)"

subsection \<open>Context files\<close>

definition nl :: string where
  "nl = [char_of (10 :: nat)]"

definition heredoc :: "string \<Rightarrow> string \<Rightarrow> string" where
  "heredoc path contents = ''cat <<EOF > '' @ path @ nl @ contents @ nl @ ''EOF'' @ nl @ nl"

definition is_file :: "'w denv \<Rightarrow> string \<Rightarrow> bool" where
  "is_file env path = (case de_read env path of Inl _ \<Rightarrow> False | Inr _ \<Rightarrow> True)"

definition get_certificate :: "'w denv \<Rightarrow> controller \<Rightarrow> string \<Rightarrow> ('w, certs) sx" where
  "get_certificate env ct role =
     sx_bind (sx_lift (cfg_get (ct_cfg ct) ''manager'' ''USER_ID'')) (\<lambda>user_id.
     sx_bind (sx_lift (cfg_get (ct_cfg ct) ''manager'' ''APP_ID'')) (\<lambda>app_id.
     sx_bind (sx_lift (cfg_get (ct_cfg ct) ''conpaas'' ''CERT_DIR'')) (\<lambda>cert_dir.
       de_certificate env cert_dir \<lparr>cs_uid = user_id, cs_aid = app_id, cs_role = role,
         cs_email = ''info@conpaas.eu'', cs_cn = ''ConPaaS'', cs_org = ''Contrail''\<rparr>)))"

definition agent_config_file :: "'w denv \<Rightarrow> controller \<Rightarrow> (string \<times> string) list \<Rightarrow> exn + string" where
  "agent_config_file env ct context_replacement =
     res_bind (cfg_get (ct_cfg ct) ''conpaas'' ''CONF_DIR'') (\<lambda>conpaas_home.
     let agent_cfg_dir = conpaas_home @ ''/config/agent'' in
     res_bind (cfg_get (ct_cfg ct) ''manager'' ''MANAGER_IP'') (\<lambda>manager_ip.
     res_bind (de_read env (agent_cfg_dir @ ''/default-agent.cfg'')) (\<lambda>default_cfg.
     let agent_cfg = safe_substitute
           [(''AGENT_TYPE'', ct_service_type ct), (''MANAGER_IP'', manager_ip), (''CONPAAS_USER_ID'', ct_user_id ct),
            (''CONPAAS_SERVICE_ID'', ct_service_id ct), (''CONPAAS_APP_ID'', ct_app_id ct)] default_cfg;
         special = agent_cfg_dir @ ''/'' @ ct_service_type ct @ ''-agent.cfg'' in
     if is_file env special
     then map_sum id (\<lambda>t. agent_cfg @ nl @ safe_substitute context_replacement t) (de_read env special)
     else Inr agent_cfg)))"

definition agent_context_file ::
  "'w denv \<Rightarrow> controller \<Rightarrow> cloud_kind \<Rightarrow> (string \<times> string) list \<Rightarrow> string option \<Rightarrow> ('w, string) sx" where
  "agent_context_file env ct kind context_replacement startup_script =
     sx_bind (sx_lift (cfg_get (ct_cfg ct) ''conpaas'' ''CONF_DIR'')) (\<lambda>conpaas_home.
     let cloud_dir = conpaas_home @ ''/scripts/cloud''; agent_dir = conpaas_home @ ''/scripts/agent'' in
     sx_bind (sx_lift (cfg_get (ct_cfg ct) ''director'' ''DIRECTOR_URL'')) (\<lambda>director.
     sx_bind (sx_lift (de_read env (cloud_dir @ ''/'' @ kind_name kind))) (\<lambda>cloud_script.
     sx_bind (sx_lift (de_read env (agent_dir @ ''/agent-setup''))) (\<lambda>setup.
     let agent_setup = safe_substitute [(''DIRECTOR'', director)] setup in
     sx_bind (sx_lift (agent_config_file env ct context_replacement)) (\<lambda>agent_cfg.
     let special = agent_dir @ ''/'' @ ct_service_type ct @ ''-agent-start'' in
     sx_bind (sx_lift (de_read env (if is_file env special then special else agent_dir @ ''/default-agent-start''))) (\<lambda>agent_start.
     sx_bind (get_certificate env ct ''agent'') (\<lambda>agent_certs.
       sx_return
         (cloud_script @ nl @ nl @ heredoc ''/tmp/cert.pem'' (ce_cert agent_certs)
          @ heredoc ''/tmp/key.pem'' (ce_key agent_certs) @ heredoc ''/tmp/ca_cert.pem'' (ce_ca_cert agent_certs)
          @ agent_setup @ nl @ nl @ heredoc ''$ROOT_DIR/config.cfg'' agent_cfg
          @ (case startup_script of None \<Rightarrow> [] | Some s \<Rightarrow> if s = [] then [] else s @ nl)
          @ agent_start @ nl))))))))"

definition manager_config_file :: "'w denv \<Rightarrow> controller \<Rightarrow> exn + string" where
  "manager_config_file env ct =
     res_bind (cfg_get (ct_cfg ct) ''conpaas'' ''CONF_DIR'') (\<lambda>conpaas_home.
     let mngr_cfg_dir = path_join (path_join conpaas_home ''config'') ''manager'' in
     res_bind (if has_option (ct_cfg ct) ''conpaas'' ''DEPLOYMENT_NAME'' then cfg_get (ct_cfg ct) ''conpaas'' ''DEPLOYMENT_NAME''
               else Inr ''conpaas'') (\<lambda>name.
     res_bind (de_read env (path_join mngr_cfg_dir ''default-manager-new.cfg'')) (\<lambda>mngr_cfg.
     res_bind (cfg_get (ct_cfg ct) ''manager'' ''USER_ID'') (\<lambda>user_id.
     res_bind (cfg_get (ct_cfg ct) ''manager'' ''APP_ID'') (\<lambda>app_id.
       Inr (py_replace ''%CONPAAS_APP_ID%'' app_id
             (py_replace ''%CONPAAS_USER_ID%'' user_id
               (py_replace ''%CONPAAS_DEPLOYMENT_NAME%'' name mngr_cfg))))))))"

definition manager_context_file :: "'w denv \<Rightarrow> controller \<Rightarrow> cloud_kind \<Rightarrow> ('w, string) sx" where
  "manager_context_file env ct kind =
     sx_bind (sx_lift (cfg_get (ct_cfg ct) ''conpaas'' ''CONF_DIR'')) (\<lambda>conpaas_home.
     let cloud_dir = path_join (path_join conpaas_home ''scripts'') ''cloud'';
         mngr_dir = path_join (path_join conpaas_home ''scripts'') ''manager'' in
     sx_bind (sx_lift (cfg_get (ct_cfg ct) ''director'' ''DIRECTOR_URL'')) (\<lambda>director.
     let cloud_script = (case de_read env (path_join cloud_dir (kind_name kind)) of Inl _ \<Rightarrow> [] | Inr s \<Rightarrow> s) in
     sx_bind (sx_lift (de_read env (path_join mngr_dir ''manager-setup''))) (\<lambda>setup.
     let mngr_setup = py_replace ''%DIRECTOR_URL%'' director setup in
     sx_bind (sx_lift (manager_config_file env ct)) (\<lambda>mngr_cfg.
     sx_bind (sx_lift (de_read env (path_join mngr_dir ''default-manager-start''))) (\<lambda>start_script.
     sx_bind (get_certificate env ct ''manager'') (\<lambda>mngr_certs.
       sx_return
         (cloud_script @ nl @ nl @ heredoc ''/tmp/cert.pem'' (ce_cert mngr_certs)
          @ heredoc ''/tmp/key.pem'' (ce_key mngr_certs) @ heredoc ''/tmp/ca_cert.pem'' (ce_ca_cert mngr_certs)
          @ mngr_setup @ nl @ nl @ heredoc ''$ROOT_DIR/config.cfg'' mngr_cfg @ nl
          @ start_script @ nl @ nl)))))))"

definition generate_context ::
  "'w denv \<Rightarrow> controller \<Rightarrow> string list \<Rightarrow> (string \<times> string) list \<Rightarrow> string option \<Rightarrow> ('w, unit) tx" where
  "generate_context env ct clouds context_replacement startup_script =
     sx_for clouds (\<lambda>name.
       sx_bind (get_cloud_by_name name) (\<lambda>i.
       sx_bind (sx_get (\<lambda>(cs, w). cl_kind (cs ! i))) (\<lambda>kind.
       sx_bind (with_world (if ct_role ct = ''manager'' then manager_context_file env ct kind
                            else agent_context_file env ct kind context_replacement startup_script)) (\<lambda>ctx.
         on_cloud_at i (sx_modify (apfst (set_context ctx)))))))"

end
