(* ===== verification/ControllerNodes.thy ===== *)
theory ControllerNodes
  imports Controller
begin

text \<open>
  The second half of \<open>cpsdirector/iaas/controller.py\<close>: starting nodes and waiting for their agents,
  listing and deleting nodes, and the volume calls.
\<close>

subsection \<open>Listing and deleting\<close>

text \<open>Without an argument \<open>list_vms\<close> asks the default cloud only, which exists when a driver is configured.\<close>

definition list_default_vms :: "'w denv \<Rightarrow> controller \<Rightarrow> ('w, service_node list) tx" where
  "list_default_vms env ct =
     (if has_option (ct_cfg ct) ''iaas'' ''DRIVER'' then on_cloud_at 0 (list_vms (de_driver env))
      else sx_raise (builtin_exn EAttributeError))"

text \<open>A node that cannot be killed is skipped; one of an unknown cloud ends the loop with an exception.\<close>

definition ctl_delete_nodes :: "'w denv \<Rightarrow> service_node list \<Rightarrow> ('w, unit) tx" where
  "ctl_delete_nodes env nodes =
     sx_for nodes (\<lambda>node.
       sx_bind (get_cloud_by_name (sn_cloud_name node)) (\<lambda>i.
       sx_try (sx_bind (on_cloud_at i (kill_instance (de_driver env) node)) (\<lambda>_. sx_return ()))
         (\<lambda>_. sx_return ())))"

subsection \<open>Waiting for the agents\<close>

text \<open>
  \<open>_check\<close> names a class \<open>HttpError\<close> that the module does not import, so a status other than 200 is a
  \<open>NameError\<close>. Only \<open>socket.error\<close> counts as "not started yet"; everything else leaves the loop.
\<close>

definition is_socket_error :: "exn \<Rightarrow> bool" where
  "is_socket_error e = (case e of Raise k _ _ \<Rightarrow> k = ESocketError | _ \<Rightarrow> False)"

definition check_node :: "'w denv \<Rightarrow> controller \<Rightarrow> service_node \<Rightarrow> ('w, bool) sx" where
  "check_node env ct node =
     (if sn_ip node = [] \<or> sn_private_ip node = [] then sx_return False
      else sx_try
        (sx_bind (de_get env (sn_ip node) (ct_port ct) ''check_process'' 0 []) (\<lambda>response.
         sx_bind (sx_lift (client_check ENameError response)) (\<lambda>_. sx_return True)))
        (\<lambda>e. if is_socket_error e then sx_return False else sx_raise e))"

definition ready_nodes :: "'w denv \<Rightarrow> controller \<Rightarrow> service_node list \<Rightarrow> ('w, service_node list) sx" where
  "ready_nodes env ct nodes =
     sx_bind (sx_map (check_node env ct) nodes) (\<lambda>oks.
       sx_return (map fst (filter snd (zip nodes oks))))"

definition lacks_ip :: "service_node \<Rightarrow> bool" where
  "lacks_ip n = (sn_ip n = [] \<or> sn_private_ip n = [])"

text \<open>The last listed node with the id wins.\<close>

definition refresh_from :: "service_node list \<Rightarrow> service_node \<Rightarrow> service_node" where
  "refresh_from refreshed n =
     (case filter (\<lambda>r. sn_id r = sn_id n) (rev refreshed) of
        [] \<Rightarrow> n | r # _ \<Rightarrow> n\<lparr>sn_ip := sn_ip r, sn_private_ip := sn_private_ip r\<rparr>)"

definition refresh_node :: "'w denv \<Rightarrow> service_node \<Rightarrow> ('w, service_node) tx" where
  "refresh_node env n =
     (if lacks_ip n
      then sx_bind (on_cloud (sn_cloud_name n) (list_vms (de_driver env))) (\<lambda>refreshed.
             sx_return (refresh_from refreshed n))
      else sx_return n)"

text \<open>
  \<open>_wait_for_nodes\<close>: polls every five seconds and gives up after the 61st poll. The result is the
  nodes that answered and those that did not.
\<close>

function wait_for_nodes ::
  "'w denv \<Rightarrow> controller \<Rightarrow> nat \<Rightarrow> service_node list \<Rightarrow> service_node list \<Rightarrow>
     ('w, service_node list \<times> service_node list) tx" where
  "wait_for_nodes env ct poll_cycles ready nodes =
     (if nodes = [] then sx_return (ready, [])
      else sx_bind (with_world (ready_nodes env ct nodes)) (\<lambda>newly.
        let ready' = ready @ newly;
            left = filter (\<lambda>n. \<not> list_ex (node_eq n) ready') nodes
        in if left = [] then sx_return (ready', [])
           else if (poll_cycles + 1) * 5 > 300 then sx_return (ready', left)
           else sx_bind (sx_map (refresh_node env) left) (\<lambda>left.
                  wait_for_nodes env ct (poll_cycles + 1) ready' left)))"
  by pat_completeness auto
termination
  by (relation "measure (\<lambda>(env, ct, poll_cycles, ready, nodes). 61 - poll_cycles)") auto

declare wait_for_nodes.simps [simp del]

subsection \<open>Creating nodes\<close>

text \<open>The name every node of a request gets.\<close>

definition node_name :: "controller \<Rightarrow> exn + string" where
  "node_name ct =
     (let prefix = ct_deployment ct @ ''-u'' @ ct_user_id ct @ ''-a'' @ ct_app_id ct in
      if ct_role ct = ''manager'' then Inr (prefix @ ''-mgr'')
      else map_sum id (\<lambda>ty. prefix @ ''-s'' @ ct_service_id ct @ ''-'' @ ty) (cfg_get (ct_cfg ct) ''manager'' ''TYPE''))"

definition create_on_cloud ::
  "'w denv \<Rightarrow> controller \<Rightarrow> node_info list \<Rightarrow> string \<Rightarrow> ('w, service_node list) tx" where
  "create_on_cloud env ct nodes_info name =
     sx_bind (get_cloud_by_name name) (\<lambda>i.
     sx_bind (sx_lift (node_name ct)) (\<lambda>node_name.
       on_cloud_at i (new_instances (de_driver env)
         (map (ni_name_update (\<lambda>_. node_name)) (filter (\<lambda>ni. ni_cloud ni = name) nodes_info)))))"

definition ctl_create_nodes ::
  "'w denv \<Rightarrow> controller \<Rightarrow> node_info list \<Rightarrow> string list \<Rightarrow> ('w, service_node list) tx" where
  "ctl_create_nodes env ct nodes_info clouds =
     sx_bind (sx_map (create_on_cloud env ct nodes_info) clouds) (\<lambda>created.
     sx_bind (wait_for_nodes env ct 0 [] (concat created)) (\<lambda>(ready, failed).
     sx_bind (if failed = [] then sx_return () else ctl_delete_nodes env failed) (\<lambda>_.
       sx_return ready)))"

subsection \<open>Volumes\<close>

definition connected_cloud :: "'w denv \<Rightarrow> string \<Rightarrow> ('w, 'a) cx \<Rightarrow> ('w, 'a) tx" where
  "connected_cloud env name m =
     on_cloud name (sx_bind (ensure_connected (de_driver env)) (\<lambda>_. m))"

definition ctl_create_volume :: "'w denv \<Rightarrow> int \<Rightarrow> string \<Rightarrow> string \<Rightarrow> string \<Rightarrow> ('w, string) tx" where
  "ctl_create_volume env sz name vm_id cloud =
     connected_cloud env cloud (cloud_create_volume (de_driver env) sz name vm_id)"

definition ctl_attach_volume :: "'w denv \<Rightarrow> string \<Rightarrow> string \<Rightarrow> string \<Rightarrow> string \<Rightarrow> ('w, bool) tx" where
  "ctl_attach_volume env vm_id volume_id device cloud =
     connected_cloud env cloud (cloud_attach_volume (de_driver env) vm_id volume_id (Some device))"

definition ctl_detach_volume :: "'w denv \<Rightarrow> string \<Rightarrow> string \<Rightarrow> ('w, bool) tx" where
  "ctl_detach_volume env volume_id cloud =
     connected_cloud env cloud (cloud_detach_volume (de_driver env) volume_id)"

definition ctl_destroy_volume :: "'w denv \<Rightarrow> string \<Rightarrow> string \<Rightarrow> ('w, bool) tx" where
  "ctl_destroy_volume env volume_id cloud =
     connected_cloud env cloud (cloud_destroy_volume (de_driver env) volume_id)"

end
