(* ===== verification/Director.thy ===== *)
theory Director
  imports ControllerNodes HttpServer
begin

text \<open>
  The director's database and its users: the tables (\<open>User\<close>, \<open>Application\<close>, \<open>Service\<close> and
  \<open>Resource\<close>), the session every request works in, and \<open>cpsdirector/user.py\<close>.

  A session sees its own uncommitted changes (\<open>d_db\<close>); \<open>commit\<close> makes them permanent (\<open>d_saved\<close>),
  \<open>rollback\<close> and the end of a request or thread drop them. A flush that violates a constraint rolls
  back and leaves the session unusable (\<open>d_broken\<close>) until a \<open>rollback\<close> or its end. Requests and threads run one at a time.
  A row object of the mapper is its key here, and reading an attribute looks the row up.
\<close>

subsection \<open>Tables\<close>

record user =
  u_uid :: int
  u_username :: string
  u_fname :: "string option"
  u_lname :: "string option"
  u_email :: string
  u_affiliation :: "string option"
  u_password :: string
  u_created :: int
  u_credit :: int
  u_uuid :: "string option"
  u_openid :: "string option"

datatype app_status = A_INIT | A_PROLOGUE | A_RUNNING | A_ADAPTING | A_EPILOGUE | A_STOPPED | A_ERROR

fun status_name :: "app_status \<Rightarrow> string" where
  "status_name A_INIT = ''INIT''"
| "status_name A_PROLOGUE = ''PROLOGUE''"
| "status_name A_RUNNING = ''RUNNING''"
| "status_name A_ADAPTING = ''ADAPTING''"
| "status_name A_EPILOGUE = ''EPILOGUE''"
| "status_name A_STOPPED = ''STOPPED''"
| "status_name A_ERROR = ''ERROR''"

record application =
  a_aid :: int
  a_name :: string
  a_status :: app_status
  a_user_id :: int

record service_row =
  s_rec_id :: int
  s_sid :: int
  s_name :: string
  s_type :: string
  s_state :: string
  s_created :: int
  s_cloud :: "string option"
  s_subnet :: "string option"
  s_application_id :: int

record resource =
  r_rid :: int
  r_vmid :: string
  r_app_id :: int
  r_service_id :: int
  r_charged :: int
  r_ip :: string
  r_role :: string
  r_cloud :: string
  r_created :: int

record database =
  db_users :: "user list"
  db_apps :: "application list"
  db_services :: "service_row list"
  db_resources :: "resource list"

text \<open>The threads the director has started and that have not run yet.\<close>

datatype manager_args = ManagerArgs int int string bool

datatype director_job = CreateManager manager_args | DeleteNodes "service_node list"

record 'w director =
  d_saved :: database
  d_db :: database
  d_broken :: bool
  d_jobs :: "director_job list"
  d_out :: 'w

type_synonym ('w, 'a) dx = "('w director, 'a) sx"

definition commit :: "('w, unit) dx" where
  "commit = (\<lambda>d. if d_broken d then (Inl (builtin_exn EInvalidRequestError), d)
     else (Inr (), d\<lparr>d_saved := d_db d\<rparr>))"

definition rollback :: "('w, unit) dx" where
  "rollback = sx_modify (\<lambda>d. d\<lparr>d_db := d_saved d, d_broken := False\<rparr>)"

definition failed_flush :: "('w, 'a) dx" where
  "failed_flush = (\<lambda>d. (Inl (builtin_exn EIntegrityError), d\<lparr>d_db := d_saved d, d_broken := True\<rparr>))"

definition on_db :: "(database \<Rightarrow> database) \<Rightarrow> ('w, unit) dx" where
  "on_db f = sx_modify (\<lambda>d. d\<lparr>d_db := f (d_db d)\<rparr>)"

definition db_get :: "(database \<Rightarrow> 'a) \<Rightarrow> ('w, 'a) dx" where
  "db_get f = sx_get (\<lambda>d. f (d_db d))"

definition dout :: "('w, 'a) sx \<Rightarrow> ('w, 'a) dx" where
  "dout m = (\<lambda>d. let (r, w') = m (d_out d) in (r, d\<lparr>d_out := w'\<rparr>))"

text \<open>A method of a controller that lives for this call only.\<close>

definition with_clouds :: "cloud list \<Rightarrow> ('w, 'a) tx \<Rightarrow> ('w, 'a) dx" where
  "with_clouds cs m = (\<lambda>d. let (r, (_, w')) = m (cs, d_out d) in (r, d\<lparr>d_out := w'\<rparr>))"

definition director_now :: "'w denv \<Rightarrow> ('w, int) dx" where
  "director_now env = sx_get (\<lambda>d. dr_now (de_driver env) (d_out d))"

definition start_thread :: "director_job \<Rightarrow> ('w, unit) dx" where
  "start_thread j = sx_modify (\<lambda>d. d\<lparr>d_jobs := d_jobs d @ [j]\<rparr>)"

text \<open>The row of an object; a row that is gone makes the access raise.\<close>

definition row :: "'r option \<Rightarrow> exn + 'r" where
  "row x = (case x of None \<Rightarrow> Inl (builtin_exn EObjectDeletedError) | Some r \<Rightarrow> Inr r)"

definition find_user :: "int \<Rightarrow> database \<Rightarrow> user option" where
  "find_user uid db = find (\<lambda>u. u_uid u = uid) (db_users db)"

definition find_app :: "int \<Rightarrow> database \<Rightarrow> application option" where
  "find_app aid db = find (\<lambda>a. a_aid a = aid) (db_apps db)"

definition user_row :: "int \<Rightarrow> ('w, user) dx" where
  "user_row uid = sx_bind (db_get (find_user uid)) (\<lambda>x. sx_lift (row x))"

definition app_row :: "int \<Rightarrow> ('w, application) dx" where
  "app_row aid = sx_bind (db_get (find_app aid)) (\<lambda>x. sx_lift (row x))"

definition change_where :: "('r \<Rightarrow> bool) \<Rightarrow> ('r \<Rightarrow> 'r) \<Rightarrow> 'r list \<Rightarrow> 'r list" where
  "change_where p f rows = map (\<lambda>r. if p r then f r else r) rows"

definition update_user :: "int \<Rightarrow> (user \<Rightarrow> user) \<Rightarrow> ('w, unit) dx" where
  "update_user uid f = on_db (db_users_update (change_where (\<lambda>u. u_uid u = uid) f))"

definition update_app :: "int \<Rightarrow> (application \<Rightarrow> application) \<Rightarrow> ('w, unit) dx" where
  "update_app aid f = on_db (db_apps_update (change_where (\<lambda>a. a_aid a = aid) f))"

definition set_status :: "int \<Rightarrow> app_status \<Rightarrow> ('w, unit) dx" where
  "set_status aid st = update_app aid (a_status_update (\<lambda>_. st))"

subsection \<open>Answers\<close>

text \<open>
  What a view computes: JSON, or the dictionary of \<open>error_response\<close> with its message template and
  the values in it. A response is such an answer, a bare status, or an archive of files.
\<close>

datatype answer = Answer pyval | ErrorAnswer string "pyval list"

datatype response = Respond answer | StatusOnly int | SendFiles "(string \<times> string) list"

definition json_false :: response where
  "json_false = Respond (Answer (PBool False))"

type_synonym form = "(string \<times> string) list"

definition opt_str :: "string option \<Rightarrow> pyval" where
  "opt_str x = (case x of None \<Rightarrow> PNone | Some s \<Rightarrow> PStr s)"

definition user_dict :: "'w denv \<Rightarrow> user \<Rightarrow> kwargs" where
  "user_dict env u =
     [(''uid'', PInt (u_uid u)), (''username'', PStr (u_username u)), (''fname'', opt_str (u_fname u)),
      (''lname'', opt_str (u_lname u)), (''email'', PStr (u_email u)), (''affiliation'', opt_str (u_affiliation u)),
      (''password'', PStr (u_password u)), (''credit'', PInt (u_credit u)), (''created'', PStr (de_date env (u_created u))),
      (''uuid'', opt_str (u_uuid u)), (''openid'', opt_str (u_openid u))]"

subsection \<open>Client certificates\<close>

text \<open>\<open>get_x509_dn_field\<close>: the first component of the subject with the name.\<close>

definition get_x509_dn_field :: "(string \<times> string) list \<Rightarrow> string \<Rightarrow> string option" where
  "get_x509_dn_field components f = map_of components f"

definition opt_int :: "string option \<Rightarrow> exn + int" where
  "opt_int x = (case x of None \<Rightarrow> Inl (builtin_exn ETypeError) | Some s \<Rightarrow> py_int (PStr s))"

text \<open>\<open>get_app_by_id\<close> answers nothing for an application of another user.\<close>

definition get_app_by_id :: "int \<Rightarrow> int \<Rightarrow> database \<Rightarrow> int option" where
  "get_app_by_id user_id app_id db = (case find_app app_id db of
       None \<Rightarrow> None
     | Some a \<Rightarrow> if a_user_id a \<noteq> user_id then None else Some (a_aid a))"

text \<open>
  \<open>cert_required\<close>: the views get the user, and for the role \<open>manager\<close> the application, that the
  certificate names. The environment variable \<open>DIRECTOR_TESTING\<close>, with which the tests replace the certificate by
  form fields, is not set. The component \<open>role\<close> of the certificate is read and never compared. A missing
  \<open>serviceLocator\<close> is a \<open>TypeError\<close>, which that handler does not catch.
\<close>

datatype cert_role = UserCert | ManagerCert

definition cert_required ::
  "cert_role \<Rightarrow> (string \<times> string) list \<Rightarrow> (int \<Rightarrow> int option \<Rightarrow> ('w, response) dx) \<Rightarrow> ('w, response) dx" where
  "cert_required required components view =
     (case opt_int (get_x509_dn_field components ''UID'') of
        Inl _ \<Rightarrow> sx_return (StatusOnly 401)
      | Inr uid \<Rightarrow>
          sx_bind (db_get (find_user uid)) (\<lambda>u.
          case u of None \<Rightarrow> sx_return json_false
          | Some _ \<Rightarrow>
              (case required of UserCert \<Rightarrow> view uid None
               | ManagerCert \<Rightarrow>
                  (case get_x509_dn_field components ''serviceLocator'' of
                     None \<Rightarrow> sx_raise (builtin_exn ETypeError)
                   | Some locator \<Rightarrow>
                      (case py_int (PStr locator) of
                         Inl _ \<Rightarrow> sx_return (StatusOnly 401)
                       | Inr aid \<Rightarrow>
                           sx_bind (db_get (get_app_by_id uid aid)) (\<lambda>app.
                           case app of None \<Rightarrow> sx_return json_false | Some aid \<Rightarrow> view uid (Some aid)))))))"

subsection \<open>Passwords\<close>

definition form_value :: "form \<Rightarrow> string \<Rightarrow> string" where
  "form_value f k = (case map_of f k of None \<Rightarrow> [] | Some v \<Rightarrow> v)"

definition no_none :: "string \<Rightarrow> string" where
  "no_none s = (if s = ''<none>'' then [] else s)"

text \<open>The three ways to authenticate, tried in order; each only when its field is not blank.\<close>

definition authenticate :: "'w denv \<Rightarrow> form \<Rightarrow> database \<Rightarrow> int option" where
  "authenticate env f db =
     (let username = form_value f ''username''; password = form_value f ''password'';
          uuid = no_none (form_value f ''uuid''); openid = no_none (form_value f ''openid'');
          by_name = (if py_strip username = [] then None
                     else find (\<lambda>u. u_username u = username \<and> u_password u = de_md5 env password) (db_users db));
          by_uuid = (if py_strip uuid = [] then None else find (\<lambda>u. u_uuid u = Some uuid) (db_users db));
          by_openid = (if py_strip openid = [] then None else find (\<lambda>u. u_openid u = Some openid) (db_users db))
      in map_option u_uid (case by_name of Some u \<Rightarrow> Some u | None \<Rightarrow>
           (case by_uuid of Some u \<Rightarrow> Some u | None \<Rightarrow> by_openid)))"

definition login_required :: "'w denv \<Rightarrow> form \<Rightarrow> (int \<Rightarrow> ('w, response) dx) \<Rightarrow> ('w, response) dx" where
  "login_required env f view =
     sx_bind (db_get (authenticate env f)) (\<lambda>u.
       case u of Some uid \<Rightarrow> view uid
       | None \<Rightarrow> sx_return (Respond (ErrorAnswer ''User authentication failed'' [])))"

subsection \<open>New users\<close>

definition default_max_credit :: int where
  "default_max_credit = 50"

definition max_credit :: "config \<Rightarrow> int" where
  "max_credit cfg = (case cfg_get cfg ''conpaas'' ''MAX_CREDIT'' of
       Inl _ \<Rightarrow> default_max_credit
     | Inr v \<Rightarrow> (case parse_int v of
           None \<Rightarrow> default_max_credit
         | Some m \<Rightarrow> if m < 0 then default_max_credit else m))"

definition fresh_key :: "'w denv \<Rightarrow> ('r \<Rightarrow> int) \<Rightarrow> 'r list \<Rightarrow> int" where
  "fresh_key env key rows = de_fresh env (map key rows)"

text \<open>
  \<open>create_user\<close> stores the user and a first application; the columns \<open>username\<close> and \<open>email\<close> are
  unique, so the flush raises on a duplicate. \<open>Application(user=new_user)\<close> sets the foreign key.
\<close>

definition create_user ::
  "'w denv \<Rightarrow> (string \<Rightarrow> string option) \<Rightarrow> string \<Rightarrow> string \<Rightarrow> string \<Rightarrow> int \<Rightarrow> ('w, int) dx" where
  "create_user env values username email password credit =
     sx_bind (director_now env) (\<lambda>now.
     sx_bind (db_get id) (\<lambda>db.
     if list_ex (\<lambda>u. u_username u = username \<or> u_email u = email) (db_users db)
     then failed_flush
     else
       let uid = fresh_key env u_uid (db_users db); aid = fresh_key env a_aid (db_apps db);
           u = \<lparr>u_uid = uid, u_username = username, u_fname = values ''fname'', u_lname = values ''lname'',
                u_email = email, u_affiliation = values ''affiliation'', u_password = de_md5 env password,
                u_created = now, u_credit = credit, u_uuid = values ''uuid'', u_openid = values ''openid''\<rparr>;
           a = \<lparr>a_aid = aid, a_name = ''New Application'', a_status = A_INIT, a_user_id = uid\<rparr> in
       sx_bind (on_db (\<lambda>db. db\<lparr>db_users := db_users db @ [u], db_apps := db_apps db @ [a]\<rparr>)) (\<lambda>_.
       sx_bind commit (\<lambda>_. sx_return uid))))"

definition new_user_values :: "form \<Rightarrow> string \<Rightarrow> string option" where
  "new_user_values f k = (if k = ''uuid'' then map_option no_none (map_of f k) else map_of f k)"

text \<open>The first required field that is missing or empty.\<close>

definition missing_field :: "(string \<Rightarrow> string option) \<Rightarrow> string option" where
  "missing_field values =
     find (\<lambda>k. case values k of None \<Rightarrow> True | Some v \<Rightarrow> v = []) [''username'', ''email'', ''password'']"

definition new_user :: "'w denv \<Rightarrow> form \<Rightarrow> ('w, response) dx" where
  "new_user env f =
     (let values = new_user_values f; fail = (\<lambda>t vs. sx_return (Respond (ErrorAnswer t vs))) in
      case missing_field values of
        Some k \<Rightarrow> fail (''Missing required field: '%s'' @ [CHR 0x27]) [PStr k]
      | None \<Rightarrow>
        let username = the (values ''username''); email = the (values ''email'') in
        sx_bind (db_get id) (\<lambda>db.
        if list_ex (\<lambda>u. u_username u = username) (db_users db)
        then fail ''Username '%s' is already taken'' [PStr username]
        else if list_ex (\<lambda>u. u_email u = email) (db_users db)
        then fail ''E-mail '%s' is already registered'' [PStr email]
        else
          case values ''credit'' of
            None \<Rightarrow> sx_raise (builtin_exn ETypeError)
          | Some credit \<Rightarrow>
            (case parse_int credit of
               None \<Rightarrow> fail ''Required credit '%s' is not a valid integer.'' [PStr credit]
             | Some req_credit \<Rightarrow>
                 if req_credit < 0 then fail ''Required credit %s cannot be a negative integer.'' [PStr credit]
                 else if req_credit > max_credit (de_cfg env)
                 then fail ''Cannot allocate %s credit for a new user (max credit %s).''
                        [PStr credit, PInt (max_credit (de_cfg env))]
                 else sx_try
                   (sx_bind (create_user env values username email (the (values ''password'')) req_credit) (\<lambda>uid.
                    sx_bind (user_row uid) (\<lambda>u.
                      sx_return (Respond (Answer (PDict (user_dict env u)))))))
                   (\<lambda>e. fail ''Error upon user creation: %s -> %s'' []))))"

subsection \<open>Views of users\<close>

definition login :: "'w denv \<Rightarrow> form \<Rightarrow> ('w, response) dx" where
  "login env f = login_required env f (\<lambda>uid.
     sx_bind (user_row uid) (\<lambda>u. sx_return (Respond (Answer (PDict (user_dict env u))))))"

definition get_user_certs :: "'w denv \<Rightarrow> form \<Rightarrow> ('w, response) dx" where
  "get_user_certs env f = login_required env f (\<lambda>uid.
     sx_bind (sx_lift (cfg_get (de_cfg env) ''conpaas'' ''CERT_DIR'')) (\<lambda>cert_dir.
     sx_bind (user_row uid) (\<lambda>u.
     sx_bind (dout (de_certificate env cert_dir \<lparr>cs_uid = int_str (u_uid u), cs_aid = ''0'', cs_role = ''user'',
                cs_email = u_email u, cs_cn = u_username u, cs_org = ''Contrail''\<rparr>)) (\<lambda>certs.
       sx_return (SendFiles [(''ca_cert.pem'', ce_ca_cert certs), (''key.pem'', ce_key certs), (''cert.pem'', ce_cert certs)])))))"

text \<open>\<open>_deduct_credit\<close> has one parameter; the view below passes two, which raises.\<close>

definition deduct_credit :: "int \<Rightarrow> int \<Rightarrow> ('w, bool) dx" where
  "deduct_credit uid decrement =
     (if decrement \<le> 0 then sx_return False
      else
        sx_bind (user_row uid) (\<lambda>u.
        sx_bind (update_user uid (u_credit_update (\<lambda>c. c - decrement))) (\<lambda>_.
        if u_credit u - decrement > -1
        then sx_bind commit (\<lambda>_. sx_return True)
        else sx_bind rollback (\<lambda>_. sx_return False))))"

definition credit_view :: "(string \<times> string) list \<Rightarrow> form \<Rightarrow> ('w, response) dx" where
  "credit_view components f = cert_required ManagerCert components (\<lambda>uid aid.
     sx_bind (sx_lift (case map_of f ''aid'' of None \<Rightarrow> Inr (-1) | Some s \<Rightarrow> py_int (PStr s))) (\<lambda>app_id.
     sx_bind (sx_lift (case map_of f ''decrement'' of None \<Rightarrow> Inr 1 | Some s \<Rightarrow> py_int (PStr s))) (\<lambda>decrement.
       sx_raise (builtin_exn ETypeError))))"

definition user_config :: "'w denv \<Rightarrow> (string \<times> string) list \<Rightarrow> ('w, response) dx" where
  "user_config env components = cert_required UserCert components (\<lambda>uid _.
     sx_bind (user_row uid) (\<lambda>u.
       sx_return (Respond (Answer (PDict (AList.delete ''password'' (user_dict env u)))))))"

definition user_credit :: "(string \<times> string) list \<Rightarrow> ('w, response) dx" where
  "user_credit components = cert_required UserCert components (\<lambda>uid _.
     sx_bind (user_row uid) (\<lambda>u. sx_return (Respond (Answer (PInt (u_credit u))))))"

definition add_credit :: "string \<Rightarrow> int \<Rightarrow> ('w, int) dx" where
  "add_credit username credit =
     sx_bind (db_get (\<lambda>db. find (\<lambda>u. u_username u = username) (db_users db))) (\<lambda>x.
     case x of
       None \<Rightarrow> sx_raise (exc (''Unknown user '%s'' @ [CHR 0x27]) [PStr username])
     | Some u \<Rightarrow>
         sx_bind (update_user (u_uid u) (u_credit_update (\<lambda>c. if c + credit < 0 then 0 else c + credit))) (\<lambda>_.
         sx_bind commit (\<lambda>_.
         sx_bind (user_row (u_uid u)) (\<lambda>u. sx_return (u_credit u)))))"

end
