(* ===== verification/DirectorApps.thy ===== *)
theory DirectorApps
  imports Director
begin

text \<open>
  Applications and money: \<open>cpsdirector/application.py\<close>, the table \<open>Resource\<close> and the creation of nodes
  in \<open>cpsdirector/cloud.py\<close>, and \<open>cpsdirector/credits.py\<close>, which charges for the nodes and stops the
  applications of a user without credit.
\<close>

subsection \<open>Queries\<close>

definition app_resources :: "int \<Rightarrow> database \<Rightarrow> resource list" where
  "app_resources aid db = filter (\<lambda>r. r_app_id r = aid) (db_resources db)"

definition app_manager :: "int \<Rightarrow> database \<Rightarrow> resource option" where
  "app_manager aid db = find (\<lambda>r. r_app_id r = aid \<and> r_role r = ''manager'') (db_resources db)"

definition app_dict :: "database \<Rightarrow> application \<Rightarrow> kwargs" where
  "app_dict db a =
     [(''aid'', PInt (a_aid a)), (''name'', PStr (a_name a)), (''uid'', PInt (a_user_id a)),
      (''status'', PStr (status_name (a_status a)))] @
     (case app_manager (a_aid a) db of
        None \<Rightarrow> [(''manager'', PNone), (''vmid'', PNone), (''cloud'', PNone)]
      | Some m \<Rightarrow> [(''manager'', PStr (r_ip m)), (''vmid'', PStr (r_vmid m)), (''cloud'', PStr (r_cloud m))])"

definition user_apps :: "int \<Rightarrow> database \<Rightarrow> application list" where
  "user_apps uid db = filter (\<lambda>a. a_user_id a = uid) (db_apps db)"

text \<open>The join of resources and applications, for one user.\<close>

definition owned_by :: "int \<Rightarrow> database \<Rightarrow> resource \<Rightarrow> bool" where
  "owned_by uid db r = (case find_app (r_app_id r) db of None \<Rightarrow> False | Some a \<Rightarrow> a_user_id a = uid)"

definition get_app_by_name :: "int \<Rightarrow> string \<Rightarrow> database \<Rightarrow> int option" where
  "get_app_by_name user_id name db = (case find (\<lambda>a. a_name a = name) (db_apps db) of
       None \<Rightarrow> None
     | Some a \<Rightarrow> if a_user_id a \<noteq> user_id then None else Some (a_aid a))"

definition get_default_app :: "int \<Rightarrow> database \<Rightarrow> int option" where
  "get_default_app uid db = (case map a_aid (user_apps uid db) of [] \<Rightarrow> None | aid # aids \<Rightarrow> Some (fold min aids aid))"

definition check_app_exists :: "int \<Rightarrow> string \<Rightarrow> database \<Rightarrow> bool" where
  "check_app_exists uid name db = list_ex (\<lambda>a. a_name a = name \<and> a_user_id a = uid) (db_apps db)"

text \<open>\<open>Resource.remove\<close> and \<open>Service.remove\<close> commit.\<close>

definition remove_resource :: "int \<Rightarrow> ('w, unit) dx" where
  "remove_resource rid =
     sx_bind (on_db (db_resources_update (filter (\<lambda>r. r_rid r \<noteq> rid)))) (\<lambda>_. commit)"

definition remove_service_row :: "int \<Rightarrow> ('w, unit) dx" where
  "remove_service_row rec_id =
     sx_bind (on_db (db_services_update (filter (\<lambda>s. s_rec_id s \<noteq> rec_id)))) (\<lambda>_. commit)"

subsection \<open>Stopping and deleting an application\<close>

definition resource_node :: "int \<Rightarrow> resource \<Rightarrow> service_node" where
  "resource_node now r = new_service_node now (r_vmid r) (r_ip r) [] (r_cloud r) (PStr []) ''node''"

text \<open>The second half of \<open>_deleteapp\<close>: the services, the status, and the row itself.\<close>

definition stop_services :: "int \<Rightarrow> bool \<Rightarrow> answer \<Rightarrow> ('w, answer) dx" where
  "stop_services aid del ans =
     sx_bind (db_get (\<lambda>db. filter (\<lambda>s. s_application_id s = aid) (db_services db))) (\<lambda>services.
     sx_bind (sx_for services (\<lambda>s. remove_service_row (s_rec_id s))) (\<lambda>_.
     sx_bind (set_status aid A_STOPPED) (\<lambda>_.
     sx_bind (if del then on_db (db_apps_update (filter (\<lambda>a. a_aid a \<noteq> aid))) else sx_return ()) (\<lambda>_.
     sx_bind commit (\<lambda>_. sx_return ans)))))"

definition delete_app :: "'w denv \<Rightarrow> int \<Rightarrow> int \<Rightarrow> bool \<Rightarrow> ('w, answer) dx" where
  "delete_app env user_id app_id del_app_entry =
     sx_bind (db_get (get_app_by_id user_id app_id)) (\<lambda>found.
     case found of
       None \<Rightarrow> sx_return (ErrorAnswer ''Application not found'' [])
     | Some aid \<Rightarrow>
         sx_bind (db_get (app_resources aid)) (\<lambda>res_to_delete.
         sx_bind (director_now env) (\<lambda>now.
         sx_bind (sx_for res_to_delete (\<lambda>r. remove_resource (r_rid r))) (\<lambda>_.
         sx_bind (start_thread (DeleteNodes (map (resource_node now) res_to_delete))) (\<lambda>_.
           stop_services aid del_app_entry (Answer (PDict [])))))))"

subsection \<open>Credits\<close>

definition mins_from_creation :: "int \<Rightarrow> int \<Rightarrow> int" where
  "mins_from_creation now created = (now - created) div 60"

definition charging_unit :: int where
  "charging_unit = 60"

text \<open>
  The loop over the resources of one user. What is added to \<open>charged\<close> is the sum over all the
  resources so far, not the amount charged for this one.
\<close>

fun charge_resources :: "int \<Rightarrow> resource list \<Rightarrow> int \<Rightarrow> resource list \<times> int" where
  "charge_resources now [] to_charge = ([], to_charge)"
| "charge_resources now (r # rs) to_charge =
     (let tot_cost = mins_from_creation now (r_created r) div charging_unit in
      if tot_cost \<ge> r_charged r \<or> r_charged r = 0
      then let to_charge = to_charge + (tot_cost - r_charged r + 1);
               (rs', total) = charge_resources now rs to_charge
           in (r\<lparr>r_charged := r_charged r + to_charge\<rparr> # rs', total)
      else let (rs', total) = charge_resources now rs to_charge in (r # rs', total))"

definition replace_resource :: "resource list \<Rightarrow> resource \<Rightarrow> resource" where
  "replace_resource changed r = (case find (\<lambda>c. r_rid c = r_rid r) changed of None \<Rightarrow> r | Some c \<Rightarrow> c)"

text \<open>
  What \<open>check_credits\<close> does for a user once the resources are charged.
  The comparison \<open>user.credit == 0\<close> under \<open>if user.credit < 0\<close> is meant as an assignment and has no
  effect. Only a credit of exactly zero stops the applications.
\<close>

definition settle :: "'w denv \<Rightarrow> int \<Rightarrow> int \<Rightarrow> ('w, unit) dx" where
  "settle env uid to_charge =
     sx_bind (update_user uid (u_credit_update (\<lambda>c. c - to_charge))) (\<lambda>_.
     sx_bind (user_row uid) (\<lambda>u.
     sx_bind (if u_credit u = 0
              then sx_bind (db_get (user_apps uid)) (\<lambda>apps.
                   sx_for apps (\<lambda>a. sx_bind (delete_app env uid (a_aid a) False) (\<lambda>_. sx_return ())))
              else sx_return ()) (\<lambda>_.
       if to_charge \<noteq> 0 then commit else sx_return ())))"

definition charge_user :: "'w denv \<Rightarrow> int \<Rightarrow> ('w, unit) dx" where
  "charge_user env uid =
     sx_bind (director_now env) (\<lambda>now.
     sx_bind (db_get (\<lambda>db. filter (owned_by uid db) (db_resources db))) (\<lambda>rescs.
     let (changed, to_charge) = charge_resources now rescs 0 in
     sx_bind (on_db (db_resources_update (map (replace_resource changed)))) (\<lambda>_.
       settle env uid to_charge)))"

definition check_all_credits :: "'w denv \<Rightarrow> ('w, unit) dx" where
  "check_all_credits env =
     sx_bind (db_get (map u_uid \<circ> db_users)) (\<lambda>uids. sx_for uids (charge_user env))"

text \<open>
  \<open>check_sanity\<close>: the node objects of \<open>list_vms\<close> are built on the spot, so their creation time is the
  time of the listing.
\<close>

definition check_sanity :: "'w denv \<Rightarrow> controller \<Rightarrow> cloud list \<Rightarrow> ('w, unit) dx" where
  "check_sanity env ct cs =
     sx_bind (with_clouds cs (list_default_vms env ct)) (\<lambda>vms.
     sx_bind (db_get (\<lambda>db. map r_vmid (db_resources db))) (\<lambda>res_vmids.
     sx_bind (director_now env) (\<lambda>now.
     let vms_to_remove = filter (\<lambda>vm. sn_vmid vm \<notin> set res_vmids \<and> mins_from_creation now (sn_created vm) > 1) vms in
       if vms_to_remove = [] then sx_return () else with_clouds cs (ctl_delete_nodes env vms_to_remove))))"

text \<open>One turn of the background thread; it wakes up every minute.\<close>

definition credit_step :: nat where "credit_step = 5"
definition sanity_step :: nat where "sanity_step = 15"

definition background_turn :: "'w denv \<Rightarrow> controller \<Rightarrow> cloud list \<Rightarrow> nat \<Rightarrow> ('w, nat) dx" where
  "background_turn env ct cs count =
     (let count = count + 1 in
      sx_bind (if count mod credit_step = 0 then check_all_credits env else sx_return ()) (\<lambda>_.
      sx_bind (if count mod sanity_step = 0 then check_sanity env ct cs else sx_return ()) (\<lambda>_.
        sx_return (if count = max credit_step sanity_step then 0 else count))))"

subsection \<open>Creating nodes\<close>

definition normal_cloud :: "node_info \<Rightarrow> node_info" where
  "normal_cloud ni = (if ni_cloud ni = [] \<or> ni_cloud ni = ''default'' \<or> ni_cloud ni = ''None''
     then ni\<lparr>ni_cloud := ''iaas''\<rparr> else ni)"

text \<open>The set of clouds, listed in the order of their first occurrence.\<close>

definition get_cloud_list :: "node_info list \<Rightarrow> node_info list \<times> string list" where
  "get_cloud_list infos = (let infos = map normal_cloud infos in (infos, remdups (map ni_cloud infos)))"

text \<open>New rows for the nodes; the column \<open>vmid\<close> is unique.\<close>

fun resource_rows :: "'w denv \<Rightarrow> int \<Rightarrow> int \<Rightarrow> int \<Rightarrow> string \<Rightarrow> service_node list \<Rightarrow> resource list \<Rightarrow> resource list option" where
  "resource_rows env now app_id service_id role [] rows = Some rows"
| "resource_rows env now app_id service_id role (n # ns) rows =
     (if list_ex (\<lambda>r. r_vmid r = sn_vmid n) rows then None
      else resource_rows env now app_id service_id role ns
        (rows @ [\<lparr>r_rid = fresh_key env r_rid rows, r_vmid = sn_vmid n, r_app_id = app_id, r_service_id = service_id,
                  r_charged = 0, r_ip = sn_ip n, r_role = role, r_cloud = sn_cloud_name n, r_created = now\<rparr>]))"

definition register_nodes :: "'w denv \<Rightarrow> int \<Rightarrow> int \<Rightarrow> string \<Rightarrow> service_node list \<Rightarrow> ('w, unit) dx" where
  "register_nodes env app_id service_id role nodes =
     (if nodes = [] then sx_return ()
      else
        sx_bind (director_now env) (\<lambda>now.
        sx_bind (db_get db_resources) (\<lambda>rows.
        case resource_rows env now app_id service_id role nodes rows of
          None \<Rightarrow> failed_flush
        | Some rows' \<Rightarrow>
            sx_bind (on_db (db_resources_update (\<lambda>_. rows'))) (\<lambda>_.
            sx_bind commit (\<lambda>_.
            sx_bind (sx_lift (setup_default env)) (\<lambda>_.
              check_all_credits env))))))"

text \<open>
  \<open>_create_nodes\<close> for a manager. The new status is committed with the nodes, so it is lost when no
  node became ready; a status of an application that is not the user's raises.
\<close>

definition manager_info :: "string \<Rightarrow> node_info" where
  "manager_info cloud = \<lparr>ni_cloud = cloud, ni_role = None, ni_inst_type = None, ni_volumes = None, ni_name = [], ni_id = None\<rparr>"

definition create_manager_nodes :: "'w denv \<Rightarrow> manager_args \<Rightarrow> ('w, service_node list) dx" where
  "create_manager_nodes env args = (case args of ManagerArgs user_id app_id cloud ignore_status \<Rightarrow>
     let (infos, clouds) = get_cloud_list [manager_info cloud] in
     sx_bind (sx_lift (manager_controller (de_cfg env) (int_str user_id) (int_str app_id))) (\<lambda>(ct, cs).
     sx_bind (with_clouds cs
        (sx_bind (generate_context env ct clouds [] None) (\<lambda>_. ctl_create_nodes env ct infos clouds))) (\<lambda>nodes.
     sx_bind (if ignore_status then sx_return ()
              else sx_bind (db_get (get_app_by_id user_id app_id)) (\<lambda>app.
                   case app of None \<Rightarrow> sx_raise (builtin_exn EAttributeError) | Some aid \<Rightarrow> set_status aid A_RUNNING)) (\<lambda>_.
     sx_bind (register_nodes env app_id 0 ''manager'' nodes) (\<lambda>_.
       sx_return nodes)))))"

definition create_agent_nodes ::
  "'w denv \<Rightarrow> int \<Rightarrow> int \<Rightarrow> int \<Rightarrow> string \<Rightarrow> string \<Rightarrow> (string \<times> string) list \<Rightarrow> string option \<Rightarrow> node_info list \<Rightarrow>
     ('w, service_node list) dx" where
  "create_agent_nodes env user_id app_id service_id service_type manager_ip context startup_script nodes_info =
     (let (infos, clouds) = get_cloud_list nodes_info in
     sx_bind (sx_lift (agent_controller (de_cfg env) (int_str user_id) (int_str app_id) (int_str service_id)
        service_type manager_ip)) (\<lambda>(ct, cs).
     sx_bind (with_clouds cs
        (sx_bind (generate_context env ct clouds context startup_script) (\<lambda>_. ctl_create_nodes env ct infos clouds))) (\<lambda>nodes.
     sx_bind (register_nodes env app_id service_id ''agent'' nodes) (\<lambda>_.
       sx_return nodes))))"

subsection \<open>Starting an application\<close>

text \<open>
  The subnet for the virtual private network. No service has a subnet, and the result is not used;
  what matters is that a bad configuration raises.
\<close>

definition available_vpn_subnet :: "'w denv \<Rightarrow> int \<Rightarrow> ('w, string option) dx" where
  "available_vpn_subnet env aid =
     (let cfg = de_cfg env; get = cfg_get cfg ''conpaas'' in
      if \<not> has_section cfg ''conpaas'' then sx_raise (exc ''No section: %r'' [PStr ''conpaas''])
      else case (get ''VPN_BASE_NETWORK'', get ''VPN_NETMASK'', get ''VPN_SERVICE_BITS'') of
        (Inr network, Inr netmask, Inr srvbits) \<Rightarrow>
          sx_bind (sx_lift (de_prefixlen env (network @ ''/'' @ netmask))) (\<lambda>prefixlen.
          sx_bind (sx_lift (py_int (PStr srvbits))) (\<lambda>bits.
          sx_bind (db_get (\<lambda>db. map s_subnet (filter (\<lambda>s. s_application_id s = aid) (db_services db)))) (\<lambda>assigned.
            sx_return (find (\<lambda>c. Some c \<notin> set assigned)
              (de_subnets env (network @ ''/'' @ netmask) (32 - prefixlen - bits))))))
      | _ \<Rightarrow> sx_return None)"

definition start_app :: "'w denv \<Rightarrow> int \<Rightarrow> int \<Rightarrow> string \<Rightarrow> bool \<Rightarrow> bool \<Rightarrow> ('w, answer) dx" where
  "start_app env user_id app_id cname new_thread ignore_status =
     sx_bind (db_get (get_app_by_id user_id app_id)) (\<lambda>found.
     case found of
       None \<Rightarrow> sx_return (ErrorAnswer ''Application not found'' [])
     | Some aid \<Rightarrow>
         sx_bind (app_row aid) (\<lambda>a.
         if \<not> ignore_status \<and> a_status a \<notin> {A_INIT, A_STOPPED}
         then sx_return (ErrorAnswer ''Application already started'' [])
         else
           sx_bind (user_row user_id) (\<lambda>u.
           if u_credit u \<le> 0 then sx_return (ErrorAnswer ''Insufficient credits'' [])
           else
             sx_bind (sx_try
               (sx_bind (set_status aid A_PROLOGUE) (\<lambda>_.
                sx_bind commit (\<lambda>_.
                sx_bind (available_vpn_subnet env aid) (\<lambda>_.
                let args = ManagerArgs user_id app_id cname ignore_status in
                sx_bind (if new_thread then start_thread (CreateManager args)
                         else sx_bind (create_manager_nodes env args) (\<lambda>_. sx_return ())) (\<lambda>_.
                  sx_return (Answer (PDict [])))))))
               (\<lambda>e. sx_bind (set_status aid A_STOPPED) (\<lambda>_.
                      sx_return (ErrorAnswer ''Error upon application starting: %s %s'' [])))) (\<lambda>ans.
             sx_bind commit (\<lambda>_. sx_return ans)))))"

subsection \<open>The other operations\<close>

definition create_app :: "'w denv \<Rightarrow> int \<Rightarrow> string option \<Rightarrow> ('w, answer) dx" where
  "create_app env uid app_name =
     (case app_name of
        None \<Rightarrow> sx_return (ErrorAnswer ''\"name\" is a required argument'' [])
      | Some name \<Rightarrow>
          if name = [] then sx_return (ErrorAnswer ''\"name\" is a required argument'' [])
          else
            sx_bind (db_get (check_app_exists uid name)) (\<lambda>exists.
            if exists then sx_return (ErrorAnswer ''Application name \"%s\" is already taken'' [PStr name])
            else
              sx_bind (db_get (fresh_key env a_aid \<circ> db_apps)) (\<lambda>aid.
              let a = \<lparr>a_aid = aid, a_name = name, a_status = A_INIT, a_user_id = uid\<rparr> in
              sx_bind (on_db (db_apps_update (\<lambda>apps. apps @ [a]))) (\<lambda>_.
              sx_bind commit (\<lambda>_.
              sx_bind (db_get id) (\<lambda>db. sx_return (Answer (PDict (app_dict db a)))))))))"

definition rename_app :: "int \<Rightarrow> int \<Rightarrow> string option \<Rightarrow> ('w, answer) dx" where
  "rename_app uid appid newname =
     (case newname of
        None \<Rightarrow> sx_return (ErrorAnswer ''\"name\" is a required argument'' [])
      | Some name \<Rightarrow>
          if name = [] then sx_return (ErrorAnswer ''\"name\" is a required argument'' [])
          else
            sx_bind (db_get (get_app_by_id uid appid)) (\<lambda>found.
            case found of
              None \<Rightarrow> sx_return (ErrorAnswer ''Application not found'' [])
            | Some aid \<Rightarrow>
                sx_bind (db_get (check_app_exists uid name)) (\<lambda>exists.
                if exists then sx_return (ErrorAnswer ''Application name \"%s\" is already taken'' [PStr name])
                else
                  sx_bind (update_app aid (a_name_update (\<lambda>_. name))) (\<lambda>_.
                  sx_bind commit (\<lambda>_. sx_return (Answer (PDict [])))))))"

subsection \<open>Views\<close>

definition createapp_view :: "'w denv \<Rightarrow> (string \<times> string) list \<Rightarrow> form \<Rightarrow> ('w, response) dx" where
  "createapp_view env components f = cert_required UserCert components (\<lambda>uid _.
     sx_bind (create_app env uid (map_of f ''name'')) (\<lambda>ans. sx_return (Respond ans)))"

definition startapp_view :: "'w denv \<Rightarrow> (string \<times> string) list \<Rightarrow> int \<Rightarrow> string option \<Rightarrow> ('w, response) dx" where
  "startapp_view env components appid cloudname = cert_required UserCert components (\<lambda>uid _.
     sx_bind (start_app env uid appid (case cloudname of None \<Rightarrow> ''default'' | Some c \<Rightarrow> c) True False) (\<lambda>ans.
       sx_return (Respond ans)))"

definition stopapp_view :: "'w denv \<Rightarrow> (string \<times> string) list \<Rightarrow> int \<Rightarrow> ('w, response) dx" where
  "stopapp_view env components appid = cert_required UserCert components (\<lambda>uid _.
     sx_bind (delete_app env uid appid False) (\<lambda>ans. sx_return (Respond ans)))"

definition deleteapp_view :: "'w denv \<Rightarrow> (string \<times> string) list \<Rightarrow> int \<Rightarrow> ('w, response) dx" where
  "deleteapp_view env components appid = cert_required UserCert components (\<lambda>uid _.
     sx_bind (delete_app env uid appid True) (\<lambda>ans. sx_return (Respond ans)))"

definition renameapp_view :: "(string \<times> string) list \<Rightarrow> int \<Rightarrow> form \<Rightarrow> ('w, response) dx" where
  "renameapp_view components appid f = cert_required UserCert components (\<lambda>uid _.
     sx_bind (rename_app uid appid (map_of f ''name'')) (\<lambda>ans. sx_return (Respond ans)))"

definition list_applications :: "(string \<times> string) list \<Rightarrow> ('w, response) dx" where
  "list_applications components = cert_required UserCert components (\<lambda>uid _.
     sx_bind (db_get id) (\<lambda>db.
       sx_return (Respond (Answer (PList (map (PDict \<circ> app_dict db) (user_apps uid db)))))))"

end
