(* ===== verification/DirectorServices.thy ===== *)
theory DirectorServices
  imports DirectorApps
begin

text \<open>
  \<open>cpsdirector/service.py\<close>: the services of an application, which live in its manager; the director
  forwards the calls to the manager and keeps a table. The requests of managers for nodes and
  volumes (the views of \<open>cpsdirector/cloud.py\<close>) are at the end.
\<close>

subsection \<open>Calling a manager\<close>

datatype call_result = CallFailed string "pyval list" | Called pyval

definition call_manager ::
  "'w denv \<Rightarrow> int \<Rightarrow> int option \<Rightarrow> int \<Rightarrow> string \<Rightarrow> bool \<Rightarrow> kwargs \<Rightarrow> (string \<times> string \<times> string) list \<Rightarrow>
     ('w, call_result) dx" where
  "call_manager env uid app_id service_id meth post data files =
     sx_bind (db_get (\<lambda>db. case app_id of None \<Rightarrow> None | Some i \<Rightarrow> get_app_by_id uid i db)) (\<lambda>app.
     case app of
       None \<Rightarrow> sx_return (CallFailed ''Application %s not found.'' [])
     | Some aid \<Rightarrow>
         sx_bind (db_get (app_manager aid)) (\<lambda>manager.
         case manager of
           None \<Rightarrow> sx_return (CallFailed ''Application %s has not started. Try to start it first.'' [PInt aid])
         | Some m \<Rightarrow>
             sx_bind (dout
               (if files \<noteq> [] then de_upload env (r_ip m) 443 (AList.update ''service_id'' (PInt service_id) data) files
                else if post then de_post env (r_ip m) 443 meth service_id data
                else de_get env (r_ip m) 443 meth service_id data)) (\<lambda>(code, body).
             if code \<noteq> 200
             then sx_raise (exc ''Call to method %s on %s failed: %s. Params = %s'' [PStr meth, PStr (r_ip m), body, PDict data])
             else (case body of
                 PStr s \<Rightarrow> sx_return (Called (PStr s))
               | PDict d \<Rightarrow> sx_return (Called (case map_of d ''result'' of None \<Rightarrow> PDict d | Some r \<Rightarrow> r))
               | _ \<Rightarrow> sx_raise (builtin_exn EAttributeError)))))"

text \<open>\<open>key in reply\<close> and \<open>reply[key]\<close>; a text is searched for the key.\<close>

definition in_reply :: "string \<Rightarrow> pyval \<Rightarrow> exn + bool" where
  "in_reply key v = (case v of
       PDict d \<Rightarrow> Inr (key \<in> set (dict_keys d))
     | PStr s \<Rightarrow> Inr (contains_sub key s)
     | PList xs \<Rightarrow> Inr (py_in (PStr key) xs)
     | _ \<Rightarrow> Inl (builtin_exn ETypeError))"

definition reply_item :: "pyval \<Rightarrow> string \<Rightarrow> exn + pyval" where
  "reply_item v key = (case v of PDict d \<Rightarrow> py_lookup d key | _ \<Rightarrow> Inl (builtin_exn ETypeError))"

subsection \<open>Services\<close>

definition get_service :: "int \<Rightarrow> int \<Rightarrow> int \<Rightarrow> database \<Rightarrow> exn + int option" where
  "get_service user_id application_id service_id db =
     (case find (\<lambda>s. s_sid s = service_id \<and> s_application_id s = application_id) (db_services db) of
        None \<Rightarrow> Inr None
      | Some s \<Rightarrow> (case find_app (s_application_id s) db of
            None \<Rightarrow> Inl (builtin_exn EAttributeError)
          | Some a \<Rightarrow> Inr (if a_user_id a \<noteq> user_id then None else Some (s_rec_id s))))"

definition service_dict :: "'w denv \<Rightarrow> database \<Rightarrow> service_row \<Rightarrow> exn + kwargs" where
  "service_dict env db s =
     (case find_app (s_application_id s) db of
        None \<Rightarrow> Inl (builtin_exn EAttributeError)
      | Some a \<Rightarrow> Inr
          [(''service'', PDict [(''rec_id'', PInt (s_rec_id s)), (''sid'', PInt (s_sid s)), (''name'', PStr (s_name s)),
             (''type'', PStr (s_type s)), (''state'', PStr (s_state s)), (''created'', PStr (de_date env (s_created s))),
             (''cloud'', opt_str (s_cloud s)), (''subnet'', opt_str (s_subnet s)),
             (''application_id'', PInt (s_application_id s))]),
           (''application'', PDict (app_dict db a))])"

definition valid_services :: "string list" where
  "valid_services = [''php'', ''java'', ''helloworld'', ''xtreemfs'', ''mysql'', ''generic'']"

text \<open>\<open>_add\<close>; an application id that is not a number names no application.\<close>

definition add_service_row :: "'w denv \<Rightarrow> string \<Rightarrow> int \<Rightarrow> int \<Rightarrow> ('w, service_row) dx" where
  "add_service_row env service_type aid sid =
     sx_bind (director_now env) (\<lambda>now.
     sx_bind (db_get (fresh_key env s_rec_id \<circ> db_services)) (\<lambda>rec_id.
     let s = \<lparr>s_rec_id = rec_id, s_sid = sid, s_name = ''New '' @ service_type @ '' service'', s_type = service_type,
              s_state = ''INIT'', s_created = now, s_cloud = None, s_subnet = None, s_application_id = aid\<rparr> in
     sx_bind (on_db (db_services_update (\<lambda>rows. rows @ [s]))) (\<lambda>_.
     sx_bind commit (\<lambda>_. sx_return s))))"

text \<open>What \<open>_add\<close> does with the reply of the manager.\<close>

definition file_service :: "'w denv \<Rightarrow> string \<Rightarrow> int option \<Rightarrow> call_result \<Rightarrow> ('w, answer) dx" where
  "file_service env service_type app res = (case res of
      CallFailed t vs \<Rightarrow> sx_return (ErrorAnswer t vs)
    | Called v \<Rightarrow>
        sx_bind (sx_lift (in_reply ''service_id'' v)) (\<lambda>added.
        if \<not> added then sx_return (Answer v)
        else
          sx_bind (sx_lift (reply_item v ''service_id'')) (\<lambda>sid.
          sx_bind (sx_lift (py_int sid)) (\<lambda>sid.
          sx_bind (sx_lift (case app of None \<Rightarrow> Inl (builtin_exn EAttributeError) | Some aid \<Rightarrow> Inr aid)) (\<lambda>aid.
          sx_bind (add_service_row env service_type aid sid) (\<lambda>s.
          sx_bind (db_get (\<lambda>db. service_dict env db s)) (\<lambda>dict.
          sx_bind (sx_lift dict) (\<lambda>dict. sx_return (Answer (PDict dict))))))))))"

definition dir_add_service :: "'w denv \<Rightarrow> int \<Rightarrow> string \<Rightarrow> string option \<Rightarrow> ('w, answer) dx" where
  "dir_add_service env uid service_type appid =
     (let named = (case appid of None \<Rightarrow> None | Some s \<Rightarrow> if s = [] then None else Some s) in
      sx_bind (db_get (\<lambda>db. case named of None \<Rightarrow> get_default_app uid db | Some s \<Rightarrow>
                 (case parse_int s of None \<Rightarrow> None | Some i \<Rightarrow> get_app_by_id uid i db))) (\<lambda>app.
      if named = None \<and> app = None then sx_return (ErrorAnswer ''No existing applications'' [])
      else if service_type \<notin> set valid_services
      then sx_return (ErrorAnswer (''Unknown service type '%s'' @ [CHR 0x27]) [PStr service_type])
      else
        sx_bind (call_manager env uid app 0 ''add_service'' True [(''service_type'', PStr service_type)] []) (file_service env service_type app)))"

definition both_ints :: "string option \<Rightarrow> string option \<Rightarrow> (int \<times> int) option" where
  "both_ints a b = (case (opt_int a, opt_int b) of (Inr i, Inr j) \<Rightarrow> Some (i, j) | _ \<Rightarrow> None)"

definition rename_service :: "int \<Rightarrow> string option \<Rightarrow> string option \<Rightarrow> string option \<Rightarrow> ('w, answer) dx" where
  "rename_service uid app_id service_id newname =
     (case both_ints app_id service_id of
        None \<Rightarrow> sx_return (ErrorAnswer ''Bad specification of application or service IDs'' [])
      | Some (aid, sid) \<Rightarrow>
          if newname = None \<or> newname = Some [] then sx_return (ErrorAnswer ''\"name\" is a required argument'' [])
          else
            sx_bind (db_get (get_service uid aid sid)) (\<lambda>found.
            sx_bind (sx_lift found) (\<lambda>found.
            case found of
              None \<Rightarrow> sx_return (ErrorAnswer ''Invalid service_id'' [])
            | Some rec_id \<Rightarrow>
                sx_bind (on_db (db_services_update (change_where (\<lambda>s. s_rec_id s = rec_id) (s_name_update (\<lambda>_. the newname))))) (\<lambda>_.
                sx_bind commit (\<lambda>_. sx_return (Answer (PDict [])))))))"

text \<open>\<open>_remove\<close>: a service the manager removed but the table does not have makes it raise.\<close>

definition dir_remove_service :: "'w denv \<Rightarrow> int \<Rightarrow> string option \<Rightarrow> string option \<Rightarrow> ('w, answer) dx" where
  "dir_remove_service env uid app_id service_id =
     (case both_ints app_id service_id of
        None \<Rightarrow> sx_return (ErrorAnswer ''Bad specification of application or service IDs'' [])
      | Some (aid, sid) \<Rightarrow>
          sx_bind (call_manager env uid (Some aid) 0 ''remove_service'' True [(''service_id'', PInt sid)] []) (\<lambda>res.
          case res of
            CallFailed t vs \<Rightarrow> sx_return (ErrorAnswer t vs)
          | Called v \<Rightarrow>
              sx_bind (sx_lift (in_reply ''error'' v)) (\<lambda>failed.
              if failed then sx_return (Answer v)
              else
                sx_bind (db_get (get_service uid aid sid)) (\<lambda>found.
                sx_bind (sx_lift found) (\<lambda>found.
                case found of
                  None \<Rightarrow> sx_raise (builtin_exn EAttributeError)
                | Some rec_id \<Rightarrow>
                    sx_bind (remove_service_row rec_id) (\<lambda>_. sx_return (Answer (PDict []))))))))"

subsection \<open>Views of services\<close>

definition add_view :: "'w denv \<Rightarrow> (string \<times> string) list \<Rightarrow> string \<Rightarrow> form \<Rightarrow> ('w, response) dx" where
  "add_view env components servicetype f = cert_required UserCert components (\<lambda>uid _.
     sx_bind (dir_add_service env uid servicetype (map_of f ''appid'')) (\<lambda>ans. sx_return (Respond ans)))"

definition rename_view :: "(string \<times> string) list \<Rightarrow> form \<Rightarrow> ('w, response) dx" where
  "rename_view components f = cert_required UserCert components (\<lambda>uid _.
     sx_bind (rename_service uid (map_of f ''app_id'') (map_of f ''service_id'') (map_of f ''name'')) (\<lambda>ans.
       sx_return (Respond ans)))"

definition remove_view :: "'w denv \<Rightarrow> (string \<times> string) list \<Rightarrow> form \<Rightarrow> ('w, response) dx" where
  "remove_view env components f = cert_required UserCert components (\<lambda>uid _.
     sx_bind (dir_remove_service env uid (map_of f ''app_id'') (map_of f ''service_id'')) (\<lambda>ans.
       sx_return (Respond ans)))"

definition list_all_services :: "'w denv \<Rightarrow> (string \<times> string) list \<Rightarrow> ('w, response) dx" where
  "list_all_services env components = cert_required UserCert components (\<lambda>uid _.
     sx_bind (db_get (\<lambda>db. map_res (service_dict env db)
        (filter (\<lambda>s. case find_app (s_application_id s) db of None \<Rightarrow> False | Some a \<Rightarrow> a_user_id a = uid) (db_services db)))) (\<lambda>ds.
     sx_bind (sx_lift ds) (\<lambda>ds. sx_return (Respond (Answer (PList (map PDict ds)))))))"

text \<open>The owner of the application is not checked here.\<close>

definition list_services :: "'w denv \<Rightarrow> (string \<times> string) list \<Rightarrow> int \<Rightarrow> ('w, response) dx" where
  "list_services env components appid = cert_required UserCert components (\<lambda>uid _.
     sx_bind (db_get (\<lambda>db. map_res (service_dict env db)
        (filter (\<lambda>s. s_application_id s = appid) (db_services db)))) (\<lambda>ds.
     sx_bind (sx_lift ds) (\<lambda>ds. sx_return (Respond (Answer (PList (map PDict ds)))))))"

subsection \<open>Requests of managers: nodes\<close>

text \<open>
  The request for nodes sends Python's own text of a list of dictionaries; the director makes JSON of
  it by replacing quotes.
\<close>

definition quotes_to_json :: "string \<Rightarrow> string" where
  "quotes_to_json s = py_replace [CHR 0x27] [CHR 0x22] (py_replace (''u'' @ [CHR 0x27]) [CHR 0x22] s)"

definition opt_item :: "kwargs \<Rightarrow> string \<Rightarrow> string option" where
  "opt_item d k = (case map_of d k of Some (PStr s) \<Rightarrow> Some s | _ \<Rightarrow> None)"

definition opt_opt_item :: "kwargs \<Rightarrow> string \<Rightarrow> string option option" where
  "opt_opt_item d k = map_option (\<lambda>v. case v of PStr s \<Rightarrow> Some s | _ \<Rightarrow> None) (map_of d k)"

definition decode_volume :: "pyval \<Rightarrow> exn + volume_dict" where
  "decode_volume v = (case v of
       PDict d \<Rightarrow> Inr \<lparr>vd_vol_name = opt_item d ''vol_name'',
         vd_vol_size = (case map_of d ''vol_size'' of Some (PInt n) \<Rightarrow> Some n | _ \<Rightarrow> None),
         vd_vol_id = opt_opt_item d ''vol_id'', vd_vm_id = opt_opt_item d ''vm_id'',
         vd_dev_name = opt_opt_item d ''dev_name'', vd_cloud = opt_opt_item d ''cloud''\<rparr>
     | _ \<Rightarrow> Inl (builtin_exn ETypeError))"

text \<open>Text, or \<open>None\<close>; a request has nothing else in these places.\<close>

definition text_item :: "pyval \<Rightarrow> exn + string" where
  "text_item v = (case v of PStr s \<Rightarrow> Inr s | PNone \<Rightarrow> Inr [] | _ \<Rightarrow> Inl (builtin_exn ETypeError))"

definition decode_info :: "pyval \<Rightarrow> exn + node_info" where
  "decode_info v = (case v of
       PDict d \<Rightarrow>
         res_bind (res_bind (py_lookup d ''cloud'') text_item) (\<lambda>c.
         res_bind (case map_of d ''volumes'' of
                     None \<Rightarrow> Inr None
                   | Some (PList vs) \<Rightarrow> map_sum id Some (map_res decode_volume vs)
                   | Some _ \<Rightarrow> Inl (builtin_exn ETypeError)) (\<lambda>vols.
           Inr \<lparr>ni_cloud = c, ni_role = opt_item d ''role'', ni_inst_type = opt_item d ''inst_type'',
                ni_volumes = vols, ni_name = [], ni_id = None\<rparr>))
     | _ \<Rightarrow> Inl (builtin_exn ETypeError))"

definition loads_list :: "'w denv \<Rightarrow> string \<Rightarrow> exn + pyval list" where
  "loads_list env s = res_bind (de_loads env s) (\<lambda>v. case v of PList xs \<Rightarrow> Inr xs | _ \<Rightarrow> Inl (builtin_exn ETypeError))"

definition node_json :: "service_node \<Rightarrow> pyval" where
  "node_json n = PDict
     [(''id'', PStr (sn_id n)), (''vmid'', PStr (sn_vmid n)), (''ip'', PStr (sn_ip n)),
      (''private_ip'', PStr (sn_private_ip n)), (''cloud_name'', PStr (sn_cloud_name n)),
      (''weight_backend'', sn_weight_backend n), (''role'', PStr (sn_role n)),
      (''volumes'', PList (map (\<lambda>v. PDict
         [(''vol_name'', PStr (sv_vol_name v)), (''vol_size'', PInt (sv_vol_size v)), (''vol_id'', opt_str (sv_vol_id v)),
          (''vm_id'', opt_str (sv_vm_id v)), (''dev_name'', opt_str (sv_dev_name v)), (''cloud'', opt_str (sv_cloud v))])
         (sn_volumes n)))]"

text \<open>
  The identifiers of the application and the service are taken from the request, and are numbers; the
  application is not compared with the one of the certificate.
\<close>

definition field :: "form \<Rightarrow> string \<Rightarrow> exn + string" where
  "field f k = (case map_of f k of None \<Rightarrow> Inl (builtin_exn EAttributeError) | Some s \<Rightarrow> Inr s)"

definition create_nodes_view :: "'w denv \<Rightarrow> (string \<times> string) list \<Rightarrow> form \<Rightarrow> ('w, response) dx" where
  "create_nodes_view env components f = cert_required ManagerCert components (\<lambda>uid _.
     sx_bind (sx_lift (res_bind (field f ''nodes_info'') (\<lambda>s.
        res_bind (loads_list env (quotes_to_json s)) (map_res decode_info)))) (\<lambda>nodes_info.
     sx_bind (sx_lift (res_bind (field f ''context'') (\<lambda>s.
        res_bind (de_loads env (py_replace [CHR 0x27] [CHR 0x22] s)) (\<lambda>v.
          case v of PDict d \<Rightarrow> Inr (map (map_prod id (de_str env)) d) | _ \<Rightarrow> Inl (builtin_exn ETypeError))))) (\<lambda>context.
     sx_bind (user_row uid) (\<lambda>u.
     if u_credit u \<le> 0 then sx_return (Respond (ErrorAnswer ''Insufficient credits'' []))
     else
       sx_bind (sx_lift (res_bind (field f ''app_id'') (\<lambda>s. py_int (PStr s)))) (\<lambda>app_id.
       sx_bind (sx_lift (res_bind (field f ''service_id'') (\<lambda>s. py_int (PStr s)))) (\<lambda>service_id.
       sx_bind (sx_lift (field f ''service_type'')) (\<lambda>service_type.
       sx_bind (sx_lift (field f ''manager_ip'')) (\<lambda>manager_ip.
       sx_bind (create_agent_nodes env uid app_id service_id service_type manager_ip context
                  (map_of f ''startup_script'') nodes_info) (\<lambda>nodes.
         sx_return (Respond (Answer (PList (map node_json nodes)))))))))))))"

definition decode_node :: "int \<Rightarrow> pyval \<Rightarrow> exn + service_node" where
  "decode_node now v = (case v of
       PDict d \<Rightarrow>
         res_bind (res_bind (py_lookup d ''vmid'') text_item) (\<lambda>vmid.
         res_bind (res_bind (py_lookup d ''ip'') text_item) (\<lambda>ip.
         res_bind (res_bind (py_lookup d ''private_ip'') text_item) (\<lambda>private_ip.
         res_bind (res_bind (py_lookup d ''cloud_name'') text_item) (\<lambda>cname.
         res_bind (py_lookup d ''weight_backend'') (\<lambda>weight.
           Inr (new_service_node now vmid ip private_ip cname weight ''node''))))))
     | _ \<Rightarrow> Inl (builtin_exn ETypeError))"

definition get_resource_by_id :: "string \<Rightarrow> database \<Rightarrow> int option" where
  "get_resource_by_id vmid db = map_option r_rid (find (\<lambda>r. r_vmid r = vmid) (db_resources db))"

text \<open>The machines are killed and their rows removed whoever owns them.\<close>

definition remove_nodes_view :: "'w denv \<Rightarrow> (string \<times> string) list \<Rightarrow> form \<Rightarrow> ('w, response) dx" where
  "remove_nodes_view env components f = cert_required ManagerCert components (\<lambda>uid _.
     sx_bind (sx_lift (res_bind (field f ''nodes'') (loads_list env))) (\<lambda>vs.
     sx_bind (director_now env) (\<lambda>now.
     sx_bind (sx_lift (map_res (decode_node now) vs)) (\<lambda>nodes.
     sx_bind (sx_lift (setup_default env)) (\<lambda>(ct, cs).
     sx_bind (with_clouds cs (ctl_delete_nodes env nodes)) (\<lambda>_.
     sx_bind (sx_for nodes (\<lambda>n.
        sx_bind (db_get (get_resource_by_id (sn_vmid n))) (\<lambda>res.
        case res of None \<Rightarrow> sx_raise (builtin_exn EAttributeError) | Some rid \<Rightarrow> remove_resource rid))) (\<lambda>_.
       sx_return (Respond (Answer (PDict []))))))))))"

subsection \<open>Requests of managers: volumes and credit\<close>

definition str_field :: "form \<Rightarrow> string \<Rightarrow> string" where
  "str_field f k = none_text (map_of f k)"

definition with_controller :: "'w denv \<Rightarrow> ('w, 'a) tx \<Rightarrow> ('w, 'a) dx" where
  "with_controller env m = sx_bind (sx_lift (setup_default env)) (\<lambda>(ct, cs). with_clouds cs m)"

definition create_volume_view :: "'w denv \<Rightarrow> (string \<times> string) list \<Rightarrow> form \<Rightarrow> ('w, response) dx" where
  "create_volume_view env components f = cert_required ManagerCert components (\<lambda>_ _.
     sx_bind (sx_lift (opt_int (map_of f ''size''))) (\<lambda>sz.
     sx_bind (with_controller env
        (ctl_create_volume env sz (str_field f ''name'') (str_field f ''vm_id'') (str_field f ''cloud''))) (\<lambda>volume_id.
       sx_return (Respond (Answer (PDict [(''volume_id'', PStr volume_id)]))))))"

definition attach_volume_view :: "'w denv \<Rightarrow> (string \<times> string) list \<Rightarrow> form \<Rightarrow> ('w, response) dx" where
  "attach_volume_view env components f = cert_required ManagerCert components (\<lambda>_ _.
     sx_bind (with_controller env (ctl_attach_volume env (str_field f ''vm_id'') (str_field f ''volume_id'')
        (str_field f ''device_name'') (str_field f ''cloud''))) (\<lambda>_.
       sx_return (Respond (Answer (PDict [])))))"

definition detach_volume_view :: "'w denv \<Rightarrow> (string \<times> string) list \<Rightarrow> form \<Rightarrow> ('w, response) dx" where
  "detach_volume_view env components f = cert_required ManagerCert components (\<lambda>_ _.
     sx_bind (with_controller env (ctl_detach_volume env (str_field f ''volume_id'') (str_field f ''cloud''))) (\<lambda>_.
       sx_return (Respond (Answer (PDict [])))))"

definition destroy_volume_view :: "'w denv \<Rightarrow> (string \<times> string) list \<Rightarrow> form \<Rightarrow> ('w, response) dx" where
  "destroy_volume_view env components f = cert_required ManagerCert components (\<lambda>_ _.
     sx_bind (with_controller env (ctl_destroy_volume env (str_field f ''volume_id'') (str_field f ''cloud''))) (\<lambda>_.
       sx_return (Respond (Answer (PDict [])))))"

definition manager_credit_view :: "(string \<times> string) list \<Rightarrow> ('w, response) dx" where
  "manager_credit_view components = cert_required ManagerCert components (\<lambda>uid _.
     sx_bind (user_row uid) (\<lambda>u. sx_return (Respond (Answer (PDict [(''credit'', PInt (u_credit u))])))))"

definition available_clouds :: "config \<Rightarrow> exn + string list" where
  "available_clouds cfg =
     (if has_option cfg ''iaas'' ''OTHER_CLOUDS''
      then map_sum id (\<lambda>s. ''default'' # filter (has_section cfg) (split_on (CHR '','') s)) (cfg_get cfg ''iaas'' ''OTHER_CLOUDS'')
      else Inr [''default''])"

definition resource_dict :: "'w denv \<Rightarrow> database \<Rightarrow> resource \<Rightarrow> exn + kwargs" where
  "resource_dict env db r =
     (case find_app (r_app_id r) db of
        None \<Rightarrow> Inl (builtin_exn EAttributeError)
      | Some a \<Rightarrow> Inr
          [(''rid'', PInt (r_rid r)), (''vmid'', PStr (r_vmid r)), (''app_id'', PInt (r_app_id r)),
           (''service_id'', PInt (r_service_id r)), (''charged'', PInt (r_charged r)), (''ip'', PStr (r_ip r)),
           (''role'', PStr (r_role r)), (''cloud'', PStr (if r_cloud r = ''iaas'' then ''default'' else r_cloud r)),
           (''created'', PStr (de_date env (r_created r))), (''app_name'', PStr (a_name a))])"

definition list_resources :: "'w denv \<Rightarrow> (string \<times> string) list \<Rightarrow> ('w, response) dx" where
  "list_resources env components = cert_required UserCert components (\<lambda>uid _.
     sx_bind (db_get (\<lambda>db. map_res (resource_dict env db) (filter (owned_by uid db) (db_resources db)))) (\<lambda>rs.
     sx_bind (sx_lift rs) (\<lambda>rs. sx_return (Respond (Answer (PList (map PDict rs)))))))"

end
