(* ===== verification/DirectorFacts.thy ===== *)
theory DirectorFacts
  imports DirectorServices
begin

text \<open>
  The director as a transition system: a step answers one request, runs one thread, or lets the
  background thread take a turn, and ends its session. The invariant of every reachable database:
  keys are unique, names are unique where the code means them to be, and references resolve.
\<close>

section \<open>The invariant\<close>

definition user_names :: "database \<Rightarrow> string list" where
  "user_names db = map u_username (db_users db)"

definition app_names :: "database \<Rightarrow> (int \<times> string) list" where
  "app_names db = map (\<lambda>a. (a_user_id a, a_name a)) (db_apps db)"

definition db_ok :: "database \<Rightarrow> bool" where
  "db_ok db \<longleftrightarrow>
     distinct (map u_uid (db_users db)) \<and> distinct (user_names db) \<and> distinct (map u_email (db_users db)) \<and>
     distinct (map a_aid (db_apps db)) \<and> distinct (app_names db) \<and>
     a_user_id ` set (db_apps db) \<subseteq> u_uid ` set (db_users db) \<and>
     distinct (map s_rec_id (db_services db)) \<and>
     s_application_id ` set (db_services db) \<subseteq> a_aid ` set (db_apps db) \<and>
     distinct (map r_rid (db_resources db)) \<and> distinct (map r_vmid (db_resources db))"

definition fresh_keys :: "'w denv \<Rightarrow> bool" where
  "fresh_keys env \<longleftrightarrow> (\<forall>ks. de_fresh env ks \<notin> set ks)"

lemma fresh_key_new: "fresh_keys env \<Longrightarrow> fresh_key env key rows \<notin> key ` set rows"
  by (metis fresh_key_def fresh_keys_def list.set_map)

lemma map_change_where: "(\<And>r. g (f r) = g r) \<Longrightarrow> map g (change_where p f rows) = map g rows"
  by (simp add: change_where_def)

lemma map_set_eq: "map g xs = map g ys \<Longrightarrow> g ` set xs = g ` set ys"
  by (metis list.set_map)

lemma distinct_map_filter_rows: "distinct (map f xs) \<Longrightarrow> distinct (map f (filter p xs))"
  by (rule distinct_map_filter)

text \<open>Changes that keep the invariant: of columns it does not mention, and removals.\<close>

definition keeps_db :: "(database \<Rightarrow> database) \<Rightarrow> bool" where
  "keeps_db f \<longleftrightarrow> (\<forall>db. db_ok db \<longrightarrow> db_ok (f db))"

lemma keeps_dbI:
  assumes "\<And>db. map u_uid (db_users (f db)) = map u_uid (db_users db)"
    "\<And>db. user_names (f db) = user_names db"
    "\<And>db. map u_email (db_users (f db)) = map u_email (db_users db)"
    "\<And>db. map a_aid (db_apps (f db)) = map a_aid (db_apps db)"
    "\<And>db. app_names (f db) = app_names db"
    "\<And>db. map a_user_id (db_apps (f db)) = map a_user_id (db_apps db)"
    "\<And>db. map s_rec_id (db_services (f db)) = map s_rec_id (db_services db)"
    "\<And>db. map s_application_id (db_services (f db)) = map s_application_id (db_services db)"
    "\<And>db. map r_rid (db_resources (f db)) = map r_rid (db_resources db)"
    "\<And>db. map r_vmid (db_resources (f db)) = map r_vmid (db_resources db)"
  shows "keeps_db f"
  unfolding keeps_db_def db_ok_def
  by (simp add: assms assms(4,6) [THEN map_set_eq] assms(1,8) [THEN map_set_eq])

lemma keeps_db_credit: "keeps_db (db_users_update (change_where p (u_credit_update g)))"
  by (rule keeps_dbI) (simp_all add: map_change_where user_names_def app_names_def)

lemma keeps_db_status: "keeps_db (db_apps_update (change_where p (a_status_update g)))"
  by (rule keeps_dbI) (simp_all add: map_change_where user_names_def app_names_def)

lemma keeps_db_service_name: "keeps_db (db_services_update (change_where p (s_name_update g)))"
  by (rule keeps_dbI) (simp_all add: map_change_where user_names_def app_names_def)

lemma keeps_db_drop:
  "keeps_db (db_resources_update (filter p))" "keeps_db (db_services_update (filter q))"
  by (auto simp: keeps_db_def db_ok_def user_names_def app_names_def intro: distinct_map_filter_rows)

text \<open>A charge changes the column \<open>charged\<close> only.\<close>

definition same_row :: "resource \<Rightarrow> resource \<Rightarrow> bool" where
  "same_row r c \<longleftrightarrow> c = r\<lparr>r_charged := r_charged c\<rparr>"

lemma same_row_simps [simp]: "same_row r r" "same_row r (r\<lparr>r_charged := k\<rparr>)"
  by (simp_all add: same_row_def)

lemma same_row_cols:
  assumes "same_row r c"
  shows "r_rid c = r_rid r" "r_vmid c = r_vmid r" "r_app_id c = r_app_id r" "r_role c = r_role r"
    "r_created c = r_created r" "r_ip c = r_ip r" "r_cloud c = r_cloud r" "r_service_id c = r_service_id r"
  using assms by (cases r; cases c; simp add: same_row_def)+

lemma charge_same_rows: "charge_resources now rs n = (rs', paid) \<Longrightarrow> list_all2 same_row rs rs'"
  by (induction now rs n arbitrary: rs' paid rule: charge_resources.induct)
     (auto simp: Let_def split: prod.splits if_splits)

lemma replace_same_row:
  assumes "charge_resources now rs n = (rs', paid)" "set rs \<subseteq> set rows" "distinct (map r_rid rows)" "r \<in> set rows"
  shows "same_row r (replace_resource rs' r)"
proof (cases "find (\<lambda>c. r_rid c = r_rid r) rs'")
  case (Some c)
  then have c: "c \<in> set rs'" "r_rid c = r_rid r" by (auto simp: find_Some_iff)
  obtain r0 where r0: "r0 \<in> set rs" "same_row r0 c"
    using charge_same_rows [OF assms(1)] c(1) by (metis list_all2_conv_all_nth in_set_conv_nth)
  then have "r0 = r"
    using assms(2-4) c(2) same_row_cols(1) [OF r0(2)] by (metis distinct_map inj_on_eq_iff subsetD)
  then show ?thesis using r0 Some by (simp add: replace_resource_def)
qed (simp add: replace_resource_def)

section \<open>Operations keep the invariant\<close>

definition dir_ok :: "'w director \<Rightarrow> bool" where
  "dir_ok d \<longleftrightarrow> db_ok (d_db d) \<and> db_ok (d_saved d)"

named_theorems dir_keeps \<open>computations that keep the invariant of the director\<close>

lemmas [dir_keeps] = sx_keeps_bind sx_keeps_try sx_keeps_for sx_keeps_basic

lemma keeps_if [dir_keeps]: "(b \<Longrightarrow> sx_keeps p m) \<Longrightarrow> (\<not> b \<Longrightarrow> sx_keeps p n) \<Longrightarrow> sx_keeps p (if b then m else n)"
  by simp

lemma keeps_option [dir_keeps]:
  "sx_keeps p m \<Longrightarrow> (\<And>y. sx_keeps p (f y)) \<Longrightarrow> sx_keeps p (case x of None \<Rightarrow> m | Some y \<Rightarrow> f y)"
  by (cases x) simp_all

lemma keeps_sum [dir_keeps]:
  "(\<And>e. sx_keeps p (g e)) \<Longrightarrow> (\<And>y. sx_keeps p (f y)) \<Longrightarrow> sx_keeps p (case x of Inl e \<Rightarrow> g e | Inr y \<Rightarrow> f y)"
  by (cases x) simp_all

lemma keeps_pair [dir_keeps]: "(\<And>a b. sx_keeps p (f a b)) \<Longrightarrow> sx_keeps p (case x of (a, b) \<Rightarrow> f a b)"
  by (cases x) simp

lemma keeps_let [dir_keeps]: "sx_keeps p (f x) \<Longrightarrow> sx_keeps p (let y = x in f y)"
  by simp

lemma keeps_role [dir_keeps]:
  "sx_keeps p m \<Longrightarrow> sx_keeps p n \<Longrightarrow> sx_keeps p (case r of UserCert \<Rightarrow> m | ManagerCert \<Rightarrow> n)"
  by (cases r) simp_all

lemma keeps_session [dir_keeps]:
  "sx_keeps dir_ok commit" "sx_keeps dir_ok rollback" "sx_keeps dir_ok failed_flush"
  by (auto simp: sx_keeps_def dir_ok_def commit_def rollback_def failed_flush_def)

lemma keeps_outside [dir_keeps]:
  "sx_keeps dir_ok (dout m)" "sx_keeps dir_ok (with_clouds cs n)" "sx_keeps dir_ok (start_thread j)"
  "sx_keeps dir_ok (db_get g)" "sx_keeps dir_ok (director_now env)"
  by (auto simp: sx_keeps_def dir_ok_def dout_def with_clouds_def start_thread_def db_get_def director_now_def
      split: prod.splits)

lemma keeps_on_db: "keeps_db f \<Longrightarrow> sx_keeps dir_ok (on_db f)"
  by (simp add: sx_keeps_def dir_ok_def on_db_def keeps_db_def)

lemma keeps_rows [dir_keeps]:
  "sx_keeps dir_ok (user_row uid)" "sx_keeps dir_ok (app_row aid)"
  unfolding user_row_def app_row_def by (intro dir_keeps)+

lemma keeps_updates [dir_keeps]:
  "sx_keeps dir_ok (update_user uid (u_credit_update g))" "sx_keeps dir_ok (set_status aid st)"
  "sx_keeps dir_ok (remove_resource rid)" "sx_keeps dir_ok (remove_service_row rec_id)"
  "sx_keeps dir_ok (on_db (db_services_update (change_where q (s_name_update h))))"
  unfolding update_user_def set_status_def update_app_def remove_resource_def remove_service_row_def
  by (intro dir_keeps keeps_on_db keeps_db_credit keeps_db_status keeps_db_drop keeps_db_service_name)+

lemma keeps_create_user [dir_keeps]:
  assumes "fresh_keys env"
  shows "sx_keeps dir_ok (create_user env values username email password credit)"
proof (rule sx_keepsI)
  fix d :: "'a director"
  assume d: "dir_ok d"
  have "fresh_key env u_uid (db_users (d_db d)) \<notin> u_uid ` set (db_users (d_db d))"
    "fresh_key env a_aid (db_apps (d_db d)) \<notin> a_aid ` set (db_apps (d_db d))"
    by (rule fresh_key_new [OF assms])+
  with d show "dir_ok (snd (create_user env values username email password credit d))"
    by (auto simp: create_user_def sx_bind_run director_now_def db_get_def failed_flush_def on_db_def commit_def
        Let_def dir_ok_def db_ok_def user_names_def app_names_def list_ex_iff image_iff)
qed

lemma keeps_create_app [dir_keeps]:
  assumes "fresh_keys env"
  shows "sx_keeps dir_ok (sx_bind (user_row uid) (\<lambda>_. create_app env uid app_name))"
proof (rule sx_keepsI)
  fix d :: "'a director"
  assume d: "dir_ok d"
  have "fresh_key env a_aid (db_apps (d_db d)) \<notin> a_aid ` set (db_apps (d_db d))"
    by (rule fresh_key_new [OF assms])
  with d show "dir_ok (snd (sx_bind (user_row uid) (\<lambda>_. create_app env uid app_name) d))"
    by (auto simp: create_app_def user_row_def sx_bind_run db_get_def on_db_def commit_def row_def find_user_def
        Let_def dir_ok_def db_ok_def user_names_def app_names_def list_ex_iff image_iff check_app_exists_def
        find_Some_iff split: option.splits)
qed

subsection \<open>Stopping and deleting\<close>

lemma services_removed:
  "sx_for ss (\<lambda>s. remove_service_row (s_rec_id s)) d = (Inr u, d') \<Longrightarrow>
     db_services (d_db d') = filter (\<lambda>s. s_rec_id s \<notin> s_rec_id ` set ss) (db_services (d_db d)) \<and>
     db_apps (d_db d') = db_apps (d_db d)"
proof (induction ss arbitrary: d)
  case (Cons x ss)
  then obtain d1 where run: "remove_service_row (s_rec_id x) d = (Inr (), d1)"
    "sx_for ss (\<lambda>s. remove_service_row (s_rec_id s)) d1 = (Inr u, d')"
    by (auto simp: sx_bind_run split: sum.splits prod.splits)
  then have "d_db d1 = d_db d\<lparr>db_services := filter (\<lambda>s. s_rec_id s \<noteq> s_rec_id x) (db_services (d_db d))\<rparr>"
    by (auto simp: remove_service_row_def sx_bind_run on_db_def commit_def split: if_splits)
  then show ?case using Cons.IH [OF run(2)] by (auto intro: filter_cong)
qed simp

lemma drop_app_ok:
  assumes "db_ok db" "\<forall>s \<in> set (db_services db). s_application_id s \<noteq> aid"
  shows "db_ok (db_apps_update (filter (\<lambda>a. a_aid a \<noteq> aid)) db)"
  using assms by (fastforce simp: db_ok_def user_names_def app_names_def intro: distinct_map_filter_rows)

text \<open>The end of \<open>_deleteapp\<close>, once the services of the application are gone.\<close>

lemma keeps_finish:
  assumes "dir_ok d" "\<forall>s \<in> set (db_services (d_db d)). s_application_id s \<noteq> aid"
  shows "dir_ok (snd (sx_bind (set_status aid A_STOPPED) (\<lambda>_.
         sx_bind (if del then on_db (db_apps_update (filter (\<lambda>a. a_aid a \<noteq> aid))) else sx_return ()) (\<lambda>_.
         sx_bind commit (\<lambda>_. sx_return x))) d))"
proof -
  let ?db = "db_apps_update (change_where (\<lambda>a. a_aid a = aid) (a_status_update (\<lambda>_. A_STOPPED))) (d_db d)"
  have "db_ok ?db" using assms(1) keeps_db_status by (auto simp: keeps_db_def dir_ok_def)
  moreover have "db_ok (db_apps_update (filter (\<lambda>a. a_aid a \<noteq> aid)) ?db)"
    using calculation assms(2) by (intro drop_app_ok) simp_all
  ultimately show ?thesis
    using assms(1) by (auto simp: sx_bind_run set_status_def update_app_def on_db_def commit_def dir_ok_def)
qed

lemma keeps_stop_services: "sx_keeps dir_ok (stop_services aid del ans)"
proof (rule sx_keepsI)
  fix d :: "'a director" assume d: "dir_ok d"
  let ?ss = "filter (\<lambda>s. s_application_id s = aid) (db_services (d_db d))"
  let ?loop = "sx_for ?ss (\<lambda>s. remove_service_row (s_rec_id s))"
  obtain r d1 where run: "?loop d = (r, d1)" by fastforce
  have "sx_keeps dir_ok ?loop" by (intro dir_keeps)
  then have d1: "dir_ok d1" using d run by (metis sx_keepsD)
  show "dir_ok (snd (stop_services aid del ans d))"
  proof (cases r)
    case (Inl e)
    then show ?thesis using run d1 by (simp add: stop_services_def sx_bind_run db_get_def)
  next
    case (Inr u)
    then have "db_services (d_db d1) = filter (\<lambda>s. s_rec_id s \<notin> s_rec_id ` set ?ss) (db_services (d_db d))"
      using services_removed run by blast
    then have "\<forall>s \<in> set (db_services (d_db d1)). s_application_id s \<noteq> aid" by auto
    note finish = keeps_finish [OF d1 this, of del ans]
    have get: "db_get (\<lambda>db. filter (\<lambda>s. s_application_id s = aid) (db_services db)) d = (Inr ?ss, d)"
      by (simp add: db_get_def)
    from finish show ?thesis
      by (simp only: stop_services_def sx_bind_run get run Inr prod.case sum.case)
  qed
qed

lemma keeps_delete_app [dir_keeps]: "sx_keeps dir_ok (delete_app env user_id app_id del)"
  unfolding delete_app_def by (intro dir_keeps keeps_stop_services)

subsection \<open>Charging\<close>

lemma charged_ok:
  assumes "db_ok db" "charge_resources now (filter p (db_resources db)) 0 = (changed, paid)"
  shows "db_ok (db_resources_update (map (replace_resource changed)) db)"
proof -
  have row: "same_row r (replace_resource changed r)" if "r \<in> set (db_resources db)" for r
    by (rule replace_same_row [OF assms(2) _ _ that]) (use assms(1) in \<open>auto simp: db_ok_def\<close>)
  have "map r_rid (map (replace_resource changed) (db_resources db)) = map r_rid (db_resources db)"
    "map r_vmid (map (replace_resource changed) (db_resources db)) = map r_vmid (db_resources db)"
    using row same_row_cols(1,2) by auto
  then show ?thesis using assms(1) by (simp add: db_ok_def user_names_def app_names_def del: map_map)
qed

lemma charge_user_run:
  assumes "charge_resources (dr_now (de_driver env) (d_out d)) (filter (owned_by uid (d_db d)) (db_resources (d_db d))) 0
      = (changed, paid)"
  shows "charge_user env uid d =
    settle env uid paid (d\<lparr>d_db := db_resources_update (map (replace_resource changed)) (d_db d)\<rparr>)"
proof -
  have now: "director_now env d = (Inr (dr_now (de_driver env) (d_out d)), d)" by (simp add: director_now_def)
  have res: "db_get (\<lambda>db. filter (owned_by uid db) (db_resources db)) d =
      (Inr (filter (owned_by uid (d_db d)) (db_resources (d_db d))), d)" by (simp add: db_get_def)
  have upd: "on_db (db_resources_update (map (replace_resource changed))) d =
      (Inr (), d\<lparr>d_db := db_resources_update (map (replace_resource changed)) (d_db d)\<rparr>)" by (simp add: on_db_def)
  show ?thesis
    by (simp only: charge_user_def sx_bind_run now res upd assms prod.case sum.case Let_def)
qed

lemma keeps_settle [dir_keeps]: "sx_keeps dir_ok (settle env uid to_charge)"
  unfolding settle_def by (intro dir_keeps)

lemma keeps_charge_user [dir_keeps]: "sx_keeps dir_ok (charge_user env uid)"
proof (rule sx_keepsI)
  fix d :: "'a director" assume d: "dir_ok d"
  obtain changed paid where run: "charge_resources (dr_now (de_driver env) (d_out d))
      (filter (owned_by uid (d_db d)) (db_resources (d_db d))) 0 = (changed, paid)" by fastforce
  have "dir_ok (d\<lparr>d_db := db_resources_update (map (replace_resource changed)) (d_db d)\<rparr>)"
    using charged_ok [OF _ run] d by (simp add: dir_ok_def)
  then show "dir_ok (snd (charge_user env uid d))"
    using keeps_settle unfolding charge_user_run [OF run] sx_keeps_def by blast
qed

lemma keeps_check_credits [dir_keeps]: "sx_keeps dir_ok (check_all_credits env)"
  unfolding check_all_credits_def by (intro dir_keeps)

subsection \<open>New rows\<close>

lemma resource_rows_ok:
  assumes "fresh_keys env"
  shows "resource_rows env now app_id service_id role ns rows = Some rows' \<Longrightarrow>
    distinct (map r_rid rows) \<Longrightarrow> distinct (map r_vmid rows) \<Longrightarrow>
    distinct (map r_rid rows') \<and> distinct (map r_vmid rows')"
proof (induction ns arbitrary: rows)
  case (Cons n ns)
  have "fresh_key env r_rid rows \<notin> r_rid ` set rows" by (rule fresh_key_new [OF assms])
  moreover have new: "sn_vmid n \<notin> r_vmid ` set rows"
    using Cons.prems(1) by (auto simp: list_ex_iff split: if_splits)
  moreover have "resource_rows env now app_id service_id role ns (rows @
      [\<lparr>r_rid = fresh_key env r_rid rows, r_vmid = sn_vmid n, r_app_id = app_id, r_service_id = service_id,
        r_charged = 0, r_ip = sn_ip n, r_role = role, r_cloud = sn_cloud_name n, r_created = now\<rparr>]) = Some rows'"
    using Cons.prems(1) by (simp split: if_splits)
  ultimately show ?case using Cons.IH Cons.prems(2,3) by simp
qed simp

lemma keeps_register [dir_keeps]:
  assumes "fresh_keys env"
  shows "sx_keeps dir_ok (register_nodes env app_id service_id role nodes)"
proof (rule sx_keepsI)
  fix d :: "'a director" assume d: "dir_ok d"
  let ?tail = "sx_bind commit (\<lambda>_. sx_bind (sx_lift (setup_default env)) (\<lambda>_. check_all_credits env))"
  let ?rows = "resource_rows env (dr_now (de_driver env) (d_out d)) app_id service_id role nodes (db_resources (d_db d))"
  have run: "register_nodes env app_id service_id role nodes d =
     (if nodes = [] then (Inr (), d) else case ?rows of None \<Rightarrow> failed_flush d
      | Some rows' \<Rightarrow> ?tail (d\<lparr>d_db := db_resources_update (\<lambda>_. rows') (d_db d)\<rparr>))"
    by (simp add: register_nodes_def sx_steps director_now_def db_get_def on_db_def split: option.split)
  have "sx_keeps dir_ok ?tail" "sx_keeps dir_ok failed_flush" by (intro dir_keeps)+
  moreover have "dir_ok (d\<lparr>d_db := db_resources_update (\<lambda>_. rows') (d_db d)\<rparr>)" if "?rows = Some rows'" for rows'
    using resource_rows_ok [OF assms that] d by (simp add: dir_ok_def db_ok_def user_names_def app_names_def)
  ultimately show "dir_ok (snd (register_nodes env app_id service_id role nodes d))"
    using d unfolding run sx_keeps_def by (auto split: option.split)
qed

lemma keeps_create_nodes [dir_keeps]:
  assumes "fresh_keys env"
  shows "sx_keeps dir_ok (create_manager_nodes env args)"
    "sx_keeps dir_ok (create_agent_nodes env uid app_id service_id ty ip context script infos)"
  unfolding create_manager_nodes_def create_agent_nodes_def Let_def
  by (cases args) (auto intro!: dir_keeps assms simp del: sx_runs)

lemma keeps_start_app [dir_keeps]:
  assumes "fresh_keys env"
  shows "sx_keeps dir_ok (start_app env uid app_id cname new_thread ignore_status)"
  unfolding start_app_def available_vpn_subnet_def Let_def
  by (intro dir_keeps assms; auto intro!: dir_keeps split: sum.split simp del: sx_runs)

end
