(* ===== verification/DirectorSteps.thy ===== *)
theory DirectorSteps
  imports DirectorFacts
begin

text \<open>
  The proof that the views of users, applications, services, clouds and resources, the threads and the background
  thread keep the invariant of the database. Uploading manifests and registering through an identity provider are
  not modelled.
\<close>

section \<open>Services\<close>

lemma call_manager_db:
  assumes "call_manager env uid app sid meth post data files d = (r, d')"
  shows "d_db d' = d_db d" "d_saved d' = d_saved d"
  using assms
  by (auto simp: call_manager_def sx_bind_run db_get_def dout_def split: option.splits prod.splits sum.splits
      if_splits pyval.splits)

lemma keeps_call_manager [dir_keeps]: "sx_keeps dir_ok (call_manager env uid app sid meth post data files)"
  by (rule sx_keepsI) (metis call_manager_db dir_ok_def prod.collapse)

lemma keeps_add_row:
  assumes "fresh_keys env" "dir_ok d" "aid \<in> a_aid ` set (db_apps (d_db d))"
  shows "dir_ok (snd (add_service_row env ty aid sid d))"
proof -
  have "fresh_key env s_rec_id (db_services (d_db d)) \<notin> s_rec_id ` set (db_services (d_db d))"
    by (rule fresh_key_new [OF assms(1)])
  with assms(2,3) show ?thesis
    by (auto simp: add_service_row_def sx_bind_run director_now_def db_get_def on_db_def commit_def dir_ok_def
        db_ok_def user_names_def app_names_def Let_def)
qed

lemma found_app: "get_app_by_id uid i db = Some aid \<Longrightarrow> aid \<in> a_aid ` set (db_apps db)"
  by (auto simp: get_app_by_id_def find_app_def find_Some_iff split: option.splits if_splits)

lemma default_app:
  assumes "get_default_app uid db = Some aid"
  shows "aid \<in> a_aid ` set (db_apps db)"
proof -
  obtain x xs where xs: "map a_aid (user_apps uid db) = x # xs" "aid = fold min xs x"
    using assms by (auto simp: get_default_app_def split: list.splits)
  have "fold min xs x \<in> set (x # xs)" by (metis Min.set_eq_fold Min_in finite_set list.distinct(1) set_empty)
  then have "aid \<in> set (map a_aid (user_apps uid db))" using xs by simp
  then show ?thesis by (auto simp: user_apps_def)
qed

lemma keeps_file_service:
  assumes "fresh_keys env" "dir_ok d" "\<And>aid. app = Some aid \<Longrightarrow> aid \<in> a_aid ` set (db_apps (d_db d))"
  shows "dir_ok (snd (file_service env service_type app res d))"
proof -
  have "dir_ok d1" if "add_service_row env service_type aid sid d = (r, d1)" "app = Some aid" for aid sid r d1
    using keeps_add_row [OF assms(1,2) assms(3) [OF that(2)], of service_type sid] that(1) by simp
  then show ?thesis
    using assms(2)
    by (auto simp: file_service_def sx_bind_run db_get_def split: call_result.split sum.split option.split prod.split)
qed

lemma keeps_dir_add [dir_keeps]:
  assumes "fresh_keys env"
  shows "sx_keeps dir_ok (dir_add_service env uid ty appid)"
proof (rule sx_keepsI)
  fix d :: "'a director" assume d: "dir_ok d"
  define named where "named = (case appid of None \<Rightarrow> None | Some s \<Rightarrow> if s = [] then None else Some s)"
  define app where "app = (case named of None \<Rightarrow> get_default_app uid (d_db d) | Some s \<Rightarrow>
                 (case parse_int s of None \<Rightarrow> None | Some i \<Rightarrow> get_app_by_id uid i (d_db d)))"
  have app: "aid \<in> a_aid ` set (db_apps (d_db d))" if "app = Some aid" for aid
    using that by (auto simp: app_def split: option.splits dest: found_app default_app)
  obtain r d1 where call: "call_manager env uid app 0 ''add_service'' True [(''service_type'', PStr ty)] [] d = (r, d1)"
    by fastforce
  have d1: "dir_ok d1" "d_db d1 = d_db d"
    using d call_manager_db [OF call] by (simp_all add: dir_ok_def)
  have "dir_add_service env uid ty appid d =
     (if named = None \<and> app = None then (Inr (ErrorAnswer ''No existing applications'' []), d)
      else if ty \<notin> set valid_services
      then (Inr (ErrorAnswer (''Unknown service type '%s'' @ [CHR 0x27]) [PStr ty]), d)
      else case r of Inl e \<Rightarrow> (Inl e, d1) | Inr res \<Rightarrow> file_service env ty app res d1)"
    unfolding dir_add_service_def named_def [symmetric] Let_def sx_bind_run db_get_def sx_runs prod.case sum.case
      app_def [symmetric]
    by (simp add: sx_bind_run call)
  then show "dir_ok (snd (dir_add_service env uid ty appid d))"
    using d d1 keeps_file_service [OF assms d1(1)] app by (auto split: sum.split)
qed

lemma keeps_service_ops [dir_keeps]:
  "sx_keeps dir_ok (rename_service uid app_id service_id newname)"
  "sx_keeps dir_ok (dir_remove_service env uid app_id service_id)"
  unfolding rename_service_def dir_remove_service_def
  by (intro dir_keeps; auto intro!: dir_keeps split: call_result.split simp del: sx_runs)+

section \<open>Views\<close>

text \<open>A view of a user only runs for a user that exists.\<close>

lemma cert_required_user:
  "cert_required UserCert components view =
   cert_required UserCert components (\<lambda>uid aid. sx_bind (user_row uid) (\<lambda>_. view uid aid))"
  by (rule ext)
     (auto simp: cert_required_def sx_bind_run db_get_def user_row_def row_def split: sum.split option.split)

lemma keeps_cert [dir_keeps]:
  "(\<And>uid aid. sx_keeps dir_ok (view uid aid)) \<Longrightarrow> sx_keeps dir_ok (cert_required required components view)"
  unfolding cert_required_def by (intro dir_keeps) auto

lemma keeps_createapp [dir_keeps]:
  assumes "fresh_keys env"
  shows "sx_keeps dir_ok (createapp_view env components f)"
proof -
  have "sx_keeps dir_ok (sx_bind (user_row uid) (\<lambda>_. sx_bind (create_app env uid nm) (\<lambda>ans. sx_return (Respond ans))))"
    for uid nm
  proof (rule sx_keepsI)
    fix d :: "'a director" assume "dir_ok d"
    then have "dir_ok (snd (sx_bind (user_row uid) (\<lambda>_. create_app env uid nm) d))"
      using keeps_create_app [OF assms] by (simp add: sx_keeps_def)
    then show "dir_ok (snd (sx_bind (user_row uid) (\<lambda>_. sx_bind (create_app env uid nm) (\<lambda>ans. sx_return (Respond ans))) d))"
      by (auto simp: sx_bind_run split: prod.splits sum.splits)
  qed
  then show ?thesis unfolding createapp_view_def by (subst cert_required_user) (intro keeps_cert)
qed

lemma renamed_mem:
  assumes "x \<in> (\<lambda>a. (a_user_id a, a_name a)) ` set (change_where (\<lambda>a. a_aid a = aid) (a_name_update (\<lambda>_. name)) as)"
    "\<forall>a \<in> set as. a_aid a = aid \<longrightarrow> a_user_id a = uid"
  shows "x \<in> (\<lambda>a. (a_user_id a, a_name a)) ` set as \<or> x = (uid, name) \<and> aid \<in> a_aid ` set as"
  using assms by (auto simp: change_where_def split: if_splits)

lemma renamed_distinct:
  assumes "distinct (map (\<lambda>a. (a_user_id a, a_name a)) as)" "distinct (map a_aid as)"
    "\<forall>a \<in> set as. a_aid a = aid \<longrightarrow> a_user_id a = uid" "\<forall>a \<in> set as. \<not> (a_name a = name \<and> a_user_id a = uid)"
  shows "distinct (map (\<lambda>a. (a_user_id a, a_name a)) (change_where (\<lambda>a. a_aid a = aid) (a_name_update (\<lambda>_. name)) as))"
  using assms
proof (induction as)
  case (Cons a as)
  let ?f = "\<lambda>as. change_where (\<lambda>a. a_aid a = aid) (a_name_update (\<lambda>_. name)) as"
  let ?head = "if a_aid a = aid then (a_user_id a, name) else (a_user_id a, a_name a)"
  have "?head \<notin> (\<lambda>a. (a_user_id a, a_name a)) ` set (?f as)"
  proof
    assume "?head \<in> (\<lambda>a. (a_user_id a, a_name a)) ` set (?f as)"
    then have "?head \<in> (\<lambda>a. (a_user_id a, a_name a)) ` set as \<or> ?head = (uid, name) \<and> aid \<in> a_aid ` set as"
      by (rule renamed_mem) (use Cons.prems(3) in simp)
    then show False
    proof (cases "a_aid a = aid")
      case True
      moreover have "a_user_id a = uid" using True Cons.prems(3) by simp
      moreover have "(uid, name) \<notin> (\<lambda>a. (a_user_id a, a_name a)) ` set as" using Cons.prems(4) by auto
      moreover have "aid \<notin> a_aid ` set as" using True Cons.prems(2) by simp
      ultimately show False
        using \<open>?head \<in> (\<lambda>a. (a_user_id a, a_name a)) ` set as \<or> ?head = (uid, name) \<and> aid \<in> a_aid ` set as\<close> by simp
    next
      case False
      then have "?head \<noteq> (uid, name)" using Cons.prems(4) by auto
      moreover have "(a_user_id a, a_name a) \<notin> (\<lambda>a. (a_user_id a, a_name a)) ` set as" using Cons.prems(1) by simp
      ultimately show False
        using False \<open>?head \<in> (\<lambda>a. (a_user_id a, a_name a)) ` set as \<or> ?head = (uid, name) \<and> aid \<in> a_aid ` set as\<close> by simp
    qed
  qed
  moreover have "map (\<lambda>a. (a_user_id a, a_name a)) (?f (a # as)) = ?head # map (\<lambda>a. (a_user_id a, a_name a)) (?f as)"
    by (simp add: change_where_def)
  ultimately show ?case using Cons.IH Cons.prems by simp
qed (simp add: change_where_def)

lemma rename_app_ok:
  assumes "dir_ok d"
  shows "dir_ok (snd (rename_app uid appid newname d))"
proof -
  have "db_ok (db_apps_update (change_where (\<lambda>a. a_aid a = aid) (a_name_update (\<lambda>_. name))) db)"
    if "db_ok db" "get_app_by_id uid appid db = Some aid" "\<not> check_app_exists uid name db" for db aid name
  proof -
    have owner: "\<forall>a \<in> set (db_apps db). a_aid a = aid \<longrightarrow> a_user_id a = uid"
      using that(1,2) unfolding get_app_by_id_def find_app_def db_ok_def
      by (auto split: option.splits if_splits simp: find_Some_iff) (metis distinct_map inj_on_eq_iff nth_mem)
    have cols: "map a_aid (change_where (\<lambda>a. a_aid a = aid) (a_name_update (\<lambda>_. name)) (db_apps db)) = map a_aid (db_apps db)"
      "map a_user_id (change_where (\<lambda>a. a_aid a = aid) (a_name_update (\<lambda>_. name)) (db_apps db)) = map a_user_id (db_apps db)"
      by (simp_all add: map_change_where)
    show ?thesis
      using that renamed_distinct [OF _ _ owner, of name]
      by (simp add: db_ok_def user_names_def app_names_def check_app_exists_def list_ex_iff cols cols [THEN map_set_eq] del: map_map)
  qed
  then show ?thesis
    using assms
    by (auto simp: rename_app_def sx_bind_run db_get_def update_app_def on_db_def commit_def dir_ok_def split: option.split)
qed

lemma keeps_views [dir_keeps]:
  assumes "fresh_keys env"
  shows "sx_keeps dir_ok (new_user env f)" "sx_keeps dir_ok (login env f)" "sx_keeps dir_ok (get_user_certs env f)"
    "sx_keeps dir_ok (credit_view components f)" "sx_keeps dir_ok (user_config env components)"
    "sx_keeps dir_ok (user_credit components)" "sx_keeps dir_ok (startapp_view env components n cname)"
    "sx_keeps dir_ok (stopapp_view env components n)" "sx_keeps dir_ok (deleteapp_view env components n)"
    "sx_keeps dir_ok (list_applications components)" "sx_keeps dir_ok (add_view env components ty f)"
    "sx_keeps dir_ok (rename_view components f)" "sx_keeps dir_ok (remove_view env components f)"
    "sx_keeps dir_ok (list_all_services env components)" "sx_keeps dir_ok (list_services env components n)"
  unfolding new_user_def login_def get_user_certs_def credit_view_def user_config_def user_credit_def startapp_view_def
    stopapp_view_def deleteapp_view_def list_applications_def add_view_def rename_view_def remove_view_def
    list_all_services_def list_services_def login_required_def Let_def
  by (intro dir_keeps assms)+

lemma keeps_manager_views [dir_keeps]:
  assumes "fresh_keys env"
  shows "sx_keeps dir_ok (create_nodes_view env components f)" "sx_keeps dir_ok (remove_nodes_view env components f)"
    "sx_keeps dir_ok (create_volume_view env components f)" "sx_keeps dir_ok (attach_volume_view env components f)"
    "sx_keeps dir_ok (detach_volume_view env components f)" "sx_keeps dir_ok (destroy_volume_view env components f)"
    "sx_keeps dir_ok (manager_credit_view components)" "sx_keeps dir_ok (list_resources env components)"
  unfolding create_nodes_view_def remove_nodes_view_def create_volume_view_def attach_volume_view_def detach_volume_view_def
    destroy_volume_view_def manager_credit_view_def list_resources_def with_controller_def
  by (intro dir_keeps assms)+

lemma keeps_renameapp [dir_keeps]: "sx_keeps dir_ok (renameapp_view components n f)"
proof -
  have "sx_keeps dir_ok (rename_app uid n nm)" for uid nm by (rule sx_keepsI) (rule rename_app_ok)
  then show ?thesis unfolding renameapp_view_def by (intro dir_keeps)
qed

end
