(* ===== verification/DirectorScenario.thy ===== *)
theory DirectorScenario
  imports DirectorSteps
begin

text \<open>
  The transition system of the director, in which one request, thread or turn runs at a time, and a concrete director to run it on: one EC2 cloud whose
  driver numbers its machines, agents that answer at once, and a clock.
\<close>

section \<open>Steps\<close>

definition director_views ::
  "'w denv \<Rightarrow> (string \<times> string) list \<Rightarrow> form \<Rightarrow> int \<Rightarrow> string \<Rightarrow> string option \<Rightarrow> ('w, response) dx list" where
  "director_views env components f n ty cname =
     [new_user env f, login env f, get_user_certs env f, credit_view components f, user_config env components,
      user_credit components, createapp_view env components f, startapp_view env components n cname,
      stopapp_view env components n, deleteapp_view env components n, renameapp_view components n f,
      list_applications components, add_view env components ty f, rename_view components f,
      remove_view env components f, list_all_services env components, list_services env components n,
      create_nodes_view env components f, remove_nodes_view env components f, create_volume_view env components f,
      attach_volume_view env components f, detach_volume_view env components f, destroy_volume_view env components f,
      manager_credit_view components, list_resources env components]"

definition run_director_job :: "'w denv \<Rightarrow> director_job \<Rightarrow> ('w, unit) dx" where
  "run_director_job env j = (case j of
       CreateManager args \<Rightarrow> sx_bind (create_manager_nodes env args) (\<lambda>_. sx_return ())
     | DeleteNodes nodes \<Rightarrow> with_controller env (ctl_delete_nodes env nodes))"

text \<open>The session of a request or a thread ends with it.\<close>

definition end_session :: "'w director \<Rightarrow> 'w director" where
  "end_session d = d\<lparr>d_db := d_saved d, d_broken := False\<rparr>"

inductive director_step :: "'w denv \<Rightarrow> 'w director \<Rightarrow> 'w director \<Rightarrow> bool" for env where
  request: "view \<in> set (director_views env components f n ty cname) \<Longrightarrow> view d = (r, d') \<Longrightarrow>
    director_step env d (end_session d')"
| thread: "k < length (d_jobs d) \<Longrightarrow>
    run_director_job env (d_jobs d ! k) (d\<lparr>d_jobs := take k (d_jobs d) @ drop (Suc k) (d_jobs d)\<rparr>) = (r', d') \<Longrightarrow>
    director_step env d (end_session d')"
| background: "background_turn env ct cs count d = (r'', d') \<Longrightarrow> director_step env d (end_session d')"
| administrator: "add_credit username credit d = (r''', d') \<Longrightarrow> director_step env d (end_session d')"
| outside: "director_step env d (d\<lparr>d_out := w\<rparr>)"

inductive_cases director_stepE: "director_step env d d'"

definition empty_db :: database where
  "empty_db = \<lparr>db_users = [], db_apps = [], db_services = [], db_resources = []\<rparr>"

definition new_director :: "'w \<Rightarrow> 'w director" where
  "new_director w = \<lparr>d_saved = empty_db, d_db = empty_db, d_broken = False, d_jobs = [], d_out = w\<rparr>"

inductive director_reachable :: "'w denv \<Rightarrow> 'w director \<Rightarrow> bool" for env where
  initial: "director_reachable env (new_director w)"
| step: "director_reachable env d \<Longrightarrow> director_step env d d' \<Longrightarrow> director_reachable env d'"

lemma end_session_ok: "dir_ok d \<Longrightarrow> dir_ok (end_session d)"
  by (simp add: dir_ok_def end_session_def)

lemma keeps_director_views:
  assumes "fresh_keys env" "view \<in> set (director_views env components f n ty cname)"
  shows "sx_keeps dir_ok view"
  using assms(2) keeps_views [OF assms(1)] keeps_manager_views [OF assms(1)] keeps_createapp [OF assms(1)] keeps_renameapp
  unfolding director_views_def by (auto simp del: sx_runs)

lemma keeps_director_job: "fresh_keys env \<Longrightarrow> sx_keeps dir_ok (run_director_job env j)"
  by (cases j) (auto simp: run_director_job_def with_controller_def intro!: dir_keeps)

lemma keeps_background: "sx_keeps dir_ok (background_turn env ct cs count)"
  unfolding background_turn_def check_sanity_def Let_def by (intro dir_keeps)

lemma keeps_add_credit: "sx_keeps dir_ok (add_credit username credit)"
  unfolding add_credit_def by (intro dir_keeps)

lemma director_step_ok:
  assumes "fresh_keys env" "director_step env d d'" "dir_ok d"
  shows "dir_ok d'"
  using assms(2)
proof (cases rule: director_step.cases)
  case (request view components f n ty cname r d1)
  then show ?thesis
    using sx_keepsD [OF keeps_director_views [OF assms(1) request(2)] assms(3) request(3)] end_session_ok by simp
next
  case (thread k r d1)
  have "dir_ok (d\<lparr>d_jobs := take k (d_jobs d) @ drop (Suc k) (d_jobs d)\<rparr>)" using assms(3) by (simp add: dir_ok_def)
  from sx_keepsD [OF keeps_director_job [OF assms(1)] this thread(3)] show ?thesis using thread(1) end_session_ok by simp
next
  case (background ct cs count r d1)
  then show ?thesis using sx_keepsD [OF keeps_background assms(3) background(2)] end_session_ok by simp
next
  case (administrator username credit r d1)
  then show ?thesis using sx_keepsD [OF keeps_add_credit assms(3) administrator(2)] end_session_ok by simp
next
  case (outside w)
  then show ?thesis using assms(3) by (simp add: dir_ok_def)
qed

lemma director_reachable_ok: "director_reachable env d \<Longrightarrow> fresh_keys env \<Longrightarrow> dir_ok d"
proof (induction rule: director_reachable.induct)
  case (initial w)
  show ?case by (simp add: new_director_def dir_ok_def db_ok_def empty_db_def user_names_def app_names_def)
qed (rule director_step_ok)

section \<open>A sample director\<close>

type_synonym sky = "int \<times> int"

definition sample_driver :: "sky driver" where
  "sample_driver = \<lparr>
     dr_connect = (\<lambda>c. sx_return ()),
     dr_create_node = (\<lambda>c args (i, t). (Inr \<lparr>lc_id = int_str i, lc_public_ips = [''10.0.0.'' @ int_str i],
        lc_private_ips = [''10.0.0.'' @ int_str i], lc_availability = ''zone''\<rparr>, (i + 1, t))),
     dr_destroy_node = (\<lambda>c vm. sx_return True),
     dr_list_nodes = (\<lambda>c. sx_get (\<lambda>(i, t). [\<lparr>lc_id = ''1'', lc_public_ips = [''10.0.0.1''],
        lc_private_ips = [''10.0.0.1''], lc_availability = ''zone''\<rparr>])),
     dr_list_sizes = (\<lambda>c. sx_return [\<lparr>nm_id = ''small'', nm_name = ''small''\<rparr>]),
     dr_list_images = (\<lambda>c. sx_return [\<lparr>nm_id = ''ami'', nm_name = ''ami''\<rparr>]),
     dr_list_networks = (\<lambda>c. sx_return []),
     dr_list_locations = (\<lambda>c. sx_return [''zone'']),
     dr_list_volumes = (\<lambda>c. sx_return []),
     dr_create_volume = (\<lambda>c gib name zone. sx_return (''vol-'' @ name)),
     dr_attach_volume = (\<lambda>c vm vol dev. sx_return True),
     dr_detach_volume = (\<lambda>c vol. sx_return True),
     dr_destroy_volume = (\<lambda>c vol. sx_return True),
     dr_floating_pools = (\<lambda>c. sx_return [''pool'']),
     dr_floating_ips = (\<lambda>c. sx_return []),
     dr_create_floating = (\<lambda>c pool. sx_return ''192.0.2.1''),
     dr_attach_floating = (\<lambda>c vm ip. sx_return ()),
     dr_now = snd,
     dr_patience = 3\<rparr>"

definition sample_director_config :: config where
  "sample_director_config =
     [(''conpaas'', [(''conf_dir'', ''/d''), (''cert_dir'', ''/c'')]),
      (''director'', [(''director_url'', ''https://d'')]),
      (''iaas'', [(''driver'', ''EC2''), (''user'', ''u''), (''password'', ''p''), (''image_id'', ''ami''), (''size_id'', ''small''),
         (''security_group_name'', ''sg''), (''key_name'', ''key''), (''region'', ''ec2.eu-west-1.amazonaws.com'')])]"

definition next_key :: "int list \<Rightarrow> int" where
  "next_key ks = 1 + fold max ks 0"

definition sample_denv :: "sky denv" where
  "sample_denv = \<lparr>
     de_cfg = sample_director_config,
     de_driver = sample_driver,
     de_read = (\<lambda>path. Inr []),
     de_certificate = (\<lambda>dir subject. sx_return \<lparr>ce_ca_cert = [], ce_key = [], ce_cert = []\<rparr>),
     de_get = (\<lambda>host port meth sid params. sx_return (200, PDict [(''error'', PNone), (''result'', PDict [])])),
     de_post = (\<lambda>host port meth sid params. sx_return (200, PDict [(''error'', PNone), (''result'', PDict [(''service_id'', PInt 1)])])),
     de_upload = (\<lambda>host port params files. sx_return (200, PDict [(''result'', PDict [])])),
     de_loads = (\<lambda>text. Inr (PList [PDict [(''vmid'', PStr ''1''), (''ip'', PStr ''10.0.0.1''), (''private_ip'', PStr ''10.0.0.1''),
        (''cloud_name'', PStr ''iaas''), (''weight_backend'', PInt 100)]])),
     de_md5 = (\<lambda>s. ''md5:'' @ s),
     de_str = (\<lambda>v. case v of PStr s \<Rightarrow> s | _ \<Rightarrow> []),
     de_date = int_str,
     de_fresh = next_key,
     de_prefixlen = (\<lambda>net. Inr 12),
     de_subnets = (\<lambda>net bits. [])\<rparr>"

lemma fold_max_start: "m \<le> fold max ks (m :: int)"
proof (induction ks arbitrary: m)
  case (Cons a ks)
  have "m \<le> max a m" by simp
  also have "\<dots> \<le> fold max ks (max a m)" by (rule Cons.IH)
  finally show ?case by simp
qed simp

lemma fold_max_upper: "k \<in> set ks \<Longrightarrow> k \<le> fold max ks (m :: int)"
proof (induction ks arbitrary: m)
  case (Cons a ks)
  have "a \<le> fold max ks (max a m)" using fold_max_start [of "max a m" ks] by simp
  then show ?case using Cons by auto
qed simp

lemma sample_fresh: "fresh_keys sample_denv"
  using fold_max_upper [of _ _ 0] by (fastforce simp: fresh_keys_def sample_denv_def next_key_def)

text \<open>Runs of the sample.\<close>

datatype dact = Req "(sky, response) dx" | Job nat | Tick int

definition dperform :: "dact \<Rightarrow> sky director \<Rightarrow> sky director" where
  "dperform act d = (case act of
       Req view \<Rightarrow> end_session (snd (view d))
     | Job k \<Rightarrow> if k < length (d_jobs d) then end_session (snd (run_director_job sample_denv (d_jobs d ! k)
          (d\<lparr>d_jobs := take k (d_jobs d) @ drop (Suc k) (d_jobs d)\<rparr>))) else d
     | Tick t \<Rightarrow> d\<lparr>d_out := (fst (d_out d), t)\<rparr>)"

definition allowed :: "dact \<Rightarrow> bool" where
  "allowed act = (case act of
       Req view \<Rightarrow> (\<exists>components f n ty cname. view \<in> set (director_views sample_denv components f n ty cname))
     | _ \<Rightarrow> True)"

lemma dperform_step: "allowed act \<Longrightarrow> dperform act d = d \<or> director_step sample_denv d (dperform act d)"
proof (cases act)
  case (Req view)
  assume "allowed act"
  then obtain components f n ty cname where view: "view \<in> set (director_views sample_denv components f n ty cname)"
    using Req by (auto simp only: allowed_def dact.case)
  obtain r d' where run: "view d = (r, d')" by fastforce
  from director_step.request [OF view run] show ?thesis by (simp add: Req dperform_def run)
next
  case (Job k)
  obtain r d' where run: "run_director_job sample_denv (d_jobs d ! k)
      (d\<lparr>d_jobs := take k (d_jobs d) @ drop (Suc k) (d_jobs d)\<rparr>) = (r, d')" by fastforce
  from director_step.thread [OF _ run] show ?thesis by (simp add: Job dperform_def run)
next
  case (Tick t)
  then show ?thesis
    using director_step.outside [of sample_denv d "(fst (d_out d), t)"] by (simp add: dperform_def)
qed

lemma dperform_reachable:
  "director_reachable sample_denv d \<Longrightarrow> list_all allowed acts \<Longrightarrow> director_reachable sample_denv (fold dperform acts d)"
proof (induction acts arbitrary: d)
  case (Cons act acts)
  then show ?case using dperform_step [of act d] by (auto intro: director_reachable.step)
qed simp

definition alice_form :: form where
  "alice_form = [(''username'', ''alice''), (''email'', ''alice@example.org''), (''password'', ''pw''), (''credit'', ''10''), (''name'', ''shop'')]"

definition alice_cert :: "(string \<times> string) list" where
  "alice_cert = [(''UID'', ''1''), (''role'', ''user''), (''serviceLocator'', ''1'')]"

lemma allowed_new_user: "allowed (Req (new_user sample_denv f))"
proof -
  have "new_user sample_denv f \<in> set (director_views sample_denv [] f 0 [] None)"
    unfolding director_views_def by (rule list.set_intros)
  then show ?thesis unfolding allowed_def dact.case by blast
qed

lemma allowed_start: "allowed (Req (startapp_view sample_denv cert n cname))"
proof -
  have "startapp_view sample_denv cert n cname \<in> set (director_views sample_denv cert [] n [] cname)"
    unfolding director_views_def by (rule list.set_intros(1) | rule list.set_intros(2))+
  then show ?thesis unfolding allowed_def dact.case by blast
qed

text \<open>Alice registers and starts her first application; the thread creates its manager and charges for it.\<close>

definition sample_acts :: "dact list" where
  "sample_acts = [Req (new_user sample_denv alice_form), Req (startapp_view sample_denv alice_cert 1 None), Job 0]"

definition sample_director :: "sky director" where
  "sample_director = fold dperform sample_acts (new_director (1, 0))"

lemma sample_director_reachable: "director_reachable sample_denv sample_director"
  unfolding sample_director_def
  by (rule dperform_reachable [OF director_reachable.initial])
     (simp add: sample_acts_def allowed_new_user allowed_start allowed_def [of "Job 0"])

lemma sample_director_state:
  "map (\<lambda>u. (u_uid u, u_username u, u_credit u)) (db_users (d_saved sample_director)) = [(1, ''alice'', 9)] \<and>
   map (\<lambda>a. (a_aid a, a_user_id a, a_status a)) (db_apps (d_saved sample_director)) = [(1, 1, A_RUNNING)] \<and>
   map (\<lambda>r. (r_vmid r, r_role r, r_charged r)) (db_resources (d_saved sample_director)) = [(''1'', ''manager'', 1)] \<and>
   d_jobs sample_director = []"
  by code_simp

end
