(* ===== verification/DirectorRuns.thy ===== *)
theory DirectorRuns
  imports DirectorScenario
begin

text \<open>
  What the operations on applications do to the session, as equations: stopping and deleting one,
  stopping all those of a user, accepting a start.
\<close>

section \<open>Rows\<close>

lemma find_user_update:
  "(\<And>u. u_uid (f u) = u_uid u) \<Longrightarrow>
   find_user uid (db_users_update (change_where (\<lambda>u. u_uid u = uid) f) db) = map_option f (find_user uid db)"
proof -
  assume f: "\<And>u. u_uid (f u) = u_uid u"
  have "find (\<lambda>u. u_uid u = uid) (change_where (\<lambda>u. u_uid u = uid) f us) = map_option f (find (\<lambda>u. u_uid u = uid) us)" for us
    by (induction us) (auto simp: change_where_def f)
  then show ?thesis by (simp add: find_user_def)
qed

lemma find_app_update:
  "(\<And>a. a_aid (f a) = a_aid a) \<Longrightarrow>
   find_app aid (db_apps_update (change_where (\<lambda>a. a_aid a = aid) f) db) = map_option f (find_app aid db)"
proof -
  assume f: "\<And>a. a_aid (f a) = a_aid a"
  have "find (\<lambda>a. a_aid a = aid) (change_where (\<lambda>a. a_aid a = aid) f as) = map_option f (find (\<lambda>a. a_aid a = aid) as)" for as
    by (induction as) (auto simp: change_where_def f)
  then show ?thesis by (simp add: find_app_def)
qed

lemma find_user_apps [simp]: "find_user uid (db_apps_update f db) = find_user uid db"
  by (simp add: find_user_def)

lemma find_app_other [simp]:
  "find_app aid (db_users_update f db) = find_app aid db" "find_app aid (db_resources_update g db) = find_app aid db"
  "find_app aid (db_services_update h db) = find_app aid db"
  by (simp_all add: find_app_def)

lemma find_app_key: "find_app aid db = Some a \<Longrightarrow> a_aid a = aid"
  by (auto simp: find_app_def find_Some_iff)

lemma get_app_found:
  assumes "get_app_by_id uid aid db = Some x"
  shows "x = aid" "\<exists>a. find_app aid db = Some a \<and> a_aid a = aid \<and> a_user_id a = uid"
  using assms by (auto simp: get_app_by_id_def find_app_def find_Some_iff split: option.splits if_splits)

lemma get_app_iff: "get_app_by_id uid aid db = Some aid \<longleftrightarrow> (\<exists>a. find_app aid db = Some a \<and> a_user_id a = uid)"
  by (auto simp: get_app_by_id_def dest: find_app_key split: option.splits if_splits)

section \<open>Stopping and deleting\<close>

lemma remove_resources_run:
  assumes "\<not> d_broken d"
  shows "sx_for rs (\<lambda>r. remove_resource (r_rid r)) d =
    (let db = db_resources_update (filter (\<lambda>x. r_rid x \<notin> r_rid ` set rs)) (d_db d)
     in (Inr (), d\<lparr>d_db := db, d_saved := if rs = [] then d_saved d else db\<rparr>))"
  using assms
proof (induction rs arbitrary: d)
  case (Cons r rs)
  let ?d = "d\<lparr>d_db := db_resources_update (filter (\<lambda>x. r_rid x \<noteq> r_rid r)) (d_db d),
              d_saved := db_resources_update (filter (\<lambda>x. r_rid x \<noteq> r_rid r)) (d_db d)\<rparr>"
  have "remove_resource (r_rid r) d = (Inr (), ?d)"
    using Cons.prems by (simp add: remove_resource_def sx_bind_run on_db_def commit_def)
  then have "sx_for (r # rs) (\<lambda>r. remove_resource (r_rid r)) d = sx_for rs (\<lambda>r. remove_resource (r_rid r)) ?d"
    by (simp add: sx_bind_run)
  also have "\<dots> = (let db = db_resources_update (filter (\<lambda>x. r_rid x \<notin> r_rid ` set rs)) (d_db ?d)
     in (Inr (), ?d\<lparr>d_db := db, d_saved := if rs = [] then d_saved ?d else db\<rparr>))"
    by (rule Cons.IH) (simp add: Cons.prems)
  finally show ?case by (cases rs) (simp_all add: Let_def conj_commute)
qed simp

lemma remove_services_run:
  assumes "\<not> d_broken d"
  shows "sx_for ss (\<lambda>s. remove_service_row (s_rec_id s)) d =
    (let db = db_services_update (filter (\<lambda>x. s_rec_id x \<notin> s_rec_id ` set ss)) (d_db d)
     in (Inr (), d\<lparr>d_db := db, d_saved := if ss = [] then d_saved d else db\<rparr>))"
  using assms
proof (induction ss arbitrary: d)
  case (Cons s ss)
  let ?d = "d\<lparr>d_db := db_services_update (filter (\<lambda>x. s_rec_id x \<noteq> s_rec_id s)) (d_db d),
              d_saved := db_services_update (filter (\<lambda>x. s_rec_id x \<noteq> s_rec_id s)) (d_db d)\<rparr>"
  have "remove_service_row (s_rec_id s) d = (Inr (), ?d)"
    using Cons.prems by (simp add: remove_service_row_def sx_bind_run on_db_def commit_def)
  then have "sx_for (s # ss) (\<lambda>s. remove_service_row (s_rec_id s)) d = sx_for ss (\<lambda>s. remove_service_row (s_rec_id s)) ?d"
    by (simp add: sx_bind_run)
  also have "\<dots> = (let db = db_services_update (filter (\<lambda>x. s_rec_id x \<notin> s_rec_id ` set ss)) (d_db ?d)
     in (Inr (), ?d\<lparr>d_db := db, d_saved := if ss = [] then d_saved ?d else db\<rparr>))"
    by (rule Cons.IH) (simp add: Cons.prems)
  finally show ?case by (cases ss) (simp_all add: Let_def conj_commute)
qed simp

text \<open>The database without what belongs to an application.\<close>

definition without_app :: "bool \<Rightarrow> int \<Rightarrow> database \<Rightarrow> database" where
  "without_app del aid db = db\<lparr>
     db_apps := if del then filter (\<lambda>a. a_aid a \<noteq> aid) (db_apps db)
       else change_where (\<lambda>a. a_aid a = aid) (a_status_update (\<lambda>_. A_STOPPED)) (db_apps db),
     db_services := filter (\<lambda>s. s_application_id s \<noteq> aid) (db_services db),
     db_resources := filter (\<lambda>r. r_app_id r \<noteq> aid) (db_resources db)\<rparr>"

lemma filter_by_key:
  assumes "distinct (map key rows)"
  shows "filter (\<lambda>x. key x \<notin> key ` set (filter p rows)) rows = filter (\<lambda>x. \<not> p x) rows"
proof (rule filter_cong [OF refl])
  fix x assume "x \<in> set rows"
  then show "(key x \<notin> key ` set (filter p rows)) = (\<not> p x)"
    using assms by (auto simp: distinct_map inj_on_eq_iff)
qed

lemma filter_change_where:
  "(\<And>r. q (f r) = q r) \<Longrightarrow> (\<And>r. p r \<Longrightarrow> \<not> q r) \<Longrightarrow> filter q (change_where p f rows) = filter q rows"
  by (induction rows) (auto simp: change_where_def)

lemma delete_app_run:
  assumes "\<not> d_broken d" "db_ok (d_db d)" "get_app_by_id uid aid (d_db d) = Some x"
  shows "delete_app env uid aid del d =
    (Inr (Answer (PDict [])), d\<lparr>d_db := without_app del aid (d_db d), d_saved := without_app del aid (d_db d),
       d_jobs := d_jobs d @ [DeleteNodes (map (resource_node (dr_now (de_driver env) (d_out d))) (app_resources aid (d_db d)))]\<rparr>)"
proof -
  let ?rs = "app_resources aid (d_db d)" and ?now = "dr_now (de_driver env) (d_out d)"
  let ?db1 = "db_resources_update (filter (\<lambda>r. r_app_id r \<noteq> aid)) (d_db d)"
  let ?d1 = "d\<lparr>d_db := ?db1, d_saved := if ?rs = [] then d_saved d else ?db1\<rparr>"
  let ?d2 = "?d1\<lparr>d_jobs := d_jobs d @ [DeleteNodes (map (resource_node ?now) ?rs)]\<rparr>"
  have x: "x = aid" using get_app_found(1) [OF assms(3)] .
  have "filter (\<lambda>x. r_rid x \<notin> r_rid ` set ?rs) (db_resources (d_db d)) = filter (\<lambda>r. r_app_id r \<noteq> aid) (db_resources (d_db d))"
    unfolding app_resources_def using assms(2) by (intro filter_by_key) (simp add: db_ok_def)
  then have loop: "sx_for ?rs (\<lambda>r. remove_resource (r_rid r)) d = (Inr (), ?d1)"
    using remove_resources_run [OF assms(1), of ?rs] by (simp add: Let_def)
  have run1: "delete_app env uid aid del d = stop_services aid del (Answer (PDict [])) ?d2"
    using assms(3) loop by (simp add: delete_app_def sx_bind_run db_get_def director_now_def start_thread_def x)
  let ?ss = "filter (\<lambda>s. s_application_id s = aid) (db_services (d_db d))"
  have "filter (\<lambda>x. s_rec_id x \<notin> s_rec_id ` set ?ss) (db_services (d_db d)) =
      filter (\<lambda>s. s_application_id s \<noteq> aid) (db_services (d_db d))"
    using assms(2) by (intro filter_by_key) (simp add: db_ok_def)
  then have services: "sx_for ?ss (\<lambda>s. remove_service_row (s_rec_id s)) ?d2 =
      (let db = db_services_update (\<lambda>_. filter (\<lambda>s. s_application_id s \<noteq> aid) (db_services (d_db d))) ?db1
       in (Inr (), ?d2\<lparr>d_db := db, d_saved := if ?ss = [] then d_saved ?d2 else db\<rparr>))"
    using remove_services_run [of ?d2 ?ss] assms(1) by (simp add: Let_def)
  have drop: "filter (\<lambda>a. a_aid a \<noteq> aid) (change_where (\<lambda>a. a_aid a = aid) (a_status_update (\<lambda>_. A_STOPPED)) (db_apps (d_db d)))
      = filter (\<lambda>a. a_aid a \<noteq> aid) (db_apps (d_db d))"
    by (rule filter_change_where) simp_all
  have "stop_services aid del (Answer (PDict [])) ?d2 = (Inr (Answer (PDict [])),
     ?d2\<lparr>d_db := without_app del aid (d_db d), d_saved := without_app del aid (d_db d)\<rparr>)"
    using services assms(1) drop
    by (simp add: stop_services_def sx_bind_run db_get_def set_status_def update_app_def on_db_def commit_def
        without_app_def Let_def)
  then show ?thesis using run1 by simp
qed


section \<open>Stopping all applications of a user\<close>

definition stop_apps :: "int list \<Rightarrow> database \<Rightarrow> database" where
  "stop_apps aids db = db\<lparr>
     db_apps := change_where (\<lambda>a. a_aid a \<in> set aids) (a_status_update (\<lambda>_. A_STOPPED)) (db_apps db),
     db_services := filter (\<lambda>s. s_application_id s \<notin> set aids) (db_services db),
     db_resources := filter (\<lambda>r. r_app_id r \<notin> set aids) (db_resources db)\<rparr>"

lemma change_where_id: "change_where (\<lambda>r. False) f rows = rows"
  by (simp add: change_where_def)

lemma stop_apps_step: "stop_apps aids (without_app False aid db) = stop_apps (aid # aids) db"
  by (auto simp: stop_apps_def without_app_def change_where_def intro!: filter_cong)

lemma stop_apps_one: "stop_apps [aid] db = without_app False aid db"
  by (simp add: stop_apps_step [of "[]", symmetric]) (simp add: stop_apps_def change_where_id)

lemma app_resources_without: "aid' \<noteq> aid \<Longrightarrow> app_resources aid' (without_app del aid db) = app_resources aid' db"
  by (auto simp: app_resources_def without_app_def intro: filter_cong)

lemma find_app_without:
  "find_app aid' (without_app False aid db) =
     (if aid' = aid then map_option (a_status_update (\<lambda>_. A_STOPPED)) (find_app aid db) else find_app aid' db)"
proof -
  have "find (\<lambda>a. a_aid a = aid') (change_where (\<lambda>a. a_aid a = aid) (a_status_update (\<lambda>_. A_STOPPED)) as) =
     (if aid' = aid then map_option (a_status_update (\<lambda>_. A_STOPPED)) (find (\<lambda>a. a_aid a = aid) as)
      else find (\<lambda>a. a_aid a = aid') as)" for as
    by (induction as) (auto simp: change_where_def)
  from this [of "db_apps db"] show ?thesis by (simp add: find_app_def without_app_def)
qed

lemma get_app_without: "aid' \<noteq> aid \<Longrightarrow> get_app_by_id uid aid' (without_app False aid db) = get_app_by_id uid aid' db"
  by (simp add: get_app_by_id_def find_app_without)

lemma without_app_ok:
  assumes "db_ok db"
  shows "db_ok (without_app False aid db)"
proof -
  have "without_app False aid db = db_apps_update (change_where (\<lambda>a. a_aid a = aid) (a_status_update (\<lambda>_. A_STOPPED)))
      (db_services_update (filter (\<lambda>s. s_application_id s \<noteq> aid)) (db_resources_update (filter (\<lambda>r. r_app_id r \<noteq> aid)) db))"
    by (simp add: without_app_def)
  then show ?thesis using assms keeps_db_status keeps_db_drop unfolding keeps_db_def by metis
qed

lemma stop_all_run:
  assumes "\<not> d_broken d" "db_ok (d_db d)" "distinct aids" "\<forall>aid \<in> set aids. get_app_by_id uid aid (d_db d) \<noteq> None"
  shows "sx_for aids (\<lambda>aid. sx_bind (delete_app env uid aid False) (\<lambda>_. sx_return ())) d =
    (Inr (), d\<lparr>d_db := stop_apps aids (d_db d), d_saved := if aids = [] then d_saved d else stop_apps aids (d_db d),
       d_jobs := d_jobs d @ map (\<lambda>aid. DeleteNodes (map (resource_node (dr_now (de_driver env) (d_out d)))
          (app_resources aid (d_db d)))) aids\<rparr>)"
  using assms
proof (induction aids arbitrary: d)
  case Nil
  then show ?case by (simp add: stop_apps_def change_where_id)
next
  case (Cons aid aids)
  let ?db = "without_app False aid (d_db d)" and ?nodes = "map (resource_node (dr_now (de_driver env) (d_out d)))"
  let ?d = "d\<lparr>d_db := ?db, d_saved := ?db, d_jobs := d_jobs d @ [DeleteNodes (?nodes (app_resources aid (d_db d)))]\<rparr>"
  obtain x where "get_app_by_id uid aid (d_db d) = Some x" using Cons.prems(4) by auto
  then have run: "sx_for (aid # aids) (\<lambda>aid. sx_bind (delete_app env uid aid False) (\<lambda>_. sx_return ())) d =
      sx_for aids (\<lambda>aid. sx_bind (delete_app env uid aid False) (\<lambda>_. sx_return ())) ?d"
    using delete_app_run [OF Cons.prems(1,2)] by (simp add: sx_bind_run)
  have "\<forall>i \<in> set aids. get_app_by_id uid i ?db \<noteq> None"
    using Cons.prems(3,4) by (metis distinct.simps(2) get_app_without list.set_intros(2))
  then have "\<not> d_broken ?d" "db_ok (d_db ?d)" "distinct aids" "\<forall>i \<in> set aids. get_app_by_id uid i (d_db ?d) \<noteq> None"
    using Cons.prems(1,3) without_app_ok [OF Cons.prems(2)] by simp_all
  note loop0 = Cons.IH [OF this]
  have res: "app_resources i ?db = app_resources i (d_db d)" if "i \<in> set aids" for i
    using that Cons.prems(3) by (intro app_resources_without) auto
  have jobs: "map (\<lambda>i. DeleteNodes (?nodes (app_resources i ?db))) aids =
      map (\<lambda>i. DeleteNodes (?nodes (app_resources i (d_db d)))) aids"
    using res by simp
  show ?case unfolding run loop0 by (simp add: jobs stop_apps_step stop_apps_one)
qed

text \<open>The end of a check of the credits for one user.\<close>

lemma settle_run:
  fixes d :: "'w director" and paid uid :: int
  assumes "\<not> d_broken d" "db_ok (d_db d)" "find_user uid (d_db d) = Some u"
  defines "db \<equiv> db_users_update (change_where (\<lambda>u. u_uid u = uid) (u_credit_update (\<lambda>c. c - paid))) (d_db d)"
  defines "aids \<equiv> map a_aid (user_apps uid (d_db d))"
  shows "settle env uid paid d = (Inr (),
    if u_credit u = paid
    then d\<lparr>d_db := stop_apps aids db, d_saved := if aids = [] \<and> paid = 0 then d_saved d else stop_apps aids db,
       d_jobs := d_jobs d @ map (\<lambda>aid. DeleteNodes (map (resource_node (dr_now (de_driver env) (d_out d)))
          (app_resources aid (d_db d)))) aids\<rparr>
    else d\<lparr>d_db := db, d_saved := if paid = 0 then d_saved d else db\<rparr>)"
proof -
  have user: "user_row uid (d\<lparr>d_db := db\<rparr>) = (Inr (u\<lparr>u_credit := u_credit u - paid\<rparr>), d\<lparr>d_db := db\<rparr>)"
    using assms(3) by (simp add: user_row_def sx_bind_run db_get_def row_def db_def find_user_update)
  have same: "user_apps uid db = user_apps uid (d_db d)" "app_resources aid db = app_resources aid (d_db d)" for aid
    by (simp_all add: db_def user_apps_def app_resources_def)
  have loop: "sx_for (user_apps uid (d_db d)) (\<lambda>a. sx_bind (delete_app env uid (a_aid a) False) (\<lambda>_. sx_return ())) e =
     sx_for aids (\<lambda>aid. sx_bind (delete_app env uid aid False) (\<lambda>_. sx_return ())) e" for e
  proof -
    have "sx_for as (\<lambda>a. sx_bind (delete_app env uid (a_aid a) False) (\<lambda>_. sx_return ())) e =
      sx_for (map a_aid as) (\<lambda>aid. sx_bind (delete_app env uid aid False) (\<lambda>_. sx_return ())) e" for as
      by (induction as arbitrary: e) (simp_all add: sx_bind_run split: prod.split sum.split)
    then show ?thesis by (simp add: aids_def)
  qed
  have ok: "db_ok db" using assms(2) keeps_db_credit by (simp add: db_def keeps_db_def)
  have aids: "distinct aids" "\<forall>aid \<in> set aids. get_app_by_id uid aid db \<noteq> None"
  proof -
    show "distinct aids" using assms(2) by (simp add: aids_def user_apps_def db_ok_def distinct_map_filter_rows)
    have "get_app_by_id uid (a_aid a) db \<noteq> None" if "a \<in> set (db_apps (d_db d))" "a_user_id a = uid" for a
    proof -
      have "\<exists>b. find (\<lambda>b. a_aid b = a_aid a) (db_apps (d_db d)) = Some b"
        using that(1) by (metis (mono_tags, lifting) find_None_iff not_None_eq)
      then obtain b where b: "find (\<lambda>b. a_aid b = a_aid a) (db_apps (d_db d)) = Some b" by blast
      then have "b \<in> set (db_apps (d_db d))" "a_aid b = a_aid a" by (auto simp: find_Some_iff)
      then have "b = a" using that(1) assms(2) by (auto simp: db_ok_def distinct_map inj_on_eq_iff)
      then show ?thesis using b that(2) by (simp add: get_app_by_id_def find_app_def db_def)
    qed
    then show "\<forall>aid \<in> set aids. get_app_by_id uid aid db \<noteq> None" by (auto simp: aids_def user_apps_def)
  qed
  from stop_all_run [of "d\<lparr>d_db := db\<rparr>" aids uid env] assms(1) ok aids
  have stop: "sx_for aids (\<lambda>aid. sx_bind (delete_app env uid aid False) (\<lambda>_. sx_return ())) (d\<lparr>d_db := db\<rparr>) =
    (Inr (), d\<lparr>d_db := stop_apps aids db, d_saved := if aids = [] then d_saved d else stop_apps aids db,
       d_jobs := d_jobs d @ map (\<lambda>aid. DeleteNodes (map (resource_node (dr_now (de_driver env) (d_out d)))
          (app_resources aid (d_db d)))) aids\<rparr>)"
    by (simp add: same)
  have upd: "update_user uid (u_credit_update (\<lambda>c. c - paid)) d = (Inr (), d\<lparr>d_db := db\<rparr>)"
    by (simp add: update_user_def on_db_def db_def)
  show ?thesis
    using assms(1) user loop stop
    by (simp add: settle_def sx_bind_run upd db_get_def same commit_def)
qed

section \<open>Starting\<close>

definition set_app_status :: "int \<Rightarrow> app_status \<Rightarrow> database \<Rightarrow> database" where
  "set_app_status aid st = db_apps_update (change_where (\<lambda>a. a_aid a = aid) (a_status_update (\<lambda>_. st)))"

lemma set_status_run: "set_status aid st d = (Inr (), d\<lparr>d_db := set_app_status aid st (d_db d)\<rparr>)"
  by (simp add: set_status_def update_app_def on_db_def set_app_status_def)

lemma vpn_keeps: "available_vpn_subnet env aid d = (r, d') \<Longrightarrow> d' = d"
  by (auto simp: available_vpn_subnet_def sx_bind_run db_get_def Let_def split: if_splits sum.splits)

text \<open>
  The decision of \<open>start_app\<close>, and what follows it in a new thread: the application is in its
  prologue and a thread is waiting, or the configuration of the virtual network is bad and it is stopped.
\<close>

lemma start_app_run:
  assumes "\<not> d_broken d" "find_app aid (d_db d) = Some a" "a_user_id a = uid" "find_user uid (d_db d) = Some u"
    "available_vpn_subnet env aid (d\<lparr>d_db := set_app_status aid A_PROLOGUE (d_db d),
       d_saved := set_app_status aid A_PROLOGUE (d_db d)\<rparr>) = (vpn, d0)"
  shows "start_app env uid aid cname True False d =
    (if a_status a \<notin> {A_INIT, A_STOPPED} then (Inr (ErrorAnswer ''Application already started'' []), d)
     else if u_credit u \<le> 0 then (Inr (ErrorAnswer ''Insufficient credits'' []), d)
     else case vpn of
        Inr _ \<Rightarrow> (Inr (Answer (PDict [])), d\<lparr>d_db := set_app_status aid A_PROLOGUE (d_db d),
           d_saved := set_app_status aid A_PROLOGUE (d_db d),
           d_jobs := d_jobs d @ [CreateManager (ManagerArgs uid aid cname False)]\<rparr>)
      | Inl _ \<Rightarrow> (let db = set_app_status aid A_STOPPED (set_app_status aid A_PROLOGUE (d_db d))
           in (Inr (ErrorAnswer ''Error upon application starting: %s %s'' []), d\<lparr>d_db := db, d_saved := db\<rparr>)))"
proof -
  have found: "get_app_by_id uid aid (d_db d) = Some aid"
    using assms(2,3) find_app_key by (auto simp: get_app_by_id_def)
  have head: "start_app env uid aid cname True False d =
    (if a_status a \<notin> {A_INIT, A_STOPPED} then (Inr (ErrorAnswer ''Application already started'' []), d)
     else if u_credit u \<le> 0 then (Inr (ErrorAnswer ''Insufficient credits'' []), d)
     else sx_bind (sx_try
               (sx_bind (set_status aid A_PROLOGUE) (\<lambda>_.
                sx_bind commit (\<lambda>_.
                sx_bind (available_vpn_subnet env aid) (\<lambda>_.
                sx_bind (start_thread (CreateManager (ManagerArgs uid aid cname False))) (\<lambda>_.
                  sx_return (Answer (PDict [])))))))
               (\<lambda>e. sx_bind (set_status aid A_STOPPED) (\<lambda>_.
                      sx_return (ErrorAnswer ''Error upon application starting: %s %s'' [])))) (\<lambda>ans.
             sx_bind commit (\<lambda>_. sx_return ans)) d)"
    using assms(2,4) found by (simp add: start_app_def sx_bind_run db_get_def app_row_def user_row_def row_def Let_def)
  have d0: "d0 = d\<lparr>d_db := set_app_status aid A_PROLOGUE (d_db d), d_saved := set_app_status aid A_PROLOGUE (d_db d)\<rparr>"
    using vpn_keeps [OF assms(5)] .
  show ?thesis
    unfolding head using assms(1,5) d0
    by (cases vpn) (simp_all add: sx_bind_run sx_try_def set_status_run commit_def start_thread_def Let_def)
qed

end
