(* ===== verification/CreditProps.thy ===== *)
theory CreditProps
  imports DirectorRuns
begin

text \<open>
  What the director guarantees of its database and of the users' money: the invariant, the exact
  charges, and what happens when the credit runs out.
\<close>

section \<open>The database\<close>

text \<open>
  Claim C4. In every state the director can reach, by any requests, threads, turns of the background
  thread, administration and changes of the world: the committed tables have unique keys, unique user
  names and e-mail addresses, no two applications of one name for a user and no two rows for a
  machine, every application belongs to a stored user and every service to a stored application.
\<close>

theorem director_invariant:
  assumes "director_reachable env d" "fresh_keys env"
  shows "distinct (map u_uid (db_users (d_saved d))) \<and> distinct (map u_username (db_users (d_saved d))) \<and>
    distinct (map u_email (db_users (d_saved d))) \<and>
    distinct (map a_aid (db_apps (d_saved d))) \<and>
    distinct (map (\<lambda>a. (a_user_id a, a_name a)) (db_apps (d_saved d))) \<and>
    (\<forall>a \<in> set (db_apps (d_saved d)). \<exists>u \<in> set (db_users (d_saved d)). u_uid u = a_user_id a) \<and>
    distinct (map s_rec_id (db_services (d_saved d))) \<and>
    (\<forall>s \<in> set (db_services (d_saved d)). \<exists>a \<in> set (db_apps (d_saved d)). a_aid a = s_application_id s) \<and>
    distinct (map r_rid (db_resources (d_saved d))) \<and> distinct (map r_vmid (db_resources (d_saved d)))"
proof -
  have ok: "db_ok (d_saved d)" using director_reachable_ok [OF assms] by (simp add: dir_ok_def)
  then have "\<exists>u \<in> set (db_users (d_saved d)). u_uid u = a_user_id a" if "a \<in> set (db_apps (d_saved d))" for a
    using that by (force simp: db_ok_def)
  moreover have "\<exists>a \<in> set (db_apps (d_saved d)). a_aid a = s_application_id s" if "s \<in> set (db_services (d_saved d))" for s
    using ok that by (force simp: db_ok_def)
  ultimately show ?thesis using ok by (simp add: db_ok_def user_names_def app_names_def)
qed

theorem director_invariant_witness:
  "distinct (map u_username (db_users (d_saved sample_director))) \<and> length (db_apps (d_saved sample_director)) = 1 \<and>
   (\<exists>a \<in> set (db_apps (d_saved sample_director)). \<exists>u \<in> set (db_users (d_saved sample_director)). u_uid u = a_user_id a)"
proof -
  have "length (db_apps (d_saved sample_director)) = 1"
    using sample_director_state by (metis length_map length_Cons list.size(3) One_nat_def)
  moreover from this obtain a where "a \<in> set (db_apps (d_saved sample_director))"
    by (cases "db_apps (d_saved sample_director)") auto
  ultimately show ?thesis
    using director_invariant [OF sample_director_reachable sample_fresh] by blast
qed

section \<open>Charges\<close>

text \<open>What one machine costs at a check of the credits.\<close>

definition due :: "int \<Rightarrow> resource \<Rightarrow> int" where
  "due now r = (let units = mins_from_creation now (r_created r) div charging_unit in
     if units \<ge> r_charged r \<or> r_charged r = 0 then units - r_charged r + 1 else 0)"

definition is_due :: "int \<Rightarrow> resource \<Rightarrow> bool" where
  "is_due now r \<longleftrightarrow> (let units = mins_from_creation now (r_created r) div charging_unit in
     units \<ge> r_charged r \<or> r_charged r = 0)"

lemma charge_account:
  assumes "charge_resources now rs n = (rs', paid)"
  shows "paid = n + sum_list (map (due now) rs) \<and> length rs' = length rs \<and>
    (\<forall>i < length rs. r_charged (rs' ! i) = r_charged (rs ! i) +
       (if is_due now (rs ! i) then n + sum_list (map (due now) (take (Suc i) rs)) else 0))"
  using assms
proof (induction now rs n arbitrary: rs' paid rule: charge_resources.induct)
  case (2 now r rs n)
  define b where "b = is_due now r"
  have due: "due now r = (if b then mins_from_creation now (r_created r) div charging_unit - r_charged r + 1 else 0)"
    by (simp add: b_def due_def is_due_def Let_def)
  obtain rs1 p1 where rec: "charge_resources now rs (n + due now r) = (rs1, p1)" by fastforce
  have run: "rs' = (if b then r\<lparr>r_charged := r_charged r + (n + due now r)\<rparr> else r) # rs1 \<and> paid = p1"
    using 2(3) rec due by (auto simp: b_def is_due_def Let_def add.commute add.left_commute split: if_splits prod.splits)
  have IH: "p1 = n + due now r + sum_list (map (due now) rs) \<and> length rs1 = length rs \<and>
    (\<forall>i < length rs. r_charged (rs1 ! i) = r_charged (rs ! i) +
       (if is_due now (rs ! i) then n + due now r + sum_list (map (due now) (take (Suc i) rs)) else 0))"
  proof (cases b)
    case True
    then show ?thesis using 2(1) [OF refl _ refl, of rs1 p1] rec due by (simp add: b_def is_due_def Let_def)
  next
    case False
    then show ?thesis using 2(2) [OF refl, of rs1 p1] rec due by (simp add: b_def is_due_def Let_def)
  qed
  show ?case
  proof (intro conjI allI impI)
    show "paid = n + sum_list (map (due now) (r # rs))" "length rs' = length (r # rs)" using run IH by simp_all
    fix i assume "i < length (r # rs)"
    then show "r_charged (rs' ! i) = r_charged ((r # rs) ! i) +
       (if is_due now ((r # rs) ! i) then n + sum_list (map (due now) (take (Suc i) (r # rs))) else 0)"
      using run IH by (cases i) (auto simp: b_def)
  qed
qed simp


text \<open>
  Claim C14. A check of the credits makes the user pay, for every machine, the hours that have begun
  since its creation and that its column \<open>charged\<close> does not cover yet, and nothing for a machine
  that is covered. The column of a machine that is due grows by what all the machines up to it pay,
  not by its own share; the columns of the others stay.
\<close>

theorem charges_exact:
  assumes "charge_resources now rs 0 = (rs', paid)"
  shows "paid = sum_list (map (due now) rs) \<and> list_all2 same_row rs rs' \<and>
    (\<forall>i < length rs. r_charged (rs' ! i) = r_charged (rs ! i) +
       (if is_due now (rs ! i) then sum_list (map (due now) (take (Suc i) rs)) else 0))"
  using charge_account [OF assms] charge_same_rows [OF assms] by simp

definition machine :: "int \<Rightarrow> int \<Rightarrow> resource" where
  "machine rid created = \<lparr>r_rid = rid, r_vmid = int_str rid, r_app_id = 1, r_service_id = 0, r_charged = 0,
     r_ip = ''10.0.0.1'', r_role = ''agent'', r_cloud = ''iaas'', r_created = created\<rparr>"

theorem charges_exact_witness:
  "snd (charge_resources 7200 [machine 1 0, machine 2 3600] 0) = 5 \<and>
   r_charged (fst (charge_resources 7200 [machine 1 0, machine 2 3600] 0) ! 1) = 5"
proof -
  obtain rs' paid where run: "charge_resources 7200 [machine 1 0, machine 2 3600] 0 = (rs', paid)" by fastforce
  have "due 7200 (machine 1 0) = 3 \<and> due 7200 (machine 2 3600) = 2 \<and> is_due 7200 (machine 2 3600) \<and>
    r_charged (machine 2 3600) = 0" by code_simp
  then show ?thesis using charges_exact [OF run] run by (auto simp: numeral_2_eq_2)
qed

text \<open>A run of checks on the hour from the creation on: the columns, and what was paid in all.\<close>

primrec hourly :: "int \<Rightarrow> nat \<Rightarrow> resource list \<Rightarrow> resource list \<times> int" where
  "hourly t 0 rs = charge_resources t rs 0"
| "hourly t (Suc h) rs = (let (rs1, p1) = hourly t h rs;
       (rs2, p2) = charge_resources (t + 3600 * (int h + 1)) rs1 0 in (rs2, p1 + p2))"

lemma units_on_the_hour: "mins_from_creation (t + 3600 * k) t div charging_unit = k"
proof -
  have "(3600 * k) div 60 = 60 * k" by simp
  then show ?thesis by (simp add: mins_from_creation_def charging_unit_def)
qed

lemma hourly_one:
  assumes "r_charged a = 0" "r_created a = t"
  shows "hourly t h [a] = ([a\<lparr>r_charged := int h + 1\<rparr>], int h + 1)"
proof (induction h)
  case 0
  then show ?case using assms units_on_the_hour [of t 0] by (simp add: Let_def)
next
  case (Suc h)
  then show ?case using assms units_on_the_hour [of t "int h + 1"] by (simp add: Let_def algebra_simps)
qed

lemma hourly_two:
  assumes "r_charged a = 0" "r_created a = t" "r_charged b = 0" "r_created b = t"
  shows "hourly t h [a, b] = ([a\<lparr>r_charged := int h + 1\<rparr>, b\<lparr>r_charged := 2 * (int h div 2 + 1)\<rparr>],
    (int h + 1) + (int h div 2 + 1))"
proof (induction h)
  case 0
  then show ?case using assms units_on_the_hour [of t 0] by (simp add: Let_def)
next
  case (Suc h)
  have u: "mins_from_creation (t + 3600 * (int h + 1)) t div charging_unit = int h + 1" by (rule units_on_the_hour)
  show ?case
  proof (cases "even h")
    case True
    then have "int h = 2 * (int h div 2)" "int (Suc h) div 2 = int h div 2" by presburger+
    then show ?thesis using assms Suc u by (simp add: Let_def algebra_simps)
  next
    case False
    then have "int h = 2 * (int h div 2) + 1" "int (Suc h) div 2 = int h div 2 + 1" by presburger+
    then show ?thesis using assms Suc u by (simp add: Let_def algebra_simps)
  qed
qed

text \<open>
  A machine that is checked on every hour of its life pays one unit per hour that began.
  A second machine of the same age pays only every other hour: what was added to its column covers
  the first machine's hour as well.
\<close>

theorem second_machine_half_price:
  assumes "r_charged a = 0" "r_created a = t" "r_charged b = 0" "r_created b = t"
  shows "snd (hourly t h [a]) = int h + 1 \<and> snd (hourly t h [a, b]) = (int h + 1) + (int h div 2 + 1)"
  using hourly_one [OF assms(1,2)] hourly_two [OF assms] by simp

theorem second_machine_half_price_witness:
  "snd (hourly 60 9 [machine 1 60]) = 10 \<and> snd (hourly 60 9 [machine 1 60, machine 2 60]) = 15"
  using second_machine_half_price [of "machine 1 60" 60 "machine 2 60" 9] by (simp add: machine_def)


section \<open>Running out of credit\<close>

lemma charge_settles:
  assumes "\<not> d_broken d" "db_ok (d_db d)" "find_user uid (d_db d) = Some u"
    "charge_resources (dr_now (de_driver env) (d_out d)) (filter (owned_by uid (d_db d)) (db_resources (d_db d))) 0 = (changed, paid)"
  defines "db \<equiv> db_resources_update (map (replace_resource changed)) (d_db d)"
  shows "charge_user env uid d = settle env uid paid (d\<lparr>d_db := db\<rparr>)" "db_ok db" "find_user uid db = Some u"
  using charge_user_run [OF assms(4)] charged_ok [OF assms(2,4)] assms(3) by (simp_all add: db_def find_user_def)

text \<open>
  Claim C22. The check of the credits stops the applications of a user only when what is due leaves
  exactly nothing of the credit. When it leaves a debt, or the user was in debt before, every
  application keeps its status and its machines, no thread is started to stop a machine, and the
  credit becomes or stays negative.
\<close>

theorem debt_stops_nothing:
  assumes "\<not> d_broken d" "db_ok (d_db d)" "find_user uid (d_db d) = Some u"
    "charge_resources (dr_now (de_driver env) (d_out d)) (filter (owned_by uid (d_db d)) (db_resources (d_db d))) 0 = (changed, paid)"
    "u_credit u < paid" "charge_user env uid d = (r, d')"
  shows "r = Inr () \<and> db_apps (d_db d') = db_apps (d_db d) \<and> db_services (d_db d') = db_services (d_db d) \<and>
    map r_vmid (db_resources (d_db d')) = map r_vmid (db_resources (d_db d)) \<and> d_jobs d' = d_jobs d \<and>
    d_out d' = d_out d \<and> map_option u_credit (find_user uid (d_db d')) = Some (u_credit u - paid) \<and> u_credit u - paid < 0"
proof -
  let ?db = "db_resources_update (map (replace_resource changed)) (d_db d)"
  note charged = charge_settles [OF assms(1-4)]
  have "settle env uid paid (d\<lparr>d_db := ?db\<rparr>) = (r, d')" using assms(6) charged(1) by simp
  with assms(1,5) charged(2,3) settle_run [of "d\<lparr>d_db := ?db\<rparr>" uid u env paid]
  have run: "r = Inr ()" "d_db d' = db_users_update (change_where (\<lambda>u. u_uid u = uid) (u_credit_update (\<lambda>c. c - paid))) ?db"
    "d_jobs d' = d_jobs d" "d_out d' = d_out d" by auto
  have "r_vmid (replace_resource changed x) = r_vmid x" if "x \<in> set (db_resources (d_db d))" for x
    by (rule same_row_cols(2) [OF replace_same_row [OF assms(4) _ _ that]]) (use assms(2) in \<open>auto simp: db_ok_def\<close>)
  then show ?thesis using run charged(3) assms(5) by (simp add: find_user_update)
qed

text \<open>A database to run on: Alice with one application that has a manager, started a given time ago.\<close>

definition shop_db :: "app_status \<Rightarrow> int \<Rightarrow> database" where
  "shop_db st credit = \<lparr>
     db_users = [\<lparr>u_uid = 1, u_username = ''alice'', u_fname = None, u_lname = None, u_email = ''alice@example.org'',
       u_affiliation = None, u_password = ''md5:pw'', u_created = 0, u_credit = credit, u_uuid = None, u_openid = None\<rparr>],
     db_apps = [\<lparr>a_aid = 1, a_name = ''shop'', a_status = st, a_user_id = 1\<rparr>],
     db_services = [\<lparr>s_rec_id = 1, s_sid = 1, s_name = ''web'', s_type = ''php'', s_state = ''INIT'', s_created = 0,
       s_cloud = None, s_subnet = None, s_application_id = 1\<rparr>],
     db_resources = [\<lparr>r_rid = 1, r_vmid = ''1'', r_app_id = 1, r_service_id = 0, r_charged = 0,
       r_ip = ''10.0.0.1'', r_role = ''manager'', r_cloud = ''iaas'', r_created = 0\<rparr>]\<rparr>"

definition shop :: "app_status \<Rightarrow> int \<Rightarrow> int \<Rightarrow> sky director" where
  "shop st credit t = \<lparr>d_saved = shop_db st credit, d_db = shop_db st credit, d_broken = False, d_jobs = [], d_out = (2, t)\<rparr>"

lemma shop_ok: "\<not> d_broken (shop st credit t)" "db_ok (d_db (shop st credit t))"
  by (simp_all add: shop_def shop_db_def db_ok_def user_names_def app_names_def)

lemma shop_charged:
  "find_user 1 (d_db (shop st credit t)) = Some (hd (db_users (shop_db st credit)))"
  "u_credit (hd (db_users (shop_db st credit))) = credit"
  "charge_resources (dr_now (de_driver sample_denv) (d_out (shop st credit t)))
     (filter (owned_by 1 (d_db (shop st credit t))) (db_resources (d_db (shop st credit t)))) 0 =
   ([hd (db_resources (shop_db st credit))\<lparr>r_charged := t div 60 div 60 + 1\<rparr>], t div 60 div 60 + 1)"
  by (simp_all add: shop_def shop_db_def find_user_def owned_by_def find_app_def sample_denv_def sample_driver_def
      mins_from_creation_def charging_unit_def Let_def)

theorem debt_stops_nothing_witness:
  "map a_status (db_apps (d_db (snd (charge_user sample_denv 1 (shop A_RUNNING 1 3600))))) = [A_RUNNING]"
proof -
  obtain r d' where run: "charge_user sample_denv 1 (shop A_RUNNING 1 3600) = (r, d')" by fastforce
  show ?thesis
    using debt_stops_nothing [OF shop_ok shop_charged(1,3) _ run] shop_charged(2) [of A_RUNNING 1]
    by (simp add: run) (simp add: shop_def shop_db_def)
qed

lemma resource_nodes_vmids: "map sn_vmid (map (resource_node now) rs) = map r_vmid rs"
  by (simp add: resource_node_def new_service_node_def)

text \<open>Charging the machines of a user leaves the rows of all others as they are.\<close>

lemma charged_others:
  assumes "charge_resources now (filter p rows) n = (changed, paid)" "distinct (map r_rid rows)" "x \<in> set rows" "\<not> p x"
  shows "replace_resource changed x = x"
proof (cases "find (\<lambda>c. r_rid c = r_rid x) changed")
  case (Some c)
  then have c: "c \<in> set changed" "r_rid c = r_rid x" by (auto simp: find_Some_iff)
  obtain y where y: "y \<in> set (filter p rows)" "same_row y c"
    using charge_same_rows [OF assms(1)] c(1) by (metis list_all2_conv_all_nth in_set_conv_nth)
  then have "r_rid y = r_rid x" using c(2) by (simp add: same_row_cols)
  moreover have "inj_on r_rid (set rows)" using assms(2) by (simp add: distinct_map)
  ultimately have "y = x" using y(1) assms(3) by (auto dest: inj_onD)
  then show ?thesis using y(1) assms(4) by simp
qed (simp add: replace_resource_def)

lemma owned_app: "owned_by uid db x \<Longrightarrow> r_app_id x \<in> set (map a_aid (user_apps uid db))"
proof -
  assume "owned_by uid db x"
  then obtain a where a: "find (\<lambda>a. a_aid a = r_app_id x) (db_apps db) = Some a" "a_user_id a = uid"
    by (auto simp: owned_by_def find_app_def split: option.splits)
  then have "a \<in> set (db_apps db)" "a_aid a = r_app_id x" by (auto simp: find_Some_iff)
  then show "r_app_id x \<in> set (map a_aid (user_apps uid db))" using a(2) by (force simp: user_apps_def)
qed

lemma charged_rows:
  assumes "charge_resources now (filter (owned_by uid db) (db_resources db)) n = (changed, paid)" "db_ok db"
    and "set aids \<supseteq> set (map a_aid (user_apps uid db))"
  shows "filter (\<lambda>x. r_app_id x \<notin> set aids) (map (replace_resource changed) (db_resources db)) =
      filter (\<lambda>x. r_app_id x \<notin> set aids) (db_resources db)"
    "map r_vmid (filter (\<lambda>x. r_app_id x = aid) (map (replace_resource changed) (db_resources db))) =
      map r_vmid (filter (\<lambda>x. r_app_id x = aid) (db_resources db))"
proof -
  have ids: "distinct (map r_rid (db_resources db))" using assms(2) by (simp add: db_ok_def)
  have same: "same_row x (replace_resource changed x)" if "x \<in> set (db_resources db)" for x
    by (rule replace_same_row [OF assms(1) _ ids that]) auto
  have other: "replace_resource changed x = x" if "x \<in> set (db_resources db)" "r_app_id x \<notin> set aids" for x
    using charged_others [OF assms(1) ids that(1)] owned_app [of uid db x] that(2) assms(3) by blast
  have "filter (\<lambda>x. r_app_id x \<notin> set aids) (map (replace_resource changed) rows) = filter (\<lambda>x. r_app_id x \<notin> set aids) rows"
    if "set rows \<subseteq> set (db_resources db)" for rows
    using that
  proof (induction rows)
    case (Cons x rows)
    then show ?case using same [of x] other [of x] same_row_cols(3) [OF same [of x]] by auto
  qed simp
  then show "filter (\<lambda>x. r_app_id x \<notin> set aids) (map (replace_resource changed) (db_resources db)) =
      filter (\<lambda>x. r_app_id x \<notin> set aids) (db_resources db)" by simp
  have "map r_vmid (filter (\<lambda>x. r_app_id x = aid) (map (replace_resource changed) rows)) = map r_vmid (filter (\<lambda>x. r_app_id x = aid) rows)"
    if "set rows \<subseteq> set (db_resources db)" for rows
    using that
  proof (induction rows)
    case (Cons x rows)
    then show ?case using same [of x] same_row_cols(2,3) [OF same [of x]] by auto
  qed simp
  then show "map r_vmid (filter (\<lambda>x. r_app_id x = aid) (map (replace_resource changed) (db_resources db))) =
      map r_vmid (filter (\<lambda>x. r_app_id x = aid) (db_resources db))" by simp
qed

text \<open>
  Claim C23. When what is due leaves exactly nothing of the credit, the applications of the user are stopped and
  nobody else's: their status is \<open>STOPPED\<close>, exactly their services and machines are gone from the tables, for
  each of them, in order, a thread is waiting that kills exactly its machines, and everything is committed. The
  users, applications, services and machines of others stay as they are.
\<close>

theorem zero_credit_stops:
  assumes "\<not> d_broken d" "db_ok (d_db d)" "find_user uid (d_db d) = Some u"
    "charge_resources (dr_now (de_driver env) (d_out d)) (filter (owned_by uid (d_db d)) (db_resources (d_db d))) 0 = (changed, paid)"
    "u_credit u = paid" "paid \<noteq> 0" "charge_user env uid d = (r, d')"
  shows "let aids = map a_aid (user_apps uid (d_db d)) in
    r = Inr () \<and> d_saved d' = d_db d' \<and>
    (\<forall>a \<in> set (db_apps (d_saved d')). a_user_id a = uid \<longrightarrow> a_status a = A_STOPPED) \<and>
    filter (\<lambda>a. a_user_id a \<noteq> uid) (db_apps (d_saved d')) = filter (\<lambda>a. a_user_id a \<noteq> uid) (db_apps (d_db d)) \<and>
    db_resources (d_saved d') = filter (\<lambda>x. r_app_id x \<notin> set aids) (db_resources (d_db d)) \<and>
    db_services (d_saved d') = filter (\<lambda>x. s_application_id x \<notin> set aids) (db_services (d_db d)) \<and>
    (\<exists>nodes. d_jobs d' = d_jobs d @ map DeleteNodes nodes \<and>
       map (map sn_vmid) nodes = map (\<lambda>aid. map r_vmid (filter (\<lambda>x. r_app_id x = aid) (db_resources (d_db d)))) aids) \<and>
    filter (\<lambda>v. u_uid v \<noteq> uid) (db_users (d_saved d')) = filter (\<lambda>v. u_uid v \<noteq> uid) (db_users (d_db d)) \<and>
    map_option u_credit (find_user uid (d_saved d')) = Some 0"
proof -
  let ?db = "db_resources_update (map (replace_resource changed)) (d_db d)"
  let ?aids = "map a_aid (user_apps uid (d_db d))"
  let ?paid = "db_users_update (change_where (\<lambda>u. u_uid u = uid) (u_credit_update (\<lambda>c. c - paid))) ?db"
  let ?nodes = "map (\<lambda>aid. map (resource_node (dr_now (de_driver env) (d_out d))) (app_resources aid ?db)) ?aids"
  note charged = charge_settles [OF assms(1-4)]
  have apps: "user_apps uid ?db = user_apps uid (d_db d)" by (simp add: user_apps_def)
  have "settle env uid paid (d\<lparr>d_db := ?db\<rparr>) = (r, d')" using assms(7) charged(1) by simp
  with assms(1,5,6) charged(2,3) settle_run [of "d\<lparr>d_db := ?db\<rparr>" uid u env paid]
  have run: "r = Inr ()" "d_db d' = stop_apps ?aids ?paid" "d_saved d' = stop_apps ?aids ?paid"
    "d_jobs d' = d_jobs d @ map DeleteNodes ?nodes" by (auto simp: apps)
  have mine: "a_aid a \<in> set ?aids \<longleftrightarrow> a_user_id a = uid" if "a \<in> set (db_apps (d_db d))" for a
    using that assms(2) by (auto simp: user_apps_def db_ok_def distinct_map dest: inj_onD)
  have stopped: "a_status a = A_STOPPED" if "a \<in> set (db_apps (d_saved d'))" "a_user_id a = uid" for a
    using that mine by (auto simp: run(3) stop_apps_def change_where_def split: if_splits)
  have others: "filter (\<lambda>a. a_user_id a \<noteq> uid) (db_apps (d_saved d')) = filter (\<lambda>a. a_user_id a \<noteq> uid) (db_apps (d_db d))"
  proof -
    have "filter (\<lambda>a. a_user_id a \<noteq> uid) (change_where (\<lambda>a. a_aid a \<in> set ?aids) (a_status_update (\<lambda>_. A_STOPPED)) as) =
      filter (\<lambda>a. a_user_id a \<noteq> uid) as" if "\<forall>a \<in> set as. a_aid a \<in> set ?aids \<longleftrightarrow> a_user_id a = uid" for as
      using that by (induction as) (auto simp: change_where_def)
    from this [of "db_apps (d_db d)"] mine show ?thesis by (simp add: run(3) stop_apps_def)
  qed
  note rows = charged_rows [OF assms(4,2) subset_refl]
  have machines: "db_resources (d_saved d') = filter (\<lambda>x. r_app_id x \<notin> set ?aids) (db_resources (d_db d))"
    using rows(1) by (simp add: run(3) stop_apps_def)
  have services: "db_services (d_saved d') = filter (\<lambda>x. s_application_id x \<notin> set ?aids) (db_services (d_db d))"
    by (simp add: run(3) stop_apps_def)
  have vmids: "map (map sn_vmid) ?nodes = map (\<lambda>aid. map r_vmid (filter (\<lambda>x. r_app_id x = aid) (db_resources (d_db d)))) ?aids"
    unfolding map_map by (intro map_cong refl) (simp only: comp_apply resource_nodes_vmids app_resources_def, simp add: rows(2))
  have users: "filter (\<lambda>v. u_uid v \<noteq> uid) (db_users (d_saved d')) = filter (\<lambda>v. u_uid v \<noteq> uid) (db_users (d_db d))"
  proof -
    have "filter (\<lambda>v. u_uid v \<noteq> uid) (change_where (\<lambda>u. u_uid u = uid) (u_credit_update (\<lambda>c. c - paid)) us) =
      filter (\<lambda>v. u_uid v \<noteq> uid) us" for us by (induction us) (auto simp: change_where_def)
    then show ?thesis by (simp add: run(3) stop_apps_def)
  qed
  have "map_option u_credit (find_user uid (stop_apps ?aids ?paid)) = Some 0"
    using find_user_update [of "u_credit_update (\<lambda>c. c - paid)" uid ?db] charged(3) assms(5)
    by (simp add: stop_apps_def find_user_def)
  then have credit: "map_option u_credit (find_user uid (d_saved d')) = Some 0" unfolding run(3) .
  show ?thesis
    unfolding Let_def
    by (intro conjI ballI impI exI [of _ ?nodes] run(1,4) others machines services vmids users credit stopped) (simp_all add: run(2,3))
qed

theorem zero_credit_stops_witness:
  "map_option u_credit (find_user 1 (d_saved (snd (charge_user sample_denv 1 (shop A_RUNNING 2 3600))))) = Some 0"
proof -
  obtain r d' where run: "charge_user sample_denv 1 (shop A_RUNNING 2 3600) = (r, d')" by fastforce
  have paid: "u_credit (hd (db_users (shop_db A_RUNNING 2))) = 3600 div 60 div 60 + 1" "3600 div 60 div 60 + 1 \<noteq> (0 :: int)"
    using shop_charged(2) [of A_RUNNING 2] by simp_all
  show ?thesis
    using zero_credit_stops [OF shop_ok shop_charged(1,3) paid run] unfolding Let_def by (elim conjE) (simp only: run snd_conv)
qed

end
