(* ===== verification/LifeProps.thy ===== *)
theory LifeProps
  imports CreditProps
begin

text \<open>
  The life of an application at the director: when a start is accepted, what a start that fails
  leaves behind, what stopping and deleting do, and that none of it reaches another user's application.
\<close>

section \<open>Starting\<close>

text \<open>
  Claim C24. Only an application in state \<open>INIT\<close> or \<open>STOPPED\<close> of a user with positive credit is started:
  its status \<open>PROLOGUE\<close> is committed and exactly one thread that creates the manager is waiting, after
  which a second start is refused and changes nothing. Every other start is refused and changes nothing.
\<close>

theorem start_app_decision:
  assumes "\<not> d_broken d" "find_app aid (d_db d) = Some a" "a_user_id a = uid" "find_user uid (d_db d) = Some u"
    "has_section (de_cfg env) ''conpaas''" "\<not> has_option (de_cfg env) ''conpaas'' ''VPN_BASE_NETWORK''"
    "start_app env uid aid cname True False d = (r, d')"
  shows "(if a_status a \<in> {A_INIT, A_STOPPED} \<and> u_credit u > 0
    then r = Inr (Answer (PDict [])) \<and> d_saved d' = set_app_status aid A_PROLOGUE (d_db d) \<and>
      d_jobs d' = d_jobs d @ [CreateManager (ManagerArgs uid aid cname False)] \<and>
      map_option a_status (find_app aid (d_saved d')) = Some A_PROLOGUE \<and>
      start_app env uid aid cname True False (end_session d') = (Inr (ErrorAnswer ''Application already started'' []), end_session d')
    else d' = d \<and> r = Inr (ErrorAnswer (if a_status a \<in> {A_INIT, A_STOPPED} then ''Insufficient credits''
       else ''Application already started'') []))"
proof -
  obtain err where "cfg_get (de_cfg env) ''conpaas'' ''VPN_BASE_NETWORK'' = Inl err"
    using assms(6) cfg_get_has_option by (metis sum.exhaust)
  then have vpn: "available_vpn_subnet env i e = (Inr None, e)" for i and e :: "'a director"
    using assms(5) by (simp add: available_vpn_subnet_def Let_def)
  note run = start_app_run [OF assms(1-4) vpn, of cname]
  show ?thesis
  proof (cases "a_status a \<in> {A_INIT, A_STOPPED} \<and> u_credit u > 0")
    case True
    then have d': "r = Inr (Answer (PDict []))" "d' = d\<lparr>d_db := set_app_status aid A_PROLOGUE (d_db d),
           d_saved := set_app_status aid A_PROLOGUE (d_db d),
           d_jobs := d_jobs d @ [CreateManager (ManagerArgs uid aid cname False)]\<rparr>"
      using run assms(7) by auto
    have new: "find_app aid (set_app_status aid A_PROLOGUE (d_db d)) = Some (a\<lparr>a_status := A_PROLOGUE\<rparr>)"
      using assms(2) find_app_update [of "a_status_update (\<lambda>_. A_PROLOGUE)" aid "d_db d"] by (simp add: set_app_status_def)
    have "start_app env uid aid cname True False (end_session d') =
      (Inr (ErrorAnswer ''Application already started'' []), end_session d')"
      using start_app_run [of "end_session d'" aid "a\<lparr>a_status := A_PROLOGUE\<rparr>" uid u env "Inr None" _ cname] vpn new assms(3,4)
      by (simp add: d'(2) end_session_def set_app_status_def)
    then show ?thesis using True d' new by simp
  next
    case False
    then show ?thesis using run assms(7) by auto
  qed
qed


theorem start_app_decision_witness:
  "d_jobs (snd (start_app sample_denv 1 1 ''default'' True False (shop A_INIT 5 0))) =
     [CreateManager (ManagerArgs 1 1 ''default'' False)]"
proof -
  obtain r d' where run: "start_app sample_denv 1 1 ''default'' True False (shop A_INIT 5 0) = (r, d')" by fastforce
  have app: "find_app 1 (d_db (shop A_INIT 5 0)) = Some (hd (db_apps (shop_db A_INIT 5)))"
    "a_user_id (hd (db_apps (shop_db A_INIT 5))) = 1" "a_status (hd (db_apps (shop_db A_INIT 5))) = A_INIT"
    by (simp_all add: shop_def shop_db_def find_app_def)
  have cfg: "has_section (de_cfg sample_denv) ''conpaas''" "\<not> has_option (de_cfg sample_denv) ''conpaas'' ''VPN_BASE_NETWORK''"
    by code_simp+
  show ?thesis
    using start_app_decision [OF shop_ok(1) app(1,2) shop_charged(1) cfg run] shop_charged(2) [of A_INIT 5] app(3)
    by (simp add: run) (simp add: shop_def)
qed

text \<open>
  Claim C25. A start whose thread finds no machine ready, or fails before it knows, leaves the
  application in its prologue: the status \<open>RUNNING\<close> is written with the machines only, nothing of it is committed
  and the session of the thread ends. In this state a start is refused; what gets the application out of it is
  stopping it, which is accepted in any state and commits \<open>STOPPED\<close>: a start after that is not refused as a second
  one.
\<close>

theorem unready_manager_stuck:
  assumes "find_app aid (d_saved d) = Some a" "a_user_id a = uid" "a_status a = A_PROLOGUE" "find_user uid (d_saved d) = Some u"
    "manager_controller (de_cfg env) (int_str uid) (int_str aid) = Inr (ct, cs)"
    "get_cloud_list [manager_info cloud] = (infos, clouds)" "\<not> d_broken d" "db_ok (d_saved d)"
    "with_clouds cs (sx_bind (generate_context env ct clouds [] None) (\<lambda>_. ctl_create_nodes env ct infos clouds)) d = (res, d1)"
    "res = Inr [] \<or> (\<exists>e. res = Inl e)"
    "run_director_job env (CreateManager (ManagerArgs uid aid cloud False)) d = (r, d')"
  shows "d_saved d' = d_saved d \<and> map_option a_status (find_app aid (d_saved d')) = Some A_PROLOGUE \<and>
    start_app env uid aid cname True False (end_session d') = (Inr (ErrorAnswer ''Application already started'' []), end_session d') \<and>
    (\<exists>d2. delete_app env uid aid False (end_session d') = (Inr (Answer (PDict [])), d2) \<and>
       map_option a_status (find_app aid (d_saved d2)) = Some A_STOPPED \<and>
       fst (start_app env uid aid cname True False (end_session d2)) \<noteq> Inr (ErrorAnswer ''Application already started'' []))"
proof -
  have d1: "d_saved d1 = d_saved d" "d_db d1 = d_db d"
    using assms(9) by (auto simp: with_clouds_def split: prod.splits)
  have saved: "d_saved d' = d_saved d"
    using assms(10,11) d1 unfolding run_director_job_def create_manager_nodes_def director_job.case manager_args.case Let_def
      assms(5,6) prod.case sx_bind_lift
    by (auto simp: sx_bind_run assms(9) db_get_def register_nodes_def set_status_run split: option.splits)
  have ends: "\<not> d_broken (end_session x)" "d_db (end_session x) = d_saved x" "d_saved (end_session x) = d_saved x" for x :: "'a director"
    by (simp_all add: end_session_def)
  obtain vpn d0 where "available_vpn_subnet env aid ((end_session d')\<lparr>d_db := set_app_status aid A_PROLOGUE (d_db (end_session d')),
       d_saved := set_app_status aid A_PROLOGUE (d_db (end_session d'))\<rparr>) = (vpn, d0)" by fastforce
  from start_app_run [OF _ _ assms(2) _ this, of u cname] assms(1,3,4) saved
  have refused: "start_app env uid aid cname True False (end_session d') = (Inr (ErrorAnswer ''Application already started'' []), end_session d')"
    by (simp add: ends)
  have owner: "get_app_by_id uid aid (d_db (end_session d')) = Some (a_aid a)" using assms(1,2) saved by (simp add: get_app_by_id_def ends)
  obtain d2 where d2: "delete_app env uid aid False (end_session d') = (Inr (Answer (PDict [])), d2)" "d_saved d2 = without_app False aid (d_saved d)"
    using delete_app_run [OF ends(1) _ owner, of env False] assms(8) saved by (simp add: ends)
  have stopped: "find_app aid (d_saved d2) = Some (a\<lparr>a_status := A_STOPPED\<rparr>)"
    using assms(1) find_app_without [of aid aid "d_saved d"] by (simp add: d2(2))
  have user: "find_user uid (d_saved d2) = Some u" using assms(4) by (simp add: d2(2) without_app_def find_user_def)
  obtain vpn2 d02 where "available_vpn_subnet env aid ((end_session d2)\<lparr>d_db := set_app_status aid A_PROLOGUE (d_db (end_session d2)),
       d_saved := set_app_status aid A_PROLOGUE (d_db (end_session d2))\<rparr>) = (vpn2, d02)" by fastforce
  from start_app_run [OF ends(1) _ _ _ this, of "a\<lparr>a_status := A_STOPPED\<rparr>" uid u cname] assms(2) stopped user
  have again: "fst (start_app env uid aid cname True False (end_session d2)) \<noteq> Inr (ErrorAnswer ''Application already started'' [])"
    by (simp add: ends Let_def split: sum.split)
  show ?thesis using saved assms(1,3) refused d2(1) stopped again by simp
qed

definition silent_denv :: "sky denv" where
  "silent_denv = sample_denv\<lparr>de_read := (\<lambda>path. Inl (builtin_exn EIOError))\<rparr>"


text \<open>Here the thread fails at the first context file; the run that follows is the one of the claim.\<close>

lemma silent_run:
  "case manager_controller (de_cfg silent_denv) (int_str 1) (int_str 1) of
     Inl _ \<Rightarrow> False
   | Inr (ct, cs) \<Rightarrow> (case fst (with_clouds cs (sx_bind (generate_context silent_denv ct [''iaas''] [] None)
        (\<lambda>_. ctl_create_nodes silent_denv ct [manager_info ''iaas''] [''iaas''])) (shop A_PROLOGUE 5 0)) of
          Inl _ \<Rightarrow> True | Inr _ \<Rightarrow> False)"
  by code_simp

theorem unready_manager_stuck_witness:
  "map_option a_status (find_app 1 (d_saved (snd (run_director_job silent_denv
     (CreateManager (ManagerArgs 1 1 ''iaas'' False)) (shop A_PROLOGUE 5 0))))) = Some A_PROLOGUE"
proof -
  let ?d = "shop A_PROLOGUE 5 0"
  obtain ct cs where ctl: "manager_controller (de_cfg silent_denv) (int_str 1) (int_str 1) = Inr (ct, cs)"
    using silent_run by (auto split: sum.splits)
  obtain res d1 where work: "with_clouds cs (sx_bind (generate_context silent_denv ct [''iaas''] [] None)
        (\<lambda>_. ctl_create_nodes silent_denv ct [manager_info ''iaas''] [''iaas''])) ?d = (res, d1)" by fastforce
  have fails: "res = Inr [] \<or> (\<exists>e. res = Inl e)" using silent_run by (auto simp: ctl work split: sum.splits)
  obtain r d' where run: "run_director_job silent_denv (CreateManager (ManagerArgs 1 1 ''iaas'' False)) ?d = (r, d')" by fastforce
  have infos: "get_cloud_list [manager_info ''iaas''] = ([manager_info ''iaas''], [''iaas''])" by code_simp
  have app: "find_app 1 (d_saved ?d) = Some (hd (db_apps (shop_db A_PROLOGUE 5)))"
    "a_user_id (hd (db_apps (shop_db A_PROLOGUE 5))) = 1" "a_status (hd (db_apps (shop_db A_PROLOGUE 5))) = A_PROLOGUE"
    "find_user 1 (d_saved ?d) = Some (hd (db_users (shop_db A_PROLOGUE 5)))"
    by (simp_all add: shop_def shop_db_def find_app_def find_user_def)
  have saved_ok: "db_ok (d_saved ?d)" using shop_ok(2) by (simp add: shop_def)
  show ?thesis
    using unready_manager_stuck [OF app ctl infos shop_ok(1) saved_ok work fails run, of "[]"] by (elim conjE) (simp only: run snd_conv)
qed

section \<open>Stopping and deleting\<close>

text \<open>
  Claim C32. Stopping one of the own applications commits it as \<open>STOPPED\<close> without its services and
  machines, and leaves a thread that kills exactly the machines its rows named; deleting it removes
  its row as well. Every other application, service and machine and all users stay as they are.
\<close>

theorem stop_and_delete:
  assumes "\<not> d_broken d" "db_ok (d_db d)" "find_app aid (d_db d) = Some a" "a_user_id a = uid"
    "delete_app env uid aid del d = (r, d')"
  shows "r = Inr (Answer (PDict [])) \<and> d_db d' = d_saved d' \<and> db_users (d_saved d') = db_users (d_db d) \<and>
    db_resources (d_saved d') = filter (\<lambda>x. r_app_id x \<noteq> aid) (db_resources (d_db d)) \<and>
    db_services (d_saved d') = filter (\<lambda>x. s_application_id x \<noteq> aid) (db_services (d_db d)) \<and>
    filter (\<lambda>x. a_aid x \<noteq> aid) (db_apps (d_saved d')) = filter (\<lambda>x. a_aid x \<noteq> aid) (db_apps (d_db d)) \<and>
    find_app aid (d_saved d') = (if del then None else Some (a\<lparr>a_status := A_STOPPED\<rparr>)) \<and>
    (\<exists>nodes. d_jobs d' = d_jobs d @ [DeleteNodes nodes] \<and>
       map sn_vmid nodes = map r_vmid (filter (\<lambda>x. r_app_id x = aid) (db_resources (d_db d))))"
proof -
  have "get_app_by_id uid aid (d_db d) = Some (a_aid a)" using assms(3,4) by (simp add: get_app_by_id_def)
  with delete_app_run [OF assms(1,2) this, of env del] assms(5)
  have run: "r = Inr (Answer (PDict []))" "d_db d' = without_app del aid (d_db d)" "d_saved d' = without_app del aid (d_db d)"
    "d_jobs d' = d_jobs d @ [DeleteNodes (map (resource_node (dr_now (de_driver env) (d_out d))) (app_resources aid (d_db d)))]"
    by auto
  have "find (\<lambda>x. a_aid x = aid) (filter (\<lambda>x. a_aid x \<noteq> aid) as) = None" for as
    by (induction as) simp_all
  from this [of "db_apps (d_db d)"] have row: "find_app aid (without_app del aid (d_db d)) = (if del then None else Some (a\<lparr>a_status := A_STOPPED\<rparr>))"
    using assms(3) find_app_without [of aid aid "d_db d"] by (simp add: find_app_def without_app_def)
  have rest: "filter (\<lambda>x. a_aid x \<noteq> aid) (db_apps (without_app del aid (d_db d))) = filter (\<lambda>x. a_aid x \<noteq> aid) (db_apps (d_db d))"
    by (simp add: without_app_def filter_change_where)
  have nodes: "\<exists>nodes. d_jobs d' = d_jobs d @ [DeleteNodes nodes] \<and>
       map sn_vmid nodes = map r_vmid (filter (\<lambda>x. r_app_id x = aid) (db_resources (d_db d)))"
    using run(4) resource_nodes_vmids unfolding app_resources_def by blast
  have rows: "db_users (without_app del aid (d_db d)) = db_users (d_db d)"
    "db_resources (without_app del aid (d_db d)) = filter (\<lambda>x. r_app_id x \<noteq> aid) (db_resources (d_db d))"
    "db_services (without_app del aid (d_db d)) = filter (\<lambda>x. s_application_id x \<noteq> aid) (db_services (d_db d))"
    by (simp_all add: without_app_def)
  show ?thesis using nodes by (simp add: run(1-3) row rest rows)
qed

theorem stop_and_delete_witness:
  "db_resources (d_saved (snd (delete_app sample_denv 1 1 True (shop A_RUNNING 5 0)))) = []"
proof -
  obtain r d' where run: "delete_app sample_denv 1 1 True (shop A_RUNNING 5 0) = (r, d')" by fastforce
  have app: "find_app 1 (d_db (shop A_RUNNING 5 0)) = Some (hd (db_apps (shop_db A_RUNNING 5)))"
    "a_user_id (hd (db_apps (shop_db A_RUNNING 5))) = 1"
    by (simp_all add: shop_def shop_db_def find_app_def)
  have "db_resources (d_saved d') = filter (\<lambda>x. r_app_id x \<noteq> 1) (db_resources (d_db (shop A_RUNNING 5 0)))"
    using stop_and_delete [OF shop_ok app run] by (elim conjE)
  then show ?thesis by (simp add: run) (simp add: shop_def shop_db_def)
qed

section \<open>Other users' applications\<close>

text \<open>
  Claim C33. With the certificate of one user the views that start, stop, delete and rename an
  application answer that it does not exist, and change nothing, when it belongs to another user.
\<close>

theorem foreign_app_untouched:
  assumes "opt_int (get_x509_dn_field components ''UID'') = Inr uid" "find_user uid (d_db d) = Some u"
    "find_app aid (d_db d) = Some a" "a_user_id a \<noteq> uid" "map_of f ''name'' = Some (c # cs)"
  shows "startapp_view env components aid cname d = (Inr (Respond (ErrorAnswer ''Application not found'' [])), d) \<and>
    stopapp_view env components aid d = (Inr (Respond (ErrorAnswer ''Application not found'' [])), d) \<and>
    deleteapp_view env components aid d = (Inr (Respond (ErrorAnswer ''Application not found'' [])), d) \<and>
    renameapp_view components aid f d = (Inr (Respond (ErrorAnswer ''Application not found'' [])), d)"
proof -
  have none: "get_app_by_id uid aid (d_db d) = None" using assms(3,4) by (simp add: get_app_by_id_def)
  have cert: "cert_required UserCert components view d = view uid None d" for view :: "int \<Rightarrow> int option \<Rightarrow> ('a, response) dx"
    using assms(1,2) by (simp add: cert_required_def sx_bind_run db_get_def)
  show ?thesis
    using none assms(5)
    by (simp add: startapp_view_def stopapp_view_def deleteapp_view_def renameapp_view_def cert sx_bind_run start_app_def
        delete_app_def rename_app_def db_get_def)
qed

definition two_users :: "sky director" where
  "two_users = (let db = shop_db A_RUNNING 5; bob = (hd (db_users db))\<lparr>u_uid := 2, u_username := ''bob'', u_email := ''bob@example.org''\<rparr>;
      db2 = db\<lparr>db_users := db_users db @ [bob]\<rparr>
    in \<lparr>d_saved = db2, d_db = db2, d_broken = False, d_jobs = [], d_out = (2, 0)\<rparr>)"

lemma two_users_rows:
  "find_user 2 (d_db two_users) = Some (hd (tl (db_users (d_db two_users))))"
  "find_app 1 (d_db two_users) = Some (hd (db_apps (d_db two_users)))" "a_user_id (hd (db_apps (d_db two_users))) \<noteq> 2"
  by (simp_all add: two_users_def shop_db_def Let_def find_user_def find_app_def)

theorem foreign_app_untouched_witness:
  "snd (deleteapp_view sample_denv [(''UID'', ''2'')] 1 two_users) = two_users"
proof -
  have "opt_int (get_x509_dn_field [(''UID'', ''2'')] ''UID'') = Inr 2" "map_of [(''name'', ''n'')] ''name'' = Some (CHR ''n'' # [])"
    by code_simp+
  from foreign_app_untouched [OF this(1) two_users_rows this(2), of sample_denv None] show ?thesis
    by (elim conjE) simp
qed

end
