(* ===== verification/AccessProps.thy ===== *)
theory AccessProps
  imports LifeProps
begin

text \<open>
  Who may do what at the director: certificates, passwords, the registration of users, and the requests
  of managers, which are not confined to the machines of their application.
\<close>

section \<open>Certificates\<close>

lemma get_app_some:
  "get_app_by_id uid aid db = Some x \<longleftrightarrow> x = aid \<and> (\<exists>a. find_app aid db = Some a \<and> a_user_id a = uid)"
  by (auto simp: get_app_by_id_def dest: find_app_key split: option.split)

text \<open>
  Claim C34. A request with a certificate changes something only by running its view, for the user the
  component \<open>UID\<close> names, who exists, and for the role \<open>manager\<close> with the application \<open>serviceLocator\<close>
  names, which exists and is that user's. What the component \<open>role\<close> says makes no difference: the
  certificate of a user passes for that of a manager.
\<close>

theorem certificate_gate:
  assumes "cert_required required components view d = (r, d')" "d' \<noteq> d"
  shows "(\<exists>uid app. opt_int (get_x509_dn_field components ''UID'') = Inr uid \<and> find_user uid (d_db d) \<noteq> None \<and>
      view uid app d = (r, d') \<and>
      (required = ManagerCert \<longrightarrow> (\<exists>s aid a. get_x509_dn_field components ''serviceLocator'' = Some s \<and>
         parse_int s = Some aid \<and> app = Some aid \<and> find_app aid (d_db d) = Some a \<and> a_user_id a = uid))) \<and>
    (\<forall>x. cert_required required ((''role'', x) # components) view d = (r, d'))"
proof
  show "\<exists>uid app. opt_int (get_x509_dn_field components ''UID'') = Inr uid \<and> find_user uid (d_db d) \<noteq> None \<and>
      view uid app d = (r, d') \<and>
      (required = ManagerCert \<longrightarrow> (\<exists>s aid a. get_x509_dn_field components ''serviceLocator'' = Some s \<and>
         parse_int s = Some aid \<and> app = Some aid \<and> find_app aid (d_db d) = Some a \<and> a_user_id a = uid))"
    using assms
    by (cases required) (auto simp: cert_required_def sx_bind_run db_get_def get_app_some split: sum.splits option.splits)
  show "\<forall>x. cert_required required ((''role'', x) # components) view d = (r, d')"
  proof
    fix x
    have same: "get_x509_dn_field ((''role'', x) # components) ''UID'' = get_x509_dn_field components ''UID''"
      "get_x509_dn_field ((''role'', x) # components) ''serviceLocator'' = get_x509_dn_field components ''serviceLocator''"
      by (simp_all add: get_x509_dn_field_def)
    show "cert_required required ((''role'', x) # components) view d = (r, d')"
      using assms(1) by (simp only: cert_required_def same)
  qed
qed

theorem certificate_gate_witness:
  "map a_name (db_apps (d_saved (snd (createapp_view sample_denv [(''role'', ''manager''), (''UID'', ''1'')] [(''name'', ''blog'')]
     (shop A_RUNNING 5 0))))) = [''shop'', ''blog'']"
proof -
  let ?d = "shop A_RUNNING 5 0" and ?form = "[(''name'', ''blog'')]"
  obtain r d' where run: "createapp_view sample_denv [(''UID'', ''1'')] ?form ?d = (r, d')" by fastforce
  have made: "map a_name (db_apps (d_saved (snd (createapp_view sample_denv [(''UID'', ''1'')] ?form ?d)))) = [''shop'', ''blog'']"
    by code_simp
  moreover have "map a_name (db_apps (d_saved ?d)) = [''shop'']" by (simp add: shop_def shop_db_def)
  ultimately have "d' \<noteq> ?d" by (auto simp: run)
  from certificate_gate [OF run [unfolded createapp_view_def] this] made run show ?thesis
    by (elim conjE) (simp add: createapp_view_def)
qed

section \<open>Logging in\<close>

text \<open>
  Claim C36. Whoever is logged in is a stored user who gave that user's name, not blank, with a password
  of the stored digest, or the user's \<open>uuid\<close> or \<open>openid\<close>, not blank and not the placeholder
  \<open><none>\<close>; the last two need no password.
\<close>

theorem login_sound:
  assumes "authenticate env f db = Some uid"
  shows "\<exists>u \<in> set (db_users db). u_uid u = uid \<and>
    (u_username u = form_value f ''username'' \<and> py_strip (u_username u) \<noteq> [] \<and> u_password u = de_md5 env (form_value f ''password'') \<or>
     u_uuid u = Some (form_value f ''uuid'') \<and> py_strip (form_value f ''uuid'') \<noteq> [] \<and> form_value f ''uuid'' \<noteq> ''<none>'' \<or>
     u_openid u = Some (form_value f ''openid'') \<and> py_strip (form_value f ''openid'') \<noteq> [] \<and> form_value f ''openid'' \<noteq> ''<none>'')"
proof -
  have none: "py_strip (no_none s) \<noteq> [] \<Longrightarrow> no_none s = s \<and> s \<noteq> ''<none>''" for s
    by (auto simp: no_none_def py_strip_def py_lstrip_def py_rstrip_def split: if_splits)
  have found: "find p us = Some u \<Longrightarrow> u \<in> set us \<and> p u" for p and us :: "user list" and u
    by (auto simp: find_Some_iff)
  let ?name = "if py_strip (form_value f ''username'') = [] then None
     else find (\<lambda>u. u_username u = form_value f ''username'' \<and> u_password u = de_md5 env (form_value f ''password'')) (db_users db)"
  let ?uuid = "if py_strip (no_none (form_value f ''uuid'')) = [] then None
     else find (\<lambda>u. u_uuid u = Some (no_none (form_value f ''uuid''))) (db_users db)"
  let ?openid = "if py_strip (no_none (form_value f ''openid'')) = [] then None
     else find (\<lambda>u. u_openid u = Some (no_none (form_value f ''openid''))) (db_users db)"
  obtain u where u: "uid = u_uid u" "?name = Some u \<or> ?uuid = Some u \<or> ?openid = Some u"
    using assms by (auto simp: authenticate_def Let_def split: option.splits)
  then consider "?name = Some u" | "?uuid = Some u" | "?openid = Some u" by blast
  then show ?thesis
  proof cases
    case 1
    then show ?thesis using u(1) by (auto dest!: found split: if_splits)
  next
    case 2
    then have "u \<in> set (db_users db)" "u_uuid u = Some (no_none (form_value f ''uuid''))" "py_strip (no_none (form_value f ''uuid'')) \<noteq> []"
      by (auto dest!: found split: if_splits)
    then show ?thesis using none u(1) by metis
  next
    case 3
    then have "u \<in> set (db_users db)" "u_openid u = Some (no_none (form_value f ''openid''))" "py_strip (no_none (form_value f ''openid'')) \<noteq> []"
      by (auto dest!: found split: if_splits)
    then show ?thesis using none u(1) by metis
  qed
qed

theorem login_sound_witness:
  "\<exists>u \<in> set (db_users (shop_db A_INIT 5)). u_uid u = 1 \<and> u_username u = ''alice''"
proof -
  let ?f = "[(''username'', ''alice''), (''password'', ''pw'')]"
  have "authenticate sample_denv ?f (shop_db A_INIT 5) = Some 1" by code_simp
  from login_sound [OF this] show ?thesis by (simp add: form_value_def shop_db_def)
qed


section \<open>Registration\<close>

definition registrable :: "'w denv \<Rightarrow> form \<Rightarrow> database \<Rightarrow> bool" where
  "registrable env f db \<longleftrightarrow> (\<exists>name email pw credit n.
     map_of f ''username'' = Some name \<and> map_of f ''email'' = Some email \<and> map_of f ''password'' = Some pw \<and>
     name \<noteq> [] \<and> email \<noteq> [] \<and> pw \<noteq> [] \<and> map_of f ''credit'' = Some credit \<and> parse_int credit = Some n \<and>
     0 \<le> n \<and> n \<le> max_credit (de_cfg env) \<and>
     (\<forall>u \<in> set (db_users db). u_username u \<noteq> name \<and> u_email u \<noteq> email))"

lemma missing_field_None:
  "missing_field (new_user_values f) = None \<longleftrightarrow>
     (\<exists>name email pw. map_of f ''username'' = Some name \<and> map_of f ''email'' = Some email \<and> map_of f ''password'' = Some pw \<and>
       name \<noteq> [] \<and> email \<noteq> [] \<and> pw \<noteq> [])"
  by (auto simp: missing_field_def new_user_values_def split: option.splits)

lemma new_user_plain:
  "new_user_values f ''username'' = map_of f ''username''" "new_user_values f ''email'' = map_of f ''email''"
  "new_user_values f ''password'' = map_of f ''password''" "new_user_values f ''credit'' = map_of f ''credit''"
  by (simp_all add: new_user_values_def)

lemma create_user_run:
  fixes env :: "'w denv" and d :: "'w director" and vals :: "string \<Rightarrow> string option" and name email pw :: string and n :: int
  assumes "fresh_keys env" "\<not> d_broken d" "\<forall>u \<in> set (db_users (d_db d)). u_username u \<noteq> name \<and> u_email u \<noteq> email"
  defines "uid \<equiv> fresh_key env u_uid (db_users (d_db d))" and "aid \<equiv> fresh_key env a_aid (db_apps (d_db d))"
  defines "u \<equiv> \<lparr>u_uid = uid, u_username = name, u_fname = vals ''fname'', u_lname = vals ''lname'',
                u_email = email, u_affiliation = vals ''affiliation'', u_password = de_md5 env pw,
                u_created = dr_now (de_driver env) (d_out d), u_credit = n, u_uuid = vals ''uuid'', u_openid = vals ''openid''\<rparr>"
  defines "db \<equiv> (d_db d)\<lparr>db_users := db_users (d_db d) @ [u], db_apps := db_apps (d_db d) @
      [\<lparr>a_aid = aid, a_name = ''New Application'', a_status = A_INIT, a_user_id = uid\<rparr>]\<rparr>"
  shows "create_user env vals name email pw n d = (Inr uid, d\<lparr>d_db := db, d_saved := db\<rparr>)"
    "find_user uid db = Some u"
proof -
  have "\<not> list_ex (\<lambda>u. u_username u = name \<or> u_email u = email) (db_users (d_db d))"
    using assms(3) by (auto simp: list_ex_iff)
  then show "create_user env vals name email pw n d = (Inr uid, d\<lparr>d_db := db, d_saved := db\<rparr>)"
    using assms(2) by (simp add: create_user_def sx_bind_run director_now_def db_get_def on_db_def commit_def Let_def
        uid_def aid_def u_def db_def)
  have "uid \<notin> u_uid ` set (db_users (d_db d))" unfolding uid_def by (rule fresh_key_new [OF assms(1)])
  then have "find (\<lambda>x. u_uid x = uid) (db_users (d_db d)) = None" by (auto simp: find_None_iff)
  moreover have "find p (xs @ [y]) = (case find p xs of None \<Rightarrow> if p y then Some y else None | Some z \<Rightarrow> Some z)" for p xs and y :: user
    by (induction xs) simp_all
  ultimately show "find_user uid db = Some u" by (simp add: find_user_def db_def u_def)
qed

text \<open>
  Claim C37. A registration succeeds exactly when user name, e-mail address and password are given and not
  empty, name and address are new, and the credit is a number between 0 and the configured maximum. It
  commits one user, with the digest of the password and that credit, and a first application of that user;
  in every other case nothing changes.
\<close>

theorem registration:
  assumes "fresh_keys env" "\<not> d_broken d" "new_user env f d = (r, d')"
  shows "(if registrable env f (d_db d)
    then (\<exists>v. r = Inr (Respond (Answer v))) \<and>
      (\<exists>u a. d_saved d' = (d_db d)\<lparr>db_users := db_users (d_db d) @ [u], db_apps := db_apps (d_db d) @ [a]\<rparr> \<and>
         d_db d' = d_saved d' \<and> Some (u_username u) = map_of f ''username'' \<and> Some (u_email u) = map_of f ''email'' \<and>
         u_password u = de_md5 env (the (map_of f ''password'')) \<and> parse_int (the (map_of f ''credit'')) = Some (u_credit u) \<and>
         u_uid u \<notin> u_uid ` set (db_users (d_db d)) \<and> a_user_id a = u_uid u \<and> a_status a = A_INIT)
    else d' = d \<and> (\<forall>v. r \<noteq> Inr (Respond (Answer v))))"
proof (cases "registrable env f (d_db d)")
  case True
  then obtain name email pw credit n where form:
      "map_of f ''username'' = Some name" "map_of f ''email'' = Some email" "map_of f ''password'' = Some pw"
      "name \<noteq> []" "email \<noteq> []" "pw \<noteq> []" "map_of f ''credit'' = Some credit" "parse_int credit = Some n"
      "0 \<le> n" "n \<le> max_credit (de_cfg env)"
      "\<forall>u \<in> set (db_users (d_db d)). u_username u \<noteq> name \<and> u_email u \<noteq> email"
    by (auto simp: registrable_def)
  have given: "missing_field (new_user_values f) = None" unfolding missing_field_None using form(1-6) by blast
  have new: "\<not> list_ex (\<lambda>u. u_username u = name) (db_users (d_db d))" "\<not> list_ex (\<lambda>u. u_email u = email) (db_users (d_db d))"
    using form(11) by (auto simp: list_ex_iff)
  note made = create_user_run [OF assms(1,2) form(11), of "new_user_values f" pw n]
  have uid: "fresh_key env u_uid (db_users (d_db d)) \<notin> u_uid ` set (db_users (d_db d))" by (rule fresh_key_new [OF assms(1)])
  have run: "new_user env f d = sx_try
       (sx_bind (create_user env (new_user_values f) name email pw n) (\<lambda>uid.
        sx_bind (user_row uid) (\<lambda>u. sx_return (Respond (Answer (PDict (user_dict env u)))))))
       (\<lambda>e. sx_return (Respond (ErrorAnswer ''Error upon user creation: %s -> %s'' []))) d"
    using form(7-10) new by (simp add: new_user_def Let_def given new_user_plain form(1-3) sx_bind_run db_get_def)
  let ?u = "\<lparr>u_uid = fresh_key env u_uid (db_users (d_db d)), u_username = name, u_fname = new_user_values f ''fname'',
      u_lname = new_user_values f ''lname'', u_email = email, u_affiliation = new_user_values f ''affiliation'',
      u_password = de_md5 env pw, u_created = dr_now (de_driver env) (d_out d), u_credit = n,
      u_uuid = new_user_values f ''uuid'', u_openid = new_user_values f ''openid''\<rparr>"
  let ?a = "\<lparr>a_aid = fresh_key env a_aid (db_apps (d_db d)), a_name = ''New Application'', a_status = A_INIT,
      a_user_id = fresh_key env u_uid (db_users (d_db d))\<rparr>"
  let ?db = "(d_db d)\<lparr>db_users := db_users (d_db d) @ [?u], db_apps := db_apps (d_db d) @ [?a]\<rparr>"
  have "r = Inr (Respond (Answer (PDict (user_dict env ?u))))" "d' = d\<lparr>d_db := ?db, d_saved := ?db\<rparr>"
    using assms(3) made(2) unfolding run sx_try_def sx_bind_run made(1)
    by (auto simp: user_row_def sx_bind_run db_get_def row_def)
  then have "(\<exists>v. r = Inr (Respond (Answer v))) \<and> d_saved d' = ?db \<and> d_db d' = d_saved d'" by simp
  moreover have "Some (u_username ?u) = map_of f ''username'' \<and> Some (u_email ?u) = map_of f ''email'' \<and>
     u_password ?u = de_md5 env (the (map_of f ''password'')) \<and> parse_int (the (map_of f ''credit'')) = Some (u_credit ?u) \<and>
     u_uid ?u \<notin> u_uid ` set (db_users (d_db d)) \<and> a_user_id ?a = u_uid ?u \<and> a_status ?a = A_INIT"
    using form(1-3,7,8) uid by simp
  ultimately show ?thesis using True by (simp only: if_True) blast
next
  case False
  have "d' = d \<and> (\<forall>v. r \<noteq> Inr (Respond (Answer v)))"
  proof (cases "missing_field (new_user_values f)")
    case None
    then obtain name email pw where form: "map_of f ''username'' = Some name" "map_of f ''email'' = Some email"
        "map_of f ''password'' = Some pw" "name \<noteq> []" "email \<noteq> []" "pw \<noteq> []"
      unfolding missing_field_None by blast
    have bad: "list_ex (\<lambda>u. u_username u = name) (db_users (d_db d)) \<or> list_ex (\<lambda>u. u_email u = email) (db_users (d_db d)) \<or>
        (\<forall>credit n. map_of f ''credit'' = Some credit \<longrightarrow> parse_int credit = Some n \<longrightarrow> n < 0 \<or> n > max_credit (de_cfg env))"
      using False form by (force simp: registrable_def list_ex_iff)
    show ?thesis
      using assms(3) bad
      by (auto simp: new_user_def Let_def None new_user_plain form sx_bind_run db_get_def split: if_splits option.splits)
  next
    case (Some k)
    then show ?thesis using assms(3) by (auto simp: new_user_def Let_def)
  qed
  then show ?thesis using False by simp
qed

theorem registration_witness:
  "map u_username (db_users (d_saved (snd (new_user sample_denv
     [(''username'', ''bob''), (''email'', ''b@x''), (''password'', ''s''), (''credit'', ''50'')] (shop A_INIT 5 0))))) = [''alice'', ''bob'']"
proof -
  let ?f = "[(''username'', ''bob''), (''email'', ''b@x''), (''password'', ''s''), (''credit'', ''50'')]"
  obtain r d' where run: "new_user sample_denv ?f (shop A_INIT 5 0) = (r, d')" by fastforce
  have "parse_int ''50'' = Some 50" "max_credit (de_cfg sample_denv) = 50" by code_simp+
  then have "registrable sample_denv ?f (d_db (shop A_INIT 5 0))" by (auto simp: registrable_def shop_def shop_db_def)
  with registration [OF sample_fresh shop_ok(1) run]
  obtain u a where "d_saved d' = (d_db (shop A_INIT 5 0))\<lparr>db_users := db_users (d_db (shop A_INIT 5 0)) @ [u],
      db_apps := db_apps (d_db (shop A_INIT 5 0)) @ [a]\<rparr>" "Some (u_username u) = map_of ?f ''username''" by auto
  then show ?thesis by (simp add: run) (simp add: shop_def shop_db_def)
qed


section \<open>Requests of managers\<close>

lemma remove_rows_run:
  assumes "\<not> d_broken d" "db_ok (d_db d)" "distinct (map sn_vmid ns)" "sn_vmid ` set ns \<subseteq> r_vmid ` set (db_resources (d_db d))"
  shows "sx_for ns (\<lambda>n. sx_bind (db_get (get_resource_by_id (sn_vmid n))) (\<lambda>res.
        case res of None \<Rightarrow> sx_raise (builtin_exn EAttributeError) | Some rid \<Rightarrow> remove_resource rid)) d =
    (let db = db_resources_update (filter (\<lambda>r. r_vmid r \<notin> sn_vmid ` set ns)) (d_db d)
     in (Inr (), d\<lparr>d_db := db, d_saved := if ns = [] then d_saved d else db\<rparr>))"
  using assms
proof (induction ns arbitrary: d)
  case (Cons n ns)
  let ?rows = "db_resources (d_db d)"
  let ?db = "db_resources_update (filter (\<lambda>r. r_vmid r \<noteq> sn_vmid n)) (d_db d)"
  obtain r where r: "find (\<lambda>r. r_vmid r = sn_vmid n) ?rows = Some r"
    using Cons.prems(4) by (cases "find (\<lambda>r. r_vmid r = sn_vmid n) ?rows") (auto simp: find_None_iff)
  then have mem: "r \<in> set ?rows" "r_vmid r = sn_vmid n" by (auto simp: find_Some_iff)
  have "r_rid x \<noteq> r_rid r \<longleftrightarrow> r_vmid x \<noteq> sn_vmid n" if "x \<in> set ?rows" for x
  proof -
    have "inj_on r_rid (set ?rows)" "inj_on r_vmid (set ?rows)" using Cons.prems(2) by (simp_all add: db_ok_def distinct_map)
    then have "r_rid x = r_rid r \<longleftrightarrow> x = r" "r_vmid x = r_vmid r \<longleftrightarrow> x = r" using that mem(1) by (simp_all add: inj_on_eq_iff)
    then show ?thesis using mem(2) by simp
  qed
  then have same: "filter (\<lambda>x. r_rid x \<noteq> r_rid r) ?rows = filter (\<lambda>x. r_vmid x \<noteq> sn_vmid n) ?rows"
    by (intro filter_cong) auto
  have head: "remove_resource (r_rid r) d = (Inr (), d\<lparr>d_db := ?db, d_saved := ?db\<rparr>)"
    using Cons.prems(1) same by (simp add: remove_resource_def sx_bind_run on_db_def commit_def)
  let ?d = "d\<lparr>d_db := ?db, d_saved := ?db\<rparr>"
  have "db_ok (d_db ?d)" using keeps_db_drop Cons.prems(2) by (simp add: keeps_db_def)
  moreover have "sn_vmid ` set ns \<subseteq> r_vmid ` set (db_resources (d_db ?d))"
  proof
    fix v assume v: "v \<in> sn_vmid ` set ns"
    then have "v \<noteq> sn_vmid n" using Cons.prems(3) by (metis distinct.simps(2) list.set_map list.simps(9))
    moreover obtain x where "x \<in> set ?rows" "r_vmid x = v" using v Cons.prems(4) by (metis (no_types, lifting) image_iff insert_iff list.simps(15) subsetD)
    ultimately show "v \<in> r_vmid ` set (db_resources (d_db ?d))" by auto
  qed
  moreover have "\<not> d_broken ?d" "distinct (map sn_vmid ns)" using Cons.prems(1,3) by simp_all
  ultimately have tail: "sx_for ns (\<lambda>n. sx_bind (db_get (get_resource_by_id (sn_vmid n))) (\<lambda>res.
        case res of None \<Rightarrow> sx_raise (builtin_exn EAttributeError) | Some rid \<Rightarrow> remove_resource rid)) ?d =
    (let db = db_resources_update (filter (\<lambda>r. r_vmid r \<notin> sn_vmid ` set ns)) (d_db ?d)
     in (Inr (), ?d\<lparr>d_db := db, d_saved := if ns = [] then d_saved ?d else db\<rparr>))"
    by (intro Cons.IH)
  have "sx_for (n # ns) (\<lambda>n. sx_bind (db_get (get_resource_by_id (sn_vmid n))) (\<lambda>res.
        case res of None \<Rightarrow> sx_raise (builtin_exn EAttributeError) | Some rid \<Rightarrow> remove_resource rid)) d =
      sx_for ns (\<lambda>n. sx_bind (db_get (get_resource_by_id (sn_vmid n))) (\<lambda>res.
        case res of None \<Rightarrow> sx_raise (builtin_exn EAttributeError) | Some rid \<Rightarrow> remove_resource rid)) ?d"
    by (simp only: sx_for.simps sx_bind_run db_get_def sx_runs get_resource_by_id_def r option.map option.case sum.case
        prod.case head)
  then show ?case unfolding tail by (cases ns) (simp_all add: Let_def conj_commute)
qed simp


text \<open>
  Claim C35. A manager's request to remove nodes is not confined to the manager's application, nor to its
  user: with a valid certificate for one application, all the machines that are named are deleted in the clouds,
  whoever owns them, and then their rows, and no others, are removed and committed. The world is the one the
  deletion of exactly these machines leaves.
\<close>

theorem managers_reach_all_machines:
  assumes "opt_int (get_x509_dn_field components ''UID'') = Inr uid" "find_user uid (d_db d) = Some u"
    "get_x509_dn_field components ''serviceLocator'' = Some s" "parse_int s = Some aid"
    "find_app aid (d_db d) = Some a" "a_user_id a = uid"
    "res_bind (field f ''nodes'') (loads_list env) = Inr vs"
    "map_res (decode_node (dr_now (de_driver env) (d_out d))) vs = Inr ns" "ns \<noteq> []" "distinct (map sn_vmid ns)"
    "\<not> d_broken d" "db_ok (d_db d)" "sn_vmid ` set ns \<subseteq> r_vmid ` set (db_resources (d_db d))"
    "remove_nodes_view env components f d = (Inr x, d')"
  shows "x = Respond (Answer (PDict [])) \<and> d_db d' = d_saved d' \<and>
    d_saved d' = db_resources_update (filter (\<lambda>r. r_vmid r \<notin> sn_vmid ` set ns)) (d_db d) \<and>
    (\<exists>ct cs cs'. setup_default env = Inr (ct, cs) \<and> ctl_delete_nodes env ns (cs, d_out d) = (Inr (), (cs', d_out d')))"
proof -
  have "get_app_by_id uid aid (d_db d) = Some aid" using assms(5,6) by (simp add: get_app_some)
  then have cert: "cert_required ManagerCert components view d = view uid (Some aid) d"
    for view :: "int \<Rightarrow> int option \<Rightarrow> ('a, response) dx"
    using assms(1-4) by (simp add: cert_required_def sx_bind_run db_get_def)
  obtain ct cs where ctl: "setup_default env = Inr (ct, cs)"
    using assms(14) unfolding remove_nodes_view_def cert
    by (cases "setup_default env") (auto simp: sx_bind_run director_now_def assms(7,8))
  obtain y d1 where kill: "with_clouds cs (ctl_delete_nodes env ns) d = (y, d1)" by fastforce
  have d1: "d_db d1 = d_db d" "d_broken d1 = d_broken d"
    using kill by (auto simp: with_clouds_def split: prod.splits)
  have rows: "sx_for ns (\<lambda>n. sx_bind (db_get (get_resource_by_id (sn_vmid n))) (\<lambda>res.
        case res of None \<Rightarrow> sx_raise (builtin_exn EAttributeError) | Some rid \<Rightarrow> remove_resource rid)) d1 =
    (let db = db_resources_update (filter (\<lambda>r. r_vmid r \<notin> sn_vmid ` set ns)) (d_db d1)
     in (Inr (), d1\<lparr>d_db := db, d_saved := if ns = [] then d_saved d1 else db\<rparr>))"
    by (rule remove_rows_run) (use d1 assms(10-13) in auto)
  have "remove_nodes_view env components f d = (case y of Inl e \<Rightarrow> (Inl e, d1) | Inr _ \<Rightarrow> (Inr (Respond (Answer (PDict []))),
      let db = db_resources_update (filter (\<lambda>r. r_vmid r \<notin> sn_vmid ` set ns)) (d_db d) in d1\<lparr>d_db := db, d_saved := db\<rparr>))"
    unfolding remove_nodes_view_def cert using rows assms(9)
    by (simp add: sx_bind_run director_now_def assms(7,8) ctl kill d1 Let_def split: sum.split)
  moreover have "\<exists>cs'. ctl_delete_nodes env ns (cs, d_out d) = (y, (cs', d_out d1))"
    using kill by (auto simp: with_clouds_def split: prod.splits)
  ultimately show ?thesis using assms(14) ctl by (auto simp: Let_def split: sum.splits)
qed

definition bobs_app :: "sky director" where
  "bobs_app = (let db = db_apps_update (\<lambda>as. as @ [\<lparr>a_aid = 2, a_name = ''blog'', a_status = A_RUNNING, a_user_id = 2\<rparr>]) (d_db two_users)
     in two_users\<lparr>d_db := db, d_saved := db\<rparr>)"

definition bobs_manager :: "(string \<times> string) list" where
  "bobs_manager = [(''UID'', ''2''), (''serviceLocator'', ''2'')]"

lemma bobs_rows:
  "\<not> d_broken bobs_app" "db_ok (d_db bobs_app)" "find_user 2 (d_db bobs_app) = Some (hd (tl (db_users (d_db bobs_app))))"
  "find_app 2 (d_db bobs_app) = Some (hd (tl (db_apps (d_db bobs_app))))" "a_user_id (hd (tl (db_apps (d_db bobs_app)))) = 2"
  "map r_vmid (db_resources (d_db bobs_app)) = [''1'']" "filter (owned_by 2 (d_db bobs_app)) (db_resources (d_db bobs_app)) = []"
  by (simp_all add: bobs_app_def two_users_def shop_db_def Let_def find_user_def find_app_def owned_by_def db_ok_def
      user_names_def app_names_def)

definition alices_machine :: "pyval" where
  "alices_machine = PDict [(''vmid'', PStr ''1''), (''ip'', PStr ''10.0.0.1''), (''private_ip'', PStr ''10.0.0.1''),
     (''cloud_name'', PStr ''iaas''), (''weight_backend'', PInt 100)]"

theorem managers_reach_all_machines_witness:
  "filter (owned_by 2 (d_db bobs_app)) (db_resources (d_db bobs_app)) = [] \<and> length (db_resources (d_db bobs_app)) = 1 \<and>
   db_resources (d_saved (snd (remove_nodes_view sample_denv bobs_manager [(''nodes'', ''n'')] bobs_app))) = []"
proof -
  have cert: "opt_int (get_x509_dn_field bobs_manager ''UID'') = Inr 2" "get_x509_dn_field bobs_manager ''serviceLocator'' = Some ''2''"
    "parse_int ''2'' = Some 2" by code_simp+
  have vs: "res_bind (field [(''nodes'', ''n'')] ''nodes'') (loads_list sample_denv) = Inr [alices_machine]"
    by (simp add: field_def loads_list_def sample_denv_def alices_machine_def)
  let ?n = "new_service_node (dr_now (de_driver sample_denv) (d_out bobs_app)) ''1'' ''10.0.0.1'' ''10.0.0.1'' ''iaas'' (PInt 100) ''node''"
  have ns: "map_res (decode_node (dr_now (de_driver sample_denv) (d_out bobs_app))) [alices_machine] = Inr [?n]"
    by (simp add: alices_machine_def decode_node_def py_lookup_def text_item_def)
  have vmid: "sn_vmid ?n = ''1''" by (simp add: new_service_node_def)
  obtain r where r: "db_resources (d_db bobs_app) = [r]" "r_vmid r = ''1''" using bobs_rows(6) by auto
  have "sn_vmid ` set [?n] \<subseteq> r_vmid ` set (db_resources (d_db bobs_app))" by (simp add: r vmid)
  moreover have "case fst (remove_nodes_view sample_denv bobs_manager [(''nodes'', ''n'')] bobs_app) of Inr _ \<Rightarrow> True | Inl _ \<Rightarrow> False"
    by code_simp
  then obtain x d' where run: "remove_nodes_view sample_denv bobs_manager [(''nodes'', ''n'')] bobs_app = (Inr x, d')"
    by (cases "remove_nodes_view sample_denv bobs_manager [(''nodes'', ''n'')] bobs_app") (auto split: sum.splits)
  ultimately have "d_saved d' = db_resources_update (filter (\<lambda>r. r_vmid r \<notin> sn_vmid ` set [?n])) (d_db bobs_app)"
    using managers_reach_all_machines [OF cert(1) bobs_rows(3) cert(2,3) bobs_rows(4,5) vs ns _ _ bobs_rows(1,2) _ run] by simp
  then have "db_resources (d_saved d') = []" by (simp add: r vmid)
  then show ?thesis using bobs_rows(7) by (simp add: run r)
qed

end
