(* ===== verification/CloudProps.thy ===== *)
theory CloudProps
  imports LifeProps
begin

text \<open>
  The clouds behind the director: the background thread and its sanity check, waiting for new
  machines, and what the four kinds of cloud make of a request.
\<close>

section \<open>The background thread\<close>

text \<open>
  The thread that has made \<open>n\<close> turns checks the credits on its next turn exactly when \<open>n + 1\<close>
  is a multiple of five, then the machines exactly when it is a multiple of fifteen; the counter it
  keeps is the number of turns modulo fifteen. A check of the credits that raises ends the thread before
  the check of the machines.
\<close>

theorem background_schedule:
  "background_turn env ct cs (n mod 15) =
     sx_bind (if 5 dvd Suc n then check_all_credits env else sx_return ()) (\<lambda>_.
     sx_bind (if 15 dvd Suc n then check_sanity env ct cs else sx_return ()) (\<lambda>_. sx_return (Suc n mod 15)))"
proof -
  have "(5 :: nat) dvd 15" by simp
  then have "n mod 15 mod 5 = n mod 5" by (rule mod_mod_cancel)
  then have "Suc (n mod 15) mod 5 = Suc n mod 5" by (metis mod_Suc_eq)
  then have five: "(n mod 15 + 1) mod 5 = 0 \<longleftrightarrow> 5 dvd Suc n" by (simp add: dvd_eq_mod_eq_0)
  have "Suc (n mod 15) mod 15 = Suc n mod 15" by (rule mod_Suc_eq)
  then have fifteen: "(n mod 15 + 1) mod 15 = 0 \<longleftrightarrow> 15 dvd Suc n" by (simp add: dvd_eq_mod_eq_0)
  have next_count: "(if n mod 15 + 1 = (15 :: nat) then 0 else n mod 15 + 1) = Suc n mod 15" by (simp add: mod_Suc)
  show ?thesis
    unfolding background_turn_def credit_step_def sanity_step_def Let_def five fifteen
    using next_count by (simp add: max_def)
qed

lemma created_now:
  "create_service_nodes now name infos vols insts = Inr sns \<Longrightarrow> n \<in> set sns \<Longrightarrow> sn_created n = now"
proof (induction now name infos vols insts arbitrary: sns rule: create_service_nodes.induct)
  case (2 now name infos vols inst insts)
  obtain v' role sn rest where run:
      "(if infos = [] then Inr (vols, ''manager'')
        else map_sum id (\<lambda>info. (case ni_volumes info of Some v \<Rightarrow> v | None \<Rightarrow> vols,
           case ni_role info of Some r \<Rightarrow> r | None \<Rightarrow> ''node'')) (py_first (filter (\<lambda>n. ni_id n = Some (lc_id inst)) infos))) = Inr (v', role)"
      "create_one_service_node now name inst v' True role = Inr sn"
      "create_service_nodes now name infos v' insts = Inr rest" "sns = sn # rest"
    using "2.prems"(1) by (auto simp: res_bind_def split: sum.splits prod.splits)
  have "sn_created sn = now"
    using run(2) by (auto simp: create_one_service_node_def res_bind_def Let_def new_service_node_def split: sum.splits)
  moreover have "n \<in> set rest \<Longrightarrow> sn_created n = now"
    using "2.IH" run by (metis (no_types, lifting))
  ultimately show ?case using "2.prems"(2) run(4) by auto
qed simp

lemma listed_now:
  assumes "list_vms drv (c, w) = (Inr sns, (c', w'))" "n \<in> set sns"
  shows "sn_created n = dr_now drv w'"
  using assms
  by (auto simp: list_vms_def sx_bind_run cloud_name_def with_driver_def split: prod.splits sum.splits
      dest!: created_now)

text \<open>
  The sanity check never removes a machine. The machines it lists are given the time of the
  listing as their creation time, so none of them is ever older than a minute, whether the director
  knows it or not.
\<close>

theorem sanity_check_removes_nothing:
  "check_sanity env ct cs d = (case with_clouds cs (list_default_vms env ct) d of
      (Inl e, d') \<Rightarrow> (Inl e, d') | (Inr _, d') \<Rightarrow> (Inr (), d'))"
proof -
  obtain r d' where run: "with_clouds cs (list_default_vms env ct) d = (r, d')" by fastforce
  show ?thesis
  proof (cases r)
    case (Inl e)
    then show ?thesis by (simp add: check_sanity_def sx_bind_run run)
  next
    case (Inr vms)
    have now: "sn_created vm = dr_now (de_driver env) (d_out d')" if "vm \<in> set vms" for vm
      using run Inr that
      by (auto simp: with_clouds_def list_default_vms_def on_cloud_at_def Let_def dest: listed_now
          split: prod.splits if_splits)
    then have "mins_from_creation (dr_now (de_driver env) (d_out d')) (sn_created vm) = 0" if "vm \<in> set vms" for vm
      using that by (simp add: mins_from_creation_def)
    then have none: "filter (\<lambda>vm. sn_vmid vm \<notin> S \<and> mins_from_creation (dr_now (de_driver env) (d_out d')) (sn_created vm) > 1) vms = []" for S
      by (simp add: filter_empty_conv)
    show ?thesis
      by (simp add: check_sanity_def sx_bind_run run Inr db_get_def director_now_def Let_def none)
  qed
qed


section \<open>Waiting for machines\<close>

definition node_key :: "service_node \<Rightarrow> string \<times> string" where
  "node_key n = (sn_id n, sn_cloud_name n)"

lemma node_eq_key: "node_eq a b \<longleftrightarrow> node_key a = node_key b"
  by (auto simp: node_eq_def node_cmp_def node_key_def)

definition answered :: "'w denv \<Rightarrow> controller \<Rightarrow> service_node \<Rightarrow> bool" where
  "answered env ct n \<longleftrightarrow> \<not> lacks_ip n \<and> (\<exists>w w'. check_node env ct n w = (Inr True, w'))"

lemma check_node_answered: "check_node env ct n w = (Inr True, w') \<Longrightarrow> answered env ct n"
  by (cases "lacks_ip n") (auto simp: answered_def check_node_def lacks_ip_def)

lemma checks_run:
  "sx_map (check_node env ct) nodes w = (Inr oks, w') \<Longrightarrow>
    length oks = length nodes \<and> (\<forall>n \<in> set (map fst (filter snd (zip nodes oks))). answered env ct n)"
proof (induction nodes arbitrary: w oks)
  case (Cons n nodes)
  then obtain ok w1 oks' where "check_node env ct n w = (Inr ok, w1)" "sx_map (check_node env ct) nodes w1 = (Inr oks', w')" "oks = ok # oks'"
    by (auto simp: sx_bind_run split: prod.splits sum.splits)
  then show ?case using Cons.IH [of w1 oks'] check_node_answered [of env ct n w w1] by (cases ok) auto
qed simp

lemma map_fst_filter_zip:
  "length bs = length xs \<Longrightarrow> distinct (map key xs) \<Longrightarrow> distinct (map key (map fst (filter snd (zip xs bs)))) \<and>
    set (map fst (filter snd (zip xs bs))) \<subseteq> set xs"
proof (induction xs bs rule: list_induct2')
  case (4 x xs b bs)
  then have IH: "distinct (map key (map fst (filter snd (zip xs bs))))" "set (map fst (filter snd (zip xs bs))) \<subseteq> set xs"
    by auto
  have "key x \<notin> key ` set (map fst (filter snd (zip xs bs)))" using IH(2) 4(3) by auto
  then show ?case using IH by auto
qed auto

lemma ready_nodes_run:
  assumes "ready_nodes env ct nodes w = (Inr newly, w')" "distinct (map node_key nodes)"
  shows "distinct (map node_key newly) \<and> set newly \<subseteq> set nodes \<and> (\<forall>n \<in> set newly. answered env ct n)"
proof -
  obtain oks where "sx_map (check_node env ct) nodes w = (Inr oks, w')" "newly = map fst (filter snd (zip nodes oks))"
    using assms(1) by (auto simp: ready_nodes_def sx_bind_run split: prod.splits sum.splits)
  then show ?thesis using checks_run map_fst_filter_zip [of oks nodes node_key] assms(2) by metis
qed

lemma refresh_keys: "sx_map (refresh_node env) ns s = (Inr ns', s') \<Longrightarrow> map node_key ns' = map node_key ns"
proof (induction ns arbitrary: s ns')
  case (Cons n ns)
  then obtain n' s1 rest where "refresh_node env n s = (Inr n', s1)" "sx_map (refresh_node env) ns s1 = (Inr rest, s')" "ns' = n' # rest"
    by (auto simp: sx_bind_run split: prod.splits sum.splits)
  moreover from this(1) have "node_key n' = node_key n"
    by (auto simp: refresh_node_def sx_bind_run refresh_from_def node_key_def split: if_splits prod.splits sum.splits list.splits)
  ultimately show ?case using Cons.IH by simp
qed simp

lemma image_apart: "f ` A \<inter> f ` {x \<in> B. f x \<notin> f ` A} = {}"
proof -
  have "f ` {x \<in> B. f x \<notin> S} \<inter> S = {}" for S by auto
  then show ?thesis unfolding Int_commute [of "f ` A"] .
qed

lemma disjoint_parts: "R \<inter> N = {} \<Longrightarrow> K \<subseteq> N \<Longrightarrow> L \<subseteq> N \<Longrightarrow> R \<inter> K = {} \<and> R \<inter> L = {}"
  by blast

lemma wait_partition:
  "wait_for_nodes env ct k ready nodes s = (Inr (r, l), s') \<Longrightarrow> distinct (map node_key (ready @ nodes)) \<Longrightarrow>
    \<forall>n \<in> set ready. answered env ct n \<Longrightarrow>
    distinct (map node_key (r @ l)) \<and> set (map node_key (r @ l)) = set (map node_key (ready @ nodes)) \<and>
    (\<forall>n \<in> set r. answered env ct n)"
proof (induction env ct k ready nodes arbitrary: s rule: wait_for_nodes.induct)
  case (1 env ct k ready nodes)
  show ?case
  proof (cases "nodes = []")
    case True
    then show ?thesis using "1.prems" by (simp add: wait_for_nodes.simps [of env ct k ready "[]"])
  next
    case False
    obtain newly s1 where poll: "with_world (ready_nodes env ct nodes) s = (Inr newly, s1)"
      using "1.prems"(1) False
      by (auto simp: wait_for_nodes.simps [of env ct k ready nodes] sx_bind_run split: prod.splits sum.splits)
    then have new: "distinct (map node_key newly)" "set newly \<subseteq> set nodes" "\<forall>n \<in> set newly. answered env ct n"
      using "1.prems"(2) by (auto simp: with_world_def Let_def split: prod.splits dest!: ready_nodes_run)
    define ready' where "ready' = ready @ newly"
    define left where "left = filter (\<lambda>n. \<not> list_ex (node_eq n) ready') nodes"
    have keys: "distinct (map node_key (ready' @ left))" "set (map node_key (ready' @ left)) = set (map node_key (ready @ nodes))"
    proof -
      have l: "left = filter (\<lambda>n. node_key n \<notin> node_key ` set newly) nodes"
        unfolding left_def ready'_def using "1.prems"(2) by (intro filter_cong) (auto simp: list_ex_iff node_eq_key)
      have parts: "distinct (map node_key left)" "node_key ` set newly \<inter> node_key ` set left = {}"
        "node_key ` set newly \<subseteq> node_key ` set nodes" "node_key ` set left \<subseteq> node_key ` set nodes"
        using "1.prems"(2) new(2) by (simp_all add: l distinct_map_filter image_mono image_apart)
      have before: "distinct (map node_key ready)" "node_key ` set ready \<inter> node_key ` set nodes = {}"
        using "1.prems"(2) by simp_all
      note apart = disjoint_parts [OF before(2) parts(3,4)]
      show "distinct (map node_key (ready' @ left))"
        by (simp add: ready'_def new(1) parts(1,2) before(1) apart Int_Un_distrib)
      show "set (map node_key (ready' @ left)) = set (map node_key (ready @ nodes))"
        using new(2) by (auto simp: ready'_def l)
    qed
    have ans: "\<forall>n \<in> set ready'. answered env ct n" using "1.prems"(3) new(3) by (auto simp: ready'_def)
    have run: "wait_for_nodes env ct k ready nodes s =
       (if left = [] then (Inr (ready', []), s1) else if (k + 1) * 5 > 300 then (Inr (ready', left), s1)
        else sx_bind (sx_map (refresh_node env) left) (\<lambda>left. wait_for_nodes env ct (k + 1) ready' left) s1)"
      using False by (simp add: wait_for_nodes.simps [of env ct k ready nodes] sx_bind_run poll Let_def ready'_def left_def)
    show ?thesis
    proof (cases "left = [] \<or> (k + 1) * 5 > 300")
      case True
      then have "r = ready' \<and> l = left" using "1.prems"(1) unfolding run by (auto split: if_splits)
      then show ?thesis using keys ans by simp
    next
      case more: False
      then obtain left' s2 where ref: "sx_map (refresh_node env) left s1 = (Inr left', s2)"
          "wait_for_nodes env ct (k + 1) ready' left' s2 = (Inr (r, l), s')"
        using "1.prems"(1) unfolding run by (auto simp: sx_bind_run split: prod.splits sum.splits)
      have same: "map node_key left' = map node_key left" by (rule refresh_keys [OF ref(1)])
      have "distinct (map node_key (r @ l)) \<and> set (map node_key (r @ l)) = set (map node_key (ready' @ left')) \<and>
          (\<forall>n \<in> set r. answered env ct n)"
        by (rule "1.IH" [OF False ready'_def left_def _ _ ref(2)])
           (use more keys ans same in \<open>auto simp: ready'_def left_def\<close>)
      moreover have "set (map node_key (ready' @ left')) = set (map node_key (ready @ nodes))"
        using keys(2) unfolding map_append same .
      ultimately show ?thesis by simp
    qed
  qed
qed


text \<open>
  The loop with its bound in sight: \<open>rounds n\<close> polls at most \<open>n\<close> times, by recursion on \<open>n\<close>, refreshes the missing
  addresses between two polls, and gives back what is left after the last one.
\<close>

fun rounds :: "'w denv \<Rightarrow> controller \<Rightarrow> nat \<Rightarrow> service_node list \<Rightarrow> service_node list \<Rightarrow>
    ('w, service_node list \<times> service_node list) tx" where
  "rounds env ct 0 ready nodes = sx_return (ready, nodes)"
| "rounds env ct (Suc n) ready nodes =
     (if nodes = [] then sx_return (ready, [])
      else sx_bind (with_world (ready_nodes env ct nodes)) (\<lambda>newly.
        let ready' = ready @ newly; left = filter (\<lambda>n. \<not> list_ex (node_eq n) ready') nodes
        in if left = [] \<or> n = 0 then sx_return (ready', left)
           else sx_bind (sx_map (refresh_node env) left) (rounds env ct n ready')))"

lemma last_poll: "(if left = [] then sx_return (ready, []) else sx_return (ready, left)) = sx_return (ready, left)"
  by simp

lemma next_poll: "(if left = [] then sx_return (ready, []) else m) = (if left = [] then sx_return (ready, left) else m)"
  by simp

lemma wait_rounds: "k \<le> 60 \<Longrightarrow> wait_for_nodes env ct k ready nodes = rounds env ct (61 - k) ready nodes"
proof (induction "60 - k" arbitrary: k ready nodes)
  case 0
  then have "k = 60" "61 - k = Suc 0" by simp_all
  moreover have "wait_for_nodes env ct 60 ready nodes = rounds env ct (Suc 0) ready nodes"
    by (subst wait_for_nodes.simps) (simp add: Let_def last_poll cong: if_cong)
  ultimately show ?case by simp
next
  case (Suc n)
  then have k: "61 - k = Suc (60 - k)" "k + 1 \<le> 60" "n = 60 - (k + 1)" "60 - k = 61 - (k + 1)" by simp_all
  have again: "wait_for_nodes env ct (k + 1) = rounds env ct (60 - k)"
    using Suc.hyps(1) [OF k(3,2)] unfolding k(4) by (intro ext) simp
  have more: "(60 - k = 0) = False" "((k + 1) * 5 > 300) = False" using k(2) by simp_all
  show ?case
    unfolding k(1) rounds.simps
    by (subst wait_for_nodes.simps) (simp only: again more Let_def next_poll if_False simp_thms)
qed

text \<open>
  Claim C38. Waiting for new machines is over after at most 61 polls, whatever the machines and the clouds do: the
  loop, which only looks at the time it has slept, is the 61 rounds of a loop with a fixed bound, results and
  exceptions alike. When it returns, it has sorted the machines completely: every machine is in exactly one of
  the two lists, and those of the first have both addresses and an agent that answered \<open>check_process\<close>.
\<close>

theorem waiting_sorts_machines:
  "wait_for_nodes env ct 0 [] nodes = rounds env ct 61 [] nodes \<and>
   (distinct (map node_key nodes) \<longrightarrow> wait_for_nodes env ct 0 [] nodes s = (Inr (ready, failed), s') \<longrightarrow>
     distinct (map node_key (ready @ failed)) \<and> set (map node_key (ready @ failed)) = set (map node_key nodes) \<and>
     (\<forall>n \<in> set ready. answered env ct n))"
proof (intro conjI impI)
  show "wait_for_nodes env ct 0 [] nodes = rounds env ct 61 [] nodes" using wait_rounds [of 0] by simp
  assume "distinct (map node_key nodes)" "wait_for_nodes env ct 0 [] nodes s = (Inr (ready, failed), s')"
  then show "distinct (map node_key (ready @ failed))" "set (map node_key (ready @ failed)) = set (map node_key nodes)"
    "\<forall>n \<in> set ready. answered env ct n"
    using wait_partition [of env ct 0 "[]" nodes s ready failed s'] by simp_all
qed

definition sample_machine :: "string \<Rightarrow> service_node" where
  "sample_machine vmid = new_service_node 0 vmid (''10.0.0.'' @ vmid) (''10.0.0.'' @ vmid) ''iaas'' default_weight ''node''"

theorem waiting_sorts_machines_witness:
  "\<exists>ready failed. set (map node_key (ready @ failed)) = {(''iaas1'', ''iaas''), (''iaas2'', ''iaas'')} \<and>
     fst (rounds sample_denv (default_controller sample_director_config) 61 []
       [sample_machine ''1'', sample_machine ''2''] ([], (3, 0))) = Inr (ready, failed)"
proof -
  let ?ns = "[sample_machine ''1'', sample_machine ''2'']" and ?ct = "default_controller sample_director_config"
  have "case fst (wait_for_nodes sample_denv ?ct 0 [] ?ns ([], (3, 0))) of Inr _ \<Rightarrow> True | Inl _ \<Rightarrow> False" by code_simp
  then obtain ready failed s' where run: "wait_for_nodes sample_denv ?ct 0 [] ?ns ([], (3, 0)) = (Inr (ready, failed), s')"
    by (cases "wait_for_nodes sample_denv ?ct 0 [] ?ns ([], (3, 0))") (auto split: sum.splits)
  have keys: "map node_key ?ns = [(''iaas1'', ''iaas''), (''iaas2'', ''iaas'')]" by code_simp
  have loop: "wait_for_nodes sample_denv ?ct 0 [] ?ns = rounds sample_denv ?ct 61 [] ?ns"
    by (rule waiting_sorts_machines [THEN conjunct1])
  have "distinct (map node_key ?ns)" unfolding keys by simp
  then have "set (map node_key (ready @ failed)) = set (map node_key ?ns)"
    using waiting_sorts_machines [THEN conjunct2, rule_format, OF _ run] by simp
  then have sorted: "set (map node_key (ready @ failed)) = {(''iaas1'', ''iaas''), (''iaas2'', ''iaas'')}"
    unfolding keys list.set .
  have "fst (rounds sample_denv ?ct 61 [] ?ns ([], (3, 0))) = Inr (ready, failed)"
    by (simp only: run [unfolded loop] fst_conv)
  with sorted show ?thesis by blast
qed

text \<open>
  An agent that answers its first check with a status other than 200 makes the whole request
  for machines raise: the class of the exception is not imported, so a \<open>NameError\<close> leaves the waiting loop, which only
  expects \<open>socket.error\<close>. All the machines of the request are running by then; nothing deletes them
  and no row is written for them.
\<close>

theorem odd_status_leaks_machines:
  assumes "agent_controller (de_cfg env) (int_str uid) (int_str app_id) (int_str sid) ty ip = Inr (ct, cs)"
    "get_cloud_list nodes_info = (infos, clouds)"
    "generate_context env ct clouds context script (cs, d_out d) = (Inr (), s1)"
    "sx_map (create_on_cloud env ct infos) clouds s1 = (Inr created, (cs2, w2))"
    "concat created = n # ns" "\<not> lacks_ip n"
    "de_get env (sn_ip n) (ct_port ct) ''check_process'' 0 [] w2 = (Inr (code, body), w3)" "code \<noteq> 200"
  shows "create_agent_nodes env uid app_id sid ty ip context script nodes_info d =
    (Inl (Raise ENameError ''Received http response code %d'' [PInt code]), d\<lparr>d_out := w3\<rparr>)"
proof -
  have check: "check_node env ct n w2 = (Inl (Raise ENameError ''Received http response code %d'' [PInt code]), w3)"
    using assms(6-8) by (simp add: check_node_def lacks_ip_def sx_try_def sx_bind_run client_check_def is_socket_error_def)
  have "wait_for_nodes env ct 0 [] (n # ns) (cs2, w2) =
      (Inl (Raise ENameError ''Received http response code %d'' [PInt code]), (cs2, w3))"
    by (simp add: wait_for_nodes.simps [of env ct 0 "[]" "n # ns"] sx_bind_run with_world_def ready_nodes_def check)
  then have "ctl_create_nodes env ct infos clouds s1 =
      (Inl (Raise ENameError ''Received http response code %d'' [PInt code]), (cs2, w3))"
    by (simp add: ctl_create_nodes_def sx_bind_run assms(4,5))
  then show ?thesis
    by (simp add: create_agent_nodes_def Let_def assms(1-3) sx_bind_run with_clouds_def)
qed


definition odd_denv :: "sky denv" where
  "odd_denv = sample_denv\<lparr>de_get := (\<lambda>host port meth sid params. sx_return (503, PNone))\<rparr>"

definition one_agent :: "node_info" where
  "one_agent = \<lparr>ni_cloud = ''iaas'', ni_role = None, ni_inst_type = None, ni_volumes = None, ni_name = [], ni_id = None\<rparr>"

lemma odd_run:
  "case agent_controller (de_cfg odd_denv) (int_str 1) (int_str 1) (int_str 1) ''php'' ''10.0.0.1'' of
     Inl _ \<Rightarrow> False
   | Inr (ct, cs) \<Rightarrow> (case generate_context odd_denv ct [''iaas''] [] None (cs, (2, 0)) of
        (Inl _, s1) \<Rightarrow> False
      | (Inr _, s1) \<Rightarrow> (case sx_map (create_on_cloud odd_denv ct [one_agent]) [''iaas''] s1 of
            (Inl _, s2) \<Rightarrow> False
          | (Inr created, s2) \<Rightarrow> map sn_vmid (concat created) = [''2''] \<and> filter lacks_ip (concat created) = [] \<and> snd s2 = (3, 0)))"
  by code_simp

theorem odd_status_leaks_machines_witness:
  "create_agent_nodes odd_denv 1 1 1 ''php'' ''10.0.0.1'' [] None [one_agent] (shop A_RUNNING 5 0) =
     (Inl (Raise ENameError ''Received http response code %d'' [PInt 503]), (shop A_RUNNING 5 0)\<lparr>d_out := (3, 0)\<rparr>)"
proof -
  obtain ct cs where ctl: "agent_controller (de_cfg odd_denv) (int_str 1) (int_str 1) (int_str 1) ''php'' ''10.0.0.1'' = Inr (ct, cs)"
    using odd_run by (auto split: sum.splits)
  obtain r1 s1 where gen: "generate_context odd_denv ct [''iaas''] [] None (cs, (2, 0)) = (r1, s1)" by (cases "generate_context odd_denv ct [''iaas''] [] None (cs, (2, 0))") blast
  obtain r2 s2 where crea: "sx_map (create_on_cloud odd_denv ct [one_agent]) [''iaas''] s1 = (r2, s2)"
    by (cases "sx_map (create_on_cloud odd_denv ct [one_agent]) [''iaas''] s1") blast
  have ok: "r1 = Inr ()" "\<exists>created. r2 = Inr created \<and> map sn_vmid (concat created) = [''2''] \<and> filter lacks_ip (concat created) = []"
      "snd s2 = (3, 0)"
    using odd_run by (auto simp: ctl gen crea simp del: sx_map.simps split: sum.splits)
  from ok(2) obtain created where created: "r2 = Inr created" "map sn_vmid (concat created) = [''2'']" "filter lacks_ip (concat created) = []"
    by (elim exE conjE)
  from created(2) obtain n where n: "concat created = [n]" by (cases "concat created") auto
  have "s2 = (fst s2, (3, 0))" using ok(3) by (cases s2) simp
  moreover have "\<not> lacks_ip n" using created(3) n by (simp split: if_splits)
  ultimately have made: "r2 = Inr created" "concat created = n # []" "\<not> lacks_ip n" "s2 = (fst s2, (3, 0))"
    using created(1) n by simp_all
  have infos: "get_cloud_list [one_agent] = ([one_agent], [''iaas''])" by code_simp
  have out: "d_out (shop A_RUNNING 5 0) = (2, 0)" by (simp add: shop_def)
  have get: "de_get odd_denv (sn_ip n) (ct_port ct) ''check_process'' 0 [] (3, 0) = (Inr (503, PNone), (3, 0))"
    by (simp add: odd_denv_def)
  have gen': "generate_context odd_denv ct [''iaas''] [] None (cs, d_out (shop A_RUNNING 5 0)) = (Inr (), s1)"
    using gen ok(1) out by simp
  have crea': "sx_map (create_on_cloud odd_denv ct [one_agent]) [''iaas''] s1 = (Inr created, (fst s2, (3, 0)))"
    using crea made(1) made(4) [symmetric] by (simp del: sx_map.simps)
  show ?thesis
    by (rule odd_status_leaks_machines [OF ctl infos gen' crea' made(2,3) get]) simp
qed


section \<open>Volumes\<close>

text \<open>The world after \<open>n\<close> polls of the cloud, and what the next poll sees.\<close>

primrec polled :: "'w driver \<Rightarrow> string \<Rightarrow> 'w \<Rightarrow> nat \<Rightarrow> 'w" where
  "polled drv name w 0 = w"
| "polled drv name w (Suc n) = snd (dr_list_nodes drv name (polled drv name w n))"

definition sees :: "'w driver \<Rightarrow> string \<Rightarrow> string \<Rightarrow> 'w \<Rightarrow> nat \<Rightarrow> bool" where
  "sees drv name vm w n = (case fst (dr_list_nodes drv name (polled drv name w n)) of
     Inl _ \<Rightarrow> False | Inr nodes \<Rightarrow> \<exists>x \<in> set nodes. lc_id x = vm)"

lemma polled_shift: "polled drv name (snd (dr_list_nodes drv name w)) n = polled drv name w (Suc n)"
  by (induction n) simp_all

lemma sees_shift: "sees drv name vm (snd (dr_list_nodes drv name w)) n = sees drv name vm w (Suc n)"
  by (simp add: sees_def polled_shift)

text \<open>
  Claim C39. The loop that waits for a new machine before it creates a volume returns as soon as the cloud
  lists the machine: if the first poll that lists it is the one numbered \<open>k\<close>, counted from zero, any fuel above \<open>k\<close> gives
  the machine after \<open>k + 1\<close> polls, however many polls before failed. If no poll lists it, the loop
  does not return, whatever the fuel.
\<close>

theorem waiting_for_instance:
  "(sees drv name vm w k \<longrightarrow> (\<forall>i < k. \<not> sees drv name vm w i) \<longrightarrow> k < fuel \<longrightarrow>
     (\<exists>x. lc_id x = vm \<and> wait_for_instance drv name vm fuel w = (Inr x, polled drv name w (Suc k)))) \<and>
   ((\<forall>i. \<not> sees drv name vm w i) \<longrightarrow>
     wait_for_instance drv name vm fuel w = (Inl (builtin_exn EDiverges), polled drv name w fuel))"
proof (induction fuel arbitrary: w k)
  case (Suc fuel)
  obtain r w' where poll: "dr_list_nodes drv name w = (r, w')" by fastforce
  have now: "sees drv name vm w 0 = (case r of Inl _ \<Rightarrow> False | Inr nodes \<Rightarrow> \<exists>x \<in> set nodes. lc_id x = vm)"
    by (simp add: sees_def poll)
  have later: "polled drv name w' n = polled drv name w (Suc n)" "sees drv name vm w' n = sees drv name vm w (Suc n)" for n
    using polled_shift [of drv name w n] sees_shift [of drv name vm w n] by (simp_all add: poll)
  have skip: "wait_for_instance drv name vm (Suc fuel) w = wait_for_instance drv name vm fuel w'" if "\<not> sees drv name vm w 0"
    using that by (auto simp: now poll filter_empty_conv split: sum.splits list.splits)
  show ?case
  proof (intro conjI impI)
    assume k: "sees drv name vm w k" "\<forall>i < k. \<not> sees drv name vm w i" "k < Suc fuel"
    show "\<exists>x. lc_id x = vm \<and> wait_for_instance drv name vm (Suc fuel) w = (Inr x, polled drv name w (Suc k))"
    proof (cases k)
      case 0
      then obtain nodes where nodes: "r = Inr nodes" "\<exists>x \<in> set nodes. lc_id x = vm"
        using k(1) now by (cases r) simp_all
      then obtain x xs where f: "filter (\<lambda>n. lc_id n = vm) nodes = x # xs"
        by (cases "filter (\<lambda>n. lc_id n = vm) nodes") (auto simp: filter_empty_conv)
      then have "x \<in> set (filter (\<lambda>n. lc_id n = vm) nodes)" by simp
      then have "lc_id x = vm" by simp
      then show ?thesis using 0 nodes(1) f by (simp add: poll)
    next
      case (Suc j)
      then have "\<not> sees drv name vm w 0" using k(2) by simp
      moreover have "sees drv name vm w' j" "\<forall>i < j. \<not> sees drv name vm w' i" "j < fuel"
        using k Suc by (auto simp: later)
      ultimately show ?thesis using Suc.IH [of w' j] skip by (auto simp: later Suc simp del: polled.simps)
    qed
  next
    assume never: "\<forall>i. \<not> sees drv name vm w i"
    then show "wait_for_instance drv name vm (Suc fuel) w = (Inl (builtin_exn EDiverges), polled drv name w (Suc fuel))"
      using Suc.IH [of w'] skip by (simp add: later del: polled.simps)
  qed
qed simp

theorem waiting_for_instance_witness:
  "\<exists>x. wait_for_instance sample_driver ''iaas'' ''1'' 2 (5, 0) = (Inr x, (5, 0))"
proof -
  have "sees sample_driver ''iaas'' ''1'' (5, 0) 0" by code_simp
  moreover have "polled sample_driver ''iaas'' (5, 0) (Suc 0) = (5, 0)" by (simp add: sample_driver_def)
  ultimately show ?thesis using waiting_for_instance [of sample_driver "''iaas''" "''1''" "(5, 0)" 0 2] by auto
qed

text \<open>
  The size of a volume, asked for in MiB and ordered in GiB, is never below what was asked and
  less than one GiB above it; a volume of no size or a negative one is ordered with none.
\<close>

theorem volume_size_bounds:
  "mib \<le> 1024 * to_gib mib \<and> 1024 * to_gib mib < mib + 1024 \<and> to_gib mib = - (- mib div 1024) \<and> (to_gib mib \<le> 0 \<longleftrightarrow> mib \<le> 0)"
proof -
  have c: "to_gib mib = - (- mib div 1024)"
  proof -
    have "- (of_int mib / 1024 :: rat) = of_int (- mib) / of_int 1024" by simp
    then show ?thesis unfolding to_gib_def ceiling_def using floor_divide_of_int_eq [of "- mib" 1024] by simp
  qed
  moreover have "1024 * (- mib div 1024) \<le> - mib" "- mib < 1024 * (- mib div 1024) + 1024" by linarith+
  ultimately show ?thesis by linarith
qed

section \<open>Clouds that cannot create\<close>

text \<open>
  The OpenNebula and the dummy cloud never give a machine: their \<open>new_instances\<close> still takes the
  list of requests for a number, and every request raises, an empty one too.
\<close>

theorem old_clouds_always_raise:
  assumes "cl_kind c = OpenNebula \<or> cl_kind c = Dummy"
  shows "\<exists>e s. new_instances drv infos (c, w) = (Inl e, s)"
proof -
  obtain r s where conn: "ensure_connected drv (c, w) = (r, s)" by (cases "ensure_connected drv (c, w)") blast
  show ?thesis
  proof (cases r)
    case (Inl e)
    then show ?thesis by (simp add: new_instances_def sx_bind_run conn)
  next
    case (Inr u)
    obtain c' w' where s: "s = (c', w')" by fastforce
    have "cl_kind c' = cl_kind c"
      using conn Inr assms by (auto simp: ensure_connected_def cloud_connect_def sx_bind_run with_driver_def s
          split: if_splits prod.splits sum.splits)
    then have "cl_kind c' = OpenNebula \<or> cl_kind c' = Dummy" using assms by simp
    then show ?thesis
      by (auto simp: new_instances_def sx_bind_run conn Inr s option_of_def with_driver_def split: prod.split sum.split option.split)
  qed
qed

definition sample_dummy :: cloud where
  "sample_dummy = \<lparr>cl_name = ''iaas'', cl_kind = Dummy, cl_cfg = sample_director_config, cl_connected = True,
     cl_context = None, cl_os = None\<rparr>"

theorem old_clouds_always_raise_witness: "\<exists>e s. new_instances sample_driver [] (sample_dummy, (2, 0)) = (Inl e, s)"
  by (rule old_clouds_always_raise) (simp add: sample_dummy_def)

end
