(* ===== verification/Git.thy ===== *)
theory Git
  imports Manager PyText
begin

text \<open>
  \<open>conpaas/core/git.py\<close>: the public keys that may push code to a manager, one line each in
  \<open>authorized_keys\<close>. Running git itself is a shell command; the functions that do are parameters
  where they are used.
\<close>

definition auth_keys_filename :: string where
  "auth_keys_filename = ''/home/git/.ssh/authorized_keys''"

abbreviation newline :: char where
  "newline \<equiv> CHR 0x0A"

text \<open>The lines of a file, each with its newline; the last one may lack it.\<close>

fun file_lines :: "string \<Rightarrow> string list" where
  "file_lines [] = []"
| "file_lines (c # cs) =
     (if c = newline then [newline] # file_lines cs
      else (case file_lines cs of
          [] \<Rightarrow> [[c]]
        | l # ls \<Rightarrow> (c # l) # ls))"

definition filter_authorized_keys :: "string list \<Rightarrow> string list" where
  "filter_authorized_keys keys = filter (\<lambda>k. k \<noteq> [] \<and> \<not> starts_with k ''#'') keys"

definition parse_keys :: "string \<Rightarrow> string list" where
  "parse_keys contents = filter_authorized_keys (map py_rstrip (file_lines contents))"

definition get_authorized_keys :: "('w world, string list) sx" where
  "get_authorized_keys =
     sx_bind (sx_get (file_get_contents auth_keys_filename)) (\<lambda>r.
     sx_bind (sx_lift r) (\<lambda>contents. sx_return (parse_keys contents)))"

text \<open>\<open>open(path, 'a').writelines([...])\<close>.\<close>

definition file_append :: "string \<Rightarrow> string \<Rightarrow> 'w world \<Rightarrow> 'w world" where
  "file_append path t w =
     file_write_contents path ((case file_get_contents path w of Inr c \<Rightarrow> c | Inl _ \<Rightarrow> []) @ t) w"

text \<open>The keys already present are read once, before the loop.\<close>

fun add_keys_loop :: "string list \<Rightarrow> string list \<Rightarrow> nat \<Rightarrow> ('w world, nat) sx" where
  "add_keys_loop cur_auth_keys [] added = sx_return added"
| "add_keys_loop cur_auth_keys (key # new_keys) added =
     (if key \<notin> set cur_auth_keys
      then sx_bind (sx_modify (file_append auth_keys_filename (key @ [newline])))
             (\<lambda>_. add_keys_loop cur_auth_keys new_keys (added + 1))
      else add_keys_loop cur_auth_keys new_keys added)"

definition add_authorized_keys :: "string list \<Rightarrow> ('w world, nat) sx" where
  "add_authorized_keys keys =
     sx_bind get_authorized_keys (\<lambda>cur_auth_keys.
       add_keys_loop cur_auth_keys (map py_rstrip (filter_authorized_keys keys)) 0)"

definition remove_authorized_keys :: "string list \<Rightarrow> ('w world, nat) sx" where
  "remove_authorized_keys keys =
     sx_bind get_authorized_keys (\<lambda>cur_auth_keys.
     let to_add = map (\<lambda>key. key @ [newline])
           (filter (\<lambda>key. key \<notin> set (filter_authorized_keys keys)) cur_auth_keys) in
     sx_bind (sx_modify (file_write_contents auth_keys_filename (concat to_add))) (\<lambda>_.
       sx_return (length to_add)))"

section \<open>Facts\<close>

lemma file_lines_concat: "concat (file_lines s) = s"
  by (induction s) (auto split: list.splits)

lemma file_lines_Nil [simp]: "file_lines s = [] \<longleftrightarrow> s = []"
  by (cases s) (auto split: list.splits)

lemma file_lines_append:
  "s = [] \<or> last s = newline \<Longrightarrow> file_lines (s @ t) = file_lines s @ file_lines t"
  by (induction s) (auto split: list.splits if_splits)

lemma file_lines_line: "newline \<notin> set k \<Longrightarrow> file_lines (k @ newline # t) = (k @ [newline]) # file_lines t"
  by (induction k) auto

text \<open>A key as it comes out of the file: no blanks at its end, no newline, not a comment.\<close>

definition proper_key :: "string \<Rightarrow> bool" where
  "proper_key k \<longleftrightarrow> k \<noteq> [] \<and> \<not> starts_with k ''#'' \<and> newline \<notin> set k \<and> py_rstrip k = k"

lemma rstrip_newline: "py_rstrip (k @ [newline]) = py_rstrip k"
  by (simp add: py_rstrip_def is_space_def)

lemma parse_key_line: "proper_key k \<Longrightarrow> parse_keys ((k @ [newline]) @ t) = k # parse_keys t"
  by (simp add: parse_keys_def file_lines_line rstrip_newline filter_authorized_keys_def proper_key_def)

lemma parse_keys_append:
  "s = [] \<or> last s = newline \<Longrightarrow> parse_keys (s @ t) = parse_keys s @ parse_keys t"
  by (simp add: parse_keys_def file_lines_append filter_authorized_keys_def)

text \<open>Printing keys one per line and reading them again.\<close>

lemma parse_print_keys: "list_all proper_key ks \<Longrightarrow> parse_keys (concat (map (\<lambda>k. k @ [newline]) ks)) = ks"
proof (induction ks)
  case Nil
  show ?case by (simp add: parse_keys_def filter_authorized_keys_def)
next
  case (Cons k ks)
  then show ?case
    using parse_key_line [of k "concat (map (\<lambda>k. k @ [newline]) ks)"] by simp
qed

lemma add_keys_run:
  "file_get_contents auth_keys_filename w = Inr s \<Longrightarrow>
    \<exists>w'. add_keys_loop cur new n w = (Inr (n + length (filter (\<lambda>k. k \<notin> set cur) new)), w') \<and>
      file_get_contents auth_keys_filename w' =
        Inr (s @ concat (map (\<lambda>k. k @ [newline]) (filter (\<lambda>k. k \<notin> set cur) new)))"
proof (induction new arbitrary: n w s)
  case (Cons k new)
  have stored: "file_get_contents auth_keys_filename (file_append auth_keys_filename (k @ [newline]) w) = Inr (s @ k @ [newline])"
    using Cons.prems by (simp add: file_append_def file_write_contents_def file_get_contents_def)
  from Cons.IH [OF stored, of "n + 1"] Cons.IH [OF Cons.prems, of n] show ?case
    by (auto simp: sx_bind_run)
qed simp

text \<open>
  The file of authorised keys: when its last line is complete, adding keys appends exactly
  those that were not in it, in order, and answers their number; reading it again gives the old keys
  and then the new ones. The keys of one request are not compared with each other, so a key that is
  given twice is filed twice.
\<close>

theorem authorized_keys_roundtrip:
  assumes "file_get_contents auth_keys_filename w = Inr s" "s = [] \<or> last s = newline"
    and "list_all proper_key (map py_rstrip (filter_authorized_keys keys))"
  shows "\<exists>w' new. new = filter (\<lambda>k. k \<notin> set (parse_keys s)) (map py_rstrip (filter_authorized_keys keys)) \<and>
    add_authorized_keys keys w = (Inr (length new), w') \<and>
    get_authorized_keys w' = (Inr (parse_keys s @ new), w')"
proof -
  let ?new = "filter (\<lambda>k. k \<notin> set (parse_keys s)) (map py_rstrip (filter_authorized_keys keys))"
  have "list_all proper_key ?new" using assms(3) by (auto simp: list_all_iff)
  then have parsed: "parse_keys (s @ concat (map (\<lambda>k. k @ [newline]) ?new)) = parse_keys s @ ?new"
    by (simp only: parse_keys_append [OF assms(2)] parse_print_keys)
  obtain w' where w': "add_keys_loop (parse_keys s) (map py_rstrip (filter_authorized_keys keys)) 0 w = (Inr (0 + length ?new), w')"
      "file_get_contents auth_keys_filename w' = Inr (s @ concat (map (\<lambda>k. k @ [newline]) ?new))"
    using add_keys_run [OF assms(1)] by blast
  have "add_authorized_keys keys w = (Inr (length ?new), w')"
    using w'(1) assms(1) by (simp add: add_authorized_keys_def get_authorized_keys_def sx_bind_run)
  moreover have "get_authorized_keys w' = (Inr (parse_keys s @ ?new), w')"
    using w'(2) by (simp add: get_authorized_keys_def sx_bind_run parsed)
  ultimately show ?thesis by blast
qed

theorem authorized_keys_roundtrip_witness:
  "\<exists>w'. get_authorized_keys (w' :: unit world) = (Inr [''ssh-rsa A'', ''ssh-rsa B'', ''ssh-rsa B''], w')"
proof -
  let ?w = "\<lparr>wd_disk = [(auth_keys_filename, ''ssh-rsa A'' @ [newline])], wd_out = ()\<rparr> :: unit world"
  let ?keys = "[''ssh-rsa B'' @ [newline], ''ssh-rsa A'' @ [newline], ''ssh-rsa B'' @ [newline]]"
  have keys: "map py_rstrip (filter_authorized_keys ?keys) = [''ssh-rsa B'', ''ssh-rsa A'', ''ssh-rsa B'']" by code_simp
  have old: "parse_keys (''ssh-rsa A'' @ [newline]) = [''ssh-rsa A'']" by code_simp
  have proper: "list_all proper_key (map py_rstrip (filter_authorized_keys ?keys))" by code_simp
  have stored: "file_get_contents auth_keys_filename ?w = Inr (''ssh-rsa A'' @ [newline])"
    by (simp add: file_get_contents_def)
  have tail: "''ssh-rsa A'' @ [newline] = [] \<or> last (''ssh-rsa A'' @ [newline]) = newline" by simp
  obtain w' :: "unit world" and new where "new = filter (\<lambda>k. k \<notin> set (parse_keys (''ssh-rsa A'' @ [newline]))) (map py_rstrip (filter_authorized_keys ?keys))"
      "get_authorized_keys w' = (Inr (parse_keys (''ssh-rsa A'' @ [newline]) @ new), w')"
    using authorized_keys_roundtrip [OF stored tail proper] by blast
  then have "get_authorized_keys w' = (Inr [''ssh-rsa A'', ''ssh-rsa B'', ''ssh-rsa B''], w')"
    unfolding keys old by simp
  then show ?thesis ..
qed

end
