(* ===== verification/Generic.thy ===== *)
theory Generic
  imports Git
begin

text \<open>
  \<open>services/generic/manager/manager.py\<close>, its configuration and its agent client: a service that runs
  the scripts of an archive, or of a git revision, on its nodes.

  What the class adds to a manager object is the record \<open>attrs\<close>. The configuration is one object
  shared by all handlers and threads (\<open>_configuration_get\<close> hands out the reference), so a thread reads
  it when it runs, not when it was started. The thread of a script holds the list object \<open>self.nodes\<close>:
  growing and shrinking change that list in place, stopping and starting give the manager a new one;
  \<open>Current\<close> is the manager's list, \<open>Old\<close> a list that was replaced since.

  Outside the model, and parameters of it: the archive formats, random file names, JSON text, and
  pushing a repository to another machine.
\<close>

subsection \<open>Paths\<close>

definition basename :: "string \<Rightarrow> string" where
  "basename p = last (split_on (CHR ''/'') p)"

fun norm_parts :: "string list \<Rightarrow> string list \<Rightarrow> string list" where
  "norm_parts acc [] = rev acc"
| "norm_parts acc (c # cs) =
     (if c = [] \<or> c = ''.'' then norm_parts acc cs
      else if c = ''..'' then norm_parts (drop 1 acc) cs
      else norm_parts (c # acc) cs)"

text \<open>\<open>os.path.abspath\<close> of a path that is absolute already.\<close>

definition abspath :: "string \<Rightarrow> string" where
  "abspath p = ''/'' @ join_with ''/'' (norm_parts [] (split_on (CHR ''/'') p))"

lemma split_on_append: "split_on c (s @ c # t) = split_on c s @ split_on c t"
proof (induction s)
  case (Cons x s)
  obtain w ws where "split_on c s = w # ws" using split_on_nonempty by (cases "split_on c s") auto
  with Cons show ?case by simp
qed simp

subsection \<open>State\<close>

record code_version =
  cv_id :: string
  cv_filename :: string
  cv_type :: string
  cv_description :: string
  cv_timestamp :: int

record service_configuration =
  sc_versions :: "(string \<times> code_version) list"
  sc_current :: "string option"

record agent_info =
  ai_id :: string
  ai_ip :: string
  ai_role :: string

datatype nodes_ref = Current | Old "node_entry list"

datatype generic_job = EnableCodeJob string | ScriptJob string string nodes_ref

record attrs =
  at_code_repo :: string
  at_config :: "service_configuration option"
  at_agents :: "agent_info list"
  at_master :: "string option"
  at_threads :: "generic_job list"

record 'w generic_env =
  ge_net :: "'w network"
  ge_dumps :: "pyval \<Rightarrow> string"
  ge_tar :: "(string \<times> string) list \<Rightarrow> string"
  ge_archive :: "string \<Rightarrow> (string \<times> string list) option"
  ge_temp :: "string list \<Rightarrow> string"
  ge_git_push :: "string \<Rightarrow> 'w \<Rightarrow> 'w"

type_synonym 'w gobj = "(attrs, 'w) sobj"

definition role_master :: string where "role_master = ''master''"

definition no_scripts_msg :: exn where
  "no_scripts_msg = exc ''ERROR: No scripts are currently running inside agents. Nothing to interrupt.'' []"

definition scripts_running_msg :: exn where
  "scripts_running_msg = exc ''ERROR: Scripts are still running inside at least one agent. Please wait for them to finish execution or call 'interrupt' first.'' []"

definition ext_modify :: "(attrs \<Rightarrow> attrs) \<Rightarrow> ('w gobj, unit) sx" where
  "ext_modify f = modify_service (\<lambda>s. s\<lparr>sv_ext := f (sv_ext s)\<rparr>)"

text \<open>\<open>self.service_config\<close>: the attribute only exists once it has been set.\<close>

definition configuration_get :: "('w gobj, service_configuration) sx" where
  "configuration_get = with_service (\<lambda>s. case at_config (sv_ext s) of
     None \<Rightarrow> Inl (builtin_exn EAttributeError) | Some c \<Rightarrow> Inr c)"

definition configuration_set :: "service_configuration \<Rightarrow> ('w gobj, unit) sx" where
  "configuration_set c = ext_modify (at_config_update (\<lambda>_. Some c))"

subsection \<open>Construction\<close>

definition script_lines :: "string list" where
  "script_lines =
     [''#!/bin/bash'',
      ''date >> /root/generic.out'',
      ''echo \"Executing script ${0##*/}\" >> /root/generic.out'',
      ''echo \"Parameters ($#): $@\" >> /root/generic.out'',
      ''echo \"My IP is $MY_IP\" >> /root/generic.out'',
      ''echo \"My role is $MY_ROLE\" >> /root/generic.out'',
      ''echo \"My master IP is $MASTER_IP\" >> /root/generic.out'',
      ''echo \"Information about other agents is stored at /var/cache/cpsagent/agents.json\" >> /root/generic.out'',
      ''cat /var/cache/cpsagent/agents.json >> /root/generic.out'',
      ''echo \"\" >> /root/generic.out'',
      ''echo \"\" >> /root/generic.out'']"

definition default_script :: string where
  "default_script = concat (map (\<lambda>l. l @ [newline]) script_lines)"

definition default_scripts :: "string list" where
  "default_scripts = [''init.sh'', ''notify.sh'', ''run.sh'', ''interrupt.sh'', ''cleanup.sh'']"

definition initial_configuration :: "int \<Rightarrow> service_configuration" where
  "initial_configuration now =
     \<lparr>sc_versions = [(''code-default'', \<lparr>cv_id = ''code-default'', cv_filename = ''code-default.tar'',
        cv_type = ''tar'', cv_description = ''Initial version'', cv_timestamp = now\<rparr>)],
      sc_current = Some ''code-default''\<rparr>"

text \<open>
  \<open>__init__\<close>: \<open>kwargs['reset_config']\<close> is read before the attributes of the agents are set. The archive
  of the default scripts is written into the code repository.
\<close>

definition generic_init :: "'w generic_env \<Rightarrow> config \<Rightarrow> kwargs \<Rightarrow> ('w world, attrs service) sx" where
  "generic_init env cfg kwargs =
     sx_bind (sx_lift (cfg_get cfg ''manager'' ''CODE_REPO'')) (\<lambda>code_repo.
     sx_bind (sx_lift (new_manager ''generic''
        \<lparr>at_code_repo = code_repo, at_config = None, at_agents = [], at_master = None, at_threads = []\<rparr> cfg)) (\<lambda>s.
     sx_bind (sx_lift (py_lookup kwargs ''reset_config'')) (\<lambda>reset_config.
     if py_truth reset_config then
       sx_bind (sx_modify (file_write_contents (path_join code_repo ''code-default'')
          (ge_tar env (map (\<lambda>script. (script, default_script)) default_scripts)))) (\<lambda>_.
       sx_bind (sx_get (\<lambda>w. net_now (ge_net env) (wd_out w))) (\<lambda>now.
         sx_return (s\<lparr>sv_ext := (sv_ext s)\<lparr>at_config := Some (initial_configuration now)\<rparr>\<rparr>)))
     else sx_return s)))"

subsection \<open>The agents' client\<close>

definition agents_json :: "agent_info list \<Rightarrow> pyval" where
  "agents_json infos = PList (map (\<lambda>i. PDict [(''id'', PStr (ai_id i)), (''ip'', PStr (ai_ip i)),
     (''role'', PStr (ai_role i))]) infos)"

text \<open>Every failure the client finds in an answer is a plain \<open>Exception\<close>.\<close>

definition generic_call :: "'w generic_env \<Rightarrow> string \<Rightarrow> string \<Rightarrow> kwargs \<Rightarrow> ('w gobj, pyval) sx" where
  "generic_call env ip method params = with_net (agent_call (ge_net env) (client_check EException) ip method params)"

definition client_init_agent :: "'w generic_env \<Rightarrow> string \<Rightarrow> agent_info list \<Rightarrow> ('w gobj, pyval) sx" where
  "client_init_agent env host agents_info = generic_call env host ''init_agent''
     [(''agents_info'', PStr (ge_dumps env (agents_json agents_info))), (''ip'', PStr host)]"

definition client_update_code ::
  "'w generic_env \<Rightarrow> string \<Rightarrow> string \<Rightarrow> string \<Rightarrow> string \<Rightarrow> ('w gobj, pyval) sx" where
  "client_update_code env host code_version_id filetype filepath =
     (if filetype \<noteq> ''git'' then
        (\<lambda>(s, w). case file_get_contents filepath w of
            Inl e \<Rightarrow> (Inl e, (s, w))
          | Inr contents \<Rightarrow> generic_call env host ''update_code''
              [(''codeVersionId'', PStr code_version_id), (''filetype'', PStr filetype),
               (''file'', PFile filepath contents)] (s, w))
      else generic_call env host ''update_code''
        [(''codeVersionId'', PStr code_version_id), (''filetype'', PStr filetype), (''revision'', PStr filepath)])"

definition client_mount_volume :: "'w generic_env \<Rightarrow> string \<Rightarrow> string \<Rightarrow> string \<Rightarrow> ('w gobj, pyval) sx" where
  "client_mount_volume env host dev_name volume_name = generic_call env host ''mount_volume''
     [(''dev_name'', PStr dev_name), (''vol_name'', PStr volume_name)]"

definition client_unmount_volume :: "'w generic_env \<Rightarrow> string \<Rightarrow> string \<Rightarrow> ('w gobj, pyval) sx" where
  "client_unmount_volume env host volume_name = generic_call env host ''unmount_volume'' [(''vol_name'', PStr volume_name)]"

definition client_execute_script ::
  "'w generic_env \<Rightarrow> string \<Rightarrow> string \<Rightarrow> string \<Rightarrow> agent_info list \<Rightarrow> ('w gobj, pyval) sx" where
  "client_execute_script env host command parameters agents_info = generic_call env host ''execute_script''
     [(''command'', PStr command), (''parameters'', PStr parameters),
      (''agents_info'', PStr (ge_dumps env (agents_json agents_info)))]"

definition client_get_script_status :: "'w generic_env \<Rightarrow> string \<Rightarrow> ('w gobj, pyval) sx" where
  "client_get_script_status env host = generic_call env host ''get_script_status'' []"

text \<open>\<open>except client.AgentException\<close>: the handler runs for that class only.\<close>

definition is_agent_exception :: "exn \<Rightarrow> bool" where
  "is_agent_exception e = (case e of Raise k _ _ \<Rightarrow> k = EAgentException | Wrap _ _ _ \<Rightarrow> False)"

definition on_agent_exception ::
  "('w gobj, 'a) sx \<Rightarrow> (exn \<Rightarrow> ('w gobj, 'a) sx) \<Rightarrow> ('w gobj, 'a) sx" where
  "on_agent_exception m h = sx_try m (\<lambda>e. if is_agent_exception e then h e else sx_raise e)"

text \<open>\<open>self.state_set(self.S_ERROR, msg=...)\<close> and \<open>raise\<close>; the message is not rendered.\<close>

definition fail_with :: "string \<Rightarrow> exn \<Rightarrow> ('w gobj, 'a) sx" where
  "fail_with msg e = sx_bind (modify_service (state_set S_ERROR msg)) (\<lambda>_. sx_raise e)"

subsection \<open>Start, stop, grow, shrink\<close>

text \<open>
  \<open>_update_agents_info\<close>: the nodes are taken in order, role by role; a role's number is text.
\<close>

fun take_role :: "nat \<Rightarrow> string \<Rightarrow> service_node list \<Rightarrow> agent_info list \<times> service_node list" where
  "take_role 0 role nodes = ([], nodes)"
| "take_role (Suc n) role [] = take_role n role []"
| "take_role (Suc n) role (node # nodes) =
     (let (infos, rest) = take_role n role nodes
      in (\<lparr>ai_id = sn_id node, ai_ip = sn_ip node, ai_role = role\<rparr> # infos, rest))"

fun assign_roles :: "(string \<times> nat) list \<Rightarrow> service_node list \<Rightarrow> agent_info list" where
  "assign_roles [] nodes = []"
| "assign_roles ((role, n) # roles) nodes =
     (let (infos, rest) = take_role n role nodes in infos @ assign_roles roles rest)"

definition update_agents_info :: "node_entry list \<Rightarrow> (string \<times> nat) list \<Rightarrow> exn + agent_info list" where
  "update_agents_info nodes roles = map_sum id (assign_roles roles) (map_res entry_node nodes)"

definition init_agents :: "'w generic_env \<Rightarrow> node_entry list \<Rightarrow> agent_info list \<Rightarrow> ('w gobj, unit) sx" where
  "init_agents env nodes agents_info =
     sx_bind (sx_lift (map_res entry_node nodes)) (\<lambda>ns.
     sx_for ns (\<lambda>node. on_agent_exception
       (sx_bind (client_init_agent env (sn_ip node) agents_info) (\<lambda>_. sx_return ()))
       (fail_with ''Failed to initialize agent at node %s'')))"

definition version_of :: "service_configuration \<Rightarrow> string option \<Rightarrow> exn + code_version" where
  "version_of config cur = (case cur of None \<Rightarrow> Inl (builtin_exn EKeyError)
     | Some v \<Rightarrow> py_lookup (sc_versions config) v)"

definition git_push :: "'w generic_env \<Rightarrow> string \<Rightarrow> ('w gobj, unit) sx" where
  "git_push env ip = with_net (sx_modify (ge_git_push env ip))"

text \<open>\<open>_update_code\<close>; \<open>os.path.join\<close> with no current version is never reached.\<close>

definition update_code :: "'w generic_env \<Rightarrow> service_configuration \<Rightarrow> node_entry list \<Rightarrow> ('w gobj, unit) sx" where
  "update_code env config nodes =
     sx_bind (sx_lift (map_res entry_node nodes)) (\<lambda>ns.
     sx_bind (with_service (\<lambda>s. Inr (at_code_repo (sv_ext s)))) (\<lambda>code_repo.
     sx_for ns (\<lambda>node.
       sx_bind (sx_lift (version_of config (sc_current config))) (\<lambda>version.
       let current = (case sc_current config of None \<Rightarrow> [] | Some v \<Rightarrow> v) in
       sx_bind (if cv_type version = ''git'' then sx_bind (git_push env (sn_ip node)) (\<lambda>_. sx_return (cv_filename version))
                else sx_return (path_join code_repo current)) (\<lambda>filepath.
       on_agent_exception
         (sx_bind (client_update_code env (sn_ip node) current (cv_type version) filepath) (\<lambda>_. sx_return ()))
         (fail_with ''Failed to update code at node %s''))))))"

definition generic_startup :: "'w generic_env \<Rightarrow> node_entry list \<Rightarrow> ('w gobj, unit) sx" where
  "generic_startup env nodes =
     sx_bind configuration_get (\<lambda>config.
     sx_bind (sx_lift (update_agents_info nodes [(role_master, 1)])) (\<lambda>agents_info.
     sx_bind (init_agents env nodes agents_info) (\<lambda>_.
     sx_bind (update_code env config nodes) (\<lambda>_.
     sx_bind (ext_modify (\<lambda>x. x\<lparr>at_agents := at_agents x @ agents_info\<rparr>)) (\<lambda>_.
     sx_bind (sx_lift (res_bind (py_first nodes) entry_node)) (\<lambda>first.
       ext_modify (at_master_update (\<lambda>_. Some (sn_ip first)))))))))"

definition generic_on_start :: "'w generic_env \<Rightarrow> node_entry list \<Rightarrow> ('w gobj, bool) sx" where
  "generic_on_start env nodes =
     sx_try (sx_bind (generic_startup env nodes) (\<lambda>_. sx_return True)) (\<lambda>_. sx_return False)"

text \<open>
  The manager gets a new list of nodes after \<open>on_stop\<close>: threads that hold the old one keep it.
\<close>

definition detach_nodes :: "node_entry list \<Rightarrow> generic_job \<Rightarrow> generic_job" where
  "detach_nodes nodes j = (case j of ScriptJob command parameters Current \<Rightarrow> ScriptJob command parameters (Old nodes) | _ \<Rightarrow> j)"

definition generic_on_stop :: "('w gobj, node_entry list) sx" where
  "generic_on_stop =
     sx_bind (with_service (\<lambda>s. res_bind (map_res entry_id (sv_nodes s)) (\<lambda>_. Inr (sv_nodes s)))) (\<lambda>del_nodes.
     sx_bind (ext_modify (\<lambda>x. x\<lparr>at_agents := [], at_master := None,
        at_threads := map (detach_nodes del_nodes) (at_threads x)\<rparr>)) (\<lambda>_.
       sx_return del_nodes))"

definition do_execute_script ::
  "'w generic_env \<Rightarrow> string \<Rightarrow> node_entry list \<Rightarrow> string \<Rightarrow> ('w gobj, unit) sx" where
  "do_execute_script env command nodes parameters =
     sx_bind (sx_lift (map_res entry_node nodes)) (\<lambda>ns.
     sx_for ns (\<lambda>node.
       sx_bind (with_service (\<lambda>s. Inr (at_agents (sv_ext s)))) (\<lambda>agents_info.
       on_agent_exception
         (sx_bind (client_execute_script env (sn_ip node) command parameters agents_info) (\<lambda>_. sx_return ()))
         (fail_with ''Failed to execute the '%s' command at node %s''))))"

text \<open>\<open>n not in node_instances\<close> compares with \<open>__cmp__\<close>, which raises on text.\<close>

definition entry_in :: "node_entry \<Rightarrow> node_entry list \<Rightarrow> exn + bool" where
  "entry_in e instances = (if instances = [] then Inr False
     else res_bind (entry_node e) (\<lambda>n.
       map_sum id (list_ex (node_eq n)) (map_res entry_node instances)))"

definition generic_on_add_nodes :: "'w generic_env \<Rightarrow> node_entry list \<Rightarrow> ('w gobj, bool) sx" where
  "generic_on_add_nodes env node_instances =
     sx_bind (sx_lift (update_agents_info node_instances [(role_regular, length node_instances)])) (\<lambda>agents_info.
     sx_bind (with_service (\<lambda>s. filter_res (\<lambda>e. map_sum id Not (entry_in e node_instances)) (sv_nodes s))) (\<lambda>nodes_before.
     sx_bind (ext_modify (\<lambda>x. x\<lparr>at_agents := at_agents x @ agents_info\<rparr>)) (\<lambda>_.
     sx_bind configuration_get (\<lambda>config.
     sx_bind (with_service (\<lambda>s. Inr (at_agents (sv_ext s)))) (\<lambda>all_infos.
     sx_bind (init_agents env node_instances all_infos) (\<lambda>_.
     sx_bind (update_code env config node_instances) (\<lambda>_.
     sx_bind (do_execute_script env ''notify'' nodes_before []) (\<lambda>_.
       sx_return True))))))))"

text \<open>\<open>node_roles.get(self.ROLE_MASTER, 0) > 0\<close>; the base check has found every count to be a number.\<close>

definition generic_check_remove_nodes :: "kwargs \<Rightarrow> attrs service \<Rightarrow> exn + unit" where
  "generic_check_remove_nodes node_roles s =
     res_bind (base_check_remove_nodes node_roles s) (\<lambda>_.
       guard (\<not> (case map_of node_roles role_master of None \<Rightarrow> False
                  | Some v \<Rightarrow> (case as_num v of None \<Rightarrow> False | Some r \<Rightarrow> r > 0)))
         (exc ''Cannot remove the master node.'' []))"

fun pop_nodes :: "nat \<Rightarrow> node_entry list \<Rightarrow> node_entry list \<Rightarrow> ('w gobj, node_entry list \<times> node_entry list) sx" where
  "pop_nodes 0 cp_nodes del_nodes = sx_return (cp_nodes, del_nodes)"
| "pop_nodes (Suc n) cp_nodes del_nodes =
     (if cp_nodes = [] then sx_raise (builtin_exn EIndexError)
      else
        sx_bind (with_service (\<lambda>s. guard (at_agents (sv_ext s) \<noteq> []) (builtin_exn EIndexError))) (\<lambda>_.
        sx_bind (ext_modify (\<lambda>x. x\<lparr>at_agents := butlast (at_agents x)\<rparr>)) (\<lambda>_.
        sx_bind (sx_lift (entry_node (last cp_nodes))) (\<lambda>_.
          pop_nodes n (butlast cp_nodes) (del_nodes @ [last cp_nodes])))))"

definition generic_on_remove_nodes :: "'w generic_env \<Rightarrow> kwargs \<Rightarrow> ('w gobj, node_entry list) sx" where
  "generic_on_remove_nodes env node_roles =
     sx_bind (sx_lift (sum_range node_roles)) (\<lambda>count.
     sx_bind (with_service (\<lambda>s. Inr (sv_nodes s))) (\<lambda>nodes.
     sx_bind (pop_nodes count nodes []) (\<lambda>(cp_nodes, del_nodes).
     sx_bind (if cp_nodes = []
              then sx_bind (ext_modify (at_master_update (\<lambda>_. None))) (\<lambda>_. modify_service (state_set S_STOPPED []))
              else sx_bind (do_execute_script env ''notify'' cp_nodes []) (\<lambda>_. modify_service (state_set S_RUNNING []))) (\<lambda>_.
       sx_return del_nodes))))"

subsection \<open>Information\<close>

definition is_master :: "attrs service \<Rightarrow> service_node \<Rightarrow> bool" where
  "is_master s node = (at_master (sv_ext s) = Some (sn_ip node))"

definition generic_list_nodes :: "(attrs, 'w) handler" where
  "generic_list_nodes kw = no_args kw (if_in_state [S_RUNNING, S_ADAPTING]
     (with_service (\<lambda>s. res_bind (map_res entry_node (sv_nodes s)) (\<lambda>ns.
        Inr (HttpJsonResponse (PDict
          [(role_master, PList (map (PStr \<circ> sn_id) (filter (is_master s) ns))),
           (role_regular, PList (map (PStr \<circ> sn_id) (filter (\<lambda>n. \<not> is_master s n) ns)))]))))))"

definition generic_get_service_info :: "(attrs, 'w) handler" where
  "generic_get_service_info kw = no_args kw (with_service (\<lambda>s.
     Inr (HttpJsonResponse (PDict [(''state'', PStr (state_name (sv_state s))), (''type'', PStr ''generic'')]))))"

definition generic_role_logs :: "string \<Rightarrow> role_log list" where
  "generic_role_logs role = base_role_logs @
     [\<lparr>log_filename = ''agent.out'', log_description = ''agent output'', log_path = ''/root/agent.out''\<rparr>,
      \<lparr>log_filename = ''agent.err'', log_description = ''agent error'', log_path = ''/root/agent.err''\<rparr>]"

definition generic_node_json :: "attrs service \<Rightarrow> service_node \<Rightarrow> pyval" where
  "generic_node_json s n = PDict [(''serviceNode'', PDict
     [(''id'', PStr (sn_id n)), (''ip'', PStr (sn_ip n)), (''vmid'', PStr (sn_vmid n)),
      (''cloud'', PStr (sn_cloud_name n)), (''is_master'', PBool (is_master s n)), (''role'', PStr (sn_role n)),
      (''logs'', logs_json (generic_role_logs (sn_role n)))])]"

definition generic_get_node_info :: "(attrs, 'w) handler" where
  "generic_get_node_info kw =
     sx_bind (with_service (\<lambda>s. map_res entry_id (sv_nodes s))) (\<lambda>node_ids.
       case check_arguments [Mandatory ''serviceNodeId'' (is_in_list (map PStr node_ids))] kw of
         Inl e \<Rightarrow> sx_return (HttpErrorResponse e)
       | Inr nid \<Rightarrow>
           with_service (\<lambda>s. res_bind (find_node (py_str nid) (sv_nodes s)) (\<lambda>n.
             Inr (HttpJsonResponse (generic_node_json s n)))))"

subsection \<open>Code versions\<close>

definition version_json :: "service_configuration \<Rightarrow> code_version \<Rightarrow> pyval" where
  "version_json config v = PDict ([(''codeVersionId'', PStr (cv_id v)), (''filename'', PStr (cv_filename v)),
     (''description'', PStr (cv_description v)), (''time'', PInt (cv_timestamp v))] @
     (if sc_current config = Some (cv_id v) then [(''current'', PBool True)] else []))"

text \<open>\<open>sort(cmp=..., reverse=True)\<close> keeps the order of equal elements.\<close>

definition newest_first :: "code_version list \<Rightarrow> code_version list" where
  "newest_first vs = rev (sort_key cv_timestamp (rev vs))"

definition list_code_versions :: "(attrs, 'w) handler" where
  "list_code_versions kw = no_args kw
     (sx_bind configuration_get (\<lambda>config.
        sx_return (HttpJsonResponse (PDict [(''codeVersions'',
          PList (map (version_json config) (newest_first (dict_values (sc_versions config)))))]))))"

definition with_disk :: "('w world, 'a) sx \<Rightarrow> ('w gobj, 'a) sx" where
  "with_disk m = (\<lambda>(s, w). let (r, w') = m w in (r, (s, w')))"

definition list_authorized_keys :: "(attrs, 'w) handler" where
  "list_authorized_keys kw = no_args kw
     (sx_bind (with_disk get_authorized_keys) (\<lambda>keys.
        sx_return (HttpJsonResponse (PDict [(''authorizedKeys'', PList (map PStr keys))]))))"

definition upload_authorized_key :: "(attrs, 'w) handler" where
  "upload_authorized_key kw =
     (case check_arguments [Mandatory ''key'' is_uploaded_file] kw of
        Inl e \<Rightarrow> sx_return (HttpErrorResponse e)
      | Inr key \<Rightarrow>
          sx_bind (with_disk (add_authorized_keys (file_lines (py_str key)))) (\<lambda>num_added.
            sx_return (HttpJsonResponse (PDict [(''outcome'', PStr (int_str (int num_added) @ '' keys added to authorized_keys''))]))))"

definition add_version :: "code_version \<Rightarrow> service_configuration \<Rightarrow> service_configuration" where
  "add_version v config = config\<lparr>sc_versions := AList.update (cv_id v) v (sc_versions config)\<rparr>"

definition generic_on_git_push :: "'w generic_env \<Rightarrow> ('w gobj, unit) sx" where
  "generic_on_git_push env =
     sx_bind configuration_get (\<lambda>config.
     sx_bind (with_net (\<lambda>w. (net_git_version (ge_net env) default_code_repo w, w))) (\<lambda>revision.
     sx_bind (with_net (\<lambda>w. (net_git_description (ge_net env) default_code_repo w, w))) (\<lambda>description.
     sx_bind (with_net (sx_get (net_now (ge_net env)))) (\<lambda>now.
       configuration_set (add_version \<lparr>cv_id = ''git-'' @ revision, cv_filename = revision, cv_type = ''git'',
         cv_description = description, cv_timestamp = now\<rparr> config)))))"

definition remove_file :: "string \<Rightarrow> 'w world \<Rightarrow> 'w world" where
  "remove_file path w = w\<lparr>wd_disk := AList.delete path (wd_disk w)\<rparr>"

definition bad_member :: "string \<Rightarrow> bool" where
  "bad_member fname = (starts_with fname ''/'' \<or> starts_with fname ''..'')"

definition manager_exception :: "string \<Rightarrow> exn" where
  "manager_exception detail = Raise EManagerException detail []"

definition temp_name :: "'w generic_env \<Rightarrow> string list \<Rightarrow> string" where
  "temp_name env used = ''code-'' @ ge_temp env used"

text \<open>
  \<open>upload_code_version\<close>: \<open>mkstemp\<close> picks a name that does not exist in the repository.
\<close>

definition upload_code_version :: "'w generic_env \<Rightarrow> (attrs, 'w) handler" where
  "upload_code_version env kw =
     (case check_arguments [Mandatory ''code'' is_uploaded_file, Optional ''description'' is_string (PStr [])] kw of
        Inl e \<Rightarrow> sx_return (HttpErrorResponse e)
      | Inr args \<Rightarrow>
          let (code, description) = args2 args in
          sx_bind configuration_get (\<lambda>config.
          sx_bind (with_service (\<lambda>s. Inr (at_code_repo (sv_ext s)))) (\<lambda>code_repo.
          sx_bind (with_disk (sx_get (\<lambda>w. path_join code_repo (temp_name env (dict_keys (wd_disk w)))))) (\<lambda>name.
          sx_bind (with_disk (sx_modify (file_write_contents name (py_str code)))) (\<lambda>_.
          case ge_archive env (py_str code) of
            None \<Rightarrow> sx_bind (with_disk (sx_modify (remove_file name))) (\<lambda>_.
              sx_return (HttpErrorResponse (manager_exception ''Invalid archive format'')))
          | Some (atype, members) \<Rightarrow>
              if list_ex bad_member members
              then sx_bind (with_disk (sx_modify (remove_file name))) (\<lambda>_.
                sx_return (HttpErrorResponse (manager_exception ''Absolute file names are not allowed in archive members'')))
              else
                sx_bind (with_net (sx_get (net_now (ge_net env)))) (\<lambda>now.
                sx_bind (configuration_set (add_version \<lparr>cv_id = basename name,
                    cv_filename = basename (case code of PFile n _ \<Rightarrow> n | _ \<Rightarrow> []), cv_type = atype,
                    cv_description = py_str description, cv_timestamp = now\<rparr> config)) (\<lambda>_.
                  sx_return (HttpJsonResponse (PDict [(''codeVersionId'', PStr (basename (basename name)))])))))))))"

text \<open>The file of a version, if it lies in the repository.\<close>

definition version_file :: "string \<Rightarrow> string \<Rightarrow> 'w world \<Rightarrow> string option" where
  "version_file code_repo vid w =
     (let filename = abspath (path_join code_repo vid) in
      if starts_with filename (code_repo @ ''/'') \<and> filename \<in> set (dict_keys (wd_disk w)) then Some filename else None)"

definition version_param :: "service_configuration \<Rightarrow> constraint" where
  "version_param config = is_in_list (map PStr (dict_keys (sc_versions config)))"

definition download_code_version :: "(attrs, 'w) handler" where
  "download_code_version kw =
     sx_bind configuration_get (\<lambda>config.
     case check_arguments [Optional ''codeVersionId'' (version_param config)
         (case sc_current config of None \<Rightarrow> PNone | Some v \<Rightarrow> PStr v)] kw of
       Inl e \<Rightarrow> sx_return (HttpErrorResponse e)
     | Inr vid \<Rightarrow>
         sx_bind (sx_lift (py_lookup (sc_versions config) (py_str vid))) (\<lambda>version.
         if cv_type version = ''git''
         then sx_return (HttpErrorResponse (exc ''ERROR: To download this code, please clone the git repository'' []))
         else (\<lambda>(s, w). case version_file (at_code_repo (sv_ext s)) (py_str vid) w of
             None \<Rightarrow> (Inr (HttpErrorResponse (manager_exception ''Invalid codeVersionId'')), (s, w))
           | Some filename \<Rightarrow> (Inr (HttpFileDownloadResponse (cv_filename version) filename), (s, w)))))"

definition delete_code_version :: "(attrs, 'w) handler" where
  "delete_code_version kw =
     sx_bind configuration_get (\<lambda>config.
     case check_arguments [Mandatory ''codeVersionId'' (version_param config)] kw of
       Inl e \<Rightarrow> sx_return (HttpErrorResponse e)
     | Inr vid \<Rightarrow>
         if sc_current config = Some (py_str vid)
         then sx_return (HttpErrorResponse (manager_exception ''Cannot remove the active code version''))
         else
           sx_bind (sx_lift (py_lookup (sc_versions config) (py_str vid))) (\<lambda>version.
           sx_bind (\<lambda>(s, w). if cv_type version = ''git'' then (Inr True, (s, w))
               else (case version_file (at_code_repo (sv_ext s)) (py_str vid) w of
                   None \<Rightarrow> (Inr False, (s, w))
                 | Some filename \<Rightarrow> (Inr True, (s, remove_file filename w)))) (\<lambda>ok.
           if ok then
             sx_bind (configuration_set (config\<lparr>sc_versions := AList.delete (py_str vid) (sc_versions config)\<rparr>)) (\<lambda>_.
               sx_return (HttpJsonResponse (PDict [])))
           else sx_return (HttpErrorResponse (manager_exception ''Invalid codeVersionId'')))))"

subsection \<open>Scripts\<close>

text \<open>
  \<open>_are_scripts_running\<close>: an answer is a dictionary with the dictionary \<open>scripts\<close>; only an
  \<open>AgentException\<close> is passed over.
\<close>

definition scripts_of :: "pyval \<Rightarrow> exn + kwargs" where
  "scripts_of res = (case res of
       PDict d \<Rightarrow> res_bind (py_lookup d ''scripts'') (\<lambda>v.
         case v of PDict scripts \<Rightarrow> Inr scripts | _ \<Rightarrow> Inl (builtin_exn EAttributeError))
     | _ \<Rightarrow> Inl (builtin_exn ETypeError))"

fun scripts_running :: "'w generic_env \<Rightarrow> node_entry list \<Rightarrow> ('w gobj, bool) sx" where
  "scripts_running env [] = sx_return False"
| "scripts_running env (e # es) =
     sx_bind (sx_lift (entry_node e)) (\<lambda>node.
     sx_bind (on_agent_exception
         (sx_bind (client_get_script_status env (sn_ip node)) (\<lambda>res.
          sx_lift (map_sum id (\<lambda>scripts. py_in (PStr ''RUNNING'') (dict_values scripts)) (scripts_of res))))
         (\<lambda>_. sx_return False)) (\<lambda>found.
       if found then sx_return True else scripts_running env es))"

definition are_scripts_running :: "'w generic_env \<Rightarrow> ('w gobj, bool) sx" where
  "are_scripts_running env = sx_bind (with_service (\<lambda>s. Inr (sv_nodes s))) (scripts_running env)"

definition refuse_while_running :: "'w generic_env \<Rightarrow> ('w gobj, unit) sx" where
  "refuse_while_running env = sx_bind (are_scripts_running env) (\<lambda>running.
     if running then sx_raise scripts_running_msg else sx_return ())"

definition start_thread :: "generic_job \<Rightarrow> ('w gobj, unit) sx" where
  "start_thread j = ext_modify (\<lambda>x. x\<lparr>at_threads := at_threads x @ [j]\<rparr>)"

definition enable_code :: "'w generic_env \<Rightarrow> (attrs, 'w) handler" where
  "enable_code env kw =
     sx_bind configuration_get (\<lambda>config.
     sx_bind (with_service (\<lambda>s. Inr (sv_state s, res_bind (check_arguments [Mandatory ''codeVersionId'' (version_param config)] kw)
         (\<lambda>v. res_bind (check_state [S_INIT, S_STOPPED, S_RUNNING] s) (\<lambda>_. Inr v))))) (\<lambda>(state, checked).
     case checked of
       Inl e \<Rightarrow> sx_return (HttpErrorResponse e)
     | Inr vid \<Rightarrow>
         if state = S_INIT \<or> state = S_STOPPED then
           sx_bind (configuration_set (config\<lparr>sc_current := Some (py_str vid)\<rparr>)) (\<lambda>_. sx_return (HttpJsonResponse (PDict [])))
         else
           sx_bind (are_scripts_running env) (\<lambda>running.
           if running then sx_return (HttpErrorResponse scripts_running_msg)
           else
             sx_bind (modify_service (state_set S_ADAPTING ''Updating configuration'')) (\<lambda>_.
             sx_bind (start_thread (EnableCodeJob (py_str vid))) (\<lambda>_.
               sx_return (HttpJsonResponse (PDict [])))))))"

text \<open>The current version changes in the shared configuration before the nodes get it.\<close>

definition do_enable_code :: "'w generic_env \<Rightarrow> string \<Rightarrow> ('w gobj, unit) sx" where
  "do_enable_code env vid =
     sx_bind configuration_get (\<lambda>config.
     let config = config\<lparr>sc_current := Some vid\<rparr> in
     sx_bind (configuration_set config) (\<lambda>_.
     sx_bind (with_service (\<lambda>s. Inr (sv_nodes s))) (\<lambda>nodes.
     sx_bind (update_code env config nodes) (\<lambda>_.
       modify_service (state_set S_RUNNING [])))))"

definition execute_script :: "'w generic_env \<Rightarrow> (attrs, 'w) handler" where
  "execute_script env kw =
     sx_bind (with_service (\<lambda>s. Inr (res_bind (check_arguments
         [Mandatory ''command'' (is_in_list (map PStr [''run'', ''interrupt'', ''cleanup''])),
          Optional ''parameters'' is_string (PStr [])] kw)
         (\<lambda>v. res_bind (check_state [S_RUNNING] s) (\<lambda>_. Inr v))))) (\<lambda>checked.
     case checked of
       Inl e \<Rightarrow> sx_return (HttpErrorResponse e)
     | Inr args \<Rightarrow>
         let (command, parameters) = args2 args in
         sx_bind (are_scripts_running env) (\<lambda>running.
         if command = PStr ''interrupt'' \<and> \<not> running then sx_return (HttpErrorResponse no_scripts_msg)
         else if command \<noteq> PStr ''interrupt'' \<and> running then sx_return (HttpErrorResponse scripts_running_msg)
         else
           sx_bind (start_thread (ScriptJob (py_str command) (py_str parameters) Current)) (\<lambda>_.
             with_service (\<lambda>s. Inr (HttpJsonResponse (PDict [(''state'', PStr (state_name (sv_state s)))]))))))"

fun agents_status :: "'w generic_env \<Rightarrow> node_entry list \<Rightarrow> kwargs \<Rightarrow> ('w gobj, http_response) sx" where
  "agents_status env [] agents = sx_return (HttpJsonResponse (PDict [(''agents'', PDict agents)]))"
| "agents_status env (VKey k # es) agents = sx_raise (builtin_exn EAttributeError)"
| "agents_status env (VNode node # es) agents =
     (\<lambda>sw. case (sx_bind (client_get_script_status env (sn_ip node)) (\<lambda>res.
            sx_lift (case res of PDict d \<Rightarrow> py_lookup d ''scripts'' | _ \<Rightarrow> Inl (builtin_exn ETypeError)))) sw of
         (Inl e, sw') \<Rightarrow>
           if is_agent_exception e
           then sx_bind (modify_service (state_set S_ERROR ''Failed to obtain script status at node %s''))
                  (\<lambda>_. sx_return (HttpErrorResponse e)) sw'
           else (Inl e, sw')
       | (Inr scripts, sw') \<Rightarrow> agents_status env es (AList.update (sn_id node) scripts agents) sw')"

definition get_script_status :: "'w generic_env \<Rightarrow> (attrs, 'w) handler" where
  "get_script_status env kw =
     sx_bind (with_service (\<lambda>s. Inr (res_bind (check_arguments [] kw) (\<lambda>_. check_state [S_RUNNING] s)))) (\<lambda>checked.
     case checked of
       Inl e \<Rightarrow> sx_return (HttpErrorResponse e)
     | Inr _ \<Rightarrow> sx_bind (with_service (\<lambda>s. Inr (sv_nodes s))) (\<lambda>entries. agents_status env entries []))"

subsection \<open>Volumes\<close>

definition generic_on_create_volume :: "'w generic_env \<Rightarrow> service_node \<Rightarrow> volume \<Rightarrow> ('w gobj, unit) sx" where
  "generic_on_create_volume env node v =
     sx_bind (client_mount_volume env (sn_ip node) (vol_dev_name v) (vol_name v)) (\<lambda>_. sx_return ())"

definition generic_on_delete_volume :: "'w generic_env \<Rightarrow> service_node \<Rightarrow> volume \<Rightarrow> ('w gobj, unit) sx" where
  "generic_on_delete_volume env node v =
     sx_bind (client_unmount_volume env (sn_ip node) (vol_name v)) (\<lambda>_. sx_return ())"

subsection \<open>Threads and the class\<close>

text \<open>The \<open>n\<close>-th thread that has not run runs to its end.\<close>

definition generic_run_thread :: "'w generic_env \<Rightarrow> nat \<Rightarrow> ('w gobj, unit) sx" where
  "generic_run_thread env n =
     sx_bind (with_service (\<lambda>s. if n < length (at_threads (sv_ext s)) then Inr (at_threads (sv_ext s) ! n, sv_nodes s)
       else Inl (builtin_exn EIndexError))) (\<lambda>(j, nodes).
     sx_bind (ext_modify (\<lambda>x. x\<lparr>at_threads := take n (at_threads x) @ drop (Suc n) (at_threads x)\<rparr>)) (\<lambda>_.
     case j of
       EnableCodeJob vid \<Rightarrow> do_enable_code env vid
     | ScriptJob command parameters Current \<Rightarrow> do_execute_script env command nodes parameters
     | ScriptJob command parameters (Old old) \<Rightarrow> do_execute_script env command old parameters))"

definition generic_base :: "'w generic_env \<Rightarrow> (attrs, 'w) svc_class" where
  "generic_base env = (base_class (\<lambda>cfg kwargs. Inl (builtin_exn ENotImplementedError)))
     \<lparr>k_init := generic_init env,
      k_service_type := ''generic'',
      k_node_roles := [role_master, role_regular],
      k_starting_nodes := [(role_master, PInt 1)],
      k_role_logs := generic_role_logs,
      k_on_start := generic_on_start env,
      k_on_stop := generic_on_stop,
      k_on_add_nodes := generic_on_add_nodes env,
      k_check_remove_nodes := (\<lambda>node_roles. with_service (generic_check_remove_nodes node_roles)),
      k_on_remove_nodes := generic_on_remove_nodes env,
      k_check_create_volume := (\<lambda>_ _ _. refuse_while_running env),
      k_on_create_volume := generic_on_create_volume env,
      k_check_delete_volume := (\<lambda>_ _. refuse_while_running env),
      k_on_delete_volume := generic_on_delete_volume env,
      k_on_git_push := generic_on_git_push env,
      k_threads := (\<lambda>s. length (at_threads (sv_ext s))),
      k_run_thread := generic_run_thread env\<rparr>"

definition generic_class :: "'w generic_env \<Rightarrow> (attrs, 'w) svc_class" where
  "generic_class env = (generic_base env)
     \<lparr>k_attributes := base_attributes (ge_net env) (generic_base env) @
        [(''delete_code_version'', Exposed ''POST'' delete_code_version),
         (''download_code_version'', Exposed ''GET'' download_code_version),
         (''enable_code'', Exposed ''POST'' (enable_code env)),
         (''execute_script'', Exposed ''POST'' (execute_script env)),
         (''get_node_info'', Exposed ''GET'' generic_get_node_info),
         (''get_script_status'', Exposed ''GET'' (get_script_status env)),
         (''get_service_info'', Exposed ''GET'' generic_get_service_info),
         (''list_authorized_keys'', Exposed ''GET'' list_authorized_keys),
         (''list_code_versions'', Exposed ''GET'' list_code_versions),
         (''list_nodes'', Exposed ''GET'' generic_list_nodes),
         (''upload_authorized_key'', Exposed ''UPLOAD'' upload_authorized_key),
         (''upload_code_version'', Exposed ''UPLOAD'' (upload_code_version env))]\<rparr>"

end
