(* ===== verification/GenericAgent.thy ===== *)
theory GenericAgent
  imports Generic AppManager
begin

text \<open>
  \<open>core/agent.py\<close> and \<open>services/generic/agent/agent.py\<close>: the agent on a node of a generic service. It
  keeps the environment and the processes of the scripts it started. The operating system is the table
  of processes (a process ends when the system says so), the files and directories of the disk, and shell
  commands, which are parameters. Process numbers are never used again. There are no links on the disk, and
  \<open>VAR_CACHE\<close> is an absolute path without \<open>.\<close> and \<open>..\<close>.
\<close>

subsection \<open>State\<close>

record process =
  pr_args :: "string list"
  pr_environ :: "(string \<times> string) list"
  pr_code :: "int option"
  pr_signals :: "string list"

text \<open>The thread of an interrupt: before its script runs, and waiting for that script to end.\<close>

datatype agent_thread = InterruptThread string | WaitThread int

record 'd generic_agent =
  ga_log_file :: string
  ga_service_id :: string
  ga_home :: string
  ga_var_cache :: string
  ga_environ :: "(string \<times> string) list"
  ga_processes :: "(string \<times> int) list"
  ga_threads :: "agent_thread list"
  ga_disk :: "(string \<times> string) list"
  ga_dirs :: "string list"
  ga_table :: "(int \<times> process) list"
  ga_out :: 'd

record 'd agent_env =
  ae_loads :: "string \<Rightarrow> exn + pyval"
  ae_dumps :: "pyval \<Rightarrow> string"
  ae_archive :: "string \<Rightarrow> string \<Rightarrow> exn + (string \<times> string) list"
  ae_checkout :: "string \<Rightarrow> string \<Rightarrow> 'd \<Rightarrow> (string \<times> string) list"
  ae_cmd :: "string \<Rightarrow> 'd \<Rightarrow> (string \<times> string) \<times> 'd"
  ae_lexists :: "string \<Rightarrow> 'd \<Rightarrow> bool"
  ae_mkfs :: "string \<Rightarrow> 'd \<Rightarrow> int \<times> 'd"
  ae_sleep :: "int \<Rightarrow> 'd \<Rightarrow> 'd"

type_synonym ('d, 'a) ax = "('d generic_agent, 'a) sx"

type_synonym 'd agent_handler = "kwargs \<Rightarrow> ('d, http_response) ax"

definition code_dir :: "'d generic_agent \<Rightarrow> string" where
  "code_dir g = path_join (ga_var_cache g) ''bin''"

definition volume_dir :: string where "volume_dir = ''/media''"

text \<open>An agent starts on a machine with the given directories.\<close>

definition new_agent :: "config \<Rightarrow> string list \<Rightarrow> 'd \<Rightarrow> exn + 'd generic_agent" where
  "new_agent cfg dirs d =
     res_bind (cfg_get cfg ''agent'' ''TYPE'') (\<lambda>_.
     res_bind (cfg_get cfg ''agent'' ''USER_ID'') (\<lambda>_.
     res_bind (cfg_get cfg ''agent'' ''SERVICE_ID'') (\<lambda>service_id.
     res_bind (cfg_get cfg ''agent'' ''LOG_FILE'') (\<lambda>log_file.
     res_bind (cfg_get cfg ''agent'' ''CONPAAS_HOME'') (\<lambda>home.
     res_bind (cfg_get cfg ''agent'' ''VAR_CACHE'') (\<lambda>var_cache.
       Inr \<lparr>ga_log_file = log_file, ga_service_id = service_id, ga_home = home, ga_var_cache = var_cache,
            ga_environ = [], ga_processes = [], ga_threads = [], ga_disk = [], ga_dirs = dirs, ga_table = [], ga_out = d\<rparr>))))))"

subsection \<open>Handlers of every agent\<close>

definition agent_check_process :: "'d agent_handler" where
  "agent_check_process kw = no_args kw (sx_return (HttpJsonResponse (PDict [])))"

definition get_log :: "'d agent_handler" where
  "get_log kw = (\<lambda>g.
     case check_arguments [Optional ''filename'' is_string (PStr (ga_log_file g))] kw of
       Inl e \<Rightarrow> (Inr (HttpErrorResponse e), g)
     | Inr filename \<Rightarrow>
         (Inr (case map_of (ga_disk g) (py_str filename) of
            Some c \<Rightarrow> HttpJsonResponse (PDict [(''log'', PStr c)])
          | None \<Rightarrow> HttpErrorResponse (exc (''Failed to read log file: '%s'' @ [CHR 0x27]) [filename])), g))"

subsection \<open>Scripts and processes\<close>

definition poll :: "int \<Rightarrow> 'd generic_agent \<Rightarrow> int option" where
  "poll pid g = (case map_of (ga_table g) pid of None \<Rightarrow> Some 0 | Some p \<Rightarrow> pr_code p)"

definition script_commands :: "string list" where
  "script_commands = [''init'', ''notify'', ''run'', ''interrupt'', ''cleanup'']"

definition script_status :: "string \<Rightarrow> 'd generic_agent \<Rightarrow> string" where
  "script_status command g =
     (case map_of (ga_processes g) command of
        None \<Rightarrow> ''NEVER STARTED''
      | Some pid \<Rightarrow> (case poll pid g of
            Some code \<Rightarrow> ''STOPPED (return code '' @ int_str code @ '')''
          | None \<Rightarrow> ''RUNNING''))"

definition agent_scripts_running :: "'d generic_agent \<Rightarrow> bool" where
  "agent_scripts_running g = list_ex (\<lambda>command. script_status command g = ''RUNNING'') script_commands"

text \<open>\<open>str.split()\<close>: words between blanks.\<close>

fun split_words :: "string \<Rightarrow> string \<Rightarrow> string list" where
  "split_words w [] = (if w = [] then [] else [w])"
| "split_words w (c # cs) =
     (if is_space c then (if w = [] then split_words [] cs else w # split_words [] cs)
      else split_words (w @ [c]) cs)"

definition run_script :: "string \<Rightarrow> string \<Rightarrow> ('d, unit) ax" where
  "run_script command parameters = sx_modify (\<lambda>g.
     let script_path = path_join (code_dir g) (command @ ''.sh'') in
     if script_path \<notin> set (dict_keys (ga_disk g)) \<and> script_path \<notin> set (ga_dirs g) then g
     else
       let pid = int (length (ga_table g)) + 1;
           p = \<lparr>pr_args = [''bash'', script_path] @ split_words [] parameters, pr_environ = ga_environ g,
                pr_code = None, pr_signals = []\<rparr>
       in g\<lparr>ga_table := ga_table g @ [(pid, p)],
            ga_processes := AList.update command pid (ga_processes g)\<rparr>)"

text \<open>
  \<open>os.killpg(pid, SIGTERM)\<close> for a script that \<open>poll()\<close> says is running: the signal reaches the group of the
  script, here its first process. A process may catch the signal, so that it ends is a step of its own.
\<close>

definition signal_process :: "int \<Rightarrow> (int \<times> process) list \<Rightarrow> (int \<times> process) list" where
  "signal_process pid tab = map (\<lambda>(i, p). (i, if i = pid \<and> pr_code p = None then p\<lparr>pr_signals := pr_signals p @ [''SIGTERM'']\<rparr> else p)) tab"

definition kill_all_processes :: "('d, unit) ax" where
  "kill_all_processes = sx_modify (\<lambda>g. g\<lparr>ga_table := fold signal_process (dict_values (ga_processes g)) (ga_table g)\<rparr>)"

definition agent_get_script_status :: "'d agent_handler" where
  "agent_get_script_status kw = no_args kw (sx_get (\<lambda>g. HttpJsonResponse (PDict [(''scripts'',
     PDict (map (\<lambda>command. (command @ ''.sh'', PStr (script_status command g))) script_commands))])))"

subsection \<open>Initialisation and code\<close>

definition write_file :: "string \<Rightarrow> string \<Rightarrow> ('d, unit) ax" where
  "write_file path c = sx_modify (\<lambda>g. g\<lparr>ga_disk := AList.update path c (ga_disk g)\<rparr>)"

text \<open>The values of a key in the dictionaries of a list whose value of another key is the given one.\<close>

fun select_key :: "string \<Rightarrow> pyval \<Rightarrow> string \<Rightarrow> pyval list \<Rightarrow> exn + pyval list" where
  "select_key k v out [] = Inr []"
| "select_key k v out (i # infos) =
     (case i of
        PDict d \<Rightarrow>
          res_bind (py_lookup d k) (\<lambda>x.
          if py_eq x v then res_bind (py_lookup d out) (\<lambda>y. map_sum id (Cons y) (select_key k v out infos))
          else select_key k v out infos)
      | _ \<Rightarrow> Inl (builtin_exn ETypeError))"

definition infos_list :: "pyval \<Rightarrow> exn + pyval list" where
  "infos_list v = (case v of PList xs \<Rightarrow> Inr xs | _ \<Rightarrow> Inl (builtin_exn ETypeError))"

definition env_update :: "string \<Rightarrow> pyval \<Rightarrow> ('d, unit) ax" where
  "env_update k v = sx_modify (\<lambda>g. g\<lparr>ga_environ := AList.update k (py_str v) (ga_environ g)\<rparr>)"

definition init_agent :: "'d agent_env \<Rightarrow> 'd agent_handler" where
  "init_agent env kw =
     (case res_bind (check_arguments [Mandatory ''agents_info'' is_string, Mandatory ''ip'' is_string] kw) (\<lambda>args.
           let (infos, ip) = args2 args in map_sum id (\<lambda>v. (v, ip)) (ae_loads env (py_str infos))) of
        Inl e \<Rightarrow> sx_return (HttpErrorResponse e)
      | Inr (infos, agent_ip) \<Rightarrow>
          sx_bind (sx_get (\<lambda>g. path_join (ga_var_cache g) ''agents.json'')) (\<lambda>path.
          sx_bind (write_file path (ae_dumps env infos)) (\<lambda>_.
          sx_bind (sx_lift (res_bind (infos_list infos) (\<lambda>is.
             res_bind (res_bind (select_key ''ip'' agent_ip ''role'' is) py_first) (\<lambda>agent_role.
             res_bind (res_bind (select_key ''role'' (PStr ''master'') ''ip'' is) py_first) (\<lambda>master_ip.
               Inr (agent_role, master_ip)))))) (\<lambda>(agent_role, master_ip).
          sx_bind (env_update ''MY_IP'' agent_ip) (\<lambda>_.
          sx_bind (env_update ''MY_ROLE'' agent_role) (\<lambda>_.
          sx_bind (env_update ''MASTER_IP'' master_ip) (\<lambda>_.
            sx_return (HttpJsonResponse (PDict [])))))))))"

subsection \<open>Files and directories\<close>

text \<open>
  The part of the disk the code is unpacked on: files and directories by their absolute path, without \<open>.\<close> and \<open>..\<close>;
  the root is not listed. A path given to the system is a list of components, and it is followed one component after
  the other: what comes before a component must be a directory, also before \<open>..\<close>.
\<close>

record file_tree =
  tr_dirs :: "string list"
  tr_files :: "(string \<times> string) list"

definition path_parts :: "string \<Rightarrow> string list" where
  "path_parts p = filter (\<lambda>c. c \<noteq> []) (split_on (CHR ''/'') p)"

definition real_path :: "string list \<Rightarrow> string" where
  "real_path cs = concat (map (Cons (CHR ''/'')) cs)"

definition is_directory :: "file_tree \<Rightarrow> string list \<Rightarrow> bool" where
  "is_directory t cs = (cs = [] \<or> real_path cs \<in> set (tr_dirs t))"

definition is_entry :: "file_tree \<Rightarrow> string list \<Rightarrow> bool" where
  "is_entry t cs = (is_directory t cs \<or> real_path cs \<in> set (dict_keys (tr_files t)))"

fun resolve :: "file_tree \<Rightarrow> string list \<Rightarrow> string list \<Rightarrow> string list option" where
  "resolve t cur [] = Some cur"
| "resolve t cur (c # cs) =
     (if \<not> is_directory t cur then None
      else if c = ''.'' then resolve t cur cs
      else if c = ''..'' then resolve t (butlast cur) cs
      else resolve t (cur @ [c]) cs)"

definition path_exists :: "file_tree \<Rightarrow> string list \<Rightarrow> bool" where
  "path_exists t cs = (case resolve t [] cs of None \<Rightarrow> False | Some q \<Rightarrow> is_entry t q)"

definition os_error :: "string \<Rightarrow> exn" where "os_error text = Raise EOSError text []"

text \<open>\<open>os.mkdir\<close>, and \<open>os.makedirs\<close> on the components from the last to the first.\<close>

definition make_dir :: "string list \<Rightarrow> (file_tree, unit) sx" where
  "make_dir cs = (\<lambda>t. case resolve t [] cs of
       None \<Rightarrow> (Inl (os_error ''No such file or directory''), t)
     | Some q \<Rightarrow> if is_entry t q then (Inl (os_error ''File exists''), t)
         else (Inr (), t\<lparr>tr_dirs := tr_dirs t @ [real_path q]\<rparr>))"

fun makedirs :: "string list \<Rightarrow> (file_tree, unit) sx" where
  "makedirs [] = make_dir []"
| "makedirs (tail # head) =
     sx_bind (sx_get (\<lambda>t. path_exists t (rev head))) (\<lambda>there.
     if there then make_dir (rev (tail # head))
     else
       sx_bind (sx_try (makedirs head) (\<lambda>e. if e = os_error ''File exists'' then sx_return () else sx_raise e)) (\<lambda>_.
       if tail = ''.'' then sx_return () else make_dir (rev (tail # head))))"

definition open_write :: "string list \<Rightarrow> string \<Rightarrow> (file_tree, unit) sx" where
  "open_write cs c = (\<lambda>t. case resolve t [] cs of
       None \<Rightarrow> (Inl (Raise EIOError ''No such file or directory'' []), t)
     | Some q \<Rightarrow> if is_directory t q then (Inl (Raise EIOError ''Is a directory'' []), t)
         else (Inr (), t\<lparr>tr_files := AList.update (real_path q) c (tr_files t)\<rparr>))"

definition remove_tree :: "string \<Rightarrow> (file_tree, unit) sx" where
  "remove_tree dir = (\<lambda>t.
     if dir \<in> set (dict_keys (tr_files t)) then (Inl (os_error ''Not a directory''), t)
     else (Inr (), t\<lparr>tr_dirs := filter (\<lambda>f. f \<noteq> dir \<and> \<not> starts_with f (dir @ ''/'')) (tr_dirs t),
       tr_files := filter (\<lambda>(f, _). \<not> starts_with f (dir @ ''/'')) (tr_files t)\<rparr>))"

text \<open>
  Where a regular file of an archive is written. \<open>tarfile\<close> joins the paths as they are; \<open>zipfile\<close> drops the components
  that lead out of the directory. Both make the missing directories above the file first; an error of the system
  leaves \<open>extractall\<close>.
\<close>

definition member_target :: "string \<Rightarrow> string \<Rightarrow> string \<Rightarrow> string list" where
  "member_target filetype dir name = path_parts
     (if filetype = ''zip''
      then abspath (path_join dir (join_with ''/'' (filter (\<lambda>c. c \<noteq> [] \<and> c \<noteq> ''.'' \<and> c \<noteq> ''..'') (split_on (CHR ''/'') name))))
      else path_join dir name)"

definition extract_member :: "string \<Rightarrow> string \<Rightarrow> string \<Rightarrow> string \<Rightarrow> (file_tree, unit) sx" where
  "extract_member filetype dir name c =
     (let target = member_target filetype dir name in
      sx_bind (sx_get (\<lambda>t. path_exists t (butlast target))) (\<lambda>there.
      sx_bind (if there then sx_return () else makedirs (rev (butlast target))) (\<lambda>_.
        open_write target c)))"

definition extract_all :: "string \<Rightarrow> string \<Rightarrow> (string \<times> string) list \<Rightarrow> (file_tree, unit) sx" where
  "extract_all filetype dir members = sx_for members (\<lambda>(name, c). extract_member filetype dir name c)"

text \<open>
  \<open>git_enable_revision\<close>: the files of the subdirectory of the revision, with the directories they are in, or an
  empty directory.
\<close>

definition dirs_above :: "string \<Rightarrow> string \<Rightarrow> string list" where
  "dirs_above target_dir name =
     (let parts = split_on (CHR ''/'') name
      in map (\<lambda>k. path_join target_dir (join_with ''/'' (take k parts))) [1..<length parts])"

definition git_enable_revision :: "string \<Rightarrow> (string \<times> string) list \<Rightarrow> string option \<Rightarrow> (file_tree, unit) sx" where
  "git_enable_revision target_dir checkout subdir =
     (let files = (case subdir of
          None \<Rightarrow> checkout
        | Some sub \<Rightarrow> concat (map (\<lambda>(name, c). if starts_with name (sub @ ''/'') then [(drop (length sub + 1) name, c)] else []) checkout))
      in sx_modify (\<lambda>t. t\<lparr>tr_dirs := tr_dirs t @ target_dir # concat (map (\<lambda>(name, _). dirs_above target_dir name) files),
           tr_files := fold (\<lambda>(name, c) d. AList.update (path_join target_dir name) c d) files (tr_files t)\<rparr>))"

definition agent_tree :: "'d generic_agent \<Rightarrow> file_tree" where
  "agent_tree g = \<lparr>tr_dirs = ga_dirs g, tr_files = ga_disk g\<rparr>"

definition on_tree :: "(file_tree, 'a) sx \<Rightarrow> ('d, 'a) ax" where
  "on_tree m = (\<lambda>g. let (r, t) = m (agent_tree g) in (r, g\<lparr>ga_dirs := tr_dirs t, ga_disk := tr_files t\<rparr>))"

subsection \<open>Updating the code\<close>

definition update_code_params :: "param list" where
  "update_code_params =
     [Mandatory ''filetype'' (is_in_list (map PStr [''zip'', ''tar'', ''git''])), Mandatory ''codeVersionId'' is_string,
      Optional ''file'' is_uploaded_file PNone, Optional ''revision'' is_string (PStr [])]"

definition args4 :: "pyval \<Rightarrow> pyval \<times> pyval \<times> pyval \<times> pyval" where
  "args4 v = (case v of PList [a, b, c, d] \<Rightarrow> (a, b, c, d) | _ \<Rightarrow> (PNone, PNone, PNone, PNone))"

definition update_code_request :: "kwargs \<Rightarrow> exn + string \<times> string \<times> string" where
  "update_code_request kw =
     res_bind (check_arguments update_code_params kw) (\<lambda>args.
       let (filetype, _, file, revision) = args4 args in
       if filetype \<noteq> PStr ''git'' \<and> \<not> py_truth file
       then Inl (exc ''The '%s' filetype requires an uploaded file'' [filetype])
       else if filetype = PStr ''git'' \<and> \<not> py_truth revision
       then Inl (exc ''The 'git' filetype requires the 'revision' parameter'' [])
       else Inr (py_str filetype, py_str file, py_str revision))"

text \<open>Scripts that still run are signalled and forgotten, not waited for.\<close>

definition forget_processes :: "('d, unit) ax" where
  "forget_processes = (\<lambda>g. if ga_processes g = [] then (Inr (), g)
     else sx_bind kill_all_processes (\<lambda>_. sx_modify (\<lambda>g. g\<lparr>ga_processes := []\<rparr>)) g)"

definition replace_code :: "'d agent_env \<Rightarrow> string \<Rightarrow> (string \<times> string) list \<Rightarrow> string \<Rightarrow> ('d, unit) ax" where
  "replace_code env filetype members revision =
     sx_bind (sx_get code_dir) (\<lambda>target_dir.
     sx_bind (on_tree (remove_tree target_dir)) (\<lambda>_.
     if filetype = ''git'' then
       sx_bind (sx_get (\<lambda>g. (ae_checkout env default_code_repo revision (ga_out g), ga_service_id g))) (\<lambda>(checkout, subdir).
         on_tree (git_enable_revision target_dir checkout (Some subdir)))
     else on_tree (extract_all filetype target_dir members)))"

text \<open>The archive is opened before anything is removed. A failure to replace the code leaves the handler.\<close>

definition agent_update_code :: "'d agent_env \<Rightarrow> 'd agent_handler" where
  "agent_update_code env kw =
     (case update_code_request kw of
        Inl e \<Rightarrow> sx_return (HttpErrorResponse e)
      | Inr (filetype, contents, revision) \<Rightarrow>
          sx_bind (sx_lift (if filetype = ''git'' then Inr [] else ae_archive env filetype contents)) (\<lambda>members.
          sx_bind forget_processes (\<lambda>_.
          sx_bind (replace_code env filetype members revision) (\<lambda>_.
          sx_bind (run_script ''init'' []) (\<lambda>_.
            sx_return (HttpJsonResponse (PDict [])))))))"

subsection \<open>Commands\<close>

definition valid_commands :: "string list" where
  "valid_commands = [''notify'', ''run'', ''interrupt'', ''cleanup'']"

definition script_request :: "'d agent_env \<Rightarrow> kwargs \<Rightarrow> exn + string \<times> string \<times> pyval" where
  "script_request env kw =
     res_bind (check_arguments
       [Mandatory ''command'' (is_in_list (map PStr valid_commands)),
        Optional ''parameters'' is_string (PStr []), Mandatory ''agents_info'' is_string] kw) (\<lambda>args.
       let (command, parameters, infos) = args3 args in
       map_sum id (\<lambda>v. (py_str command, py_str parameters, v)) (ae_loads env (py_str infos)))"

definition perform_command :: "string \<Rightarrow> string \<Rightarrow> ('d, unit) ax" where
  "perform_command command parameters = (\<lambda>g.
     if command = ''interrupt'' then
       (if \<not> agent_scripts_running g then (Inr (), g)
        else if script_status ''interrupt'' g = ''RUNNING'' then kill_all_processes g
        else (Inr (), g\<lparr>ga_threads := ga_threads g @ [InterruptThread parameters]\<rparr>))
     else if agent_scripts_running g then (Inr (), g)
     else run_script command parameters g)"

definition agent_execute_script :: "'d agent_env \<Rightarrow> 'd agent_handler" where
  "agent_execute_script env kw =
     (case script_request env kw of
        Inl e \<Rightarrow> sx_return (HttpErrorResponse e)
      | Inr (command, parameters, infos) \<Rightarrow>
          sx_bind (sx_get (\<lambda>g. path_join (ga_var_cache g) ''agents.json'')) (\<lambda>path.
          sx_bind (write_file path (ae_dumps env infos)) (\<lambda>_.
          sx_bind (perform_command command parameters) (\<lambda>_.
            sx_return (HttpJsonResponse (PDict []))))))"

text \<open>
  The thread of \<open>_do_interrupt\<close>, in two parts: up to \<open>process.wait()\<close>, and after it.
\<close>

definition agent_run_thread :: "nat \<Rightarrow> ('d, unit) ax" where
  "agent_run_thread n = (\<lambda>g.
     if n \<ge> length (ga_threads g) then (Inr (), g)
     else
       let g' = g\<lparr>ga_threads := take n (ga_threads g) @ drop (Suc n) (ga_threads g)\<rparr> in
       case ga_threads g ! n of
         InterruptThread parameters \<Rightarrow>
           sx_bind (run_script ''interrupt'' parameters) (\<lambda>_.
           sx_bind (sx_get (\<lambda>g. py_lookup (ga_processes g) ''interrupt'')) (\<lambda>found.
           sx_bind (sx_lift found) (\<lambda>pid.
             sx_modify (\<lambda>g. g\<lparr>ga_threads := ga_threads g @ [WaitThread pid]\<rparr>)))) g'
       | WaitThread pid \<Rightarrow> if poll pid g = None then (Inr (), g) else kill_all_processes g')"

subsection \<open>Volumes\<close>

definition shell :: "'d agent_env \<Rightarrow> string \<Rightarrow> ('d, string \<times> string) ax" where
  "shell env cmd = (\<lambda>g. let (res, d) = ae_cmd env cmd (ga_out g) in (Inr res, g\<lparr>ga_out := d\<rparr>))"

definition replace_text :: "string \<Rightarrow> string \<Rightarrow> string \<Rightarrow> string" where
  "replace_text old new s = (if old = [] then new @ concat (map (\<lambda>c. c # new) s) else py_replace old new s)"

fun has_text :: "string \<Rightarrow> string \<Rightarrow> bool" where
  "has_text t [] = (t = [])"
| "has_text t (c # cs) = (starts_with (c # cs) t \<or> has_text t cs)"

definition dev_part :: "string \<Rightarrow> exn + string" where
  "dev_part dev_name = (let parts = split_on (CHR ''/'') dev_name in
     if length parts < 3 then Inl (builtin_exn EIndexError) else Inr (parts ! 2))"

definition dev_is_attached :: "'d agent_env \<Rightarrow> string \<Rightarrow> ('d, bool) ax" where
  "dev_is_attached env dev_name =
     sx_bind (sx_get (\<lambda>g. ae_lexists env dev_name (ga_out g))) (\<lambda>there.
     if \<not> there then sx_return False
     else
       sx_bind (shell env (''sfdisk -R '' @ dev_name)) (\<lambda>_.
       sx_bind (sx_lift (dev_part dev_name)) (\<lambda>short_dev_name.
       sx_bind (shell env ''cat /proc/partitions'') (\<lambda>(partitions, _).
         sx_return (has_text short_dev_name partitions)))))"

fun wait_device :: "'d agent_env \<Rightarrow> nat \<Rightarrow> string \<Rightarrow> string \<Rightarrow> ('d, string option) ax" where
  "wait_device env 0 dev_name renamed = sx_return None"
| "wait_device env (Suc n) dev_name renamed =
     sx_bind (dev_is_attached env dev_name) (\<lambda>found.
     if found then sx_return (Some dev_name)
     else
       sx_bind (dev_is_attached env renamed) (\<lambda>found.
       if found then sx_return (Some renamed)
       else
         sx_bind (sx_modify (\<lambda>g. g\<lparr>ga_out := ae_sleep env 10 (ga_out g)\<rparr>)) (\<lambda>_.
           wait_device env n dev_name renamed)))"

text \<open>A failure to format or to mount is only logged.\<close>

definition mount :: "'d agent_env \<Rightarrow> string \<Rightarrow> string \<Rightarrow> ('d, unit) ax" where
  "mount env dev_name mount_point =
     sx_bind (sx_lift (map_sum id butlast (dev_part dev_name))) (\<lambda>dev_prefix.
     sx_bind (wait_device env 10 dev_name (replace_text dev_prefix ''xvd'' dev_name)) (\<lambda>found.
     sx_bind (shell env (''mkdir -p '' @ mount_point)) (\<lambda>_.
     case found of
       None \<Rightarrow> sx_return ()
     | Some dev \<Rightarrow>
         sx_bind (sx_modify (\<lambda>g. g\<lparr>ga_out := snd (ae_mkfs env dev (ga_out g))\<rparr>)) (\<lambda>_.
         sx_bind (shell env (''mount '' @ dev @ '' '' @ mount_point)) (\<lambda>_. sx_return ())))))"

text \<open>The agent has its own copy of the check.\<close>

definition agent_check_volume_name :: "pyval \<Rightarrow> exn + unit" where
  "agent_check_volume_name v = check_volume_name v"

definition agent_mount_volume :: "'d agent_env \<Rightarrow> 'd agent_handler" where
  "agent_mount_volume env kw =
     (case res_bind (check_arguments [Mandatory ''dev_name'' is_string, Mandatory ''vol_name'' is_string] kw) (\<lambda>args.
           let (dev_name, volume_name) = args2 args in
           res_bind (agent_check_volume_name volume_name) (\<lambda>_. Inr (''/dev/'' @ py_str dev_name, py_str volume_name))) of
        Inl e \<Rightarrow> sx_return (HttpErrorResponse e)
      | Inr (dev_name, volume_name) \<Rightarrow>
          sx_try (sx_bind (mount env dev_name (path_join volume_dir volume_name)) (\<lambda>_. sx_return (HttpJsonResponse (PDict []))))
            (\<lambda>e. sx_return (HttpErrorResponse (Wrap ''Failed to mount volume: '' [] e))))"

definition unmount :: "'d agent_env \<Rightarrow> string \<Rightarrow> ('d, unit) ax" where
  "unmount env volume_name =
     (let mount_point = path_join volume_dir volume_name in
      sx_bind (shell env (''fuser -km '' @ mount_point)) (\<lambda>_.
      sx_bind (shell env (''umount '' @ mount_point)) (\<lambda>_. sx_return ())))"

definition agent_unmount_volume :: "'d agent_env \<Rightarrow> 'd agent_handler" where
  "agent_unmount_volume env kw =
     (case res_bind (check_arguments [Mandatory ''vol_name'' is_string] kw) (\<lambda>volume_name.
           res_bind (agent_check_volume_name volume_name) (\<lambda>_. Inr (py_str volume_name))) of
        Inl e \<Rightarrow> sx_return (HttpErrorResponse e)
      | Inr volume_name \<Rightarrow>
          sx_try (sx_bind (unmount env volume_name) (\<lambda>_. sx_return (HttpJsonResponse (PDict []))))
            (\<lambda>e. sx_return (HttpErrorResponse (Wrap ''Failed to unmount volume: '' [] e))))"

subsection \<open>The agent as a server\<close>

definition agent_methods :: "'d agent_env \<Rightarrow> (string \<times> string \<times> 'd agent_handler) list" where
  "agent_methods env =
     [(''check_process'', ''GET'', agent_check_process), (''execute_script'', ''POST'', agent_execute_script env),
      (''get_log'', ''GET'', get_log), (''get_script_status'', ''GET'', agent_get_script_status),
      (''init_agent'', ''POST'', init_agent env), (''mount_volume'', ''POST'', agent_mount_volume env),
      (''unmount_volume'', ''POST'', agent_unmount_volume env), (''update_code'', ''UPLOAD'', agent_update_code env)]"

text \<open>A step of the agent: a call, a part of a thread, or a process that ends.\<close>

inductive agent_step :: "'d agent_env \<Rightarrow> 'd generic_agent \<Rightarrow> 'd generic_agent \<Rightarrow> bool" for env where
  call: "map_of (agent_methods env) name = Some (m, h) \<Longrightarrow> h kw g = (r, g') \<Longrightarrow> agent_step env g g'"
| thread: "agent_run_thread n g = (r, g') \<Longrightarrow> agent_step env g g'"
| ending: "map_of (ga_table g) pid = Some p \<Longrightarrow> pr_code p = None \<Longrightarrow>
    agent_step env g (g\<lparr>ga_table := AList.update pid (p\<lparr>pr_code := Some code\<rparr>) (ga_table g)\<rparr>)"

inductive_cases agent_stepE: "agent_step env g g'"

inductive agent_reachable :: "'d agent_env \<Rightarrow> 'd generic_agent \<Rightarrow> bool" for env where
  initial: "new_agent cfg dirs d = Inr g \<Longrightarrow> agent_reachable env g"
| step: "agent_reachable env g \<Longrightarrow> agent_step env g g' \<Longrightarrow> agent_reachable env g'"

end
