(* ===== verification/AgentProps.thy ===== *)
theory AgentProps
  imports GenericAgent
begin

text \<open>
  What the agent of a generic service guarantees of its scripts, what it reports of its volumes, and where the
  members of an archive end up.
\<close>

section \<open>One script at a time\<close>

text \<open>The scripts the agent keeps track of, and whether they run.\<close>

definition tracked_running :: "'d generic_agent \<Rightarrow> string \<Rightarrow> bool" where
  "tracked_running g command \<longleftrightarrow> (\<exists>pid. map_of (ga_processes g) command = Some pid \<and> poll pid g = None)"

definition intr :: string where "intr = ''interrupt''"

definition scripts_ok :: "'d generic_agent \<Rightarrow> bool" where
  "scripts_ok g \<longleftrightarrow>
     (\<forall>pid. map_of (ga_table g) pid \<noteq> None \<longrightarrow> pid \<le> int (length (ga_table g))) \<and>
     (\<forall>c pid. map_of (ga_processes g) c = Some pid \<longrightarrow> map_of (ga_table g) pid \<noteq> None \<and> c \<in> set script_commands) \<and>
     (\<forall>c c'. c \<noteq> intr \<longrightarrow> c' \<noteq> intr \<longrightarrow> tracked_running g c \<longrightarrow> tracked_running g c' \<longrightarrow> c = c')"

lemma int_str_stopped: "''STOPPED (return code '' @ t \<noteq> ''RUNNING''" by simp

lemma script_status_running: "script_status c g = ''RUNNING'' \<longleftrightarrow> tracked_running g c"
  by (auto simp: script_status_def tracked_running_def split: option.split)

text \<open>Everything but starting, signalling and forgetting processes leaves the property alone.\<close>

definition same_scripts :: "('d, 'a) ax \<Rightarrow> bool" where
  "same_scripts m \<longleftrightarrow> (\<forall>g. ga_processes (snd (m g)) = ga_processes g \<and> ga_table (snd (m g)) = ga_table g)"

lemma same_scripts_keeps: "same_scripts m \<Longrightarrow> sx_keeps scripts_ok m"
  by (auto simp: same_scripts_def sx_keeps_def scripts_ok_def tracked_running_def poll_def)

lemma same_scripts_tree: "same_scripts (on_tree m)"
  by (simp add: same_scripts_def on_tree_def split: prod.split)

named_theorems agent_keeps \<open>computations that keep the property of the scripts\<close>

lemma keeps_basics [agent_keeps]:
  "sx_keeps scripts_ok (sx_return x)" "sx_keeps scripts_ok (sx_lift r)" "sx_keeps scripts_ok (sx_get f)" "sx_keeps scripts_ok (sx_raise e)"
  by simp_all

lemma keeps_writes [agent_keeps]:
  "sx_keeps scripts_ok (write_file path c)" "sx_keeps scripts_ok (env_update k v)"
  "sx_keeps scripts_ok (sx_modify (\<lambda>g. g\<lparr>ga_disk := f g\<rparr>))" "sx_keeps scripts_ok (sx_modify (\<lambda>g. g\<lparr>ga_threads := h g\<rparr>))"
  "sx_keeps scripts_ok (sx_modify (\<lambda>g. g\<lparr>ga_out := k' g\<rparr>))" "sx_keeps scripts_ok (shell env cmd)"
    "sx_keeps scripts_ok (on_tree m)"
  by (auto intro!: same_scripts_keeps same_scripts_tree simp: same_scripts_def write_file_def env_update_def shell_def split: prod.splits)

lemma keeps_combined [agent_keeps]:
  "sx_keeps scripts_ok m \<Longrightarrow> (\<And>x. sx_keeps scripts_ok (f x)) \<Longrightarrow> sx_keeps scripts_ok (sx_bind m f)"
  "sx_keeps scripts_ok m \<Longrightarrow> (\<And>e. sx_keeps scripts_ok (h e)) \<Longrightarrow> sx_keeps scripts_ok (sx_try m h)"
  "(b \<Longrightarrow> sx_keeps scripts_ok m) \<Longrightarrow> (\<not> b \<Longrightarrow> sx_keeps scripts_ok m') \<Longrightarrow> sx_keeps scripts_ok (if b then m else m')"
  "(\<And>e. sx_keeps scripts_ok (p e)) \<Longrightarrow> (\<And>x. sx_keeps scripts_ok (q x)) \<Longrightarrow> sx_keeps scripts_ok (case r of Inl e \<Rightarrow> p e | Inr x \<Rightarrow> q x)"
  "sx_keeps scripts_ok u \<Longrightarrow> (\<And>x. sx_keeps scripts_ok (v x)) \<Longrightarrow> sx_keeps scripts_ok (case oo of None \<Rightarrow> u | Some x \<Rightarrow> v x)"
  "(\<And>x y. sx_keeps scripts_ok (w x y)) \<Longrightarrow> sx_keeps scripts_ok (case xy of (x, y) \<Rightarrow> w x y)"
  by (auto split: sum.split option.split prod.split)

lemma poll_signal: "map_option pr_code (map_of (signal_process pid tab) i) = map_option pr_code (map_of tab i)"
  by (induction tab) (auto simp: signal_process_def)

lemma poll_signals: "map_option pr_code (map_of (fold signal_process pids tab) i) = map_option pr_code (map_of tab i)"
  by (induction pids arbitrary: tab) (simp_all add: poll_signal)

lemma signals_length: "length (fold signal_process pids tab) = length tab"
  by (induction pids arbitrary: tab) (simp_all add: signal_process_def)

lemma signals_None: "map_of (fold signal_process pids tab) i = None \<longleftrightarrow> map_of tab i = None"
  using poll_signals [of pids tab i] by (metis map_option_is_None)

lemma poll_code: "poll pid g = (case map_option pr_code (map_of (ga_table g) pid) of None \<Rightarrow> Some 0 | Some c \<Rightarrow> c)"
  by (simp add: poll_def split: option.split)

lemma keeps_kill [agent_keeps]: "sx_keeps scripts_ok kill_all_processes"
proof (rule sx_keepsI)
  fix g :: "'d generic_agent" assume ok: "scripts_ok g"
  let ?g = "g\<lparr>ga_table := fold signal_process (dict_values (ga_processes g)) (ga_table g)\<rparr>"
  have "poll pid ?g = poll pid g" for pid by (simp add: poll_code poll_signals)
  then have "tracked_running ?g c = tracked_running g c" for c by (simp add: tracked_running_def)
  then show "scripts_ok (snd (kill_all_processes g))"
    using ok by (simp add: kill_all_processes_def scripts_ok_def signals_length signals_None)
qed

lemma keeps_forget [agent_keeps]: "sx_keeps scripts_ok (sx_modify (\<lambda>g. g\<lparr>ga_processes := []\<rparr>))"
  by (simp add: sx_keeps_def scripts_ok_def tracked_running_def)

lemma map_of_snoc: "map_of (xs @ [(k, v)]) i = (case map_of xs i of Some y \<Rightarrow> Some y | None \<Rightarrow> if i = k then Some v else None)"
  by (simp add: map_add_def split: option.split)

text \<open>Starting a script is safe for an interrupt, or when none of the others runs.\<close>

lemma run_script_ok:
  assumes "scripts_ok g" "command \<in> set script_commands" "command = intr \<or> (\<forall>c. c \<noteq> intr \<longrightarrow> \<not> tracked_running g c)"
  shows "scripts_ok (snd (run_script command parameters g))"
proof (cases "path_join (code_dir g) (command @ ''.sh'') \<notin> set (dict_keys (ga_disk g)) \<and> path_join (code_dir g) (command @ ''.sh'') \<notin> set (ga_dirs g)")
  case False
  let ?pid = "int (length (ga_table g)) + 1"
  obtain p where g': "snd (run_script command parameters g) =
      g\<lparr>ga_table := ga_table g @ [(?pid, p)], ga_processes := AList.update command ?pid (ga_processes g)\<rparr>"
    unfolding run_script_def sx_modify_def Let_def snd_conv if_not_P [OF False] by blast
  let ?g = "g\<lparr>ga_table := ga_table g @ [(?pid, p)], ga_processes := AList.update command ?pid (ga_processes g)\<rparr>"
  have fresh: "map_of (ga_table g) ?pid = None"
    using assms(1) by (force simp: scripts_ok_def)
  have poll: "map_of (ga_table g) pid \<noteq> None \<Longrightarrow> poll pid ?g = poll pid g" for pid
    by (auto simp: poll_def map_add_def split: option.splits)
  have track: "c \<noteq> command \<Longrightarrow> tracked_running ?g c = tracked_running g c" for c
    using assms(1) poll by (auto simp: tracked_running_def scripts_ok_def)
  have one: "c = c'" if "c \<noteq> intr" "c' \<noteq> intr" "tracked_running g c" "tracked_running g c'" for c c'
    using assms(1) that by (simp add: scripts_ok_def)
  have ex: "c = c'" if "c \<noteq> intr" "c' \<noteq> intr" "tracked_running ?g c" "tracked_running ?g c'" for c c'
  proof (cases "c = command \<or> c' = command")
    case False
    then show ?thesis using that track one by blast
  next
    case True
    then have "command \<noteq> intr" using that by blast
    then have "\<not> tracked_running g d" if "d \<noteq> intr" for d using assms(3) that by blast
    then have "d = command" if "d \<noteq> intr" "tracked_running ?g d" for d using that track by blast
    then show ?thesis using that by blast
  qed
  have old: "map_of (ga_table g) pid \<noteq> None \<Longrightarrow> pid \<le> int (length (ga_table g))"
    "map_of (ga_processes g) c = Some pid \<Longrightarrow> map_of (ga_table g) pid \<noteq> None \<and> c \<in> set script_commands" for c pid
    using assms(1) unfolding scripts_ok_def by blast+
  have keys: "pid \<le> int (length (ga_table ?g))" if "map_of (ga_table ?g) pid \<noteq> None" for pid
    using that old(1) [of pid] by (cases "map_of (ga_table g) pid") (auto simp: map_of_snoc split: if_splits)
  have procs: "map_of (ga_table ?g) pid \<noteq> None \<and> c \<in> set script_commands" if "map_of (ga_processes ?g) c = Some pid" for c pid
    using that old(2) [of c pid] assms(2) by (cases "c = command") (auto simp: map_of_snoc split: option.split)
  show ?thesis
    unfolding g' scripts_ok_def
    by (intro conjI allI impI) (erule keys, erule procs [THEN conjunct1], erule procs [THEN conjunct2], rule ex)
next
  case True
  then show ?thesis using assms(1) by (simp add: run_script_def Let_def del: list.set_map)
qed

lemma none_running:
  assumes "scripts_ok g" "\<not> agent_scripts_running g"
  shows "\<not> tracked_running g c"
  using assms script_status_running [of c g]
  by (auto simp: agent_scripts_running_def scripts_ok_def tracked_running_def list_ex_iff)

text \<open>A sequence whose second part may rely on what the first one establishes.\<close>

lemma sx_keeps_then:
  assumes "sx_keeps p m" "\<And>s x s'. p s \<Longrightarrow> m s = (Inr x, s') \<Longrightarrow> q x s'" "\<And>x s. p s \<Longrightarrow> q x s \<Longrightarrow> p (snd (f x s))"
  shows "sx_keeps p (sx_bind m f)"
proof (rule sx_keepsI)
  fix s assume "p s"
  obtain r s' where run: "m s = (r, s')" by fastforce
  have "p s'" using sx_keepsD [OF assms(1) \<open>p s\<close> run] .
  then show "p (snd (sx_bind m f s))"
    using assms(2) [OF \<open>p s\<close>] assms(3) run by (cases r) (auto simp: sx_bind_run)
qed

lemma keeps_init_agent [agent_keeps]: "sx_keeps scripts_ok (init_agent env kw)"
  unfolding init_agent_def by (intro agent_keeps)

lemma commands_known: "''init'' \<in> set script_commands" "''interrupt'' \<in> set script_commands"
  by (simp_all add: script_commands_def)

lemma kill_ok: "scripts_ok g \<Longrightarrow> scripts_ok (snd (kill_all_processes g))"
  by (rule keeps_kill [unfolded sx_keeps_def, rule_format])

lemma forget_ok:
  "scripts_ok g \<Longrightarrow> scripts_ok (snd (forget_processes g))" "forget_processes g = (Inr u, g') \<Longrightarrow> ga_processes g' = []"
proof -
  show "scripts_ok (snd (forget_processes g))" if "scripts_ok g"
  proof -
    have "sx_keeps scripts_ok (sx_bind kill_all_processes (\<lambda>_. sx_modify (\<lambda>g. g\<lparr>ga_processes := []\<rparr>)))"
      by (intro agent_keeps)
    from this [unfolded sx_keeps_def, rule_format, OF that] that show ?thesis by (simp add: forget_processes_def)
  qed
  show "forget_processes g = (Inr u, g') \<Longrightarrow> ga_processes g' = []"
    by (auto simp: forget_processes_def kill_all_processes_def sx_bind_run split: if_splits)
qed

lemma keeps_replace:
  assumes "\<And>g ds fs. p g \<Longrightarrow> p (g\<lparr>ga_dirs := ds, ga_disk := fs\<rparr>)"
  shows "sx_keeps p (replace_code env filetype members revision)"
proof -
  have "sx_keeps p (on_tree m)" for m :: "(file_tree, unit) sx"
    using assms by (auto simp: sx_keeps_def on_tree_def split: prod.split)
  then show ?thesis
    unfolding replace_code_def
    by (intro sx_keeps_bind) (auto intro!: sx_keeps_bind split: prod.split)
qed

lemma keeps_update_code [agent_keeps]: "sx_keeps scripts_ok (agent_update_code env kw)"
proof -
  have after: "scripts_ok (snd (sx_bind (replace_code env filetype members revision)
      (\<lambda>_. sx_bind (run_script ''init'' []) (\<lambda>_. sx_return x)) g))"
    if "scripts_ok g" "ga_processes g = []" for filetype members revision and x :: http_response and g :: "'a generic_agent"
  proof -
    let ?idle = "\<lambda>g. scripts_ok g \<and> ga_processes g = []"
    have keeps: "sx_keeps ?idle (replace_code env filetype members revision)"
      by (rule keeps_replace) (simp add: scripts_ok_def tracked_running_def poll_def)
    obtain r g1 where g1: "replace_code env filetype members revision g = (r, g1)" by fastforce
    have idle: "scripts_ok g1" "ga_processes g1 = []" using sx_keepsD [OF keeps _ g1] that by simp_all
    then have "\<And>c. \<not> tracked_running g1 c" by (simp add: tracked_running_def)
    with idle have "scripts_ok (snd (run_script ''init'' [] g1))" by (intro run_script_ok) (simp_all add: commands_known)
    then show ?thesis using g1 idle by (cases r) (simp_all add: sx_bind_run run_script_def Let_def)
  qed
  have "sx_keeps scripts_ok (sx_bind forget_processes (\<lambda>_. sx_bind (replace_code env filetype members revision)
      (\<lambda>_. sx_bind (run_script ''init'' []) (\<lambda>_. sx_return x))))" for filetype members revision and x :: http_response
    by (rule sx_keeps_then [where q = "\<lambda>_ g. ga_processes g = []"])
       (auto intro: sx_keepsI forget_ok(1) after dest: forget_ok(2))
  then show ?thesis
    unfolding agent_update_code_def
    by (auto intro!: keeps_combined(1) [OF keeps_basics(2)] split: sum.split)
qed

lemma script_request_known: "script_request env kw = Inr (command, parameters, infos) \<Longrightarrow> command \<in> set script_commands"
proof -
  assume req: "script_request env kw = Inr (command, parameters, infos)"
  let ?ps = "[Mandatory ''command'' (is_in_list (map PStr valid_commands)),
        Optional ''parameters'' is_string (PStr []), Mandatory ''agents_info'' is_string]"
  have known: "c \<in> set valid_commands \<Longrightarrow> c \<in> set script_commands" for c
    by (auto simp: valid_commands_def script_commands_def)
  have "distinct (param_names ?ps)" by simp
  from check_arguments_Inr [OF this, of kw] req show ?thesis
    by (auto simp: script_request_def res_elims list_all2_Cons1 constraint_Inr py_simps unwrap_parsed_def intro: known)
qed

lemma keeps_perform: "command \<in> set script_commands \<Longrightarrow> sx_keeps scripts_ok (perform_command command parameters)"
proof (rule sx_keepsI)
  fix g :: "'d generic_agent" assume known: "command \<in> set script_commands" and ok: "scripts_ok g"
  have "scripts_ok (snd (run_script command parameters g))" if "\<not> agent_scripts_running g"
    using run_script_ok [OF ok known] none_running [OF ok that] by blast
  moreover have "scripts_ok (snd (kill_all_processes g))" using ok by (rule kill_ok)
  moreover have "scripts_ok (g\<lparr>ga_threads := ts\<rparr>)" for ts
    using ok by (simp add: scripts_ok_def tracked_running_def poll_def)
  ultimately show "scripts_ok (snd (perform_command command parameters g))" using ok by (simp add: perform_command_def)
qed

lemma keeps_execute [agent_keeps]: "sx_keeps scripts_ok (agent_execute_script env kw)"
proof (cases "script_request env kw")
  case (Inr req)
  obtain command parameters infos where "req = (command, parameters, infos)" by (cases req) blast
  with script_request_known [of env kw] Inr have "command \<in> set script_commands" by simp
  then show ?thesis
    unfolding agent_execute_script_def Inr \<open>req = _\<close> sum.case prod.case
    by (intro keeps_combined(1) keeps_basics keeps_writes(1) keeps_perform)
qed (simp add: agent_execute_script_def)

lemma keeps_thread: "sx_keeps scripts_ok (agent_run_thread n)"
proof (rule sx_keepsI)
  fix g :: "'d generic_agent" assume ok: "scripts_ok g"
  let ?g = "g\<lparr>ga_threads := take n (ga_threads g) @ drop (Suc n) (ga_threads g)\<rparr>"
  have ok': "scripts_ok ?g" using ok by (simp add: scripts_ok_def tracked_running_def poll_def)
  have "scripts_ok (snd (run_script ''interrupt'' parameters ?g))" for parameters
    by (rule run_script_ok [OF ok' commands_known(2)]) (simp add: intr_def)
  then have run: "scripts_ok g'" if "run_script ''interrupt'' parameters ?g = (r, g')" for parameters r g'
    using that by (metis snd_conv)
  have threads: "scripts_ok (h\<lparr>ga_threads := ts\<rparr>)" if "scripts_ok h" for h :: "'d generic_agent" and ts
    using that by (simp add: scripts_ok_def tracked_running_def poll_def)
  show "scripts_ok (snd (agent_run_thread n g))"
    using ok ok' kill_ok [OF ok']
    by (auto simp: agent_run_thread_def Let_def sx_bind_run py_lookup_def
        split: agent_thread.split sum.split option.split prod.split dest: run intro: threads)
qed

lemma keeps_others [agent_keeps]:
  "sx_keeps scripts_ok (agent_check_process kw)" "sx_keeps scripts_ok (get_log kw)" "sx_keeps scripts_ok (agent_get_script_status kw)"
  by (auto intro!: same_scripts_keeps simp: same_scripts_def agent_check_process_def get_log_def agent_get_script_status_def no_args_def
      split: sum.split)

lemma keeps_dev [agent_keeps]: "sx_keeps scripts_ok (dev_is_attached env dev_name)"
  unfolding dev_is_attached_def by (intro agent_keeps)

lemma keeps_wait [agent_keeps]: "sx_keeps scripts_ok (wait_device env n dev_name renamed)"
  by (induction env n dev_name renamed rule: wait_device.induct) (simp_all only: wait_device.simps, (intro agent_keeps; assumption?)+)

lemma keeps_mount [agent_keeps]: "sx_keeps scripts_ok (mount env dev_name mount_point)" "sx_keeps scripts_ok (unmount env volume_name)"
  unfolding mount_def unmount_def Let_def by (intro agent_keeps)+

lemma keeps_volumes [agent_keeps]:
  "sx_keeps scripts_ok (agent_mount_volume env kw)" "sx_keeps scripts_ok (agent_unmount_volume env kw)"
  unfolding agent_mount_volume_def agent_unmount_volume_def by (intro agent_keeps)+

lemma update_length: "map_of xs k = Some v \<Longrightarrow> length (AList.update k u xs) = length xs"
  by (induction xs) (auto split: if_splits)

lemma agent_step_ok: "agent_step env g g' \<Longrightarrow> scripts_ok g \<Longrightarrow> scripts_ok g'"
proof (induction rule: agent_step.induct)
  case (call name m h kw g r g')
  have "sx_keeps scripts_ok (h kw)"
    using map_of_SomeD [OF call(1)] by (auto simp: agent_methods_def intro: agent_keeps)
  then show ?case using call(2,3) sx_keepsD by metis
next
  case (thread n g r g')
  then show ?case using sx_keepsD [OF keeps_thread] by metis
next
  case (ending g pid p code)
  let ?g = "g\<lparr>ga_table := AList.update pid (p\<lparr>pr_code := Some code\<rparr>) (ga_table g)\<rparr>"
  note len = update_length [OF ending(1)]
  have "tracked_running ?g c \<Longrightarrow> tracked_running g c" for c
    by (auto simp: tracked_running_def poll_def split: option.splits if_splits)
  moreover have "map_of (ga_table ?g) i \<noteq> None \<longleftrightarrow> map_of (ga_table g) i \<noteq> None" for i
    using ending(1) by simp
  ultimately show ?case using ending(3) len by (simp add: scripts_ok_def)
qed

lemma agent_reachable_ok: "agent_reachable env g \<Longrightarrow> scripts_ok g"
proof (induction rule: agent_reachable.induct)
  case (initial cfg dirs d g)
  then show ?case by (auto simp: new_agent_def scripts_ok_def tracked_running_def res_elims)
qed (rule agent_step_ok)

section \<open>Signals\<close>

lemma signal_lookup: "map_of (signal_process pid tab) i =
    map_option (\<lambda>p. if i = pid \<and> pr_code p = None then p\<lparr>pr_signals := pr_signals p @ [''SIGTERM'']\<rparr> else p) (map_of tab i)"
  by (induction tab) (auto simp: signal_process_def)

lemma signals_lookup:
  assumes "map_of tab i = Some p" "pr_code p = None"
  shows "map_of (fold signal_process pids tab) i = Some (p\<lparr>pr_signals := pr_signals p @ replicate (count_list pids i) ''SIGTERM''\<rparr>)"
  using assms
proof (induction pids arbitrary: tab p)
  case (Cons pid pids)
  let ?p = "if i = pid then p\<lparr>pr_signals := pr_signals p @ [''SIGTERM'']\<rparr> else p"
  have "map_of (signal_process pid tab) i = Some ?p" "pr_code ?p = None"
    using Cons.prems by (simp_all add: signal_lookup)
  from Cons.IH [OF this] show ?case by (cases "i = pid") simp_all
qed simp

text \<open>The handler after the request has been read and the archive has been opened.\<close>

lemma update_code_run:
  assumes "update_code_request kw = Inr (filetype, contents, revision)" "filetype = ''git'' \<or> ae_archive env filetype contents = Inr members"
    and "\<And>ms. sx_keeps p (replace_code env filetype ms revision)" "sx_keeps p (run_script ''init'' [])"
    and "p (snd (forget_processes g))"
  shows "p (snd (agent_update_code env kw g))"
proof -
  obtain h where h: "forget_processes g = (Inr (), h)"
    by (cases "ga_processes g = []") (auto simp: forget_processes_def kill_all_processes_def sx_bind_run)
  obtain ms where ms: "(if filetype = ''git'' then Inr [] else ae_archive env filetype contents) = Inr ms"
    using assms(2) by (cases "filetype = ''git''") simp_all
  let ?rest = "sx_bind (replace_code env filetype ms revision) (\<lambda>_. sx_bind (run_script ''init'' []) (\<lambda>_. sx_return (HttpJsonResponse (PDict []))))"
  have "sx_keeps p ?rest" by (intro sx_keeps_bind assms(3,4)) simp
  moreover have "p h" using assms(5) h by simp
  ultimately have "p (snd (?rest h))" by (simp add: sx_keeps_def)
  moreover have "agent_update_code env kw g = ?rest h"
    unfolding agent_update_code_def assms(1) sum.case prod.case ms by (simp add: sx_bind_run h)
  ultimately show ?thesis by simp
qed

section \<open>A sample agent\<close>

definition sample_infos :: pyval where
  "sample_infos = PList [PDict [(''id'', PStr ''iaas1''), (''ip'', PStr ''10.0.0.1''), (''role'', PStr ''master'')]]"

definition sample_aenv :: "unit agent_env" where
  "sample_aenv =
     \<lparr>ae_loads = (\<lambda>t. Inr sample_infos), ae_dumps = (\<lambda>v. ''json''),
      ae_archive = (\<lambda>filetype c. Inr [(''init.sh'', c), (''run.sh'', c)]),
      ae_checkout = (\<lambda>repo rev d. []), ae_cmd = (\<lambda>cmd d. (([], []), d)), ae_lexists = (\<lambda>path d. False),
      ae_mkfs = (\<lambda>dev d. (0, d)), ae_sleep = (\<lambda>n d. d)\<rparr>"

definition sample_agent_config :: config where
  "sample_agent_config = [(''agent'', [(''type'', ''generic''), (''user_id'', ''1''), (''service_id'', ''1''),
     (''log_file'', ''/var/log/cpsagent.log''), (''conpaas_home'', ''/root''), (''var_cache'', ''/var/cache/cpsagent'')])]"

datatype aact = Call string kwargs | Part nat | End int int

definition aperform :: "aact \<Rightarrow> unit generic_agent \<Rightarrow> unit generic_agent" where
  "aperform act g = (case act of
       Call name kw \<Rightarrow> (case map_of (agent_methods sample_aenv) name of None \<Rightarrow> g | Some (_, h) \<Rightarrow> snd (h kw g))
     | Part n \<Rightarrow> snd (agent_run_thread n g)
     | End pid code \<Rightarrow> (case map_of (ga_table g) pid of
           Some p \<Rightarrow> if pr_code p = None then g\<lparr>ga_table := AList.update pid (p\<lparr>pr_code := Some code\<rparr>) (ga_table g)\<rparr> else g
         | None \<Rightarrow> g))"

lemma aperform_step: "aperform act g = g \<or> agent_step sample_aenv g (aperform act g)"
proof (cases act)
  case (Call name kw)
  then show ?thesis
    using agent_step.call [of sample_aenv name _ _ kw g "fst (_ kw g)"]
    by (auto simp: aperform_def split: option.splits intro: agent_step.call [OF _ prod.collapse [symmetric]])
next
  case (Part n)
  have "agent_step sample_aenv g (snd (agent_run_thread n g))" by (rule agent_step.thread [OF prod.collapse [symmetric]])
  then show ?thesis using Part by (simp add: aperform_def)
next
  case (End pid code)
  then show ?thesis by (auto simp: aperform_def intro: agent_step.ending split: option.splits)
qed

lemma aperform_reachable: "agent_reachable sample_aenv g \<Longrightarrow> agent_reachable sample_aenv (fold aperform acts g)"
proof (induction acts arbitrary: g)
  case (Cons act acts)
  then show ?case using aperform_step [of act g] by (auto intro: agent_reachable.step)
qed simp

definition sample_dirs :: "string list" where
  "sample_dirs = [''/root'', ''/var'', ''/var/cache'', ''/var/cache/cpsagent'']"

definition fresh_agent :: "unit generic_agent" where
  "fresh_agent = (case new_agent sample_agent_config sample_dirs () of Inr g \<Rightarrow> g | Inl _ \<Rightarrow> undefined)"

lemma fresh_agent: "new_agent sample_agent_config sample_dirs () = Inr fresh_agent"
proof -
  have "case new_agent sample_agent_config sample_dirs () of Inr g \<Rightarrow> True | Inl _ \<Rightarrow> False" by code_simp
  then show ?thesis by (auto simp: fresh_agent_def split: sum.splits)
qed

definition sample_update :: kwargs where
  "sample_update = [(''filetype'', PStr ''tar''), (''codeVersionId'', PStr ''code-default''), (''file'', PFile ''code'' ''text'')]"

text \<open>Code is installed, its \<open>init\<close> ends, and \<open>run\<close> is started.\<close>

definition busy_agent :: "unit generic_agent" where
  "busy_agent = fold aperform [Call ''update_code'' sample_update, End 1 0,
     Call ''execute_script'' [(''command'', PStr ''run''), (''agents_info'', PStr ''[]'')]] fresh_agent"

lemma busy_reachable: "agent_reachable sample_aenv busy_agent"
  unfolding busy_agent_def by (intro aperform_reachable agent_reachable.initial) (rule fresh_agent)

text \<open>A state is evaluated once, to what the properties need of it.\<close>

definition agent_sketch :: "unit generic_agent \<Rightarrow> (string \<times> int) list \<times> (int \<times> int option) list \<times> nat" where
  "agent_sketch g = (ga_processes g, map (\<lambda>(i, p). (i, pr_code p)) (ga_table g), length (ga_threads g))"

lemma busy_sketch: "agent_sketch busy_agent = ([(''init'', 1), (''run'', 2)], [(1, Some 0), (2, None)], 0)"
  by code_simp

lemma map_of_codes: "map_option pr_code (map_of tab i) = map_of (map (\<lambda>(i, p). (i, pr_code p)) tab) i"
  by (induction tab) auto

lemma busy_state:
  "script_status ''run'' busy_agent = ''RUNNING''" "map_of (ga_processes busy_agent) ''run'' = Some 2"
  "\<exists>p. map_of (ga_table busy_agent) 2 = Some p \<and> pr_code p = None"
proof -
  have sk: "ga_processes busy_agent = [(''init'', 1), (''run'', 2)]"
    "map (\<lambda>(i, p). (i, pr_code p)) (ga_table busy_agent) = [(1, Some 0), (2, None)]"
    using busy_sketch by (simp_all only: agent_sketch_def prod.inject)
  have code: "map_option pr_code (map_of (ga_table busy_agent) 2) = Some None"
    unfolding map_of_codes sk by simp
  then show alive: "\<exists>p. map_of (ga_table busy_agent) 2 = Some p \<and> pr_code p = None" by auto
  show filed: "map_of (ga_processes busy_agent) ''run'' = Some 2" by (simp add: sk(1))
  show "script_status ''run'' busy_agent = ''RUNNING''"
    using alive by (auto simp: script_status_def filed poll_def)
qed

text \<open>
  Claim C13. An agent runs one script at a time, as far as it knows: in every state it can reach, by
  any calls, threads and ends of processes, at most one of the scripts other than \<open>interrupt\<close> has the
  status \<open>RUNNING\<close>. An update of the code whose request is in order, whether or not the code can then be replaced,
  sends \<open>SIGTERM\<close> to every script the agent keeps track of that still runs, does nothing else to its process, and forgets them all:
  afterwards it knows of no script but \<open>init\<close>.
\<close>

theorem one_script_at_a_time:
  assumes "agent_reachable env g"
  shows "(\<forall>c c'. c \<noteq> ''interrupt'' \<longrightarrow> c' \<noteq> ''interrupt'' \<longrightarrow> script_status c g = ''RUNNING'' \<longrightarrow>
      script_status c' g = ''RUNNING'' \<longrightarrow> c = c') \<and>
    (\<forall>kw filetype contents revision members. update_code_request kw = Inr (filetype, contents, revision) \<longrightarrow>
      filetype = ''git'' \<or> ae_archive env filetype contents = Inr members \<longrightarrow>
      set (dict_keys (ga_processes (snd (agent_update_code env kw g)))) \<subseteq> {''init''} \<and>
      (\<forall>c pid p. map_of (ga_processes g) c = Some pid \<longrightarrow> map_of (ga_table g) pid = Some p \<longrightarrow> pr_code p = None \<longrightarrow>
        (\<exists>k>0. map_of (ga_table (snd (agent_update_code env kw g))) pid =
          Some (p\<lparr>pr_signals := pr_signals p @ replicate k ''SIGTERM''\<rparr>))))"
proof (intro conjI allI impI)
  have "\<forall>c c'. c \<noteq> intr \<longrightarrow> c' \<noteq> intr \<longrightarrow> tracked_running g c \<longrightarrow> tracked_running g c' \<longrightarrow> c = c'"
    using agent_reachable_ok [OF assms] unfolding scripts_ok_def by (elim conjE)
  then show "c = c'" if "c \<noteq> ''interrupt''" "c' \<noteq> ''interrupt''" "script_status c g = ''RUNNING''" "script_status c' g = ''RUNNING''" for c c'
    using that unfolding script_status_running intr_def by blast
next
  fix kw filetype contents revision members
  assume request: "update_code_request kw = Inr (filetype, contents, revision)" "filetype = ''git'' \<or> ae_archive env filetype contents = Inr members"
  show "set (dict_keys (ga_processes (snd (agent_update_code env kw g)))) \<subseteq> {''init''}"
  proof (rule update_code_run [OF request, where p = "\<lambda>g. set (dict_keys (ga_processes g)) \<subseteq> {''init''}"])
    show "sx_keeps (\<lambda>g. set (dict_keys (ga_processes g)) \<subseteq> {''init''}) (replace_code env filetype ms revision)" for ms
      by (rule keeps_replace) simp
    show "sx_keeps (\<lambda>g. set (dict_keys (ga_processes g)) \<subseteq> {''init''}) (run_script ''init'' [])"
      by (auto simp: sx_keeps_def run_script_def Let_def dom_update simp del: list.set_map)
    show "set (dict_keys (ga_processes (snd (forget_processes g)))) \<subseteq> {''init''}"
      by (simp add: forget_processes_def kill_all_processes_def sx_bind_run)
  qed
  fix c pid p
  assume tracked: "map_of (ga_processes g) c = Some pid" "map_of (ga_table g) pid = Some p" "pr_code p = None"
  let ?pids = "dict_values (ga_processes g)"
  let ?p = "p\<lparr>pr_signals := pr_signals p @ replicate (count_list ?pids pid) ''SIGTERM''\<rparr>"
  have pid: "pid \<in> set ?pids" using map_of_SomeD [OF tracked(1)] by force
  have "map_of (ga_table (snd (agent_update_code env kw g))) pid = Some ?p"
  proof (rule update_code_run [OF request, where p = "\<lambda>g. map_of (ga_table g) pid = Some ?p"])
    show "map_of (ga_table (snd (forget_processes g))) pid = Some ?p"
      using signals_lookup [OF tracked(2,3), of ?pids] tracked(1)
      by (auto simp: forget_processes_def kill_all_processes_def sx_bind_run)
    show "sx_keeps (\<lambda>g. map_of (ga_table g) pid = Some ?p) (replace_code env filetype ms revision)" for ms
      by (rule keeps_replace) simp
    show "sx_keeps (\<lambda>g. map_of (ga_table g) pid = Some ?p) (run_script ''init'' [])"
      by (simp add: sx_keeps_def run_script_def Let_def map_of_snoc)
  qed
  moreover have "count_list ?pids pid > 0" using pid by (metis count_list_0_iff neq0_conv)
  ultimately show "\<exists>k>0. map_of (ga_table (snd (agent_update_code env kw g))) pid =
      Some (p\<lparr>pr_signals := pr_signals p @ replicate k ''SIGTERM''\<rparr>)" by blast
qed

theorem one_script_at_a_time_witness:
  "script_status ''run'' busy_agent = ''RUNNING'' \<and>
   (\<exists>p k. map_of (ga_table (snd (agent_update_code sample_aenv sample_update busy_agent))) 2 =
      Some (p\<lparr>pr_signals := pr_signals p @ replicate k ''SIGTERM''\<rparr>) \<and> 0 < k)"
proof
  show "script_status ''run'' busy_agent = ''RUNNING''" by (rule busy_state)
  obtain p where p: "map_of (ga_table busy_agent) 2 = Some p" "pr_code p = None" using busy_state(3) by blast
  have request: "update_code_request sample_update = Inr (''tar'', ''text'', [])" by code_simp
  have "ae_archive sample_aenv ''tar'' ''text'' = Inr [(''init.sh'', ''text''), (''run.sh'', ''text'')]" by (simp add: sample_aenv_def)
  then have "''tar'' = ''git'' \<or> ae_archive sample_aenv ''tar'' ''text'' = Inr [(''init.sh'', ''text''), (''run.sh'', ''text'')]" by (rule disjI2)
  from one_script_at_a_time [OF busy_reachable, THEN conjunct2, rule_format, OF request this, THEN conjunct2, rule_format, OF busy_state(2) p]
  show "\<exists>p k. map_of (ga_table (snd (agent_update_code sample_aenv sample_update busy_agent))) 2 =
      Some (p\<lparr>pr_signals := pr_signals p @ replicate k ''SIGTERM''\<rparr>) \<and> 0 < k" by blast
qed

section \<open>Volumes\<close>

lemma dev_part_dev: "\<exists>p. dev_part (''/dev/'' @ dev) = Inr p"
  using split_on_nonempty [of "CHR ''/''" dev] by (cases "split_on (CHR ''/'') dev") (auto simp: dev_part_def Let_def)

lemma is_string_PStr: "is_string (PStr s) = Inr (PStr s)"
  by (simp add: is_string_def type_constraint_def is_constraint_def guard_def)

lemma wait_device_never:
  assumes "\<And>x. \<not> ae_lexists env dev x" "\<And>x. \<not> ae_lexists env renamed x"
  shows "wait_device env n dev renamed g = (Inr None, g\<lparr>ga_out := (ae_sleep env 10 ^^ n) (ga_out g)\<rparr>)"
  by (induction n arbitrary: g) (simp_all add: dev_is_attached_def assms sx_bind_run funpow_swap1)

definition dev_renamed :: "string \<Rightarrow> string" where
  "dev_renamed dev = (case dev_part dev of Inl _ \<Rightarrow> dev | Inr p \<Rightarrow> replace_text (butlast p) ''xvd'' dev)"

lemma mount_never:
  assumes "dev_part dv = Inr p" "\<And>x. \<not> ae_lexists env dv x" "\<And>x. \<not> ae_lexists env (replace_text (butlast p) ''xvd'' dv) x"
  shows "mount env dv mount_point g = (Inr (), g\<lparr>ga_out :=
    snd (ae_cmd env (''mkdir -p '' @ mount_point) ((ae_sleep env 10 ^^ 10) (ga_out g)))\<rparr>)"
  using wait_device_never [OF assms(2,3), of 10 g]
  by (simp add: mount_def assms(1) sx_bind_run shell_def split: prod.split)

text \<open>
  Mounting reports success without a device: when neither the device nor its renamed form ever
  appears, the agent waits ten times ten seconds, makes the mount point and nothing else, and answers
  the empty object of a success; nothing is formatted and nothing is mounted.
\<close>

theorem mount_without_device:
  assumes "check_volume_name (PStr name) = Inr ()"
    and "\<And>x. \<not> ae_lexists env (''/dev/'' @ dev) x" "\<And>x. \<not> ae_lexists env (dev_renamed (''/dev/'' @ dev)) x"
  shows "agent_mount_volume env [(''dev_name'', PStr dev), (''vol_name'', PStr name)] g = (Inr (HttpJsonResponse (PDict [])),
    g\<lparr>ga_out := snd (ae_cmd env (''mkdir -p '' @ path_join volume_dir name) ((ae_sleep env 10 ^^ 10) (ga_out g)))\<rparr>)"
proof -
  obtain p where p: "dev_part (''/dev/'' @ dev) = Inr p" using dev_part_dev by blast
  have never: "\<And>x. \<not> ae_lexists env (replace_text (butlast p) ''xvd'' (''/dev/'' @ dev)) x"
    using assms(3) unfolding dev_renamed_def p sum.case .
  have args: "check_arguments [Mandatory ''dev_name'' is_string, Mandatory ''vol_name'' is_string]
      [(''dev_name'', PStr dev), (''vol_name'', PStr name)] = Inr (PList [PStr dev, PStr name])"
    by (simp add: check_arguments_def is_string_PStr unwrap_parsed_def)
  have request: "res_bind (check_arguments [Mandatory ''dev_name'' is_string, Mandatory ''vol_name'' is_string]
      [(''dev_name'', PStr dev), (''vol_name'', PStr name)])
      (\<lambda>args. let (dev_name, volume_name) = args2 args in
        res_bind (agent_check_volume_name volume_name) (\<lambda>_. Inr (''/dev/'' @ py_str dev_name, py_str volume_name))) =
      Inr (''/dev/'' @ dev, name)"
    by (simp add: args args_simps agent_check_volume_name_def assms(1) py_str_def)
  show ?thesis
    unfolding agent_mount_volume_def request sum.case prod.case
    by (simp only: sx_try_def sx_bind_run mount_never [OF p assms(2) never] prod.case sum.case sx_return_def)
qed

theorem mount_without_device_witness:
  "agent_mount_volume sample_aenv [(''dev_name'', PStr ''sdb''), (''vol_name'', PStr ''data'')] busy_agent =
    (Inr (HttpJsonResponse (PDict [])), busy_agent\<lparr>ga_out :=
      snd (ae_cmd sample_aenv (''mkdir -p '' @ path_join volume_dir ''data'') ((ae_sleep sample_aenv 10 ^^ 10) (ga_out busy_agent)))\<rparr>)"
proof (rule mount_without_device)
  show "check_volume_name (PStr ''data'') = Inr ()" by code_simp
qed (simp_all add: sample_aenv_def)

section \<open>Members of an archive\<close>

lemma forget_disk: "\<exists>h. forget_processes g = (Inr (), h) \<and> agent_tree h = agent_tree g \<and> code_dir h = code_dir g \<and>
    ga_environ h = ga_environ g \<and> ga_out h = ga_out g \<and> ga_service_id h = ga_service_id g"
  by (simp add: forget_processes_def kill_all_processes_def sx_bind_run code_dir_def agent_tree_def)

lemma file_request:
  assumes "filetype \<in> {''tar'', ''zip''}"
  shows "update_code_request [(''codeVersionId'', PStr v), (''filetype'', PStr filetype), (''file'', PFile f contents)] =
    Inr (filetype, contents, [])"
proof -
  let ?kw = "[(''codeVersionId'', PStr v), (''filetype'', PStr filetype), (''file'', PFile f contents)]"
  have "is_in_list (map PStr [''zip'', ''tar'', ''git'']) (PStr ''tar'') = Inr (PStr ''tar'')"
    "is_in_list (map PStr [''zip'', ''tar'', ''git'']) (PStr ''zip'') = Inr (PStr ''zip'')" by code_simp+
  then have kind: "is_in_list (map PStr [''zip'', ''tar'', ''git'']) (PStr filetype) = Inr (PStr filetype)"
    using assms by (elim insertE) simp_all
  have upload: "is_uploaded_file (PFile f contents) = Inr (PFile f contents)"
    by (simp add: is_uploaded_file_def type_constraint_def is_constraint_def guard_def)
  have "check_arguments update_code_params ?kw = Inr (PList [PStr filetype, PStr v, PFile f contents, PStr []])"
    by (simp add: update_code_params_def check_arguments_def kind [simplified] upload is_string_PStr unwrap_parsed_def)
  moreover have "filetype \<noteq> ''git''" using assms by auto
  ultimately show ?thesis by (simp add: update_code_request_def args4_def py_str_def)
qed

text \<open>Removing the old code and unpacking an archive.\<close>

definition unpack_code :: "string \<Rightarrow> string \<Rightarrow> (string \<times> string) list \<Rightarrow> (file_tree, unit) sx" where
  "unpack_code filetype dir members = sx_bind (remove_tree dir) (\<lambda>_. extract_all filetype dir members)"

lemma replace_code_archive:
  assumes "filetype \<noteq> ''git''" "unpack_code filetype (code_dir g) members (agent_tree g) = (Inr (), t)"
  shows "replace_code env filetype members revision g = (Inr (), g\<lparr>ga_dirs := tr_dirs t, ga_disk := tr_files t\<rparr>)"
proof -
  obtain r t1 where r: "remove_tree (code_dir g) (agent_tree g) = (r, t1)" by fastforce
  let ?g = "g\<lparr>ga_dirs := tr_dirs t1, ga_disk := tr_files t1\<rparr>"
  have tree: "agent_tree ?g = t1" by (simp add: agent_tree_def)
  have "extract_all filetype (code_dir g) members t1 = (Inr (), t)" "r = Inr ()"
    using assms(2) r by (auto simp: unpack_code_def sx_bind_run split: sum.splits)
  then show ?thesis
    using assms(1) r tree by (simp add: replace_code_def sx_bind_run on_tree_def)
qed

lemma update_code_disk:
  assumes "update_code_request kw = Inr (filetype, contents, fl)" "filetype \<noteq> ''git''" "ae_archive env filetype contents = Inr members"
    and "unpack_code filetype (code_dir g) members (agent_tree g) = (Inr (), t)"
  shows "\<exists>g'. agent_update_code env kw g = (Inr (HttpJsonResponse (PDict [])), g') \<and> agent_tree g' = t \<and>
    ga_environ g' = ga_environ g \<and> ga_out g' = ga_out g"
proof -
  obtain h where h: "forget_processes g = (Inr (), h)" "agent_tree h = agent_tree g" "code_dir h = code_dir g"
      "ga_environ h = ga_environ g" "ga_out h = ga_out g"
    using forget_disk by blast
  have "unpack_code filetype (code_dir h) members (agent_tree h) = (Inr (), t)" using assms(4) by (simp add: h)
  note replaced = replace_code_archive [OF assms(2) this, of env fl]
  show ?thesis
    by (simp add: agent_update_code_def assms(1-3) sx_bind_run h replaced run_script_def Let_def agent_tree_def)
qed

text \<open>Paths whose components are names are followed to themselves.\<close>

definition plain_name :: "string \<Rightarrow> bool" where
  "plain_name c \<longleftrightarrow> c \<noteq> [] \<and> c \<noteq> ''.'' \<and> c \<noteq> ''..''"

lemma resolve_plain: "resolve t cur cs = Some q \<Longrightarrow> list_all plain_name cs \<Longrightarrow> q = cur @ cs"
  by (induction t cur cs rule: resolve.induct) (auto simp: plain_name_def split: if_splits)

lemma make_dir_files: "make_dir cs t = (r, t') \<Longrightarrow> tr_files t' = tr_files t"
  by (auto simp: make_dir_def split: option.splits if_splits)

lemma makedirs_files: "makedirs cs t = (r, t') \<Longrightarrow> tr_files t' = tr_files t"
proof (induction cs arbitrary: t r t')
  case Nil
  then show ?case by (simp add: make_dir_files)
next
  case (Cons tail head)
  obtain r1 t1 where run: "makedirs head t = (r1, t1)" by fastforce
  have "tr_files t1 = tr_files t" by (rule Cons.IH [OF run])
  then show ?case
    using Cons.prems run by (cases r1) (auto simp: sx_bind_run sx_try_def sx_raise_def dest!: make_dir_files split: if_splits)
qed

lemma extract_plain:
  assumes "extract_member filetype dir name c t = (Inr (), t')" "list_all plain_name (member_target filetype dir name)"
  shows "tr_files t' = AList.update (real_path (member_target filetype dir name)) c (tr_files t)"
proof -
  let ?target = "member_target filetype dir name"
  obtain r t1 where t1: "(if path_exists t (butlast ?target) then sx_return () else makedirs (rev (butlast ?target))) t = (r, t1)"
    by fastforce
  have files: "tr_files t1 = tr_files t" using t1 makedirs_files by (auto split: if_splits)
  have "open_write ?target c t1 = (Inr (), t')"
    using assms(1) t1 by (cases r) (auto simp: extract_member_def Let_def sx_bind_run split: if_splits)
  then show ?thesis
    using resolve_plain [of t1 "[]" ?target] assms(2) by (auto simp: open_write_def files split: option.splits if_splits)
qed

lemma extract_all_plain:
  assumes "extract_all filetype dir members t = (Inr (), t')" "\<forall>m \<in> set members. list_all plain_name (member_target filetype dir (fst m))"
  shows "tr_files t' = fold (\<lambda>(name, c). AList.update (real_path (member_target filetype dir name)) c) members (tr_files t)"
  using assms
proof (induction members arbitrary: t)
  case (Cons m members)
  obtain name c where m: "m = (name, c)" by fastforce
  obtain r t1 where run: "extract_member filetype dir name c t = (r, t1)" by fastforce
  with Cons.prems(1) have rest: "r = Inr ()" "extract_all filetype dir members t1 = (Inr (), t')"
    by (auto simp: extract_all_def m sx_bind_run split: sum.splits)
  have "list_all plain_name (member_target filetype dir name)" using Cons.prems(2) by (simp add: m)
  from extract_plain [OF run [unfolded rest(1)] this] Cons.IH [OF rest(2)] Cons.prems(2) show ?case by (simp add: m)
qed (simp add: extract_all_def)

text \<open>
  An archive that leaves its directory: its first file has a directory made to step up from, its second one steps up
  to the root.
\<close>

definition escaping_members :: "string \<Rightarrow> string \<Rightarrow> string \<Rightarrow> string \<Rightarrow> (string \<times> string) list" where
  "escaping_members d f b c = [(''x/y'', b), (''x/../../../../../'' @ d @ ''/'' @ f, c)]"

definition bin_dir :: "string list" where "bin_dir = [''var'', ''cache'', ''cpsagent'', ''bin'']"

lemma escaping_targets:
  assumes "plain_name d" "plain_name f" "CHR ''/'' \<notin> set d" "CHR ''/'' \<notin> set f"
  shows "member_target ''tar'' ''/var/cache/cpsagent/bin'' ''x/y'' = bin_dir @ [''x'', ''y'']"
    "member_target ''tar'' ''/var/cache/cpsagent/bin'' (''x/../../../../../'' @ d @ ''/'' @ f) =
      bin_dir @ [''x'', ''..'', ''..'', ''..'', ''..'', ''..'', d, f]"
proof -
  show "member_target ''tar'' ''/var/cache/cpsagent/bin'' ''x/y'' = bin_dir @ [''x'', ''y'']" by code_simp
  have "split_on (CHR ''/'') (d @ CHR ''/'' # f) = [d, f]" using assms by (simp add: split_on_append split_on_single)
  then show "member_target ''tar'' ''/var/cache/cpsagent/bin'' (''x/../../../../../'' @ d @ ''/'' @ f) =
      bin_dir @ [''x'', ''..'', ''..'', ''..'', ''..'', ''..'', d, f]"
    using assms(1,2) by (simp add: member_target_def path_parts_def path_join_def starts_with_def bin_dir_def plain_name_def)
qed

lemma resolve_append:
  "resolve t cur (cs @ ds) = (case resolve t cur cs of None \<Rightarrow> None | Some q \<Rightarrow> resolve t q ds)"
  by (induction t cur cs rule: resolve.induct) simp_all

lemma more_dirs:
  "is_directory (t\<lparr>tr_dirs := tr_dirs t @ ds\<rparr>) cs \<longleftrightarrow> is_directory t cs \<or> real_path cs \<in> set ds"
  "is_entry (t\<lparr>tr_dirs := tr_dirs t @ ds\<rparr>) cs \<longleftrightarrow> is_entry t cs \<or> real_path cs \<in> set ds"
  by (auto simp: is_directory_def is_entry_def)

text \<open>The directories above that of the code.\<close>

definition above_bin :: "file_tree \<Rightarrow> bool" where
  "above_bin t = list_all (\<lambda>k. is_directory t (take k bin_dir)) [1, 2, 3]"

lemma above_mono: "(\<And>cs. is_directory t cs \<Longrightarrow> is_directory u cs) \<Longrightarrow> above_bin t \<Longrightarrow> above_bin u"
  by (simp add: above_bin_def)

lemma resolve_bin: "above_bin t \<Longrightarrow> resolve t [] bin_dir = Some bin_dir"
  by (simp add: above_bin_def bin_dir_def) (simp add: is_directory_def)

lemma first_member:
  assumes "above_bin t" "\<And>cs. \<not> is_entry t (bin_dir @ cs)"
  shows "extract_member ''tar'' ''/var/cache/cpsagent/bin'' ''x/y'' b t = (Inr (), t\<lparr>
    tr_dirs := tr_dirs t @ [real_path bin_dir, real_path (bin_dir @ [''x''])],
    tr_files := AList.update (real_path (bin_dir @ [''x'', ''y''])) b (tr_files t)\<rparr>)"
proof -
  let ?t1 = "t\<lparr>tr_dirs := tr_dirs t @ [real_path bin_dir]\<rparr>"
  let ?t2 = "t\<lparr>tr_dirs := tr_dirs t @ [real_path bin_dir, real_path (bin_dir @ [''x''])]\<rparr>"
  have none: "\<not> is_entry t bin_dir" "\<not> is_entry t (bin_dir @ [''x''])" "\<not> is_entry t (bin_dir @ [''x'', ''y''])"
    using assms(2) [of "[]"] assms(2) [of "[''x'']"] assms(2) [of "[''x'', ''y'']"] by simp_all
  then have dirs: "\<not> is_directory t bin_dir" "\<not> is_directory t (bin_dir @ [''x'', ''y''])" by (simp_all add: is_entry_def)
  have paths: "real_path (bin_dir @ [''x'']) \<noteq> real_path bin_dir" "real_path (bin_dir @ [''x'', ''y'']) \<noteq> real_path bin_dir"
    "real_path (bin_dir @ [''x'', ''y'']) \<noteq> real_path (bin_dir @ [''x''])"
    by (simp_all add: real_path_def bin_dir_def)
  have above: "above_bin ?t1" "above_bin ?t2" using assms(1) by (simp_all add: above_bin_def more_dirs)
  note top = resolve_bin [OF assms(1)] resolve_bin [OF above(1)] resolve_bin [OF above(2)]
  have first: "makedirs (rev bin_dir) t = (Inr (), ?t1)"
  proof -
    have "resolve t [] [''var'', ''cache'', ''cpsagent''] = Some [''var'', ''cache'', ''cpsagent'']" "is_entry t [''var'', ''cache'', ''cpsagent'']"
      using assms(1) by (simp_all add: above_bin_def bin_dir_def is_entry_def) (simp add: is_directory_def)
    then have "path_exists t (rev [''cpsagent'', ''cache'', ''var''])" by (simp add: path_exists_def)
    moreover have "rev bin_dir = ''bin'' # [''cpsagent'', ''cache'', ''var'']" "rev (''bin'' # [''cpsagent'', ''cache'', ''var'']) = bin_dir"
      by (simp_all add: bin_dir_def)
    ultimately show ?thesis using top(1) none(1) by (simp only: makedirs.simps) (simp add: sx_bind_run make_dir_def)
  qed
  have second: "makedirs (rev (bin_dir @ [''x''])) t = (Inr (), ?t2)"
  proof -
    have "\<not> path_exists t (rev (rev bin_dir))" using top(1) none(1) by (simp add: path_exists_def)
    moreover have "make_dir (bin_dir @ [''x'']) ?t1 = (Inr (), ?t2)"
      using top(2) none(2) paths(1) by (simp add: make_dir_def resolve_append more_dirs)
    ultimately show ?thesis using first by (simp add: sx_bind_run sx_try_def)
  qed
  have there: "\<not> path_exists t (bin_dir @ [''x''])" using top(1) dirs(1) by (simp add: path_exists_def resolve_append)
  have target: "member_target ''tar'' ''/var/cache/cpsagent/bin'' ''x/y'' = bin_dir @ [''x'', ''y'']" by code_simp
  have upper: "butlast (bin_dir @ [''x'', ''y'']) = bin_dir @ [''x'']" by (simp add: bin_dir_def)
  have "open_write (bin_dir @ [''x'', ''y'']) b ?t2 = (Inr (), ?t2\<lparr>tr_files := AList.update (real_path (bin_dir @ [''x'', ''y''])) b (tr_files t)\<rparr>)"
    using top(3) dirs(2) paths by (simp add: open_write_def resolve_append more_dirs)
  then show ?thesis
    unfolding extract_member_def Let_def target upper using there second by (simp add: sx_bind_run)
qed

lemma second_member:
  assumes "above_bin t" "is_directory t bin_dir" "is_directory t (bin_dir @ [''x''])" "is_directory t [d]" "\<not> is_directory t [d, f]"
    and "plain_name d" "plain_name f" "CHR ''/'' \<notin> set d" "CHR ''/'' \<notin> set f"
  shows "extract_member ''tar'' ''/var/cache/cpsagent/bin'' (''x/../../../../../'' @ d @ ''/'' @ f) c t =
    (Inr (), t\<lparr>tr_files := AList.update (real_path [d, f]) c (tr_files t)\<rparr>)"
proof -
  let ?up = "bin_dir @ [''x'', ''..'', ''..'', ''..'', ''..'', ''..'', d]"
  have up: "resolve t [] ?up = Some [d]"
    using assms(1-3,6) resolve_bin [OF assms(1)]
    by (simp add: resolve_append above_bin_def plain_name_def) (simp add: bin_dir_def is_directory_def)
  then have there: "path_exists t ?up" using assms(4) by (simp add: path_exists_def is_entry_def)
  have target: "resolve t [] (?up @ [f]) = Some [d, f]"
    using up assms(4,7) by (simp only: resolve_append) (simp add: plain_name_def)
  have cut: "butlast (?up @ [f]) = ?up" by (rule butlast_snoc)
  have whole: "bin_dir @ [''x'', ''..'', ''..'', ''..'', ''..'', ''..'', d, f] = ?up @ [f]" by simp
  show ?thesis
    unfolding extract_member_def Let_def escaping_targets(2) [OF assms(6-9)] whole
    by (simp only: cut there sx_bind_run sx_runs if_True prod.case sum.case open_write_def target option.case) (simp add: assms(5))
qed

lemma bin_prefix:
  assumes "CHR ''/'' # d @ CHR ''/'' # f = real_path (bin_dir @ cs)" "CHR ''/'' \<notin> set d" "CHR ''/'' \<notin> set f"
  shows False
proof -
  have "split_on (CHR ''/'') (CHR ''/'' # d @ CHR ''/'' # f) = [[], d, f]" using assms(2,3) by (simp add: split_on_append split_on_single)
  moreover have "length (split_on (CHR ''/'') (real_path (bin_dir @ cs))) > 3"
    using split_on_nonempty [of "CHR ''/''" "real_path cs"] by (simp add: real_path_def bin_dir_def split: list.split)
  ultimately show False using assms(1) by simp
qed

lemma escaping_unpack:
  assumes "above_bin t" "real_path bin_dir \<notin> set (dict_keys (tr_files t))" "is_directory t [d]" "\<not> is_directory t [d, f]"
    and "plain_name d" "plain_name f" "CHR ''/'' \<notin> set d" "CHR ''/'' \<notin> set f"
  shows "\<exists>t'. unpack_code ''tar'' (real_path bin_dir) (escaping_members d f b c) t = (Inr (), t') \<and>
    map_of (tr_files t') (real_path [d, f]) = Some c"
proof -
  let ?bin = "real_path bin_dir"
  have bin: "?bin = ''/var/cache/cpsagent/bin''" by (simp add: real_path_def bin_dir_def)
  let ?gone = "\<lambda>p. p \<noteq> ?bin \<and> \<not> starts_with p (?bin @ ''/'')"
  let ?t1 = "t\<lparr>tr_dirs := filter ?gone (tr_dirs t), tr_files := filter (\<lambda>(p, _). \<not> starts_with p (?bin @ ''/'')) (tr_files t)\<rparr>"
  have removed: "remove_tree ?bin t = (Inr (), ?t1)" using assms(2) by (simp add: remove_tree_def)
  have short: "?gone (real_path [v])" if "CHR ''/'' \<notin> set v" for v
  proof -
    have "CHR ''/'' \<in> set v" if pre: "starts_with (real_path [v]) (?bin @ ''/'')"
    proof -
      obtain k where "take k v = ''var/cache/cpsagent/bin/''"
        using pre unfolding bin by (simp add: real_path_def starts_with_def)
      then have "CHR ''/'' \<in> set (take k v)" by simp
      then show ?thesis by (rule in_set_takeD)
    qed
    moreover have "real_path [v] = ?bin \<Longrightarrow> CHR ''/'' \<in> set v" unfolding bin by (auto simp: real_path_def)
    ultimately show ?thesis using that by blast
  qed
  have kept: "?gone ''/var''" "?gone ''/var/cache''" "?gone ''/var/cache/cpsagent''" unfolding bin by (simp_all add: starts_with_def)
  have "is_directory ?t1 cs" if "is_directory t cs" "?gone (real_path cs)" for cs using that by (auto simp: is_directory_def)
  then have above: "above_bin ?t1" and d: "is_directory ?t1 [d]"
    using assms(1,3) short [OF assms(7)] kept by (simp_all add: above_bin_def bin_dir_def real_path_def)
  have below: "\<not> ?gone (real_path (bin_dir @ cs))" for cs
  proof (cases cs)
    case (Cons c cs')
    then have "real_path (bin_dir @ cs) = (?bin @ ''/'') @ c @ real_path cs'" by (simp add: real_path_def)
    then show ?thesis by (simp add: starts_with_def)
  qed simp
  have none: "\<not> is_entry ?t1 (bin_dir @ cs)" for cs
  proof
    let ?p = "real_path (bin_dir @ cs)"
    have "bin_dir @ cs \<noteq> []" by (simp add: bin_dir_def)
    moreover assume "is_entry ?t1 (bin_dir @ cs)"
    ultimately consider "?gone ?p" | c where "(?p, c) \<in> set (tr_files t)" "\<not> starts_with ?p (?bin @ ''/'')"
      unfolding is_entry_def is_directory_def by auto
    then show False
    proof cases
      case 2
      then have "?p \<in> set (dict_keys (tr_files t))" by force
      then show False using below [of cs] 2(2) assms(2) by (simp del: list.set_map)
    qed (use below [of cs] in blast)
  qed
  have df: "\<not> is_directory ?t1 [d, f]"
    using assms(4) by (simp add: is_directory_def)
  let ?t2 = "?t1\<lparr>tr_dirs := tr_dirs ?t1 @ [?bin, real_path (bin_dir @ [''x''])],
    tr_files := AList.update (real_path (bin_dir @ [''x'', ''y''])) b (tr_files ?t1)\<rparr>"
  note first = first_member [OF above none, of b]
  have step: "is_directory ?t2 cs \<longleftrightarrow> is_directory ?t1 cs \<or> real_path cs = ?bin \<or> real_path cs = real_path (bin_dir @ [''x''])" for cs
    by (auto simp: is_directory_def)
  have other: "real_path [d, f] \<noteq> real_path (bin_dir @ cs)" for cs
    using bin_prefix [of d f cs] assms(7,8) by (auto simp: real_path_def)
  have "above_bin ?t2" by (rule above_mono [OF _ above]) (simp only: step simp_thms)
  moreover have "is_directory ?t2 bin_dir" "is_directory ?t2 (bin_dir @ [''x''])" "is_directory ?t2 [d]" "\<not> is_directory ?t2 [d, f]"
    unfolding step using d df other [of "[]"] other [of "[''x'']"] by simp_all
  ultimately have second: "extract_member ''tar'' ''/var/cache/cpsagent/bin'' (''x/../../../../../'' @ d @ ''/'' @ f) c ?t2 =
      (Inr (), ?t2\<lparr>tr_files := AList.update (real_path [d, f]) c (tr_files ?t2)\<rparr>)"
    by (intro second_member assms(5-8))
  show ?thesis
    using removed first second
    by (simp add: unpack_code_def extract_all_def escaping_members_def sx_bind_run bin)
qed

text \<open>
  Claim C30. The check of an archive's members does not keep the code in its directory. An archive of two files,
  \<open>x/y\<close> and one that steps from \<open>x\<close> up to the root and down into a directory of the machine, passes the manager's
  check of member names; an agent with its directories where they are configured that is sent the archive answers
  success and has written the second file in that directory.
\<close>

theorem archive_member_escapes:
  assumes "ga_var_cache g = ''/var/cache/cpsagent''" "''/var/cache/cpsagent/bin'' \<notin> set (dict_keys (ga_disk g))"
    and "{''/var'', ''/var/cache'', ''/var/cache/cpsagent'', ''/'' @ d} \<subseteq> set (ga_dirs g)" "''/'' @ d @ ''/'' @ f \<notin> set (ga_dirs g)"
    and "plain_name d" "plain_name f" "CHR ''/'' \<notin> set d" "CHR ''/'' \<notin> set f"
    and "ae_archive env ''tar'' contents = Inr (escaping_members d f b c)"
  shows "list_all (\<lambda>(name, _). \<not> bad_member name) (escaping_members d f b c) \<and>
    (\<exists>g'. agent_update_code env [(''codeVersionId'', PStr v), (''filetype'', PStr ''tar''), (''file'', PFile file contents)] g =
        (Inr (HttpJsonResponse (PDict [])), g') \<and> map_of (ga_disk g') (''/'' @ d @ ''/'' @ f) = Some c)"
proof
  show "list_all (\<lambda>(name, _). \<not> bad_member name) (escaping_members d f b c)"
    by (simp add: escaping_members_def bad_member_def starts_with_def)
  let ?t = "agent_tree g"
  have bin: "real_path bin_dir = ''/var/cache/cpsagent/bin''" by (simp add: real_path_def bin_dir_def)
  have code: "code_dir g = real_path bin_dir" by (simp add: code_dir_def assms(1) path_join_def starts_with_def bin)
  have tree: "above_bin ?t" "real_path bin_dir \<notin> set (dict_keys (tr_files ?t))" "is_directory ?t [d]" "\<not> is_directory ?t [d, f]"
    using assms(2-4) by (simp_all add: above_bin_def bin_dir_def is_directory_def agent_tree_def real_path_def)
  obtain t' where unpacked: "unpack_code ''tar'' (code_dir g) (escaping_members d f b c) ?t = (Inr (), t')"
      "map_of (tr_files t') (real_path [d, f]) = Some c"
    using escaping_unpack [OF tree assms(5-8), of b c] unfolding code by blast
  have request: "update_code_request [(''codeVersionId'', PStr v), (''filetype'', PStr ''tar''), (''file'', PFile file contents)] =
      Inr (''tar'', contents, [])" by (rule file_request) simp
  have "''tar'' \<noteq> ''git''" by simp
  from update_code_disk [OF request this assms(9) unpacked(1)] unpacked(2)
  show "\<exists>g'. agent_update_code env [(''codeVersionId'', PStr v), (''filetype'', PStr ''tar''), (''file'', PFile file contents)] g =
        (Inr (HttpJsonResponse (PDict [])), g') \<and> map_of (ga_disk g') (''/'' @ d @ ''/'' @ f) = Some c"
    by (auto simp: agent_tree_def real_path_def)
qed

definition escaping_aenv :: "unit agent_env" where
  "escaping_aenv = sample_aenv\<lparr>ae_archive := (\<lambda>filetype c. Inr (escaping_members ''root'' ''.bashrc'' ''y'' ''alias ls=ps''))\<rparr>"

theorem archive_member_escapes_witness:
  "list_all (\<lambda>(name, _). \<not> bad_member name) (escaping_members ''root'' ''.bashrc'' ''y'' ''alias ls=ps'') \<and>
   (\<exists>g'. agent_update_code escaping_aenv [(''codeVersionId'', PStr ''code-1''), (''filetype'', PStr ''tar''),
        (''file'', PFile ''code'' ''bytes'')] fresh_agent = (Inr (HttpJsonResponse (PDict [])), g') \<and>
      map_of (ga_disk g') (''/'' @ ''root'' @ ''/'' @ ''.bashrc'') = Some ''alias ls=ps'')"
proof (rule archive_member_escapes)
  show "ga_var_cache fresh_agent = ''/var/cache/cpsagent''" by code_simp
  show "''/var/cache/cpsagent/bin'' \<notin> set (dict_keys (ga_disk fresh_agent))" by code_simp
  show "{''/var'', ''/var/cache'', ''/var/cache/cpsagent'', ''/'' @ ''root''} \<subseteq> set (ga_dirs fresh_agent)" by code_simp
  show "''/'' @ ''root'' @ ''/'' @ ''.bashrc'' \<notin> set (ga_dirs fresh_agent)" by code_simp
qed (simp_all add: escaping_aenv_def plain_name_def)

end
