(* ===== verification/GenericProps.thy ===== *)
theory GenericProps
  imports Generic AppProps
begin

text \<open>
  What the manager of a generic service does to its versions of code and its nodes, and what a failing
  agent leaves behind.
\<close>

section \<open>Failures of agents\<close>

text \<open>
  What the code's transport promises: the HTTPS client knows nothing of \<open>AgentException\<close>, a class of
  the client module that no code raises.
\<close>

definition plain :: "exn + 'a \<Rightarrow> bool" where
  "plain r \<longleftrightarrow> (case r of Inl e \<Rightarrow> \<not> is_agent_exception e | Inr _ \<Rightarrow> True)"

lemma plain_simps [simp]:
  "plain (Inr x)" "plain (Inl e) \<longleftrightarrow> \<not> is_agent_exception e" "k \<noteq> EAgentException \<Longrightarrow> \<not> is_agent_exception (Raise k t vs)"
  by (simp_all add: plain_def is_agent_exception_def)

lemma plain_bind: "plain r \<Longrightarrow> (\<And>x. plain (f x)) \<Longrightarrow> plain (res_bind r f)"
  by (cases r) simp_all

definition plain_transport :: "'w generic_env \<Rightarrow> bool" where
  "plain_transport env \<longleftrightarrow> (\<forall>ip name params w. plain (fst (net_agent (ge_net env) ip name params w)))"

lemma client_check_plain: "plain (client_check EException response)"
  by (auto simp: client_check_def py_lookup_def intro!: plain_bind split: prod.split pyval.split option.split)

text \<open>A computation that leaves the manager's object alone, and raises no \<open>AgentException\<close>.\<close>

definition world_only :: "('w gobj, 'a) sx \<Rightarrow> bool" where
  "world_only m \<longleftrightarrow> (\<forall>sw. fst (snd (m sw)) = fst sw \<and> plain (fst (m sw)))"

named_theorems world_only_intros \<open>computations that leave the manager's object alone\<close>

lemma world_only_run: "world_only m \<Longrightarrow> m (s, w) = (r, s', w') \<Longrightarrow> s' = s \<and> plain r"
  unfolding world_only_def by (metis fst_conv snd_conv)

lemma world_only_bind [world_only_intros]:
  assumes "world_only m" "\<And>x. world_only (f x)"
  shows "world_only (sx_bind m f)"
  using assms by (auto simp: world_only_def sx_bind_run split: sum.split prod.split) (metis fst_conv snd_conv plain_simps(2))+

lemma world_only_return [world_only_intros]: "world_only (sx_return x)"
  by (simp add: world_only_def sx_return_def)

lemma world_only_for [world_only_intros]: "(\<And>x. world_only (f x)) \<Longrightarrow> world_only (sx_for xs f)"
  by (induction xs) (auto intro: world_only_intros)

lemma world_only_lift: "plain r \<Longrightarrow> world_only (sx_lift r)"
  by (simp add: world_only_def sx_lift_def)

lemma world_only_read: "(\<And>s. plain (f s)) \<Longrightarrow> world_only (with_service f)"
  by (simp add: world_only_def with_service_def)

lemma world_only_net: "(\<And>w. plain (fst (m w))) \<Longrightarrow> world_only (with_net m)"
  by (simp add: world_only_def with_net_def case_prod_unfold Let_def)

text \<open>The handler of \<open>except AgentException\<close> never runs.\<close>

lemma world_only_caught [world_only_intros]:
  assumes "world_only m"
  shows "world_only (on_agent_exception m h)"
proof -
  have "on_agent_exception m h = m"
  proof
    fix sw
    obtain r sw' where run: "m sw = (r, sw')" by (metis prod.exhaust)
    then have "plain r" using assms unfolding world_only_def by (metis fst_conv)
    then show "on_agent_exception m h sw = m sw"
      using run by (cases r) (simp_all add: on_agent_exception_def sx_try_def sx_raise_def)
  qed
  then show ?thesis using assms by simp
qed

lemma entry_node_plain: "plain (map_res entry_node es)"
  by (induction es) (auto simp: entry_node_def intro!: plain_bind split: node_entry.split sum.split)

lemma py_lookup_plain: "plain (py_lookup d k)"
  by (simp add: py_lookup_def split: option.split)

lemma world_only_call [world_only_intros]:
  assumes "plain_transport env"
  shows "world_only (generic_call env ip name params)"
  unfolding generic_call_def
proof (rule world_only_net)
  fix w
  have "plain (fst (net_agent (ge_net env) ip name params w))" using assms by (simp add: plain_transport_def)
  then show "plain (fst (agent_call (ge_net env) (client_check EException) ip name params w))"
    by (auto simp: agent_call_def client_check_plain split: prod.split sum.split)
qed

lemma world_only_update_file [world_only_intros]:
  assumes "plain_transport env"
  shows "world_only (client_update_code env host v filetype filepath)"
proof (cases "filetype = ''git''")
  case False
  then show ?thesis
    using world_only_call [OF assms]
    by (auto simp: client_update_code_def world_only_def file_get_contents_def split: sum.split option.split)
qed (simp add: client_update_code_def world_only_call [OF assms])

lemma world_only_update [world_only_intros]:
  assumes "plain_transport env"
  shows "world_only (update_code env config nodes)"
proof -
  have push: "world_only (git_push env ip)" for ip
    by (simp add: git_push_def world_only_net sx_modify_def)
  have version: "plain (version_of config v)" for v
    by (simp add: version_of_def py_lookup_plain split: option.split)
  have path: "world_only (if b then sx_bind (git_push env ip) (\<lambda>_. sx_return x) else sx_return y)" for b ip x y
    using push by (auto intro: world_only_intros)
  show ?thesis
    unfolding update_code_def Let_def
    by (intro world_only_intros world_only_lift world_only_read assms path entry_node_plain version) simp
qed

text \<open>
  Claim C15. The thread that enables a version of code: when it ends well the service is running; when
  anything fails, it raises and leaves the service in the state it was in, \<open>ADAPTING\<close>, for the handlers
  for \<open>AgentException\<close> never run. In both cases the new version is the current one from the start.
\<close>

theorem enable_code_outcome:
  assumes "plain_transport env" "at_config (sv_ext s) = Some config"
    and run: "do_enable_code env vid (s, w) = (r, (s', w'))"
  shows "let s1 = s\<lparr>sv_ext := (sv_ext s)\<lparr>at_config := Some (config\<lparr>sc_current := Some vid\<rparr>)\<rparr>\<rparr> in
    (case r of Inl e \<Rightarrow> s' = s1 | Inr _ \<Rightarrow> s' = state_set S_RUNNING [] s1)"
proof -
  let ?s1 = "s\<lparr>sv_ext := (sv_ext s)\<lparr>at_config := Some (config\<lparr>sc_current := Some vid\<rparr>)\<rparr>\<rparr>"
  obtain r1 s2 w2 where u: "update_code env (config\<lparr>sc_current := Some vid\<rparr>) (sv_nodes s) (?s1, w) = (r1, (s2, w2))"
    by (metis prod.exhaust)
  have "s2 = ?s1" using world_only_run [OF world_only_update [OF assms(1)] u] by simp
  then show ?thesis
    using run u assms(2)
    by (cases r1) (auto simp: do_enable_code_def configuration_get_def configuration_set_def ext_modify_def modify_service_def
        with_service_def sx_bind_run sx_modify_def Let_def)
qed


section \<open>A version deleted before it is enabled\<close>

lemma configuration_get_run: "at_config (sv_ext s) = Some config \<Longrightarrow> configuration_get (s, w) = (Inr config, (s, w))"
  by (simp add: configuration_get_def with_service_def)

lemma configuration_set_run:
  "configuration_set config (s, w) = (Inr (), (s\<lparr>sv_ext := (sv_ext s)\<lparr>at_config := Some config\<rparr>\<rparr>, w))"
  by (simp add: configuration_set_def ext_modify_def modify_service_def sx_modify_def)

lemma version_argument:
  "v \<in> set (dict_keys (sc_versions config)) \<Longrightarrow>
    check_arguments [Mandatory ''codeVersionId'' (version_param config)] [(''codeVersionId'', PStr v)] = Inr (PStr v)"
  by (simp add: check_arguments_def version_param_def is_in_list_def is_constraint_def guard_def py_simps unwrap_parsed_def del: map_map list.set_map)

lemma do_enable_code_run:
  assumes "at_config (sv_ext s) = Some config"
  shows "do_enable_code env v (s, w) = sx_bind (update_code env (config\<lparr>sc_current := Some v\<rparr>) (sv_nodes s))
    (\<lambda>_. modify_service (state_set S_RUNNING []))
    (s\<lparr>sv_ext := (sv_ext s)\<lparr>at_config := Some (config\<lparr>sc_current := Some v\<rparr>)\<rparr>\<rparr>, w)"
  by (simp add: do_enable_code_def configuration_get_run [OF assms] configuration_set_run sx_bind_run with_service_def Let_def)

lemma delete_code_version_run:
  assumes "at_config (sv_ext s) = Some config" "v \<in> set (dict_keys (sc_versions config))"
    and "delete_code_version [(''codeVersionId'', PStr v)] (s, w) = (Inr (HttpJsonResponse x), (s1, w1))"
  shows "s1 = s\<lparr>sv_ext := (sv_ext s)\<lparr>at_config := Some (config\<lparr>sc_versions := AList.delete v (sc_versions config)\<rparr>)\<rparr>\<rparr>"
    "sc_current config \<noteq> Some v"
  using assms(3) version_argument [OF assms(2)]
  by (auto simp: delete_code_version_def configuration_get_run [OF assms(1)] sx_bind_run py_str_def configuration_set_run
      split: if_splits sum.splits option.splits)

lemma update_code_unknown:
  assumes "map_res entry_node nodes = Inr ns" "nodes \<noteq> []" "sc_current config = Some v" "map_of (sc_versions config) v = None"
  shows "update_code env config nodes (s, w) = (Inl (builtin_exn EKeyError), (s, w))"
proof -
  obtain n ns' where "ns = n # ns'" using assms(1,2) map_res_length [OF assms(1)] by (cases ns) auto
  then show ?thesis
    by (simp add: update_code_def assms sx_bind_run with_service_def version_of_def py_lookup_def)
qed

text \<open>Asking the agents for their scripts leaves the object and the disk of the manager alone.\<close>

definition asking :: "attrs service \<Rightarrow> (string \<times> string) list \<Rightarrow> attrs service \<times> 'w world \<Rightarrow> bool" where
  "asking s disk sw \<longleftrightarrow> fst sw = s \<and> wd_disk (snd sw) = disk"

lemma asking_scripts: "sx_keeps (asking s disk) (scripts_running env es)"
proof (induction es)
  case (Cons e es)
  have "sx_keeps (asking s disk) (client_get_script_status env ip)" for ip
    by (auto simp: sx_keeps_def asking_def client_get_script_status_def generic_call_def with_net_def split: prod.splits)
  then show ?case
    unfolding scripts_running.simps on_agent_exception_def
    by (intro sx_keeps_bind sx_keeps_try) (auto intro: Cons.IH)
qed (simp add: sx_keeps_def)

lemma are_scripts_running_keeps:
  assumes "are_scripts_running env (s, w) = (r, (s', w'))"
  shows "s' = s" "wd_disk w' = wd_disk w"
proof -
  have "scripts_running env (sv_nodes s) (s, w) = (r, (s', w'))"
    using assms by (simp add: are_scripts_running_def with_service_def sx_bind_run)
  from sx_keepsD [OF asking_scripts _ this, of s "wd_disk w"] show "s' = s" "wd_disk w' = wd_disk w"
    by (simp_all add: asking_def)
qed

lemma enable_code_accepted:
  assumes "at_config (sv_ext s) = Some config" "v \<in> set (dict_keys (sc_versions config))" "sv_state s = S_RUNNING"
    and "enable_code env [(''codeVersionId'', PStr v)] (s, w) = (Inr (HttpJsonResponse x), (s1, w1))"
  shows "s1 = (state_set S_ADAPTING ''Updating configuration'' s)\<lparr>sv_ext := (sv_ext s)\<lparr>at_threads := at_threads (sv_ext s) @ [EnableCodeJob v]\<rparr>\<rparr>"
    "wd_disk w1 = wd_disk w"
proof -
  obtain r s' w' where ask: "are_scripts_running env (s, w) = (r, (s', w'))" by (rule prod_cases3)
  note keeps = are_scripts_running_keeps [OF ask]
  show "s1 = (state_set S_ADAPTING ''Updating configuration'' s)\<lparr>sv_ext := (sv_ext s)\<lparr>at_threads := at_threads (sv_ext s) @ [EnableCodeJob v]\<rparr>\<rparr>"
    "wd_disk w1 = wd_disk w"
    using assms(4) ask keeps
    by (cases r; auto simp: enable_code_def configuration_get_run [OF assms(1)] sx_bind_run with_service_def version_argument [OF assms(2)]
        check_state_def assms(3) modify_service_def start_thread_def ext_modify_def py_str_def state_set_def split: if_splits)+
qed

lemma version_file_disk: "wd_disk w' = wd_disk w \<Longrightarrow> version_file repo v w' = version_file repo v w"
  by (simp add: version_file_def Let_def)

text \<open>
  Claim C16. Enabling a version and deleting it cross. Once a running service has accepted to enable a version
  that is not its current one, its state is \<open>ADAPTING\<close> and the thread waits; the version is not the current one
  yet, so a request to delete it succeeds. The thread then fails with a \<open>KeyError\<close>: the service keeps the state
  \<open>ADAPTING\<close>, its current version is the deleted one, and a download without an argument raises.
\<close>

theorem delete_while_enabling:
  assumes "at_config (sv_ext s) = Some config" "map_of (sc_versions config) v = Some version" "sc_current config \<noteq> Some v"
    and "sv_state s = S_RUNNING" "map_res entry_node (sv_nodes s) = Inr ns" "ns \<noteq> []"
    and "cv_type version = ''git'' \<or> version_file (at_code_repo (sv_ext s)) v w \<noteq> None"
    and "enable_code env [(''codeVersionId'', PStr v)] (s, w) = (Inr (HttpJsonResponse x), (s1, w1))"
  shows "sv_state s1 = S_ADAPTING \<and>
    (\<exists>s2 w2 s3 c3. delete_code_version [(''codeVersionId'', PStr v)] (s1, w1) = (Inr (HttpJsonResponse (PDict [])), (s2, w2)) \<and>
      generic_run_thread env (length (at_threads (sv_ext s))) (s2, w2) = (Inl (builtin_exn EKeyError), (s3, w2)) \<and>
      sv_state s3 = S_ADAPTING \<and> at_config (sv_ext s3) = Some c3 \<and> sc_current c3 = Some v \<and>
      map_of (sc_versions c3) v = None \<and>
      fst (download_code_version [] (s3, w2)) = Inl (builtin_exn EKeyError))"
proof -
  have listed: "v \<in> set (dict_keys (sc_versions config))" using assms(2) by (force dest: map_of_SomeD)
  note accepted = enable_code_accepted [OF assms(1) listed assms(4,8)]
  let ?x = "sv_ext s" and ?n = "length (at_threads (sv_ext s))"
  let ?c1 = "config\<lparr>sc_versions := AList.delete v (sc_versions config)\<rparr>"
  let ?c2 = "?c1\<lparr>sc_current := Some v\<rparr>"
  let ?s2 = "s1\<lparr>sv_ext := (sv_ext s1)\<lparr>at_config := Some ?c1\<rparr>\<rparr>"
  have c1: "at_config (sv_ext s1) = Some config" "at_code_repo (sv_ext s1) = at_code_repo ?x" "sv_state s1 = S_ADAPTING"
    "at_threads (sv_ext s1) = at_threads ?x @ [EnableCodeJob v]" "sv_nodes s1 = sv_nodes s"
    using assms(1) by (simp_all add: accepted(1) state_set_def)
  obtain w2 where deleted: "delete_code_version [(''codeVersionId'', PStr v)] (s1, w1) = (Inr (HttpJsonResponse (PDict [])), (?s2, w2))"
    using assms(2,3,7) version_argument [OF listed]
    by (cases "cv_type version = ''git''")
       (auto simp: delete_code_version_def configuration_get_run [OF c1(1)] sx_bind_run py_str_def py_lookup_def configuration_set_run
         c1(2) version_file_disk [OF accepted(2)])
  let ?s3 = "?s2\<lparr>sv_ext := (sv_ext ?s2)\<lparr>at_threads := at_threads ?x\<rparr>\<rparr>"
  let ?s4 = "?s3\<lparr>sv_ext := (sv_ext ?s3)\<lparr>at_config := Some ?c2\<rparr>\<rparr>"
  have "sv_nodes s \<noteq> []" using assms(5,6) by auto
  then have "update_code env ?c2 (sv_nodes s) (?s4, w2) = (Inl (builtin_exn EKeyError), (?s4, w2))"
    using assms(5) by (intro update_code_unknown) (auto simp: delete_conv')
  moreover have "at_config (sv_ext ?s3) = Some ?c1" by simp
  ultimately have "do_enable_code env v (?s3, w2) = (Inl (builtin_exn EKeyError), (?s4, w2))"
    using do_enable_code_run [of ?s3 ?c1 env v w2] by (simp only: sx_bind_run) (simp add: c1(5) sx_bind_run)
  then have thread: "generic_run_thread env ?n (?s2, w2) = (Inl (builtin_exn EKeyError), (?s4, w2))"
    by (simp add: generic_run_thread_def with_service_def sx_bind_run ext_modify_def modify_service_def c1(4))
  have "fst (download_code_version [] (?s4, w2)) = Inl (builtin_exn EKeyError)"
  proof -
    have "check_arguments [Optional ''codeVersionId'' (version_param ?c2) (PStr v)] [] = Inr (PStr v)"
      by (simp add: check_arguments_def unwrap_parsed_def)
    moreover have "py_lookup (sc_versions ?c2) v = Inl (builtin_exn EKeyError)"
      by (simp add: py_lookup_def delete_conv')
    moreover have "configuration_get (?s4, w2) = (Inr ?c2, (?s4, w2))" by (rule configuration_get_run) simp
    ultimately show ?thesis by (simp add: download_code_version_def sx_bind_run py_str_def)
  qed
  with deleted thread c1(3) show ?thesis
    by (intro conjI exI [of _ ?s2] exI [of _ w2] exI [of _ ?s4] exI [of _ ?c2]) (simp_all add: delete_conv')
qed


section \<open>Upload and download\<close>

definition path_component :: "string \<Rightarrow> bool" where
  "path_component c \<longleftrightarrow> c \<noteq> [] \<and> c \<noteq> ''.'' \<and> c \<noteq> ''..'' \<and> CHR ''/'' \<notin> set c"

lemma split_join: "ps \<noteq> [] \<Longrightarrow> \<forall>p \<in> set ps. path_component p \<Longrightarrow> split_on (CHR ''/'') (join_with ''/'' ps) = ps"
  by (induction ps rule: induct_list012) (simp_all add: path_component_def split_on_append split_on_single)

lemma norm_components: "\<forall>p \<in> set ps. path_component p \<Longrightarrow> norm_parts acc ps = rev acc @ ps"
  by (induction ps arbitrary: acc) (simp_all add: path_component_def)

lemma abspath_components:
  assumes "ps \<noteq> []" "\<forall>p \<in> set ps. path_component p"
  shows "abspath (''/'' @ join_with ''/'' ps) = ''/'' @ join_with ''/'' ps"
  using split_join [OF assms] norm_components [OF assms(2), of "[]"] by (simp add: abspath_def)

lemma join_with_snoc: "ps \<noteq> [] \<Longrightarrow> join_with sep (ps @ [p]) = join_with sep ps @ sep @ p"
  by (induction ps rule: induct_list012) simp_all

text \<open>A directory that is given by its components, and a file in it.\<close>

definition repository :: "string \<Rightarrow> bool" where
  "repository repo \<longleftrightarrow> (\<exists>ps. ps \<noteq> [] \<and> (\<forall>p \<in> set ps. path_component p) \<and> repo = ''/'' @ join_with ''/'' ps)"

lemma last_join: "ps \<noteq> [] \<Longrightarrow> \<forall>p \<in> set ps. path_component p \<Longrightarrow> join_with ''/'' ps \<noteq> [] \<and> last (join_with ''/'' ps) \<noteq> CHR ''/''"
proof (induction ps rule: rev_induct)
  case (snoc p ps)
  then have p: "p \<noteq> []" "CHR ''/'' \<notin> set p" by (simp_all add: path_component_def)
  then have "last p \<noteq> CHR ''/''" using last_in_set [OF p(1)] by (cases "last p = CHR ''/''") simp_all
  note p = p(1) this
  show ?case by (cases "ps = []") (simp_all add: p join_with_snoc)
qed simp

lemma repository_file:
  assumes "repository repo" "path_component c"
  shows "path_join repo c = repo @ ''/'' @ c" "abspath (path_join repo c) = path_join repo c" "basename (path_join repo c) = c"
proof -
  obtain ps where ps: "ps \<noteq> []" "\<forall>p \<in> set ps. path_component p" "repo = ''/'' @ join_with ''/'' ps"
    using assms(1) by (auto simp: repository_def)
  have "\<not> starts_with c ''/''" using assms(2) by (cases c) (auto simp: path_component_def starts_with_def)
  then show join: "path_join repo c = repo @ ''/'' @ c"
    using last_join [OF ps(1,2)] ps(3) by (simp add: path_join_def)
  have joined: "repo @ ''/'' @ c = ''/'' @ join_with ''/'' (ps @ [c])" using ps(1,3) by (simp add: join_with_snoc)
  have all: "\<forall>p \<in> set (ps @ [c]). path_component p" using ps(2) assms(2) by simp
  show "abspath (path_join repo c) = path_join repo c"
    unfolding join joined by (rule abspath_components [OF _ all]) simp
  have "split_on (CHR ''/'') (''/'' @ join_with ''/'' (ps @ [c])) = [] # ps @ [c]"
    using split_join [OF _ all] by simp
  then show "basename (path_join repo c) = c" unfolding join joined basename_def by simp
qed

lemma version_file_in:
  assumes "repository repo" "path_component c"
  shows "version_file repo c w = (if path_join repo c \<in> set (dict_keys (wd_disk w)) then Some (path_join repo c) else None)"
  unfolding version_file_def Let_def repository_file(2) [OF assms]
  by (simp add: repository_file(1) [OF assms] starts_with_def)

lemma basename_component: "path_component c \<Longrightarrow> basename c = c"
  by (simp add: basename_def path_component_def split_on_single)

text \<open>What \<open>mkstemp\<close> promises: a plain name, of a file that does not exist.\<close>

definition fresh_names :: "'w generic_env \<Rightarrow> string \<Rightarrow> bool" where
  "fresh_names env repo \<longleftrightarrow> (\<forall>used. CHR ''/'' \<notin> set (ge_temp env used) \<and> path_join repo (temp_name env used) \<notin> set used)"


lemma py_str_file: "py_str (PFile n c) = c"
  by (simp add: py_str_def)

lemma uploaded_file_value: "is_uploaded_file v = Inr u \<Longrightarrow> \<exists>n c. v = PFile n c \<and> u = v"
  by (cases v) (auto simp: is_uploaded_file_def type_constraint_def is_constraint_def guard_def)

lemma upload_argument:
  assumes "check_arguments [Mandatory ''code'' is_uploaded_file, Optional ''description'' is_string (PStr [])] kw = Inr args"
  shows "\<exists>n c d. args = PList [PFile n c, d] \<and> map_of kw ''code'' = Some (PFile n c)"
proof -
  have "distinct (param_names [Mandatory ''code'' is_uploaded_file, Optional ''description'' is_string (PStr [])])" by simp
  from check_arguments_Inr [OF this, of kw args] assms show ?thesis
    by (auto simp: list_all2_Cons1 unwrap_parsed_def dest!: uploaded_file_value)
qed

lemma download_run:
  assumes "at_config (sv_ext s) = Some config" "map_of (sc_versions config) v = Some version" "cv_type version \<noteq> ''git''"
    and "repository (at_code_repo (sv_ext s))" "path_component v"
    and "path_join (at_code_repo (sv_ext s)) v \<in> set (dict_keys (wd_disk w))"
  shows "download_code_version [(''codeVersionId'', PStr v)] (s, w) =
    (Inr (HttpFileDownloadResponse (cv_filename version) (path_join (at_code_repo (sv_ext s)) v)), (s, w))"
proof -
  have "v \<in> set (dict_keys (sc_versions config))" using assms(2) by (force dest: map_of_SomeD)
  then have "check_arguments [Optional ''codeVersionId'' (version_param config) d] [(''codeVersionId'', PStr v)] = Inr (PStr v)" for d
    by (simp add: check_arguments_def version_param_def is_in_list_def is_constraint_def guard_def py_simps unwrap_parsed_def del: map_map list.set_map)
  then show ?thesis
    using assms(3,6) by (simp add: download_code_version_def configuration_get_run [OF assms(1)] sx_bind_run py_str_def py_lookup_def assms(2)
        version_file_in [OF assms(4,5)])
qed

text \<open>
  Claim C17. What is uploaded can be downloaded: an accepted upload of code answers the identifier of a
  version whose download is the file that holds the uploaded contents, under the base name of the
  uploaded file; versions that were there keep their files. A refused upload leaves the service as it
  was and no file behind.
\<close>

theorem upload_download:
  assumes "at_config (sv_ext s) = Some config" "repository (at_code_repo (sv_ext s))" "fresh_names env (at_code_repo (sv_ext s))"
    and archives: "\<forall>c. map_option fst (ge_archive env c) \<noteq> Some ''git''"
    and run: "upload_code_version env kw (s, w) = (Inr a, (s', w'))"
  shows "(\<forall>r. a = HttpJsonResponse r \<longrightarrow> (\<exists>v n contents path. r = PDict [(''codeVersionId'', PStr v)] \<and>
      map_of kw ''code'' = Some (PFile n contents) \<and>
      download_code_version [(''codeVersionId'', PStr v)] (s', w') = (Inr (HttpFileDownloadResponse (basename n) path), (s', w')) \<and>
      map_of (wd_disk w') path = Some contents \<and> path \<notin> set (dict_keys (wd_disk w)) \<and>
      (\<forall>p. p \<noteq> path \<longrightarrow> map_of (wd_disk w') p = map_of (wd_disk w) p))) \<and>
    (\<forall>e. a = HttpErrorResponse e \<longrightarrow> s' = s \<and> map_of (wd_disk w') = map_of (wd_disk w))"
proof (cases "check_arguments [Mandatory ''code'' is_uploaded_file, Optional ''description'' is_string (PStr [])] kw")
  case (Inl e)
  then show ?thesis using run by (auto simp: upload_code_version_def)
next
  case (Inr args)
  from upload_argument [OF Inr] obtain n c d where args: "args = PList [PFile n c, d]" "map_of kw ''code'' = Some (PFile n c)" by blast
  let ?repo = "at_code_repo (sv_ext s)"
  let ?v = "temp_name env (dict_keys (wd_disk w))"
  let ?path = "path_join ?repo ?v"
  have fresh: "?path \<notin> set (dict_keys (wd_disk w))" "path_component ?v"
    using assms(3) [unfolded fresh_names_def, rule_format, of "dict_keys (wd_disk w)"]
    by (simp_all add: path_component_def temp_name_def del: list.set_map)
  then have gone: "map_of (wd_disk w) ?path = None" by (simp add: map_of_eq_None_iff)
  let ?w = "w\<lparr>wd_disk := AList.update ?path c (wd_disk w)\<rparr>"
  note names = repository_file(3) [OF assms(2) fresh(2)] basename_component [OF fresh(2)]
  note steps = run [unfolded upload_code_version_def Inr sum.case args(1) args_simps Let_def prod.case]
  have same: "map_of (wd_disk (remove_file ?path ?w)) = map_of (wd_disk w)"
    using gone by (auto simp: remove_file_def delete_conv' update_conv' fun_eq_iff)
  show ?thesis
  proof (cases "\<exists>atype members. ge_archive env c = Some (atype, members) \<and> \<not> list_ex bad_member members")
    case False
    then have "a \<noteq> HttpJsonResponse r \<and> s' = s \<and> map_of (wd_disk w') = map_of (wd_disk w)" for r
      using steps same
      by (auto simp: configuration_get_run [OF assms(1)] sx_bind_run with_service_def with_disk_def sx_get_def sx_modify_def
          file_write_contents_def py_str_def sx_return_def split: option.splits if_splits)
    then show ?thesis by blast
  next
    case True
    then obtain atype members where ok: "ge_archive env c = Some (atype, members)" "\<not> list_ex bad_member members" by blast
    let ?version = "\<lparr>cv_id = ?v, cv_filename = basename n, cv_type = atype, cv_description = py_str d,
      cv_timestamp = net_now (ge_net env) (wd_out w)\<rparr>"
    let ?s = "s\<lparr>sv_ext := (sv_ext s)\<lparr>at_config := Some (add_version ?version config)\<rparr>\<rparr>"
    have res: "a = HttpJsonResponse (PDict [(''codeVersionId'', PStr ?v)])" "s' = ?s" "w' = ?w"
      using steps ok
      by (auto simp: configuration_get_run [OF assms(1)] sx_bind_run with_service_def with_disk_def with_net_def sx_get_def sx_modify_def
          file_write_contents_def py_str_file sx_return_def configuration_set_run names)
    have "download_code_version [(''codeVersionId'', PStr ?v)] (?s, ?w) =
        (Inr (HttpFileDownloadResponse (cv_filename ?version) (path_join (at_code_repo (sv_ext ?s)) ?v)), (?s, ?w))"
      using archives [rule_format, of c] ok assms(2) fresh(2)
      by (intro download_run [where config = "add_version ?version config"]) (simp_all add: add_version_def update_conv' dom_update)
    then have "download_code_version [(''codeVersionId'', PStr ?v)] (s', w') = (Inr (HttpFileDownloadResponse (basename n) ?path), (s', w'))"
      by (simp add: res(2,3))
    moreover have "map_of (wd_disk w') p = (if p = ?path then Some c else map_of (wd_disk w) p)" for p
      by (simp add: res(3) update_conv')
    ultimately show ?thesis using res(1) fresh(1) args(2) by auto
  qed
qed


section \<open>Removing nodes\<close>

lemma role_args: "do_execute_script env command nodes parameters (s, w) = (r, (s', w')) \<Longrightarrow> plain_transport env \<Longrightarrow> s' = s"
proof -
  assume run: "do_execute_script env command nodes parameters (s, w) = (r, (s', w'))" and plain: "plain_transport env"
  have "world_only (do_execute_script env command nodes parameters)"
    unfolding do_execute_script_def client_execute_script_def
    by (intro world_only_intros world_only_lift world_only_read plain entry_node_plain) simp
  from world_only_run [OF this run] show "s' = s" by simp
qed

lemma entry_node_Inr: "entry_node e = Inr n \<longleftrightarrow> e = VNode n"
  by (simp add: entry_node_def split: node_entry.split)

lemma pop_nodes_run:
  assumes "pop_nodes n nodes del (s, w) = (Inr (rest, del'), (s', w'))"
  shows "n \<le> length nodes \<and> rest = take (length nodes - n) nodes \<and> del' = del @ rev (drop (length nodes - n) nodes) \<and> w' = w \<and>
    n \<le> length (at_agents (sv_ext s)) \<and>
    s' = s\<lparr>sv_ext := (sv_ext s)\<lparr>at_agents := take (length (at_agents (sv_ext s)) - n) (at_agents (sv_ext s))\<rparr>\<rparr>"
  using assms
proof (induction n arbitrary: nodes del s)
  case (Suc n)
  then obtain init l where nodes: "nodes = init @ [l]" by (cases nodes rule: rev_cases) (auto simp: sx_raise_def)
  obtain as a where agents: "at_agents (sv_ext s) = as @ [a]"
    using Suc.prems nodes by (cases "at_agents (sv_ext s)" rule: rev_cases) (auto simp: sx_bind_run with_service_def guard_def)
  let ?s = "s\<lparr>sv_ext := (sv_ext s)\<lparr>at_agents := as\<rparr>\<rparr>"
  have "pop_nodes n init (del @ [l]) (?s, w) = (Inr (rest, del'), (s', w'))"
    using Suc.prems nodes agents
    by (auto simp: sx_bind_run with_service_def guard_def ext_modify_def modify_service_def sx_modify_def split: sum.splits)
  from Suc.IH [OF this] show ?case
    using nodes agents by (auto simp: Suc_diff_le)
qed (simp add: sx_return_def)

text \<open>
  Claim C18. Nodes leave in the order opposite to the one they came in, and the manager forgets as many
  agents: removing some nodes but not all keeps the first node and the master, and the service runs
  again; removing all of them clears the master and stops the service.
\<close>

theorem removal_from_the_end:
  assumes "plain_transport env" "generic_on_remove_nodes env roles (s, w) = (Inr del, (s', w'))"
  shows "\<exists>n. sum_range roles = Inr n \<and> n \<le> length (sv_nodes s) \<and>
    del = rev (drop (length (sv_nodes s) - n) (sv_nodes s)) \<and> sv_nodes s' = sv_nodes s \<and>
    at_agents (sv_ext s') = take (length (at_agents (sv_ext s)) - n) (at_agents (sv_ext s)) \<and>
    (if n < length (sv_nodes s) then at_master (sv_ext s') = at_master (sv_ext s) \<and> sv_state s' = S_RUNNING
     else at_master (sv_ext s') = None \<and> sv_state s' = S_STOPPED)"
proof -
  obtain n where n: "sum_range roles = Inr n"
    using assms(2) by (auto simp: generic_on_remove_nodes_def sx_bind_run split: sum.splits)
  obtain rest del0 s1 w1 where pop: "pop_nodes n (sv_nodes s) [] (s, w) = (Inr (rest, del0), (s1, w1))"
    using assms(2) by (auto simp: generic_on_remove_nodes_def sx_bind_run n with_service_def split: sum.splits prod.splits)
  note popped = pop_nodes_run [OF pop]
  show ?thesis
  proof (cases "rest = []")
    case True
    then have "length (sv_nodes s) \<le> n" using popped by auto
    then show ?thesis
      using assms(2) n pop popped True
      by (auto simp: generic_on_remove_nodes_def sx_bind_run with_service_def ext_modify_def modify_service_def sx_modify_def
          sx_return_def state_set_def)
  next
    case False
    then have less: "n < length (sv_nodes s)" using popped by auto
    obtain q s2 w2 where script: "do_execute_script env ''notify'' rest [] (s1, w1) = (q, (s2, w2))" by (metis prod.exhaust)
    have "s2 = s1" by (rule role_args [OF script assms(1)])
    then show ?thesis
      using assms(2) n pop popped False script less
      by (cases q) (auto simp: generic_on_remove_nodes_def sx_bind_run with_service_def modify_service_def sx_modify_def
          sx_return_def state_set_def)
  qed
qed

section \<open>A sample service\<close>

definition longest_name :: "string list \<Rightarrow> string" where
  "longest_name used = replicate (Suc (sum_list (map length used))) (CHR ''x'')"

definition generic_net :: "int network" where
  "generic_net = sample_net\<lparr>net_agent := (\<lambda>ip m p w. (Inr (200, PDict [(''error'', PNone), (''result'', PDict [(''scripts'', PDict [])])]), w))\<rparr>"

definition sample_genv :: "int generic_env" where
  "sample_genv = \<lparr>ge_net = generic_net, ge_dumps = (\<lambda>v. ''json''), ge_tar = (\<lambda>files. ''tarball''),
     ge_archive = (\<lambda>c. if c = ''tarball'' then Some (''tar'', [''run.sh'']) else None), ge_temp = longest_name,
     ge_git_push = (\<lambda>ip w. w)\<rparr>"

lemma sample_plain: "plain_transport sample_genv"
  by (simp add: plain_transport_def sample_genv_def generic_net_def sample_net_def)

lemma genv_fresh: "fresh_names sample_genv repo"
proof -
  have "length u \<le> sum_list (map length used)" if "u \<in> set used" for u :: string and used
    using that by (simp add: member_le_sum_list)
  moreover have "length (longest_name used) \<le> length (path_join repo (temp_name sample_genv used))" for used
    by (simp add: path_join_def temp_name_def sample_genv_def)
  moreover have "length (longest_name used) = Suc (sum_list (map length used))" for used by (simp add: longest_name_def)
  ultimately have "path_join repo (temp_name sample_genv used) \<notin> set used" for used
    by (metis Suc_n_not_le_n le_trans)
  then show ?thesis by (simp add: fresh_names_def sample_genv_def longest_name_def)
qed

definition node_of :: "int \<Rightarrow> node_entry" where
  "node_of k = (case node_from_dict 0 (sample_node k \<lparr>si_role = role_master, si_cloud = ''default'', si_volumes = []\<rparr>) of
     Inr n \<Rightarrow> VNode n | Inl _ \<Rightarrow> VKey [])"

text \<open>A service constructed, started on two nodes, with a version of code uploaded.\<close>

definition sample_run :: "(int gobj, unit) sx" where
  "sample_run =
     sx_bind (modify_service (\<lambda>s. s\<lparr>sv_nodes := [node_of 1]\<rparr>)) (\<lambda>_.
     sx_bind (generic_on_start sample_genv [node_of 1]) (\<lambda>_.
     sx_bind (modify_service (state_set S_RUNNING [] \<circ> sv_nodes_update (\<lambda>ns. ns @ [node_of 2]))) (\<lambda>_.
     sx_bind (generic_on_add_nodes sample_genv [node_of 2]) (\<lambda>_.
     sx_bind (upload_code_version sample_genv [(''code'', PFile ''/home/a/app.tar'' ''tarball'')]) (\<lambda>_. sx_return ())))))"

definition sample_gobj :: "int gobj" where
  "sample_gobj = (case generic_init sample_genv sample_config [(''reset_config'', PBool True)] \<lparr>wd_disk = [], wd_out = 1\<rparr> of
     (Inr s, w) \<Rightarrow> snd (sample_run (s, w)) | (Inl _, w) \<Rightarrow> undefined)"

definition gsketch where
  "gsketch (s :: attrs service) = (sv_state s, map_option (\<lambda>c. (map fst (sc_versions c), sc_current c)) (at_config (sv_ext s)), sv_nodes s,
     at_code_repo (sv_ext s), map ai_role (at_agents (sv_ext s)), at_master (sv_ext s))"

definition uploaded_id :: string where "uploaded_id = ''code-'' @ replicate 24 (CHR ''x'')"

lemma sample_sketch: "gsketch (fst sample_gobj) = (S_RUNNING, Some ([''code-default'', uploaded_id], Some ''code-default''),
    [node_of 1, node_of 2], ''/root/code'', [''master'', ''node''], Some ''10.0.0.1'')"
  by code_simp

definition sample_service :: "attrs service" where "sample_service = fst sample_gobj"

definition sample_world :: "int world" where "sample_world = snd sample_gobj"

lemma sample_tuple:
  "sv_state sample_service = S_RUNNING \<and>
   map_option (\<lambda>c. (map fst (sc_versions c), sc_current c)) (at_config (sv_ext sample_service)) =
     Some ([''code-default'', uploaded_id], Some ''code-default'') \<and>
   sv_nodes sample_service = [node_of 1, node_of 2] \<and> at_code_repo (sv_ext sample_service) = ''/root/code'' \<and>
   map ai_role (at_agents (sv_ext sample_service)) = [''master'', ''node''] \<and> at_master (sv_ext sample_service) = Some ''10.0.0.1''"
  using sample_sketch unfolding gsketch_def sample_service_def prod.inject .

lemma sample_state:
  obtains config where "at_config (sv_ext sample_service) = Some config" "uploaded_id \<in> set (dict_keys (sc_versions config))"
    "sc_current config = Some ''code-default''"
proof -
  note versions = sample_tuple [THEN conjunct2, THEN conjunct1]
  then obtain config where config: "at_config (sv_ext sample_service) = Some config" by (cases "at_config (sv_ext sample_service)") simp_all
  note versions [unfolded config option.map option.inject prod.inject]
  then have "dict_keys (sc_versions config) = [''code-default'', uploaded_id]" "sc_current config = Some ''code-default''"
    by (simp_all only: simp_thms)
  then show ?thesis using that [OF config] by (simp only: list.set insert_iff simp_thms)
qed

lemmas sample_nodes = sample_tuple [THEN conjunct2, THEN conjunct2, THEN conjunct1]

lemmas sample_repo = sample_tuple [THEN conjunct2, THEN conjunct2, THEN conjunct2, THEN conjunct1]

text \<open>The same service while the thread that enables the uploaded version waits.\<close>

definition adapting_service :: "attrs service" where
  "adapting_service = state_set S_ADAPTING ''Updating configuration'' sample_service"

definition silent_genv :: "int generic_env" where
  "silent_genv = sample_genv\<lparr>ge_net := generic_net\<lparr>net_agent := (\<lambda>ip m p w. (Inl (builtin_exn ESocketError), w))\<rparr>\<rparr>"

lemma adapting_service: "sv_ext adapting_service = sv_ext sample_service" "sv_nodes adapting_service = [node_of 1, node_of 2]"
    "sv_state adapting_service = S_ADAPTING"
  by (simp_all add: adapting_service_def state_set_def sample_nodes)

lemma silent_fails: "case fst (do_enable_code silent_genv uploaded_id (adapting_service, sample_world)) of Inl e \<Rightarrow> True | Inr _ \<Rightarrow> False"
  by code_simp

theorem enable_code_outcome_witness:
  "sv_state (fst (snd (do_enable_code silent_genv uploaded_id (adapting_service, sample_world)))) = S_ADAPTING"
proof -
  obtain config where config: "at_config (sv_ext adapting_service) = Some config"
    unfolding adapting_service by (rule sample_state)
  obtain r s' w' where run: "do_enable_code silent_genv uploaded_id (adapting_service, sample_world) = (r, (s', w'))"
    by (rule prod_cases3)
  then obtain e where "r = Inl e" using silent_fails by (cases r) simp_all
  have "plain_transport silent_genv" by (simp add: plain_transport_def silent_genv_def)
  from enable_code_outcome [OF this config run] run \<open>r = Inl e\<close> show ?thesis
    by (simp add: Let_def adapting_service)
qed

lemma enables: "case fst (enable_code sample_genv [(''codeVersionId'', PStr uploaded_id)] sample_gobj) of
    Inr (HttpJsonResponse x) \<Rightarrow> True | _ \<Rightarrow> False"
  by code_simp

lemma two_nodes: "case map_res entry_node [node_of 1, node_of 2] of Inr ns \<Rightarrow> ns \<noteq> [] | Inl _ \<Rightarrow> False"
  by code_simp

lemma uploaded_there: "version_file ''/root/code'' uploaded_id sample_world \<noteq> None"
  by code_simp

theorem delete_while_enabling_witness:
  "\<exists>s1 w1 s2 w2 s3. delete_code_version [(''codeVersionId'', PStr uploaded_id)] (s1, w1) = (Inr (HttpJsonResponse (PDict [])), (s2, w2)) \<and>
    generic_run_thread sample_genv (length (at_threads (sv_ext sample_service))) (s2, w2) = (Inl (builtin_exn EKeyError), (s3, w2)) \<and>
    sv_state s3 = S_ADAPTING"
proof -
  obtain config where config: "at_config (sv_ext sample_service) = Some config" "uploaded_id \<in> set (dict_keys (sc_versions config))"
    "sc_current config = Some ''code-default''" by (rule sample_state)
  obtain version where version: "map_of (sc_versions config) uploaded_id = Some version"
    using config(2) by (cases "map_of (sc_versions config) uploaded_id") (auto simp: map_of_eq_None_iff)
  have other: "sc_current config \<noteq> Some uploaded_id" unfolding config(3) by code_simp
  obtain ns where ns: "map_res entry_node (sv_nodes sample_service) = Inr ns" "ns \<noteq> []"
    unfolding sample_nodes using two_nodes by (auto split: sum.splits)
  have archive: "cv_type version = ''git'' \<or> version_file (at_code_repo (sv_ext sample_service)) uploaded_id sample_world \<noteq> None"
    unfolding sample_repo using uploaded_there by (rule disjI2)
  have state: "sv_state sample_service = S_RUNNING" by (rule sample_tuple [THEN conjunct1])
  obtain r s1 w1 where run: "enable_code sample_genv [(''codeVersionId'', PStr uploaded_id)] (sample_service, sample_world) = (r, (s1, w1))"
    by (rule prod_cases3)
  have "(sample_service, sample_world) = sample_gobj" by (simp add: sample_service_def sample_world_def)
  with enables run obtain x where ok: "r = Inr (HttpJsonResponse x)" by (auto split: sum.splits http_response.splits)
  from delete_while_enabling [OF config(1) version other state ns archive run [unfolded ok]] show ?thesis
    by (elim exE conjE) (intro exI conjI)
qed

lemma sample_repository: "repository (at_code_repo (sv_ext sample_service))"
  unfolding sample_repo repository_def
  by (rule exI [of _ "[''root'', ''code'']"]) (simp add: path_component_def)

definition second_upload :: kwargs where
  "second_upload = [(''code'', PFile ''/home/a/new.tar'' ''tarball'')]"

lemma uploads: "case fst (upload_code_version sample_genv second_upload (sample_service, sample_world)) of
    Inr (HttpJsonResponse r) \<Rightarrow> True | _ \<Rightarrow> False"
  by code_simp

theorem upload_download_witness:
  "\<exists>v s' w' path. upload_code_version sample_genv second_upload (sample_service, sample_world) =
      (Inr (HttpJsonResponse (PDict [(''codeVersionId'', PStr v)])), (s', w')) \<and>
    download_code_version [(''codeVersionId'', PStr v)] (s', w') = (Inr (HttpFileDownloadResponse ''new.tar'' path), (s', w')) \<and>
    map_of (wd_disk w') path = Some ''tarball''"
proof -
  obtain config where config: "at_config (sv_ext sample_service) = Some config" by (rule sample_state)
  have git: "\<forall>c. map_option fst (ge_archive sample_genv c) \<noteq> Some ''git''" by (simp add: sample_genv_def)
  obtain q s' w' where run: "upload_code_version sample_genv second_upload (sample_service, sample_world) = (q, (s', w'))"
    by (rule prod_cases3)
  then obtain r where q: "q = Inr (HttpJsonResponse r)" using uploads by (auto split: sum.splits http_response.splits)
  from upload_download [OF config sample_repository genv_fresh git run [unfolded q], THEN conjunct1, rule_format, OF refl]
  obtain v n contents path where res: "r = PDict [(''codeVersionId'', PStr v)]" "map_of second_upload ''code'' = Some (PFile n contents)"
    "download_code_version [(''codeVersionId'', PStr v)] (s', w') = (Inr (HttpFileDownloadResponse (basename n) path), (s', w'))"
    "map_of (wd_disk w') path = Some contents"
    by (elim exE conjE)
  have "n = ''/home/a/new.tar''" "contents = ''tarball''" using res(2) by (simp_all add: second_upload_def)
  moreover have "basename ''/home/a/new.tar'' = ''new.tar''" by code_simp
  ultimately have "basename n = ''new.tar''" "contents = ''tarball''" by simp_all
  show ?thesis
  proof (intro exI conjI)
    show "upload_code_version sample_genv second_upload (sample_service, sample_world) =
      (Inr (HttpJsonResponse (PDict [(''codeVersionId'', PStr v)])), (s', w'))"
      using run unfolding q res(1) .
    show "download_code_version [(''codeVersionId'', PStr v)] (s', w') = (Inr (HttpFileDownloadResponse ''new.tar'' path), (s', w'))"
      using res(3) unfolding \<open>basename n = _\<close> .
    show "map_of (wd_disk w') path = Some ''tarball''" using res(4) unfolding \<open>contents = _\<close> .
  qed
qed

definition one_node :: kwargs where "one_node = [(role_regular, PInt 1)]"

lemma removes: "case fst (generic_on_remove_nodes sample_genv one_node (sample_service, sample_world)) of Inr del \<Rightarrow> True | _ \<Rightarrow> False"
  by code_simp

theorem removal_from_the_end_witness:
  "\<exists>s' w'. generic_on_remove_nodes sample_genv one_node (sample_service, sample_world) = (Inr [node_of 2], (s', w')) \<and>
    at_master (sv_ext s') = Some ''10.0.0.1'' \<and> sv_state s' = S_RUNNING"
proof -
  obtain q s' w' where run: "generic_on_remove_nodes sample_genv one_node (sample_service, sample_world) = (q, (s', w'))"
    by (rule prod_cases3)
  then obtain del where q: "q = Inr del" using removes by (auto split: sum.splits)
  have one: "sum_range one_node = Inr 1" by code_simp
  note master = sample_tuple [THEN conjunct2, THEN conjunct2, THEN conjunct2, THEN conjunct2, THEN conjunct2]
  from removal_from_the_end [OF sample_plain run [unfolded q]] one
  have "del = [node_of 2]" "at_master (sv_ext s') = Some ''10.0.0.1''" "sv_state s' = S_RUNNING"
    by (auto simp: sample_nodes master)
  then show ?thesis using run q by blast
qed

end
