(* ===== verification/VolumeProps.thy ===== *)
theory VolumeProps
  imports GenericProps Scenario
begin

text \<open>
  The request for a volume, on an application that runs a generic service.
\<close>

section \<open>Handlers whose checks and effects are separate\<close>

lemma after_checks_json:
  assumes "after_checks checks go a = (Inr (HttpJsonResponse v), a')"
  obtains x b where "checks a = (Inr x, b)" "go x b = (Inr (HttpJsonResponse v), a')"
  using assms by (auto simp: after_checks_def split: prod.splits sum.splits)

lemma sx_bind_okE:
  assumes "sx_bind m f s = (Inr y, s')"
  obtains x t where "m s = (Inr x, t)" "f x t = (Inr y, s')"
  using assms by (auto simp: sx_bind_run split: prod.splits sum.splits)

lemma service_of_vm_live:
  "service_of_vm inst vm_id is a = Inr (Some (i, ty)) \<Longrightarrow> i \<in> set is \<and> i \<noteq> 0 \<and>
    (\<exists>s. get_object i a = Some s \<and> has_vm vm_id (sv_nodes s) = Inr True)"
  by (induction inst vm_id "is" a rule: service_of_vm.induct)
     (auto split: if_splits option.splits sum.splits bool.splits)

lemma has_vm_True: "has_vm vm_id es = Inr True \<Longrightarrow> \<exists>e \<in> set es. entry_id e = Inr vm_id"
  by (induction vm_id es rule: has_vm.induct) (auto split: sum.splits if_splits)

lemma entry_id_VNode: "entry_id e = Inr k \<Longrightarrow> \<exists>m. e = VNode m \<and> sn_id m = k"
  by (cases e) (simp_all add: entry_id_def entry_node_def)

lemma volume_args:
  assumes "check_arguments [Mandatory ''volumeName'' (is_not_in_list (map PStr names)),
     Mandatory ''volumeSize'' is_pos_int, Mandatory ''agentId'' (is_in_list (map PStr ids))] kw = Inr args"
  shows "\<exists>name n agent. args = PList [name, PInt n, PStr agent] \<and> n > 0 \<and> agent \<in> set ids \<and>
    \<not> py_in name (map PStr names) \<and> set (dict_keys kw) \<subseteq> {''volumeName'', ''volumeSize'', ''agentId''}"
proof -
  have "distinct (param_names [Mandatory ''volumeName'' (is_not_in_list (map PStr names)),
     Mandatory ''volumeSize'' is_pos_int, Mandatory ''agentId'' (is_in_list (map PStr ids))])" by simp
  from check_arguments_Inr [OF this, of kw args] assms show ?thesis
    by (auto simp: list_all2_Cons1 constraint_Inr py_simps unwrap_parsed_def)
qed

lemma volume_name_ok:
  assumes "check_volume_name v = Inr u"
  shows "\<exists>s. v = PStr s \<and> s \<noteq> [] \<and> list_all (\<lambda>c. volume_char c \<or> c = char_of (10 :: nat)) s"
proof -
  obtain s where s: "v = PStr s" using assms by (cases v) (simp_all add: check_volume_name_def)
  let ?nl = "char_of (10 :: nat)"
  let ?body = "if s \<noteq> [] \<and> last s = ?nl then butlast s else s"
  have body: "?body \<noteq> [] \<and> list_all volume_char ?body"
    using assms by (simp add: s check_volume_name_def Let_def)
  show ?thesis
  proof (cases "s \<noteq> [] \<and> last s = ?nl")
    case True
    then have "s = butlast s @ [?nl]" using append_butlast_last_id by metis
    moreover have "list_all (\<lambda>c. volume_char c \<or> c = ?nl) (butlast s @ [?nl])"
      using body True by (auto simp: list_all_iff)
    ultimately show ?thesis using s True by metis
  next
    case False
    then show ?thesis using body s by (auto simp: list_all_iff)
  qed
qed

text \<open>
  Claim C11. A request for a volume that is granted has well-typed arguments and nothing else: the name
  is new and made of the allowed characters (or a newline at its end), the size is a positive number, the
  agent is a node of the application and of the running service that gets the volume; one thread with
  these values is queued and the service adapts.
\<close>

theorem volume_request_typed:
  assumes "create_volume_handler inst kw a = (Inr (HttpJsonResponse v), a')"
  shows "\<exists>name n agent_id i s. set (dict_keys kw) \<subseteq> {''volumeName'', ''volumeSize'', ''agentId''} \<and>
    app_jobs a' = app_jobs a @ [CreateVolumeJob name n agent_id i] \<and> v = PDict [(''service_id'', PInt i)] \<and>
    n > 0 \<and> name \<noteq> [] \<and> name \<notin> set (dict_keys (sv_volumes (app_self a))) \<and>
    list_all (\<lambda>c. volume_char c \<or> c = char_of (10 :: nat)) name \<and>
    (\<exists>m. VNode m \<in> set (sv_nodes (app_self a)) \<and> sn_id m = agent_id) \<and>
    i \<noteq> 0 \<and> i \<in> set (app_live a) \<and> get_object i a = Some s \<and> sv_state s = S_RUNNING \<and>
    (\<exists>m. VNode m \<in> set (sv_nodes s) \<and> sn_id m = agent_id) \<and>
    map_option sv_state (get_object i a') = Some S_ADAPTING"
proof -
  obtain ids where ids: "map_res entry_id (sv_nodes (app_self a)) = Inr ids"
    using assms by (auto simp: create_volume_handler_def split: sum.splits)
  note run = assms [unfolded create_volume_handler_def ids sum.case]
  from run obtain x b where checks: "sx_bind (sx_lift (check_arguments
        [Mandatory ''volumeName'' (is_not_in_list (map PStr (dict_keys (sv_volumes (app_self a))))),
         Mandatory ''volumeSize'' is_pos_int,
         Mandatory ''agentId'' (is_in_list (map PStr ids))] kw)) (\<lambda>args.
      let (name, volume_size, agent_id) = args3 args in
      sx_bind (sx_lift (check_volume_name name)) (\<lambda>_.
      sx_bind (get_service_id_by_vm_id inst (py_str agent_id)) (\<lambda>owner.
      sx_bind (sx_lift (unpack owner)) (\<lambda>(i, _).
      sx_bind (instance_at i) (\<lambda>s.
      sx_bind (sx_lift (check_state [S_RUNNING] s)) (\<lambda>_.
      sx_bind (on_object i (k_check_create_volume (class_of inst s) (py_str name) (key_of volume_size)
                 (py_str agent_id))) (\<lambda>_.
        sx_return (i, py_str name, key_of volume_size, py_str agent_id)))))))) a = (Inr x, b)"
    and go: "(\<lambda>(i, name, volume_size, agent_id).
      sx_bind (update_object i (state_set S_ADAPTING [])) (\<lambda>_.
      sx_bind (spawn (CreateVolumeJob name volume_size agent_id i)) (\<lambda>_.
        sx_return (json [(''service_id'', PInt i)])))) x b = (Inr (HttpJsonResponse v), a')"
    by (rule after_checks_json)
  obtain args where args: "check_arguments
        [Mandatory ''volumeName'' (is_not_in_list (map PStr (dict_keys (sv_volumes (app_self a))))),
         Mandatory ''volumeSize'' is_pos_int,
         Mandatory ''agentId'' (is_in_list (map PStr ids))] kw = Inr args"
    using checks by (auto simp: sx_bind_run split: sum.splits)
  obtain name0 n agent where parts: "args = PList [name0, PInt n, PStr agent]" "n > 0" "agent \<in> set ids"
      "\<not> py_in name0 (map PStr (dict_keys (sv_volumes (app_self a))))"
      "set (dict_keys kw) \<subseteq> {''volumeName'', ''volumeSize'', ''agentId''}"
    using volume_args [OF args] by blast
  have agent: "\<exists>m. VNode m \<in> set (sv_nodes (app_self a)) \<and> sn_id m = agent"
    using map_res_mem [OF ids parts(3)] by (auto dest!: entry_id_VNode)
  note steps = checks [unfolded args sx_bind_lift parts(1) args_simps Let_def prod.case py_str_def pyval.case]
  obtain u where "check_volume_name name0 = Inr u" using steps by (auto simp: sx_bind_run split: sum.splits)
  then obtain name where name: "name0 = PStr name" "name \<noteq> []" "list_all (\<lambda>c. volume_char c \<or> c = char_of (10 :: nat)) name"
    using volume_name_ok by blast
  obtain i ty where owner: "service_of_vm inst agent (app_live a) a = Inr (Some (i, ty))"
    using steps by (auto simp: sx_bind_run get_service_id_by_vm_id_def unpack_def split: sum.splits option.splits)
  from service_of_vm_live [OF owner] obtain s where s: "i \<in> set (app_live a)" "i \<noteq> 0" "get_object i a = Some s"
      "has_vm agent (sv_nodes s) = Inr True" by blast
  have vm: "\<exists>m. VNode m \<in> set (sv_nodes s) \<and> sn_id m = agent"
    using has_vm_True [OF s(4)] by (auto dest!: entry_id_VNode)
  obtain u' where check: "on_object i (k_check_create_volume (class_of inst s) name n agent) a = (Inr u', b)"
    and x: "x = (i, name, n, agent)" and state: "sv_state s = S_RUNNING"
    using steps s name(1) by (auto simp: sx_bind_run get_service_id_by_vm_id_def owner unpack_def instance_at_def check_state_def
        key_of_def guard_def split: sum.splits prod.splits if_splits)
  obtain t where t: "get_object i b = Some t" using check s(3)
    by (auto simp: on_object_def put_object_def get_object_def split: prod.splits if_splits)
  have frame: "app_jobs b = app_jobs a" using on_object_frame(5) [OF check] .
  have "app_jobs a' = app_jobs a @ [CreateVolumeJob name n agent i] \<and> v = PDict [(''service_id'', PInt i)] \<and>
      map_option sv_state (get_object i a') = Some S_ADAPTING"
    using go t s(2) by (auto simp: x sx_bind_run update_object_def on_object_def modify_service_def put_object_def get_object_def
        spawn_def json_def state_set_def frame)
  moreover have "name \<notin> set (dict_keys (sv_volumes (app_self a)))"
    using parts(4) name(1) by (simp add: py_simps del: map_map list.set_map)
  ultimately show ?thesis using parts(2,5) name s agent vm state by blast
qed


section \<open>An application with a generic service\<close>

definition application_attrs :: attrs where
  "application_attrs = \<lparr>at_code_repo = [], at_config = None, at_agents = [], at_master = None, at_threads = []\<rparr>"

definition generic_inst :: "(attrs, int) installation" where
  "generic_inst =
     \<lparr>in_net = generic_net,
      in_load = (\<lambda>ty. if ty = ''generic'' then Loaded (generic_class sample_genv) else NoModule),
      in_app_class = base_class (\<lambda>cfg kw. new_manager ''application'' application_attrs cfg)\<rparr>"

definition generic_start :: "exn + (attrs, int) app" where
  "generic_start = start_manager generic_inst application_attrs sample_config [(''reset_config'', PBool True)] True \<lparr>wd_disk = [], wd_out = 1\<rparr>"

definition generic_app :: "(attrs, int) app" where
  "generic_app = (case generic_start of
     Inr a \<Rightarrow> fold (perform generic_inst) [Post ''add_service'' [(''service_type'', PStr ''generic'')],
       Post ''start_service'' [(''service_id'', PInt 1), (''cloud'', PStr ''default'')], Thread 0] a
   | Inl _ \<Rightarrow> undefined)"

definition new_volume :: kwargs where
  "new_volume = [(''volumeName'', PStr ''data''), (''volumeSize'', PInt 20), (''agentId'', PStr ''iaas1'')]"

lemma generic_volume: "case fst (create_volume_handler generic_inst new_volume generic_app) of
    Inr (HttpJsonResponse v) \<Rightarrow> True | _ \<Rightarrow> False"
  by code_simp

theorem volume_request_typed_witness:
  "\<exists>(a' :: (attrs, int) app) name n agent_id i. app_jobs a' = app_jobs generic_app @ [CreateVolumeJob name n agent_id i] \<and>
     map_option sv_state (get_object i a') = Some S_ADAPTING"
proof -
  obtain q a' where run: "create_volume_handler generic_inst new_volume generic_app = (q, a')" by fastforce
  then obtain v where q: "q = Inr (HttpJsonResponse v)"
    using generic_volume by (auto split: sum.splits http_response.splits)
  from volume_request_typed [OF run [unfolded q]] obtain name n agent_id i
    where "app_jobs a' = app_jobs generic_app @ [CreateVolumeJob name n agent_id i]" "map_option sv_state (get_object i a') = Some S_ADAPTING"
    by (elim exE conjE)
  then show ?thesis by (intro exI conjI)
qed

end
