(* ===== verification/Json.thy ===== *)
theory Json
  imports PyMisc
begin

text \<open>
  \<open>json.dumps\<close> and \<open>json.loads\<close> as the calls between managers, agents and the director use them: the
  default separators, ASCII text, objects whose keys are text. Numbers with a fraction or an exponent and
  characters beyond the first 256 are outside the model; a value that is no JSON has no text.
\<close>

section \<open>Decimal text\<close>

lemma digit_table: "list_all (\<lambda>k. digit_val (char_of (48 + k)) = Some (int k) \<and> \<not> is_space (char_of (48 + k)) \<and>
    char_of (48 + k) \<noteq> CHR ''-'' \<and> char_of (48 + k) \<noteq> CHR ''+'') [0..<10]"
  by code_simp

lemma digit_char_all: "k < (10 :: nat) \<Longrightarrow> digit_val (char_of (48 + k)) = Some (int k) \<and> \<not> is_space (char_of (48 + k)) \<and>
    char_of (48 + k) \<noteq> CHR ''-'' \<and> char_of (48 + k) \<noteq> CHR ''+''"
  using digit_table unfolding list_all_iff by (drule_tac x = k in bspec) simp_all

lemmas digit_char = digit_char_all [THEN conjunct1]

lemma digits_val_append: "digits_val acc (xs @ [c]) =
    (case digits_val acc xs of None \<Rightarrow> None | Some a \<Rightarrow> map_option (\<lambda>d. 10 * a + d) (digit_val c))"
  by (induction acc xs rule: digits_val.induct) (auto split: option.split)

lemma nat_digits_val: "digits_val 0 (nat_digits n) = Some (int n)"
proof (induction n rule: nat_digits.induct)
  case (1 n)
  show ?case
  proof (cases "n < 10")
    case True
    then show ?thesis by (simp add: nat_digits.simps [of n] digit_char)
  next
    case False
    then have "digits_val 0 (nat_digits n) = Some (10 * int (n div 10) + int (n mod 10))"
      using 1 by (simp add: nat_digits.simps [of n] digits_val_append digit_char)
    also have "10 * int (n div 10) + int (n mod 10) = int n" by presburger
    finally show ?thesis .
  qed
qed

lemma nat_digits_chars: "\<forall>c \<in> set (nat_digits n). \<exists>k < 10. c = char_of (48 + k :: nat)"
proof (induction n rule: nat_digits.induct)
  case (1 n)
  show ?case
  proof (cases "n < 10")
    case False
    then have "set (nat_digits n) = insert (char_of (48 + n mod 10)) (set (nat_digits (n div 10)))"
      by (simp add: nat_digits.simps [of n])
    moreover have "n mod 10 < 10" by simp
    ultimately show ?thesis using 1 False by blast
  qed (auto simp: nat_digits.simps [of n])
qed

lemma nat_digits_nonempty: "nat_digits n \<noteq> []"
  by (simp add: nat_digits.simps [of n])

lemma strip_plain: "s \<noteq> [] \<Longrightarrow> \<not> is_space (hd s) \<Longrightarrow> \<not> is_space (last s) \<Longrightarrow> py_strip s = s"
proof -
  assume "s \<noteq> []" "\<not> is_space (hd s)" "\<not> is_space (last s)"
  then have "dropWhile is_space s = s" "dropWhile is_space (rev s) = rev s"
    by (cases s, simp_all) (cases s rule: rev_cases, simp_all)
  then show ?thesis by (simp add: py_strip_def py_lstrip_def py_rstrip_def)
qed

lemma parse_int_str: "0 \<le> n \<Longrightarrow> parse_int (int_str n) = Some n"
proof -
  assume n: "0 \<le> n"
  let ?s = "nat_digits (nat n)"
  have ends: "hd ?s \<in> set ?s" "last ?s \<in> set ?s" using nat_digits_nonempty [of "nat n"] by simp_all
  have plain: "\<not> is_space c \<and> c \<noteq> CHR ''-'' \<and> c \<noteq> CHR ''+''" if "c \<in> set ?s" for c
  proof -
    note digit = nat_digits_chars [THEN bspec, OF that]
    then obtain k where k: "k < (10 :: nat)" "c = char_of (48 + k)"  by (elim exE conjE)
    show ?thesis unfolding k(2) using digit_char_all [OF k(1)] by (elim conjE) (intro conjI)
  qed
  have "py_strip ?s = ?s" 
    by (rule strip_plain [OF nat_digits_nonempty plain [OF ends(1), THEN conjunct1] plain [OF ends(2), THEN conjunct1]])
  moreover obtain c cs where "?s = c # cs" using nat_digits_nonempty [of "nat n"] by (cases ?s) blast+
  ultimately show ?thesis
    using n plain [OF ends(1), THEN conjunct2] nat_digits_val [of "nat n"] by (simp add: parse_int_def int_str_def)
qed

lemma int_str_digits: "0 \<le> n \<Longrightarrow> int_str n \<noteq> [] \<and> list_all (\<lambda>c. digit_val c \<noteq> None) (int_str n)"
  using nat_digits_chars [of "nat n"] nat_digits_nonempty [of "nat n"] digit_char_all
  unfolding int_str_def list_all_iff by (metis not_less option.discI)

section \<open>Printing\<close>

definition hex_digit :: "nat \<Rightarrow> char" where
  "hex_digit n = (if n < 10 then char_of (48 + n) else char_of (87 + n))"

definition backslash :: char where "backslash = CHR 0x5C"

definition quote :: char where "quote = CHR 0x22"

definition escapes :: "(char \<times> char) list" where
  "escapes = [(quote, quote), (backslash, backslash), (char_of (10 :: nat), CHR ''n''), (char_of (13 :: nat), CHR ''r''),
     (char_of (9 :: nat), CHR ''t''), (char_of (8 :: nat), CHR ''b''), (char_of (12 :: nat), CHR ''f'')]"

definition json_char :: "char \<Rightarrow> string" where
  "json_char c =
     (case map_of escapes c of
        Some e \<Rightarrow> [backslash, e]
      | None \<Rightarrow> let n = of_char c in
          if 32 \<le> n \<and> n < (127 :: nat) then [c]
          else [backslash, CHR ''u'', CHR ''0'', CHR ''0'', hex_digit (n div 16), hex_digit (n mod 16)])"

definition json_string :: "string \<Rightarrow> string" where
  "json_string s = quote # concat (map json_char s) @ [quote]"

fun commas :: "string list \<Rightarrow> string" where
  "commas [] = []"
| "commas [t] = t"
| "commas (t # ts) = t @ '', '' @ commas ts"

fun json_dumps :: "pyval \<Rightarrow> string" where
  "json_dumps PNone = ''null''"
| "json_dumps (PBool b) = (if b then ''true'' else ''false'')"
| "json_dumps (PInt n) = int_str n"
| "json_dumps (PStr s) = json_string s"
| "json_dumps (PList vs) = ''['' @ commas (map json_dumps vs) @ '']''"
| "json_dumps (PDict d) = CHR 0x7B # commas (map (\<lambda>(k, v). json_string k @ '': '' @ json_dumps v) d) @ [CHR 0x7D]"
| "json_dumps v = []"

section \<open>Parsing\<close>

definition json_space :: "char \<Rightarrow> bool" where
  "json_space c = (of_char c \<in> {9, 10, 13, 32 :: nat})"

definition skip_space :: "string \<Rightarrow> string" where
  "skip_space s = dropWhile json_space s"

definition hex_val :: "char \<Rightarrow> nat option" where
  "hex_val c = (let n = of_char c in if 48 \<le> n \<and> n \<le> 57 then Some (n - 48)
     else if 97 \<le> n \<and> n \<le> 102 then Some (n - 87) else if 65 \<le> n \<and> n \<le> 70 then Some (n - 55) else None)"

definition unescapes :: "(char \<times> char) list" where
  "unescapes = (CHR ''/'', CHR ''/'') # map prod.swap escapes"

definition hex_char :: "string \<Rightarrow> (char \<times> string) option" where
  "hex_char s = (case s of
       a # b # c # d # r \<Rightarrow>
         (case (hex_val a, hex_val b, hex_val c, hex_val d) of
            (Some 0, Some 0, Some m, Some n) \<Rightarrow> Some (char_of (16 * m + n), r)
          | _ \<Rightarrow> None)
     | _ \<Rightarrow> None)"

lemma hex_char_shorter [termination_simp]: "hex_char s = Some (c, r) \<Longrightarrow> length r < length s"
  by (auto simp: hex_char_def split: list.splits option.splits nat.splits)

fun parse_string :: "string \<Rightarrow> (string \<times> string) option" where
  "parse_string [] = None"
| "parse_string (c # cs) =
     (if c = quote then Some ([], cs)
      else if c = backslash then
        (case cs of
           [] \<Rightarrow> None
         | e # es \<Rightarrow>
             if e = CHR ''u'' then
               (case hex_char es of None \<Rightarrow> None | Some (x, r) \<Rightarrow> map_option (apfst (Cons x)) (parse_string r))
             else (case map_of unescapes e of None \<Rightarrow> None | Some x \<Rightarrow> map_option (apfst (Cons x)) (parse_string es)))
      else if of_char c < (32 :: nat) then None
      else map_option (apfst (Cons c)) (parse_string cs))"

definition number_char :: "char \<Rightarrow> bool" where
  "number_char c = (c = CHR ''-'' \<or> digit_val c \<noteq> None)"

definition parse_number :: "string \<Rightarrow> (pyval \<times> string) option" where
  "parse_number s = map_option (\<lambda>n. (PInt n, dropWhile number_char s)) (parse_int (takeWhile number_char s))"

definition expect :: "string \<Rightarrow> pyval \<Rightarrow> string \<Rightarrow> (pyval \<times> string) option" where
  "expect word v s = (if starts_with s word then Some (v, drop (length word) s) else None)"

definition dict_of :: "(string \<times> pyval) list \<Rightarrow> (string \<times> pyval) list" where
  "dict_of kvs = fold (\<lambda>(k, v) d. AList.update k v d) kvs []"

text \<open>The fuel bounds the nesting and the number of items; the length of the text is enough.\<close>

fun parse_value :: "nat \<Rightarrow> string \<Rightarrow> (pyval \<times> string) option"
and parse_items :: "nat \<Rightarrow> string \<Rightarrow> (pyval list \<times> string) option"
and parse_members :: "nat \<Rightarrow> string \<Rightarrow> ((string \<times> pyval) list \<times> string) option" where
  "parse_value 0 s = None"
| "parse_value (Suc n) s =
     (case skip_space s of
        [] \<Rightarrow> None
      | c # cs \<Rightarrow>
          if c = quote then map_option (apfst PStr) (parse_string cs)
          else if c = CHR ''['' then
            (case skip_space cs of
               [] \<Rightarrow> None
             | x # r \<Rightarrow> if x = CHR '']'' then Some (PList [], r) else map_option (apfst PList) (parse_items n cs))
          else if c = CHR 0x7B then
            (case skip_space cs of
               [] \<Rightarrow> None
             | x # r \<Rightarrow> if x = CHR 0x7D then Some (PDict [], r)
                 else map_option (apfst (PDict \<circ> dict_of)) (parse_members n cs))
          else if c = CHR ''n'' then expect ''null'' PNone (c # cs)
          else if c = CHR ''t'' then expect ''true'' (PBool True) (c # cs)
          else if c = CHR ''f'' then expect ''false'' (PBool False) (c # cs)
          else if number_char c then parse_number (c # cs)
          else None)"
| "parse_items 0 s = None"
| "parse_items (Suc n) s =
     (case parse_value n s of
        None \<Rightarrow> None
      | Some (v, r) \<Rightarrow>
          (case skip_space r of
             [] \<Rightarrow> None
           | c # cs \<Rightarrow>
               if c = CHR '','' then map_option (apfst (Cons v)) (parse_items n cs)
               else if c = CHR '']'' then Some ([v], cs)
               else None))"
| "parse_members 0 s = None"
| "parse_members (Suc n) s =
     (case skip_space s of
        [] \<Rightarrow> None
      | q # r \<Rightarrow>
          if q \<noteq> quote then None
          else (case parse_string r of
             None \<Rightarrow> None
           | Some (k, r) \<Rightarrow>
               (case skip_space r of
                  [] \<Rightarrow> None
                | c # r \<Rightarrow>
                    if c \<noteq> CHR '':'' then None
                    else (case parse_value n r of
                       None \<Rightarrow> None
                     | Some (v, r) \<Rightarrow>
                         (case skip_space r of
                            [] \<Rightarrow> None
                          | c # r \<Rightarrow>
                              if c = CHR '','' then map_option (apfst (Cons (k, v))) (parse_members n r)
                              else if c = CHR 0x7D then Some ([(k, v)], r)
                              else None)))))"

definition json_loads :: "string \<Rightarrow> exn + pyval" where
  "json_loads s =
     (case parse_value (Suc (length s)) s of
        Some (v, r) \<Rightarrow> if skip_space r = [] then Inr v else Inl (builtin_exn EValueError)
      | None \<Rightarrow> Inl (builtin_exn EValueError))"


section \<open>Reading back\<close>

fun json_value :: "pyval \<Rightarrow> bool" where
  "json_value (PList vs) = list_all json_value vs"
| "json_value (PDict d) = (distinct (map fst d) \<and> list_all (\<lambda>(k, v). json_value v) d)"
| "json_value (PFloat r) = False"
| "json_value (PFile n c) = False"
| "json_value v = True"

lemma hex_val_digit: "n < 16 \<Longrightarrow> hex_val (hex_digit n) = Some n"
  by (simp add: hex_val_def hex_digit_def Let_def)

lemma escape_table: "list_all (\<lambda>(c, e). map_of unescapes e = Some c \<and> e \<noteq> CHR ''u'') escapes" "quote \<noteq> backslash"
  "list_all (\<lambda>(c, e). c = quote \<or> c = backslash \<or> (of_char c :: nat) < 32) escapes" "map_of escapes quote \<noteq> None" "map_of escapes backslash \<noteq> None"
  by code_simp+

lemma zero_hex: "hex_val (CHR ''0'') = Some 0" by code_simp

lemma hex_char_code: "hex_char (CHR ''0'' # CHR ''0'' # hex_digit (of_char c div 16) # hex_digit (of_char c mod 16) # t) = Some (c, t)"
proof -
  have "(of_char c :: nat) < 256" by simp
  then have "(of_char c :: nat) div 16 < 16" by (simp add: less_mult_imp_div_less)
  moreover have "(of_char c :: nat) mod 16 < 16" by simp
  moreover have "16 * ((of_char c :: nat) div 16) + of_char c mod 16 = of_char c" by simp
  ultimately show ?thesis by (simp add: hex_char_def zero_hex hex_val_digit)
qed

lemma parse_string_char: "parse_string (json_char c @ t) = map_option (apfst (Cons c)) (parse_string t)"
proof (cases "map_of escapes c")
  case (Some e)
  then have "(c, e) \<in> set escapes" by (rule map_of_SomeD)
  then have "map_of unescapes e = Some c \<and> e \<noteq> CHR ''u''" using escape_table(1) by (auto simp only: list_all_iff)
  then show ?thesis using escape_table(2) by (simp add: json_char_def Some not_sym [OF escape_table(2)])
next
  case None
  then have plain: "c \<noteq> quote" "c \<noteq> backslash" using escape_table(4,5) by auto
  show ?thesis
  proof (cases "32 \<le> (of_char c :: nat) \<and> (of_char c :: nat) < 127")
    case True
    then show ?thesis using plain by (simp add: json_char_def None)
  next
    case False
    then have "json_char c = [backslash, CHR ''u'', CHR ''0'', CHR ''0'', hex_digit (of_char c div 16), hex_digit (of_char c mod 16)]"
      by (auto simp: json_char_def None Let_def)
    then show ?thesis using hex_char_code [of c t] not_sym [OF escape_table(2)] by simp
  qed
qed

lemma parse_string_text: "parse_string (concat (map json_char s) @ quote # rest) = Some (s, rest)"
  by (induction s) (simp_all add: parse_string_char)


lemma skip_again: "skip_space (skip_space s) = skip_space s"
  by (induction s) (simp_all add: skip_space_def)

lemma parse_value_skip: "parse_value n (skip_space s) = parse_value n s" "parse_members n (skip_space s) = parse_members n s"
  by (cases n; simp add: skip_again)+

lemma parse_space: "parse_value n (CHR '' '' # s) = parse_value n s" "parse_members n (CHR '' '' # s) = parse_members n s"
  using parse_value_skip [of n "CHR '' '' # s"] parse_value_skip [of n s] by (simp_all add: skip_space_def json_space_def)

text \<open>A number ends where no digit follows.\<close>

definition ends :: "string \<Rightarrow> bool" where
  "ends s \<longleftrightarrow> s = [] \<or> \<not> number_char (hd s)"

lemma ends_marks: "ends (CHR '','' # s)" "ends (CHR '']'' # s)" "ends (CHR 0x7D # s)" "ends []"
  by (simp_all add: ends_def number_char_def digit_val_def)

lemma number_text: "list_all number_char (int_str n) \<and> int_str n \<noteq> []"
proof -
  have "number_char c" if "c \<in> set (nat_digits m)" for c m
  proof -
    note digit = nat_digits_chars [THEN bspec, OF that]
    then obtain k where k: "k < (10 :: nat)" "c = char_of (48 + k)" by (elim exE conjE)
    show ?thesis unfolding k(2) number_char_def using digit_char [OF k(1)] by simp
  qed
  then show ?thesis using nat_digits_nonempty by (auto simp: int_str_def list_all_iff number_char_def)
qed

lemma takeWhile_ends: "list_all number_char t \<Longrightarrow> ends r \<Longrightarrow> takeWhile number_char (t @ r) = t \<and> dropWhile number_char (t @ r) = r"
  by (induction t) (auto simp: ends_def, (cases r; simp)+)

lemma parse_minus:
  assumes "\<not> is_space (last s)" "s \<noteq> []"
  shows "parse_int (CHR ''-'' # s) = map_option uminus (digits_val 0 s)"
proof -
  have "\<not> is_space (CHR ''-'')" by (simp add: is_space_def)
  then have "py_strip (CHR ''-'' # s) = CHR ''-'' # s" using assms by (intro strip_plain) simp_all
  then show ?thesis using assms(2) by (simp add: parse_int_def)
qed

lemma parse_int_any: "parse_int (int_str n) = Some n"
proof (cases "0 \<le> n")
  case False
  let ?s = "nat_digits (nat (- n))"
  have "last ?s \<in> set ?s" using nat_digits_nonempty by simp
  note digit = nat_digits_chars [THEN bspec, OF this]
  then obtain k where k: "k < (10 :: nat)" "last ?s = char_of (48 + k)" by (elim exE conjE)
  have "\<not> is_space (last ?s)" unfolding k(2) using digit_char_all [OF k(1)] by (elim conjE)
  from parse_minus [OF this nat_digits_nonempty] show ?thesis
    using False nat_digits_val [of "nat (- n)"] by (simp add: int_str_def)
qed (rule parse_int_str)

lemma parse_number_text: "ends r \<Longrightarrow> parse_number (int_str n @ r) = Some (PInt n, r)"
  using takeWhile_ends [of "int_str n" r] number_text [of n] parse_int_any [of n] by (simp add: parse_number_def)

text \<open>The marks that start a value.\<close>

definition starts_value :: "char \<Rightarrow> bool" where
  "starts_value c \<longleftrightarrow> \<not> json_space c \<and> c \<noteq> CHR '']'' \<and> c \<noteq> CHR 0x7D"

lemma starts_marks: "starts_value quote" "starts_value (CHR ''['')" "starts_value (CHR 0x7B)" "starts_value (CHR ''n'')"
    "starts_value (CHR ''t'')" "starts_value (CHR ''f'')"
  by (simp_all add: starts_value_def json_space_def quote_def)

lemma number_starts: "number_char c \<Longrightarrow> starts_value c \<and> c \<noteq> quote \<and> c \<notin> {CHR ''['', CHR 0x7B, CHR ''n'', CHR ''t'', CHR ''f''}"
proof (cases "c = CHR ''-''")
  case False
  assume "number_char c"
  then have "48 \<le> (of_char c :: int)" "(of_char c :: int) \<le> 57"
    using False by (auto simp: number_char_def digit_val_def Let_def split: if_splits)
  moreover have "(of_char c :: int) = int (of_char c)" by (rule of_nat_of_char [symmetric])
  ultimately have n: "48 \<le> (of_char c :: nat)" "(of_char c :: nat) \<le> 57" by linarith+
  then have "\<not> json_space c" by (auto simp: json_space_def)
  moreover have "c \<noteq> d" if "(of_char d :: nat) < 48 \<or> 57 < (of_char d :: nat)" for d using n that by auto
  ultimately show ?thesis by (simp add: starts_value_def quote_def)
qed (simp add: starts_value_def json_space_def quote_def)

lemma dumps_starts: "json_value v \<Longrightarrow> \<exists>c cs. json_dumps v = c # cs \<and> starts_value c"
proof (cases v)
  case (PInt n)
  then show ?thesis using number_text [of n] number_starts by (cases "int_str n") auto
qed (auto simp: json_string_def starts_marks)

lemma skip_starts: "starts_value c \<Longrightarrow> skip_space (c # cs) = c # cs"
  by (simp add: skip_space_def starts_value_def)


section \<open>The round trip\<close>

lemma parse_items_text:
  assumes "\<And>v n r. v \<in> set vs \<Longrightarrow> length (json_dumps v) \<le> n \<Longrightarrow> ends r \<Longrightarrow> parse_value n (json_dumps v @ r) = Some (v, r)"
    and "vs \<noteq> []" "length (commas (map json_dumps vs)) < n"
  shows "parse_items n (commas (map json_dumps vs) @ CHR '']'' # rest) = Some (vs, rest)"
  using assms
proof (induction vs arbitrary: n)
  case (Cons v vs)
  then obtain m where n: "n = Suc m" by (cases n) simp_all
  have spaces: "skip_space (CHR '','' # s) = CHR '','' # s" "skip_space (CHR '']'' # s) = CHR '']'' # s" for s
    by (simp_all add: skip_space_def json_space_def)
  show ?case
  proof (cases "vs = []")
    case True
    then have "parse_value m (json_dumps v @ CHR '']'' # rest) = Some (v, CHR '']'' # rest)"
      using Cons.prems(1) [of v m] Cons.prems(3) n ends_marks by simp
    then show ?thesis using True n spaces by simp
  next
    case False
    then have joined: "commas (map json_dumps (v # vs)) = json_dumps v @ '', '' @ commas (map json_dumps vs)"
      by (cases vs) simp_all
    then have m: "length (json_dumps v) \<le> m" "length (commas (map json_dumps vs)) < m" using Cons.prems(3) n by simp_all
    have "parse_value m (json_dumps v @ CHR '','' # CHR '' '' # commas (map json_dumps vs) @ CHR '']'' # rest) =
        Some (v, CHR '','' # CHR '' '' # commas (map json_dumps vs) @ CHR '']'' # rest)"
      using Cons.prems(1) [of v m] m(1) ends_marks by simp
    moreover have "parse_items m (CHR '' '' # commas (map json_dumps vs) @ CHR '']'' # rest) = Some (vs, rest)"
    proof -
      obtain k where "m = Suc k" using m(2) by (cases m) simp_all
      then have "parse_items m (CHR '' '' # s) = parse_items m s" for s by (simp add: parse_space)
      then show ?thesis using Cons.IH [OF Cons.prems(1) False m(2)] by simp
    qed
    ultimately show ?thesis using n spaces joined by simp
  qed
qed simp

definition member_text :: "string \<times> pyval \<Rightarrow> string" where
  "member_text kv = json_string (fst kv) @ '': '' @ json_dumps (snd kv)"

lemma dumps_dict: "json_dumps (PDict d) = CHR 0x7B # commas (map member_text d) @ [CHR 0x7D]"
proof -
  have "(\<lambda>(k, v). json_string k @ '': '' @ json_dumps v) = member_text" by (auto simp: member_text_def fun_eq_iff)
  then show ?thesis by simp
qed

lemma parse_member_start:
  "parse_members (Suc m) (member_text (k, v) @ s) =
    (case parse_value m (json_dumps v @ s) of
       None \<Rightarrow> None
     | Some (v, r) \<Rightarrow>
         (case skip_space r of
            [] \<Rightarrow> None
          | c # r \<Rightarrow>
              if c = CHR '','' then map_option (apfst (Cons (k, v))) (parse_members m r)
              else if c = CHR 0x7D then Some ([(k, v)], r)
              else None))"
proof -
  have "skip_space (quote # t) = quote # t" "skip_space (CHR '':'' # t) = CHR '':'' # t" for t
    by (simp_all add: skip_space_def json_space_def quote_def)
  then show ?thesis by (simp add: member_text_def json_string_def parse_string_text parse_space)
qed

lemma parse_members_text:
  assumes "\<And>k v n r. (k, v) \<in> set d \<Longrightarrow> length (json_dumps v) \<le> n \<Longrightarrow> ends r \<Longrightarrow> parse_value n (json_dumps v @ r) = Some (v, r)"
    and "d \<noteq> []" "length (commas (map member_text d)) < n"
  shows "parse_members n (commas (map member_text d) @ CHR 0x7D # rest) = Some (d, rest)"
  using assms
proof (induction d arbitrary: n)
  case (Cons kv d)
  obtain k v where kv: "kv = (k, v)" by (cases kv)
  obtain m where n: "n = Suc m" using Cons.prems(3) by (cases n) simp_all
  have spaces: "skip_space (CHR '','' # s) = CHR '','' # s" "skip_space (CHR 0x7D # s) = CHR 0x7D # s" for s
    by (simp_all add: skip_space_def json_space_def)
  have longer: "length (json_dumps v) \<le> length (member_text kv)" by (simp add: member_text_def kv)
  show ?case
  proof (cases "d = []")
    case True
    then have "parse_value m (json_dumps v @ CHR 0x7D # rest) = Some (v, CHR 0x7D # rest)"
      using Cons.prems(1) [of k v m] Cons.prems(3) n longer ends_marks kv by simp
    then show ?thesis using True spaces unfolding n kv by (simp add: parse_member_start del: parse_members.simps)
  next
    case False
    then have joined: "commas (map member_text (kv # d)) = member_text kv @ '', '' @ commas (map member_text d)"
      by (cases d) simp_all
    then have m: "length (json_dumps v) \<le> m" "length (commas (map member_text d)) < m" using Cons.prems(3) n longer by simp_all
    let ?rest = "CHR '','' # CHR '' '' # commas (map member_text d) @ CHR 0x7D # rest"
    have "parse_value m (json_dumps v @ ?rest) = Some (v, ?rest)"
      using Cons.prems(1) [of k v m] m(1) ends_marks kv by simp
    moreover have "parse_members m (CHR '' '' # commas (map member_text d) @ CHR 0x7D # rest) = Some (d, rest)"
    proof -
      have "parse_members m (commas (map member_text d) @ CHR 0x7D # rest) = Some (d, rest)"
      proof (rule Cons.IH [OF _ False m(2)])
        fix k' v' n' r assume "(k', v') \<in> set d" "length (json_dumps v') \<le> n'" "ends r"
        then show "parse_value n' (json_dumps v' @ r) = Some (v', r)" by (intro Cons.prems(1) [of k' v']) simp_all
      qed
      then show ?thesis by (simp add: parse_space)
    qed
    ultimately have "parse_members (Suc m) (member_text (k, v) @ ?rest) = Some ((k, v) # d, rest)"
      using spaces by (simp add: parse_member_start del: parse_members.simps)
    moreover have "commas (map member_text (kv # d)) @ CHR 0x7D # rest = member_text (k, v) @ ?rest"
      using joined by (simp add: kv)
    ultimately show ?thesis by (simp only: n kv)
  qed
qed simp


lemma update_new: "k \<notin> set (map fst d) \<Longrightarrow> AList.update k v d = d @ [(k, v)]"
  by (induction d) auto

lemma dict_of_distinct:
  assumes "distinct (map fst d)"
  shows "dict_of d = d"
proof -
  have "fold (\<lambda>(k, v) d. AList.update k v d) ys xs = xs @ ys" if "distinct (map fst (xs @ ys))" for xs ys :: "(string \<times> pyval) list"
    using that
  proof (induction ys arbitrary: xs)
    case (Cons y ys)
    obtain k v where y: "y = (k, v)" by (cases y)
    have "AList.update k v xs = xs @ [(k, v)]"
      using Cons.prems by (intro update_new) (simp add: y)
    then show ?case using Cons.IH [of "xs @ [y]"] Cons.prems by (simp add: y)
  qed simp
  from this [of "[]" d] assms show ?thesis by (simp add: dict_of_def)
qed

lemma starts_plain: "parse_value (Suc n) (quote # cs) = map_option (apfst PStr) (parse_string cs)"
  by (simp add: skip_starts starts_marks)

lemma words: "parse_value (Suc n) (CHR ''n'' # CHR ''u'' # CHR ''l'' # CHR ''l'' # cs) = Some (PNone, cs)"
    "parse_value (Suc n) (CHR ''t'' # CHR ''r'' # CHR ''u'' # CHR ''e'' # cs) = Some (PBool True, cs)"
    "parse_value (Suc n) (CHR ''f'' # CHR ''a'' # CHR ''l'' # CHR ''s'' # CHR ''e'' # cs) = Some (PBool False, cs)"
  by (simp_all add: skip_starts starts_marks expect_def starts_with_def quote_def)

text \<open>Every JSON value is read back from its text, whatever follows a number.\<close>

lemma parse_dumps:
  "json_value v \<Longrightarrow> length (json_dumps v) \<le> n \<Longrightarrow> ends rest \<Longrightarrow> parse_value n (json_dumps v @ rest) = Some (v, rest)"
proof (induction v arbitrary: n rest)
  case (PInt i)
  obtain c cs where c: "int_str i = c # cs" "number_char c" using number_text [of i] by (cases "int_str i") auto
  obtain m where "n = Suc m" using PInt.prems c by (cases n) simp_all
  then show ?case
    using number_starts [OF c(2)] c parse_number_text [OF PInt.prems(3), of i] by (auto simp: skip_starts)
next
  case (PStr s)
  then obtain m where "n = Suc m" by (cases n) (simp_all add: json_string_def)
  then show ?case by (simp add: json_string_def starts_plain parse_string_text del: parse_value.simps)
next
  case (PList vs)
  then obtain m where n: "n = Suc m" by (cases n) simp_all
  have reads: "parse_value k (json_dumps v @ r) = Some (v, r)" if "v \<in> set vs" "length (json_dumps v) \<le> k" "ends r" for v k r
    using PList.IH [OF that(1)] that PList.prems(1) by (simp add: list_all_iff)
  show ?case
  proof (cases vs)
    case Nil
    then show ?thesis using n by (simp add: skip_starts starts_marks) (simp add: skip_space_def json_space_def quote_def)
  next
    case (Cons v ws)
    then obtain c cs where c: "json_dumps v = c # cs" "starts_value c" using dumps_starts [of v] PList.prems(1) by auto
    then obtain t where first: "commas (map json_dumps vs) = c # t" using Cons by (cases ws) simp_all
    have "parse_items m (commas (map json_dumps vs) @ CHR '']'' # rest) = Some (vs, rest)"
      using PList.prems(2) n Cons by (intro parse_items_text reads) simp_all
    then show ?thesis using n first c(2) by (simp add: skip_starts starts_marks) (simp add: starts_value_def quote_def)
  qed
next
  case (PDict d)
  then obtain m where n: "n = Suc m" by (cases n) simp_all
  have reads: "parse_value k (json_dumps v @ r) = Some (v, r)" if "(key, v) \<in> set d" "length (json_dumps v) \<le> k" "ends r" for key v k r
    using PDict.IH [OF that(1)] that PDict.prems(1) by (auto simp: list_all_iff)
  show ?case
  proof (cases d)
    case Nil
    then show ?thesis using n by (simp add: skip_starts starts_marks) (simp add: skip_space_def json_space_def quote_def)
  next
    case (Cons kv ds)
    then obtain t where first: "commas (map member_text d) = quote # t"
      by (cases ds) (simp_all add: member_text_def json_string_def)
    have "parse_members m (commas (map member_text d) @ CHR 0x7D # rest) = Some (d, rest)"
      using PDict.prems(2) n Cons unfolding dumps_dict by (intro parse_members_text reads) simp_all
    then show ?thesis
      using n first dict_of_distinct [of d] PDict.prems(1) unfolding dumps_dict
      by (simp add: skip_starts starts_marks) (simp add: quote_def)
  qed
next
  case PNone
  then obtain m where "n = Suc m" by (cases n) simp_all
  then show ?case by (simp add: words del: parse_value.simps)
next
  case (PBool b)
  then obtain m where "n = Suc m" by (cases n) (simp_all split: if_splits)
  then show ?case by (cases b) (simp_all add: words del: parse_value.simps)
qed simp_all

lemma loads_dumps: "json_value v \<Longrightarrow> json_loads (json_dumps v) = Inr v"
  using parse_dumps [of v "Suc (length (json_dumps v))" "[]"] by (simp add: json_loads_def ends_marks skip_space_def)

end
