(* ===== verification/Client.thy ===== *)
theory Client
  imports HttpServer Callbacker Json
begin

text \<open>
  \<open>core/https/client.py\<close>: the requests a client sends and what it gets back from the server of
  \<open>HttpServer\<close>. A request is the one the server parses: the query, the JSON text, or the parts of a
  form, whose boundary is taken not to occur in them and whose length is left out, since the server does
  not look at it. \<open>dumps\<close> is \<open>json.dumps\<close>.
\<close>

definition call_params :: "int \<Rightarrow> string \<Rightarrow> kwargs" where
  "call_params service_id name = [(''service_id'', PInt service_id), (''method'', PStr name)]"

definition jsonrpc_get :: "(pyval \<Rightarrow> string) \<Rightarrow> string \<Rightarrow> int \<Rightarrow> kwargs \<Rightarrow> request" where
  "jsonrpc_get dumps name service_id params =
     \<lparr>rq_path = ''/'', rq_command = ''GET'', rq_content_type = Some ''application/json'', rq_content_length = None,
      rq_query = [(''service_id'', [int_str service_id]), (''method'', [name]), (''id'', [''1''])] @
        (if params = [] then [] else [(''params'', [dumps (PDict params)])]),
      rq_body = [], rq_parts = []\<rparr>"

definition jsonrpc_post :: "(pyval \<Rightarrow> string) \<Rightarrow> string \<Rightarrow> int \<Rightarrow> kwargs \<Rightarrow> request" where
  "jsonrpc_post dumps name service_id params =
     (let body = dumps (PDict (call_params service_id name @ [(''params'', PDict params), (''id'', PStr ''1'')])) in
      \<lparr>rq_path = ''/'', rq_command = ''POST'', rq_content_type = Some ''application/json'',
       rq_content_length = Some (int_str (int (length body))), rq_query = [], rq_body = body, rq_parts = []\<rparr>)"

text \<open>
  \<open>https_post\<close> with the fields and then the files of a form: \<open>str\<close> of every field, which the callers give as
  text or numbers, and a file name that must be ASCII. A service identifier is added when there is none.
\<close>

definition ascii :: "string \<Rightarrow> bool" where
  "ascii s = list_all (\<lambda>c. (of_char c :: nat) < 128) s"

definition is_upload :: "string \<times> pyval \<Rightarrow> bool" where
  "is_upload kv = (case snd kv of PFile name c \<Rightarrow> True | _ \<Rightarrow> False)"

definition form_fields :: "kwargs \<Rightarrow> (string \<times> pyval) list" where
  "form_fields params =
     (let fields = filter (Not \<circ> is_upload) params in
      (if ''service_id'' \<in> set (dict_keys fields) then fields else fields @ [(''service_id'', PInt 0)]) @ filter is_upload params)"

fun form_text :: "pyval \<Rightarrow> string" where
  "form_text (PInt n) = int_str n"
| "form_text (PStr s) = s"
| "form_text v = []"

fun form_parts :: "kwargs \<Rightarrow> exn + (string \<times> string option \<times> string) list" where
  "form_parts [] = Inr []"
| "form_parts ((k, v) # ps) =
     res_bind (case v of
         PFile name c \<Rightarrow> if ascii name then Inr (k, Some name, c) else Inl (builtin_exn EValueError)
       | _ \<Rightarrow> Inr (k, None, form_text v)) (\<lambda>part.
     map_sum id (Cons part) (form_parts ps))"

definition https_post :: "string \<Rightarrow> kwargs \<Rightarrow> exn + request" where
  "https_post name params =
     map_sum id (\<lambda>parts.
       \<lparr>rq_path = ''/'', rq_command = ''POST'', rq_content_type = Some ''multipart/form-data; boundary=----------_BoUnDaRy_StRiNg_$'',
        rq_content_length = None, rq_query = [], rq_body = [], rq_parts = parts\<rparr>)
     (form_parts (form_fields ((''method'', PStr name) # params)))"


text \<open>
  The answer as the client reads it: the status and the decoded JSON text. Only the first reply counts;
  without one the connection is closed before a status line. \<open>rendered\<close> is the text of an error.
\<close>

definition read_reply :: "(wire_reply \<Rightarrow> string) \<Rightarrow> answer \<Rightarrow> exn + int \<times> pyval" where
  "read_reply rendered ans =
     (case fst ans of
        [] \<Rightarrow> Inl (builtin_exn ESocketError)
      | r # _ \<Rightarrow>
          (case r of
             SendError code \<Rightarrow> Inr (code, PStr (rendered r))
           | TextReply code t \<Rightarrow> Inr (code, PStr t)
           | ErrorReply e request_id \<Rightarrow> Inr (200, PDict [(''error'', PStr (rendered r)), (''id'', request_id)])
           | ResultReply obj request_id \<Rightarrow> Inr (200, PDict [(''result'', obj), (''error'', PNone), (''id'', request_id)])
           | CallFailed _ _ _ _ \<Rightarrow> Inr (200, PDict [(''error'', PStr (rendered r))])
           | FileReply _ _ \<Rightarrow> Inl (builtin_exn EValueError)))"

text \<open>The check of a client on what a server answers to a result, and to an error.\<close>

lemma check_result: "res_bind (read_reply rendered ([ResultReply obj i], esc)) (client_check kind) = Inr obj"
  by (simp add: read_reply_def client_check_def py_lookup_def)

lemma check_error: "\<exists>e'. res_bind (read_reply rendered ([ErrorReply e i], esc)) (client_check kind) = Inl e'"
  by (simp add: read_reply_def client_check_def py_lookup_def)

section \<open>What the server makes of the requests\<close>

lemma loads_request: "parse_jsonrpc_get_params loads (jsonrpc_get dumps name i []) =
    Inr (PDict [(''service_id'', PStr (int_str i)), (''method'', PStr name), (''id'', PStr ''1'')])"
  by (simp add: parse_jsonrpc_get_params_def jsonrpc_get_def Let_def)

text \<open>The JSON text of a request, read back by the server.\<close>

locale json_text =
  fixes valid :: "pyval \<Rightarrow> bool" and dumps :: "pyval \<Rightarrow> string" and loads :: "string \<Rightarrow> exn + pyval"
  assumes loads_dumps: "valid v \<Longrightarrow> loads (dumps v) = Inr v"
begin

lemma post_params:
  assumes "valid (PDict (call_params i name @ [(''params'', PDict params), (''id'', PStr ''1'')]))"
  shows "parse_jsonrpc_post_params loads (jsonrpc_post dumps name i params) =
    ([], Inr (PDict (call_params i name @ [(''params'', PDict params), (''id'', PStr ''1'')])))"
proof -
  let ?v = "PDict (call_params i name @ [(''params'', PDict params), (''id'', PStr ''1'')])"
  let ?n = "int (length (dumps ?v))"
  have "parse_int (int_str ?n) = Some ?n" by (rule parse_int_str) simp
  then show ?thesis
    using int_str_digits [of ?n] loads_dumps [OF assms]
    by (simp add: parse_jsonrpc_post_params_def jsonrpc_post_def Let_def)
qed

end

interpretation json: json_text json_value json_dumps json_loads
  by unfold_locales (rule loads_dumps)

end
