(* ===== verification/AgentLink.thy ===== *)
theory AgentLink
  imports Client ServiceProps
begin

text \<open>
  An agent behind its server: the methods it exposes are registered as service 0 of the server of
  \<open>HttpServer\<close>, and the calls of a manager are requests of \<open>Client\<close> to the agent at an address.
\<close>

type_synonym 's agent_method = "kwargs \<Rightarrow> ('s, http_response) sx"

type_synonym 's method_table = "(string \<times> string \<times> 's agent_method) list"

definition exposed_by :: "'s method_table \<Rightarrow> (string \<times> 's agent_method attribute) list" where
  "exposed_by ms = map (\<lambda>(name, m, h). (name, Exposed m h)) ms"

definition registered_by :: "'s method_table \<Rightarrow> 's agent_method callback_dict" where
  "registered_by ms = snd (register_all 0 (exposed_list (get_exposed_methods (exposed_by ms) [])) empty_callbacks)"

definition served :: "'s method_table \<Rightarrow> (string \<Rightarrow> exn + pyval) \<Rightarrow> ('s agent_method, 's) server_env" where
  "served ms loads =
     \<lparr>env_table = (\<lambda>_. registered_by ms),
      env_call = (\<lambda>h p g. case p of PDict kw \<Rightarrow> h kw g | _ \<Rightarrow> (Inl (builtin_exn ETypeError), g)),
      env_loads = loads, env_readable = (\<lambda>_. True)\<rparr>"

text \<open>The agents by address; at any other address nobody answers.\<close>

type_synonym 's agents = "(string \<times> 's) list"

definition agents_link :: "'s method_table \<Rightarrow> (string \<Rightarrow> exn + pyval) \<Rightarrow> (string \<Rightarrow> kwargs \<Rightarrow> exn + request) \<Rightarrow> (wire_reply \<Rightarrow> string) \<Rightarrow>
    string \<Rightarrow> string \<Rightarrow> kwargs \<Rightarrow> 's agents \<Rightarrow> (exn + int \<times> pyval) \<times> 's agents" where
  "agents_link ms loads request rendered ip name params w =
     (case map_of w ip of
        None \<Rightarrow> (Inl (builtin_exn ESocketError), w)
      | Some g \<Rightarrow>
          (case request name params of
             Inl e \<Rightarrow> (Inl e, w)
           | Inr rq \<Rightarrow>
               let (ans, g') = handle_one_request (served ms loads) (Parsed rq) g
               in (read_reply rendered ans, AList.update ip g' w)))"

section \<open>A call reaches the handler\<close>

text \<open>A table whose methods are all of a kind the server knows.\<close>

definition method_kinds :: "'s method_table \<Rightarrow> bool" where
  "method_kinds ms \<longleftrightarrow> (fst \<circ> snd) ` set ms \<subseteq> http_methods"

lemma exposures_methods: "exposures (exposed_by ms) = map (\<lambda>(name, m, h). ((m, name), h)) ms"
  by (induction ms) (auto simp: exposed_by_def)

lemma find_method:
  fixes ms :: "'s method_table"
  assumes "method_kinds ms"
  shows "find_callback (registered_by ms) m 0 name = map_of (rev (map (\<lambda>(name, m, h). ((m, name), h)) ms)) (m, name)"
proof -
  have kinds: "(fst \<circ> fst) ` set (exposures (exposed_by ms)) \<subseteq> http_methods"
    using assms unfolding exposures_methods method_kinds_def by (force simp: image_iff)
  have empty: "valid_table (empty_callbacks :: 's agent_method callback_dict)"
    by (simp add: valid_table_def empty_callbacks_def http_methods_def)
  obtain cbs' where "register_all 0 (exposed_list (get_exposed_methods (map (map_prod id id) (exposed_by ms)) []))
      empty_callbacks = (Inr (), cbs')"
    "\<And>m j f. find_callback cbs' m j f = (if j = 0 then (case map_of (rev (exposures (exposed_by ms))) (m, f) of
        Some h \<Rightarrow> Some (id h) | None \<Rightarrow> find_callback empty_callbacks m j f) else find_callback empty_callbacks m j f)"
    by (rule register_service [OF empty kinds, of id id 0]) simp_all
  moreover have "find_callback (empty_callbacks :: 's agent_method callback_dict) m 0 name = None"
    by (simp add: find_callback_def empty_callbacks_def)
  ultimately show ?thesis
    by (simp add: registered_by_def prod.map_id0 exposures_methods split: option.split)
qed

text \<open>What each request becomes at the server, whatever the handler does with it.\<close>

lemma served_simps [simp]:
  "env_table (served ms loads) g = registered_by ms" "env_call (served ms loads) h (PDict kw) g = h kw g"
  "env_loads (served ms loads) = loads"
  by (simp_all add: served_def)

lemma serve_get:
  assumes "find_callback (registered_by ms) ''GET'' 0 name = Some h" "h [] g = (res, g')"
  shows "handle_one_request (served ms loads) (Parsed (jsonrpc_get dumps name 0 [])) g =
    ((send_response (served ms loads) name 0 (PDict []) (PStr ''1'') res, None), g')"
proof -
  have zero: "py_int (PStr (int_str 0)) = Inr 0" using parse_int_str [of 0] by simp
  have "dispatch (served ms loads) ''GET'' (PDict [(''service_id'', PStr (int_str 0)), (''method'', PStr name), (''id'', PStr ''1'')]) g =
      ((send_response (served ms loads) name 0 (PDict []) (PStr ''1'') res, None), g')"
    using assms by (intro dispatch_run [OF _ zero, where cb = h]) simp_all
  then have "handle_get (served ms loads) (jsonrpc_get dumps name 0 []) ''application/json'' g =
      ((send_response (served ms loads) name 0 (PDict []) (PStr ''1'') res, None), g')"
    by (simp add: handle_get_def loads_request json_content_types_def)
  moreover have "rq_path (jsonrpc_get dumps name 0 []) = ''/''" "rq_content_type (jsonrpc_get dumps name 0 []) = Some ''application/json''"
    "rq_command (jsonrpc_get dumps name 0 []) = ''GET''"
    by (simp_all add: jsonrpc_get_def)
  ultimately show ?thesis by (simp add: handle_one_request_def)
qed

lemma serve_post:
  assumes "json_text json_value dumps loads" "find_callback (registered_by ms) ''POST'' 0 name = Some h"
    and "json_value (PDict params)" "h params g = (res, g')"
  shows "handle_one_request (served ms loads) (Parsed (jsonrpc_post dumps name 0 params)) g =
    ((send_response (served ms loads) name 0 (PDict params) (PStr ''1'') res, None), g')"
proof -
  let ?d = "call_params 0 name @ [(''params'', PDict params), (''id'', PStr ''1'')]"
  have "json_value (PDict ?d)" using assms(3) by (simp add: call_params_def)
  note parsed = json_text.post_params [OF assms(1) this]
  have "dispatch (served ms loads) ''POST'' (PDict ?d) g =
      ((send_response (served ms loads) name 0 (PDict params) (PStr ''1'') res, None), g')"
    using assms(2,4) by (intro dispatch_run [where v = "PInt 0" and cb = h]) (simp_all add: call_params_def)
  then have "handle_post (served ms loads) (jsonrpc_post dumps name 0 params) ''application/json'' g =
      ((send_response (served ms loads) name 0 (PDict params) (PStr ''1'') res, None), g')"
    by (simp add: handle_post_def json_content_types_def parsed)
  moreover have "rq_path (jsonrpc_post dumps name 0 params) = ''/''" "rq_content_type (jsonrpc_post dumps name 0 params) = Some ''application/json''"
    "rq_command (jsonrpc_post dumps name 0 params) = ''POST''"
    by (simp_all add: jsonrpc_post_def Let_def)
  ultimately show ?thesis by (simp add: handle_one_request_def)
qed

text \<open>The first reply to a call, as the client reads it.\<close>

definition reply_to :: "(wire_reply \<Rightarrow> string) \<Rightarrow> 's method_table \<Rightarrow> (string \<Rightarrow> exn + pyval) \<Rightarrow> string \<Rightarrow> kwargs \<Rightarrow> exn + http_response \<Rightarrow> exn + int \<times> pyval" where
  "reply_to rendered ms loads name params res =
     read_reply rendered (send_response (served ms loads) name 0 (PDict params) (PStr ''1'') res, None)"

lemma link_post:
  assumes "json_text json_value dumps loads" "find_callback (registered_by ms) ''POST'' 0 name = Some h"
    and "json_value (PDict params)" "request name params = Inr (jsonrpc_post dumps name 0 params)"
    and "map_of w ip = Some g" "h params g = (res, g')"
  shows "agents_link ms loads request rendered ip name params w = (reply_to rendered ms loads name params res, AList.update ip g' w)"
  using serve_post [OF assms(1-3,6)] assms(4,5) by (simp add: agents_link_def reply_to_def)

lemma reply_json: "reply_to rendered ms loads name params (Inr (HttpJsonResponse v)) =
    Inr (200, PDict [(''result'', v), (''error'', PNone), (''id'', PStr ''1'')])"
  by (simp add: reply_to_def send_response_def read_reply_def)

text \<open>An answer in which the client finds a result is the answer to a result.\<close>

lemma reply_result:
  assumes "reply_to rendered ms loads name params res = Inr (200, PDict d)" "map_of d ''result'' = Some v"
  shows "res = Inr (HttpJsonResponse v)"
proof (cases res)
  case (Inl e)
  then show ?thesis using assms by (auto simp: reply_to_def send_response_def read_reply_def)
next
  case (Inr r)
  then show ?thesis
    using assms by (cases r) (auto simp: reply_to_def send_response_def read_reply_def served_def)
qed

end
