(* ===== verification/Deployment.thy ===== *)
theory Deployment
  imports AgentLink GenericProps AgentProps
begin

text \<open>
  The manager of a generic service and the agents on its nodes, put together: every call of the
  manager is a request of \<open>Client\<close>, answered by the server of the agent at that address, which runs the
  handler of \<open>GenericAgent\<close>.
\<close>

section \<open>The agent of a generic service\<close>

text \<open>The request each function of the client module sends.\<close>

definition client_request :: "(pyval \<Rightarrow> string) \<Rightarrow> string \<Rightarrow> kwargs \<Rightarrow> exn + request" where
  "client_request dumps name params =
     (if name = ''update_code'' then https_post name params
      else if name = ''get_script_status'' then Inr (jsonrpc_get dumps name 0 params)
      else Inr (jsonrpc_post dumps name 0 params))"

type_synonym 'd cluster = "'d generic_agent agents"

definition agent_link :: "'d agent_env \<Rightarrow> (pyval \<Rightarrow> string) \<Rightarrow> (wire_reply \<Rightarrow> string) \<Rightarrow>
    string \<Rightarrow> string \<Rightarrow> kwargs \<Rightarrow> 'd cluster \<Rightarrow> (exn + int \<times> pyval) \<times> 'd cluster" where
  "agent_link aenv dumps = agents_link (agent_methods aenv) (ae_loads aenv) (client_request dumps)"

lemma agent_handlers:
  "find_callback (registered_by (agent_methods aenv)) ''POST'' 0 ''init_agent'' = Some (init_agent aenv)"
  "find_callback (registered_by (agent_methods aenv)) ''POST'' 0 ''execute_script'' = Some (agent_execute_script aenv)"
  "find_callback (registered_by (agent_methods aenv)) ''POST'' 0 ''mount_volume'' = Some (agent_mount_volume aenv)"
  "find_callback (registered_by (agent_methods aenv)) ''POST'' 0 ''unmount_volume'' = Some (agent_unmount_volume aenv)"
  "find_callback (registered_by (agent_methods aenv)) ''GET'' 0 ''get_script_status'' = Some agent_get_script_status"
  "find_callback (registered_by (agent_methods aenv)) ''UPLOAD'' 0 ''update_code'' = Some (agent_update_code aenv)"
  "find_callback (registered_by (agent_methods aenv)) ''GET'' 0 ''check_agent_process'' = None"
proof -
  have "method_kinds (agent_methods aenv)" by (simp add: method_kinds_def agent_methods_def http_methods_def)
  note find = find_method [OF this]
  show "find_callback (registered_by (agent_methods aenv)) ''POST'' 0 ''init_agent'' = Some (init_agent aenv)"
    "find_callback (registered_by (agent_methods aenv)) ''POST'' 0 ''execute_script'' = Some (agent_execute_script aenv)"
    "find_callback (registered_by (agent_methods aenv)) ''POST'' 0 ''mount_volume'' = Some (agent_mount_volume aenv)"
    "find_callback (registered_by (agent_methods aenv)) ''POST'' 0 ''unmount_volume'' = Some (agent_unmount_volume aenv)"
    "find_callback (registered_by (agent_methods aenv)) ''GET'' 0 ''get_script_status'' = Some agent_get_script_status"
    "find_callback (registered_by (agent_methods aenv)) ''UPLOAD'' 0 ''update_code'' = Some (agent_update_code aenv)"
    "find_callback (registered_by (agent_methods aenv)) ''GET'' 0 ''check_agent_process'' = None"
    unfolding find by (simp_all add: agent_methods_def)
qed

definition code_upload :: "string \<Rightarrow> string \<Rightarrow> string \<Rightarrow> string \<Rightarrow> kwargs" where
  "code_upload v filetype filepath contents =
     [(''codeVersionId'', PStr v), (''filetype'', PStr filetype), (''file'', PFile filepath contents)]"

lemma agent_upload:
  assumes "ascii filepath" "agent_update_code aenv (code_upload v filetype filepath contents) g = (Inr (HttpJsonResponse r), g')"
  shows "\<exists>rq. https_post ''update_code'' (code_upload v filetype filepath contents) = Inr rq \<and>
    handle_one_request (served (agent_methods aenv) (ae_loads aenv)) (Parsed rq) g = (([ResultReply r (PInt 1)], None), g')"
proof -
  let ?parts = "[(''method'', None, ''update_code''), (''codeVersionId'', None, v), (''filetype'', None, filetype),
    (''service_id'', None, int_str 0), (''file'', Some filepath, contents)]"
  obtain rq where rq: "https_post ''update_code'' (code_upload v filetype filepath contents) = Inr rq" "rq_parts rq = ?parts"
      "rq_path rq = ''/''" "rq_command rq = ''POST''"
      "rq_content_type rq = Some ''multipart/form-data; boundary=----------_BoUnDaRy_StRiNg_$''"
    by (simp add: https_post_def form_fields_def is_upload_def code_upload_def assms(1))
  have zero: "py_int (PStr (int_str 0)) = Inr 0" using parse_int_str [of 0] by simp
  let ?d = "[(''method'', PStr ''update_code''), (''codeVersionId'', PStr v), (''filetype'', PStr filetype),
    (''service_id'', PStr (int_str 0)), (''file'', PFile filepath contents)]"
  have "dispatch (served (agent_methods aenv) (ae_loads aenv)) ''UPLOAD'' (PDict ?d) g =
      ((send_response (served (agent_methods aenv) (ae_loads aenv)) ''update_code'' 0 (PDict (code_upload v filetype filepath contents)) (PInt 1)
        (Inr (HttpJsonResponse r)), None), g')"
    using assms(2) agent_handlers(6) [of aenv] by (intro dispatch_run [OF _ zero, where cb = "agent_update_code aenv"]) (simp_all add: code_upload_def)
  then have "handle_post (served (agent_methods aenv) (ae_loads aenv)) rq ''multipart/form-data; boundary=----------_BoUnDaRy_StRiNg_$'' g =
      (([ResultReply r (PInt 1)], None), g')"
    by (simp add: handle_post_def json_content_types_def multipart_content_type_def starts_with_def rq(2) part_value_def send_response_def)
  then show ?thesis using rq by (simp add: handle_one_request_def)
qed


section \<open>Starting a service on a real agent\<close>

text \<open>A manager whose calls go over that link, with one JSON for both sides.\<close>

definition linked :: "'d cluster generic_env \<Rightarrow> 'd agent_env \<Rightarrow> bool" where
  "linked env aenv \<longleftrightarrow> json_text json_value (ge_dumps env) (ae_loads aenv) \<and>
     (\<exists>rendered. net_agent (ge_net env) = agent_link aenv (ge_dumps env) rendered)"

lemma call_post:
  assumes "linked env aenv" "name \<noteq> ''update_code''" "name \<noteq> ''get_script_status''"
    and "find_callback (registered_by (agent_methods aenv)) ''POST'' 0 name = Some h"
    and "map_of (wd_out w) ip = Some g" "json_value (PDict params)" "h params g = (Inr (HttpJsonResponse v), g')"
  shows "generic_call env ip name params (s, w) = (Inr v, (s, w\<lparr>wd_out := AList.update ip g' (wd_out w)\<rparr>))"
proof -
  obtain rendered where link: "net_agent (ge_net env) = agent_link aenv (ge_dumps env) rendered"
    and json: "json_text json_value (ge_dumps env) (ae_loads aenv)" using assms(1) by (auto simp: linked_def)
  have "client_request (ge_dumps env) name params = Inr (jsonrpc_post (ge_dumps env) name 0 params)"
    using assms(2,3) by (simp add: client_request_def)
  from link_post [where request = "client_request (ge_dumps env)", OF json assms(4,6) this assms(5,7), of rendered]
  have "net_agent (ge_net env) ip name params (wd_out w) =
      (Inr (200, PDict [(''result'', v), (''error'', PNone), (''id'', PStr ''1'')]), AList.update ip g' (wd_out w))"
    by (simp add: link agent_link_def reply_json)
  then show ?thesis by (simp add: generic_call_def with_net_def agent_call_def client_check_def py_lookup_def)
qed

lemma call_upload:
  assumes "linked env aenv" "ascii filepath" "map_of (wd_out w) ip = Some g"
    and "agent_update_code aenv (code_upload v filetype filepath contents) g = (Inr (HttpJsonResponse r), g')"
  shows "generic_call env ip ''update_code'' (code_upload v filetype filepath contents) (s, w) =
    (Inr r, (s, w\<lparr>wd_out := AList.update ip g' (wd_out w)\<rparr>))"
proof -
  obtain rendered where link: "net_agent (ge_net env) = agent_link aenv (ge_dumps env) rendered"
    using assms(1) by (auto simp: linked_def)
  obtain rq where rq: "https_post ''update_code'' (code_upload v filetype filepath contents) = Inr rq"
      "handle_one_request (served (agent_methods aenv) (ae_loads aenv)) (Parsed rq) g = (([ResultReply r (PInt 1)], None), g')"
    using agent_upload [OF assms(2,4)] by blast
  then have "net_agent (ge_net env) ip ''update_code'' (code_upload v filetype filepath contents) (wd_out w) =
      (read_reply rendered ([ResultReply r (PInt 1)], None), AList.update ip g' (wd_out w))"
    using assms(3) by (simp add: link agent_link_def agents_link_def client_request_def)
  then show ?thesis
    using check_result [of rendered r "PInt 1" None EException]
    by (cases "read_reply rendered ([ResultReply r (PInt 1)], None)")
       (simp_all add: generic_call_def with_net_def agent_call_def)
qed

lemma init_agent_master:
  assumes "json_text json_value dumps (ae_loads aenv)"
  shows "\<exists>g'. init_agent aenv [(''agents_info'', PStr (dumps (agents_json [\<lparr>ai_id = nid, ai_ip = ip, ai_role = role_master\<rparr>]))), (''ip'', PStr ip)] g =
      (Inr (HttpJsonResponse (PDict [])), g') \<and> ga_var_cache g' = ga_var_cache g \<and> ga_dirs g' = ga_dirs g \<and>
      ga_disk g' = AList.update (path_join (ga_var_cache g) ''agents.json'')
        (ae_dumps aenv (agents_json [\<lparr>ai_id = nid, ai_ip = ip, ai_role = role_master\<rparr>])) (ga_disk g) \<and>
      map_of (ga_environ g') = (map_of (ga_environ g))(''MY_IP'' \<mapsto> ip, ''MY_ROLE'' \<mapsto> ''master'', ''MASTER_IP'' \<mapsto> ip)"
proof -
  let ?infos = "agents_json [\<lparr>ai_id = nid, ai_ip = ip, ai_role = role_master\<rparr>]"
  have args: "check_arguments [Mandatory ''agents_info'' is_string, Mandatory ''ip'' is_string]
      [(''agents_info'', PStr (dumps ?infos)), (''ip'', PStr ip)] = Inr (PList [PStr (dumps ?infos), PStr ip])"
    by (simp add: check_arguments_def is_string_PStr unwrap_parsed_def)
  have valid: "json_value ?infos" by (simp add: agents_json_def)
  have request: "res_bind (check_arguments [Mandatory ''agents_info'' is_string, Mandatory ''ip'' is_string]
      [(''agents_info'', PStr (dumps ?infos)), (''ip'', PStr ip)])
      (\<lambda>args. let (infos, ip) = args2 args in map_sum id (\<lambda>v. (v, ip)) (ae_loads aenv (py_str infos))) = Inr (?infos, PStr ip)"
    by (simp add: args args_simps py_str_def json_text.loads_dumps [OF assms valid])
  have infos: "infos_list ?infos = Inr [PDict [(''id'', PStr nid), (''ip'', PStr ip), (''role'', PStr ''master'')]]"
    by (simp add: infos_list_def agents_json_def role_master_def)
  have chosen: "res_bind (infos_list ?infos) (\<lambda>is.
      res_bind (res_bind (select_key ''ip'' (PStr ip) ''role'' is) py_first) (\<lambda>agent_role.
      res_bind (res_bind (select_key ''role'' (PStr ''master'') ''ip'' is) py_first) (\<lambda>master_ip.
        Inr (agent_role, master_ip)))) = Inr (PStr ''master'', PStr ip)"
    unfolding infos by (simp add: py_lookup_def)
  show ?thesis
    unfolding init_agent_def request sum.case prod.case chosen
    by (simp add: sx_bind_run write_file_def env_update_def py_str_def update_conv' fun_eq_iff)
qed

lemma started_status:
  assumes "scripts_ok g" "path_join (code_dir g) (command @ ''.sh'') \<in> set (dict_keys (ga_disk g))"
  shows "script_status command (snd (run_script command parameters g)) = ''RUNNING''"
proof -
  have "map_of (ga_table g) (int (length (ga_table g)) + 1) = None" using assms(1) by (force simp: scripts_ok_def)
  then show ?thesis
    using assms(2) by (simp add: run_script_def Let_def script_status_def poll_def map_add_def del: list.set_map)
qed

lemma update_code_starts:
  assumes "update_code_request kw = Inr (filetype, contents, fl)" "filetype \<noteq> ''git''" "ae_archive aenv filetype contents = Inr members"
    and "unpack_code filetype (code_dir g) members (agent_tree g) = (Inr (), t)" "scripts_ok g"
  shows "\<exists>g'. agent_update_code aenv kw g = (Inr (HttpJsonResponse (PDict [])), g') \<and> agent_tree g' = t \<and>
    ga_environ g' = ga_environ g \<and>
    (path_join (code_dir g) ''init.sh'' \<in> set (dict_keys (ga_disk g')) \<longrightarrow> script_status ''init'' g' = ''RUNNING'')"
proof -
  obtain h where h: "forget_processes g = (Inr (), h)" "agent_tree h = agent_tree g" "code_dir h = code_dir g" "ga_environ h = ga_environ g"
    using forget_disk by blast
  have ok: "scripts_ok h" using forget_ok(1) [OF assms(5)] h(1) by simp
  let ?h = "h\<lparr>ga_dirs := tr_dirs t, ga_disk := tr_files t\<rparr>"
  have ok': "scripts_ok ?h" using ok by (simp add: scripts_ok_def tracked_running_def poll_def)
  have dir: "code_dir ?h = code_dir g" using h(3) by (simp add: code_dir_def)
  have replaced: "replace_code aenv filetype members fl h = (Inr (), ?h)"
    by (rule replace_code_archive [OF assms(2)]) (simp add: h assms(4))
  let ?g = "snd (run_script ''init'' [] ?h)"
  have init: "run_script ''init'' [] ?h = (Inr (), ?g)" by (simp add: run_script_def)
  have disk: "agent_tree ?g = t" "ga_disk ?g = tr_files t" "ga_environ ?g = ga_environ g"
    using h(4) by (simp_all add: run_script_def Let_def agent_tree_def)
  show ?thesis
  proof (intro exI conjI impI)
    show "agent_update_code aenv kw g = (Inr (HttpJsonResponse (PDict [])), ?g)"
      using assms(2) by (simp add: agent_update_code_def assms(1,3) sx_bind_run h(1) replaced) (simp add: run_script_def)
    show "agent_tree ?g = t" "ga_environ ?g = ga_environ g" by (rule disk)+
    assume "path_join (code_dir g) ''init.sh'' \<in> set (dict_keys (ga_disk ?g))"
    then have "path_join (code_dir ?h) (''init'' @ ''.sh'') \<in> set (dict_keys (ga_disk ?h))" unfolding disk dir by simp
    then show "script_status ''init'' ?g = ''RUNNING''" by (rule started_status [OF ok'])
  qed
qed

lemma unpack_plain:
  assumes "unpack_code filetype dir members t = (Inr (), t')" "\<forall>m \<in> set members. list_all plain_name (member_target filetype dir (fst m))"
  shows "tr_files t' = fold (\<lambda>(name, c). AList.update (real_path (member_target filetype dir name)) c) members
    (filter (\<lambda>(f, _). \<not> starts_with f (dir @ ''/'')) (tr_files t))"
proof (cases "dir \<in> set (dict_keys (tr_files t))")
  case True
  then show ?thesis using assms(1) by (simp add: unpack_code_def remove_tree_def sx_bind_run del: list.set_map)
next
  case False
  then obtain t1 where run: "remove_tree dir t = (Inr (), t1)" "tr_files t1 = filter (\<lambda>(f, _). \<not> starts_with f (dir @ ''/'')) (tr_files t)"
    by (simp add: remove_tree_def del: list.set_map)
  then have "extract_all filetype dir members t1 = (Inr (), t')" using assms(1) by (simp add: unpack_code_def sx_bind_run)
  from extract_all_plain [OF this assms(2)] show ?thesis by (simp only: run)
qed

text \<open>
  Claim C2. A service started on a node whose agent runs: the calls go through client and server to the
  agent's handlers and, when the agent can unpack the archive, the start succeeds. The agent then has the
  environment of the master, the disk with the current version of the code unpacked in its directory (when no
  member's path has a component \<open>.\<close> or \<open>..\<close>, exactly the files of the archive in place of the old ones) and, if one
  of its files is the script \<open>init.sh\<close>, that script running; the manager knows the agent and has it for master; no
  other agent is touched.
\<close>

theorem service_starts_on_agent:
  assumes "linked env aenv" "agent_reachable aenv g" "map_of (wd_out w) (sn_ip n) = Some g"
    and config: "at_config (sv_ext s) = Some config" "sc_current config = Some v" "map_of (sc_versions config) v = Some version"
      "cv_type version \<in> {''tar'', ''zip''}"
    and unpacks: "unpack_code (cv_type version) (code_dir g) members \<lparr>tr_dirs = ga_dirs g, tr_files = AList.update (path_join (ga_var_cache g) ''agents.json'')
        (ae_dumps aenv (agents_json [\<lparr>ai_id = sn_id n, ai_ip = sn_ip n, ai_role = role_master\<rparr>])) (ga_disk g)\<rparr> = (Inr (), t)"
    and stored: "map_of (wd_disk w) (path_join (at_code_repo (sv_ext s)) v) = Some contents" "ascii (path_join (at_code_repo (sv_ext s)) v)"
      "ae_archive aenv (cv_type version) contents = Inr members"
  shows "\<exists>s' w' g'. generic_on_start env [VNode n] (s, w) = (Inr True, (s', w')) \<and>
    map_of (wd_out w') = (map_of (wd_out w))(sn_ip n \<mapsto> g') \<and>
    map_of (ga_environ g') = (map_of (ga_environ g))(''MY_IP'' \<mapsto> sn_ip n, ''MY_ROLE'' \<mapsto> ''master'', ''MASTER_IP'' \<mapsto> sn_ip n) \<and>
    agent_tree g' = t \<and>
    ((\<forall>m \<in> set members. list_all plain_name (member_target (cv_type version) (code_dir g) (fst m))) \<longrightarrow>
      ga_disk g' = fold (\<lambda>(name, c). AList.update (real_path (member_target (cv_type version) (code_dir g) name)) c) members
        (filter (\<lambda>(f, _). \<not> starts_with f (code_dir g @ ''/'')) (AList.update (path_join (ga_var_cache g) ''agents.json'')
          (ae_dumps aenv (agents_json [\<lparr>ai_id = sn_id n, ai_ip = sn_ip n, ai_role = role_master\<rparr>])) (ga_disk g)))) \<and>
    (path_join (code_dir g) ''init.sh'' \<in> set (dict_keys (ga_disk g')) \<longrightarrow> script_status ''init'' g' = ''RUNNING'') \<and>
    at_agents (sv_ext s') = at_agents (sv_ext s) @ [\<lparr>ai_id = sn_id n, ai_ip = sn_ip n, ai_role = role_master\<rparr>] \<and>
    at_master (sv_ext s') = Some (sn_ip n) \<and> wd_disk w' = wd_disk w"
proof -
  let ?ip = "sn_ip n" and ?infos = "[\<lparr>ai_id = sn_id n, ai_ip = sn_ip n, ai_role = role_master\<rparr>]"
  let ?path = "path_join (at_code_repo (sv_ext s)) v"
  have json: "json_text json_value (ge_dumps env) (ae_loads aenv)" using assms(1) by (simp add: linked_def)
  let ?disk = "AList.update (path_join (ga_var_cache g) ''agents.json'') (ae_dumps aenv (agents_json ?infos)) (ga_disk g)"
  obtain g1 where g1: "init_agent aenv [(''agents_info'', PStr (ge_dumps env (agents_json ?infos))), (''ip'', PStr ?ip)] g =
      (Inr (HttpJsonResponse (PDict [])), g1)" "ga_var_cache g1 = ga_var_cache g" "ga_dirs g1 = ga_dirs g"
      "ga_disk g1 = AList.update (path_join (ga_var_cache g) ''agents.json'') (ae_dumps aenv (agents_json ?infos)) (ga_disk g)"
      "map_of (ga_environ g1) = (map_of (ga_environ g))(''MY_IP'' \<mapsto> ?ip, ''MY_ROLE'' \<mapsto> ''master'', ''MASTER_IP'' \<mapsto> ?ip)"
    using init_agent_master [OF json, of "sn_id n" ?ip g] by (elim exE conjE)
  have ok: "scripts_ok g1" using sx_keepsD [OF keeps_init_agent agent_reachable_ok [OF assms(2)] g1(1)] .
  let ?w1 = "w\<lparr>wd_out := AList.update ?ip g1 (wd_out w)\<rparr>"
  have init: "init_agents env [VNode n] ?infos (s, w) = (Inr (), (s, ?w1))"
    using call_post [OF assms(1) _ _ agent_handlers(1) assms(3) _ g1(1), of s]
    by (simp add: init_agents_def sx_bind_run client_init_agent_def on_agent_exception_def sx_try_def entry_node_def)
  have plain_type: "cv_type version \<noteq> ''git''" using config(4) by auto
  have dir: "code_dir g1 = code_dir g" using g1(2) by (simp add: code_dir_def)
  have "agent_tree g1 = \<lparr>tr_dirs = ga_dirs g, tr_files = ?disk\<rparr>" using g1(3,4) by (simp add: agent_tree_def)
  with unpacks have unpacked: "unpack_code (cv_type version) (code_dir g1) members (agent_tree g1) = (Inr (), t)" by (simp only: dir)
  obtain g2 where g2: "agent_update_code aenv (code_upload v (cv_type version) ?path contents) g1 = (Inr (HttpJsonResponse (PDict [])), g2)"
      "agent_tree g2 = t" "ga_environ g2 = ga_environ g1"
      "path_join (code_dir g1) ''init.sh'' \<in> set (dict_keys (ga_disk g2)) \<longrightarrow> script_status ''init'' g2 = ''RUNNING''"
    using update_code_starts [OF file_request [OF config(4), of v ?path contents] plain_type stored(3) unpacked ok] unfolding code_upload_def
    by (elim exE conjE)
  let ?w2 = "w\<lparr>wd_out := AList.update ?ip g2 (AList.update ?ip g1 (wd_out w))\<rparr>"
  have "map_of (wd_out ?w1) ?ip = Some g1" by (simp add: update_conv')
  note call_upload [OF assms(1) stored(2) this g2(1), of s]
  then have update: "update_code env config [VNode n] (s, ?w1) = (Inr (), (s, ?w2))"
    using config stored(1)
    by (auto simp: update_code_def sx_bind_run with_service_def version_of_def py_lookup_def Let_def client_update_code_def
        file_get_contents_def on_agent_exception_def sx_try_def entry_node_def code_upload_def)
  let ?s = "s\<lparr>sv_ext := (sv_ext s)\<lparr>at_agents := at_agents (sv_ext s) @ ?infos, at_master := Some ?ip\<rparr>\<rparr>"
  have roles: "update_agents_info [VNode n] [(role_master, Suc 0)] = Inr ?infos"
    by (simp add: update_agents_info_def entry_node_def)
  have "generic_startup env [VNode n] (s, w) = (Inr (), (?s, ?w2))"
    by (simp add: generic_startup_def configuration_get_run [OF config(1)] sx_bind_run roles init update ext_modify_def
        modify_service_def sx_modify_def entry_node_def)
  then have "generic_on_start env [VNode n] (s, w) = (Inr True, (?s, ?w2))"
    by (simp add: generic_on_start_def sx_try_def sx_bind_run)
  moreover have "ga_disk g2 = fold (\<lambda>(name, c). AList.update (real_path (member_target (cv_type version) (code_dir g) name)) c) members
      (filter (\<lambda>(f, _). \<not> starts_with f (code_dir g @ ''/'')) ?disk)"
    if "\<forall>m \<in> set members. list_all plain_name (member_target (cv_type version) (code_dir g) (fst m))"
  proof -
    have "ga_disk g2 = tr_files t" using g2(2) by (auto simp: agent_tree_def)
    then show ?thesis using unpack_plain [OF unpacks that] by simp
  qed
  ultimately show ?thesis
    using g1(5) g2 dir by (intro exI [of _ ?s] exI [of _ ?w2] exI [of _ g2] conjI impI) (simp_all add: update_conv')
qed

text \<open>The constructor of the class builds on that of \<open>BaseManager\<close>.\<close>

lemma generic_constructs_init: "constructs_init (generic_class env)"
proof -
  have "sv_state s = S_INIT" if "generic_init env cfg kwargs w = (Inr s, w')" for cfg kwargs w s w'
    using that by (auto simp: generic_init_def new_manager_def state_set_def sx_bind_run res_elims split: sum.splits prod.splits if_splits)
  then show ?thesis by (auto simp: constructs_init_def generic_class_def generic_base_def)
qed

section \<open>A sample deployment\<close>

definition json_aenv :: "unit agent_env" where
  "json_aenv = sample_aenv\<lparr>ae_loads := json_loads, ae_dumps := json_dumps\<rparr>"

definition nobody :: "'w \<Rightarrow> (exn + 'a) \<times> 'w" where
  "nobody w = (Inl (builtin_exn ESocketError), w)"

text \<open>A director that does not answer, and the agents of the cluster.\<close>

definition cluster_net :: "unit cluster network" where
  "cluster_net =
     \<lparr>net_create_nodes = (\<lambda>p. nobody), net_remove_nodes = (\<lambda>ns. nobody), net_create_volume = (\<lambda>s n vm c. nobody),
      net_attach_volume = (\<lambda>vm v d c. nobody), net_detach_volume = (\<lambda>v c. nobody), net_destroy_volume = (\<lambda>v c. nobody),
      net_credit = nobody, net_agent = agent_link json_aenv json_dumps (\<lambda>r. ''error''),
      net_git_version = (\<lambda>repo w. Inr ''git-1''), net_git_description = (\<lambda>repo w. Inr ''initial''), net_now = (\<lambda>w. 0)\<rparr>"

definition cluster_genv :: "unit cluster generic_env" where
  "cluster_genv = \<lparr>ge_net = cluster_net, ge_dumps = json_dumps, ge_tar = (\<lambda>files. ''tarball''),
     ge_archive = (\<lambda>c. Some (''tar'', [''run.sh''])), ge_temp = longest_name, ge_git_push = (\<lambda>ip w. w)\<rparr>"

lemma cluster_linked: "linked cluster_genv json_aenv"
  unfolding linked_def using json.json_text_axioms
  by (auto simp: cluster_genv_def cluster_net_def json_aenv_def)

definition default_version :: code_version where
  "default_version = \<lparr>cv_id = ''code-default'', cv_filename = ''code-default.tar'', cv_type = ''tar'',
     cv_description = ''Initial version'', cv_timestamp = 0\<rparr>"

definition default_config :: service_configuration where
  "default_config = \<lparr>sc_versions = [(''code-default'', default_version)], sc_current = Some ''code-default''\<rparr>"

definition ready_service :: "attrs service" where
  "ready_service = sample_service\<lparr>sv_ext := \<lparr>at_code_repo = ''/root/code'', at_config = Some default_config,
     at_agents = [], at_master = None, at_threads = []\<rparr>\<rparr>"

definition start_node :: service_node where
  "start_node = \<lparr>sn_id = ''iaas1'', sn_vmid = ''1'', sn_ip = ''10.0.0.1'', sn_private_ip = ''10.0.0.1'', sn_cloud_name = ''iaas'',
     sn_weight_backend = PInt 100, sn_role = role_master, sn_volumes = [], sn_created = 0\<rparr>"

definition two_agents :: "unit cluster world" where
  "two_agents = \<lparr>wd_disk = [(''/root/code/code-default'', ''tarball'')], wd_out = [(''10.0.0.1'', fresh_agent), (''10.0.0.2'', fresh_agent)]\<rparr>"

definition unpacked :: "(string \<times> string) list" where
  "unpacked = [(''init.sh'', ''tarball''), (''run.sh'', ''tarball'')]"

lemma ready:
  "map_of (wd_out two_agents) (sn_ip start_node) = Some fresh_agent" "at_config (sv_ext ready_service) = Some default_config"
  "sc_current default_config = Some ''code-default''" "map_of (sc_versions default_config) ''code-default'' = Some default_version"
  "cv_type default_version \<in> {''tar'', ''zip''}" "ae_archive json_aenv (cv_type default_version) ''tarball'' = Inr unpacked"
  by (simp_all add: two_agents_def start_node_def ready_service_def default_config_def default_version_def json_aenv_def
      sample_aenv_def unpacked_def)

lemma ready_path: "path_join (at_code_repo (sv_ext ready_service)) ''code-default'' = ''/root/code/code-default''"
proof -
  have "at_code_repo (sv_ext ready_service) = ''/root/code''" by (simp add: ready_service_def)
  moreover have "path_join ''/root/code'' ''code-default'' = ''/root/code/code-default''" by code_simp
  ultimately show ?thesis by simp
qed

lemma ready_file:
  "map_of (wd_disk two_agents) (path_join (at_code_repo (sv_ext ready_service)) ''code-default'') = Some ''tarball''"
  "ascii (path_join (at_code_repo (sv_ext ready_service)) ''code-default'')"
  unfolding ready_path by (simp add: two_agents_def) code_simp

definition start_disk :: "(string \<times> string) list" where
  "start_disk = AList.update (path_join (ga_var_cache fresh_agent) ''agents.json'')
     (ae_dumps json_aenv (agents_json [\<lparr>ai_id = sn_id start_node, ai_ip = sn_ip start_node, ai_role = role_master\<rparr>])) (ga_disk fresh_agent)"

lemma init_unpacked:
  "\<exists>t. unpack_code (cv_type default_version) (code_dir fresh_agent) unpacked \<lparr>tr_dirs = ga_dirs fresh_agent, tr_files = start_disk\<rparr> = (Inr (), t) \<and>
     path_join (code_dir fresh_agent) ''init.sh'' \<in> set (dict_keys (tr_files t))"
proof -
  have "case unpack_code (cv_type default_version) (code_dir fresh_agent) unpacked \<lparr>tr_dirs = ga_dirs fresh_agent, tr_files = start_disk\<rparr> of
      (r, t) \<Rightarrow> r = Inr () \<and> path_join (code_dir fresh_agent) ''init.sh'' \<in> set (dict_keys (tr_files t))"
    by code_simp
  then show ?thesis by (auto split: prod.splits simp del: list.set_map)
qed

theorem service_starts_on_agent_witness:
  "\<exists>s' w' g'. generic_on_start cluster_genv [VNode start_node] (ready_service, two_agents) = (Inr True, (s', w')) \<and>
    map_of (wd_out w') (sn_ip start_node) = Some g' \<and> script_status ''init'' g' = ''RUNNING'' \<and>
    at_master (sv_ext s') = Some (sn_ip start_node)"
proof -
  have start: "agent_reachable json_aenv fresh_agent" by (rule agent_reachable.initial [OF fresh_agent])
  obtain t where t: "unpack_code (cv_type default_version) (code_dir fresh_agent) unpacked \<lparr>tr_dirs = ga_dirs fresh_agent, tr_files = start_disk\<rparr> = (Inr (), t)"
      "path_join (code_dir fresh_agent) ''init.sh'' \<in> set (dict_keys (tr_files t))"
    using init_unpacked by blast
  note started = service_starts_on_agent [OF cluster_linked start ready(1-5) t(1) [unfolded start_disk_def] ready_file ready(6)]
  obtain s' w' g' where run: "generic_on_start cluster_genv [VNode start_node] (ready_service, two_agents) = (Inr True, (s', w'))"
      "map_of (wd_out w') = (map_of (wd_out two_agents))(sn_ip start_node \<mapsto> g')" "agent_tree g' = t"
      "path_join (code_dir fresh_agent) ''init.sh'' \<in> set (dict_keys (ga_disk g')) \<longrightarrow> script_status ''init'' g' = ''RUNNING''"
      "at_master (sv_ext s') = Some (sn_ip start_node)"
    using started by (elim exE conjE)
  have disk: "ga_disk g' = tr_files t" using run(3) by (auto simp: agent_tree_def)
  have "path_join (code_dir fresh_agent) ''init.sh'' \<in> set (dict_keys (ga_disk g'))" unfolding disk by (rule t(2))
  note running = run(4) [rule_format, OF this]
  have "map_of (wd_out w') (sn_ip start_node) = Some g'" unfolding run(2) by (rule fun_upd_same)
  then show ?thesis using run(1,5) running by blast
qed

end
