(* ===== verification/Connections.thy ===== *)
theory Connections
  imports Client
begin

text \<open>
  The other half of the checks on certificates: the contexts of \<open>core/https/client.py\<close>, which look at the
  subject of the server a client connects to, and what they make of a connection together with the server's
  own check (\<open>conpaas_callback_agent\<close> and \<open>conpaas_callback_manager\<close> of \<open>HttpServer\<close>).
\<close>

section \<open>Client contexts\<close>

text \<open>The module's \<open>__uid\<close> and \<open>__aid\<close>, and the callback chosen by the role.\<close>

record client_ctx =
  cx_role :: string
  cx_uid :: "string option"
  cx_aid :: "string option"

definition client_roles :: "string list" where
  "client_roles = [''agent'', ''manager'', ''director'', ''user'']"

text \<open>
  \<open>own\<close> is the subject of the client's certificate, which a user's client takes its identifier from. With
  another role no callback has a value, which raises \<open>UnboundLocalError\<close>.
\<close>

definition conpaas_init_ssl_ctx :: "string \<Rightarrow> string option \<Rightarrow> string option \<Rightarrow> (string \<times> string) list \<Rightarrow> exn + client_ctx" where
  "conpaas_init_ssl_ctx role uid aid own =
     (if role \<notin> set client_roles then Inl (builtin_exn ENameError)
      else Inr \<lparr>cx_role = role, cx_uid = (if role = ''user'' \<and> uid = None then map_of own ''UID'' else uid), cx_aid = aid\<rparr>)"

definition same_party :: "client_ctx \<Rightarrow> (string \<times> string) list \<Rightarrow> bool \<Rightarrow> exn + bool" where
  "same_party cx d ok =
     res_bind (py_lookup d ''UID'') (\<lambda>uid.
       if Some uid \<noteq> cx_uid cx then Inr False
       else res_bind (py_lookup d ''serviceLocator'') (\<lambda>aid. if Some aid \<noteq> cx_aid cx then Inr False else Inr ok))"

definition client_callback_agent :: "client_ctx \<Rightarrow> (string \<times> string) list \<Rightarrow> bool \<Rightarrow> exn + bool" where
  "client_callback_agent cx components ok =
     (case subject_dict components [] of
        None \<Rightarrow> Inr ok
      | Some d \<Rightarrow> res_bind (py_lookup d ''role'') (\<lambda>role. if role \<noteq> ''agent'' then Inr False else same_party cx d ok))"

definition client_callback_manager :: "client_ctx \<Rightarrow> (string \<times> string) list \<Rightarrow> bool \<Rightarrow> exn + bool" where
  "client_callback_manager cx components ok =
     (case subject_dict components [] of
        None \<Rightarrow> Inr ok
      | Some d \<Rightarrow>
          res_bind (py_lookup d ''role'') (\<lambda>role.
            if role = ''frontend'' then Inr ok
            else if role \<noteq> ''agent'' \<and> role \<noteq> ''manager'' then Inr False
            else same_party cx d ok))"

definition client_callback_user :: "client_ctx \<Rightarrow> (string \<times> string) list \<Rightarrow> bool \<Rightarrow> exn + bool" where
  "client_callback_user cx components ok =
     (case subject_dict components [] of
        None \<Rightarrow> Inr ok
      | Some d \<Rightarrow>
          res_bind (py_lookup d ''role'') (\<lambda>role.
            if role = ''frontend'' then Inr ok
            else if role \<noteq> ''manager'' then Inr False
            else res_bind (py_lookup d ''UID'') (\<lambda>uid. if Some uid \<noteq> cx_uid cx then Inr False else Inr ok)))"

definition client_callback_director :: "client_ctx \<Rightarrow> (string \<times> string) list \<Rightarrow> bool \<Rightarrow> exn + bool" where
  "client_callback_director cx components ok =
     (case subject_dict components [] of
        None \<Rightarrow> Inr ok
      | Some d \<Rightarrow>
          res_bind (py_lookup d ''role'') (\<lambda>role. if role \<noteq> ''manager'' \<and> role \<noteq> ''agent'' then Inr False else Inr ok))"

definition client_callback :: "client_ctx \<Rightarrow> (string \<times> string) list \<Rightarrow> bool \<Rightarrow> exn + bool" where
  "client_callback cx =
     (if cx_role cx = ''agent'' then client_callback_agent cx
      else if cx_role cx = ''manager'' then client_callback_manager cx
      else if cx_role cx = ''director'' then client_callback_director cx
      else client_callback_user cx)"

section \<open>Connections\<close>

text \<open>The callback a server of this role installs: the agent's, or the manager's for any other role.\<close>

definition server_callback :: "string \<Rightarrow> config \<Rightarrow> (string \<times> string) list \<Rightarrow> bool \<Rightarrow> exn + bool" where
  "server_callback role cfg = (if role = ''agent'' then conpaas_callback_agent cfg else conpaas_callback_manager cfg)"

text \<open>A connection stands when the authority has signed both certificates and both ends accept the other's subject.\<close>

definition connection_stands :: "client_ctx \<Rightarrow> (string \<times> string) list \<Rightarrow> string \<Rightarrow> config \<Rightarrow> (string \<times> string) list \<Rightarrow> bool" where
  "connection_stands cx own role cfg subject \<longleftrightarrow>
     client_callback cx subject True = Inr True \<and> server_callback role cfg own True = Inr True"

text \<open>
  The subject of a certificate, as \<open>generate_certificate\<close> fills it, in any order of its components; only the
  authority itself is called \<open>CA\<close>.
\<close>

definition issued :: "(string \<times> string) list \<Rightarrow> string \<Rightarrow> string \<Rightarrow> string \<Rightarrow> bool" where
  "issued components role uid aid \<longleftrightarrow>
     (''CN'', ''CA'') \<notin> set components \<and> distinct (map fst components) \<and>
     {(''role'', role), (''UID'', uid), (''serviceLocator'', aid)} \<subseteq> set components"

lemma issued_components:
  assumes "issued components role uid aid"
  shows "map_of (rev components) ''role'' = Some role" "map_of (rev components) ''UID'' = Some uid"
    "map_of (rev components) ''serviceLocator'' = Some aid" "map_of components ''UID'' = Some uid" "(''CN'', ''CA'') \<notin> set components"
proof -
  have "distinct (map fst (rev components))" "distinct (map fst components)" using assms by (simp_all add: issued_def rev_map [symmetric])
  note map_of_is_SomeI [OF this(1)] map_of_is_SomeI [OF this(2)]
  then show "map_of (rev components) ''role'' = Some role" "map_of (rev components) ''UID'' = Some uid"
    "map_of (rev components) ''serviceLocator'' = Some aid" "map_of components ''UID'' = Some uid" "(''CN'', ''CA'') \<notin> set components"
    using assms by (simp_all add: issued_def)
qed

lemma issued_dict:
  assumes "issued components role uid aid"
  obtains d where "subject_dict components [] = Some d" "py_lookup d ''role'' = Inr role" "py_lookup d ''UID'' = Inr uid"
    "py_lookup d ''serviceLocator'' = Inr aid"
  using issued_components [OF assms] by (simp add: subject_dict_fold py_lookup_def map_of_fold_update)

lemmas client_callbacks = client_callback_def client_callback_agent_def client_callback_manager_def client_callback_director_def
  client_callback_user_def same_party_def

text \<open>What a context accepts of the subject of a server.\<close>

lemma client_accepts:
  assumes "issued subject role uid aid" "cx_role cx \<in> set client_roles"
  shows "client_callback cx subject True = Inr True \<longleftrightarrow>
    (if cx_role cx = ''director'' then role \<in> {''manager'', ''agent''}
     else if cx_role cx = ''user'' then role = ''frontend'' \<or> role = ''manager'' \<and> cx_uid cx = Some uid
     else if cx_role cx = ''agent'' then role = ''agent'' \<and> cx_uid cx = Some uid \<and> cx_aid cx = Some aid
     else role = ''frontend'' \<or> role \<in> {''manager'', ''agent''} \<and> cx_uid cx = Some uid \<and> cx_aid cx = Some aid)"
proof -
  obtain d where d: "subject_dict subject [] = Some d" "py_lookup d ''role'' = Inr role" "py_lookup d ''UID'' = Inr uid"
    "py_lookup d ''serviceLocator'' = Inr aid" by (rule issued_dict [OF assms(1)])
  note roles = assms(2) [unfolded client_roles_def list.set insert_iff empty_iff simp_thms]
  have if_true: "(if b then Inr False else r) = Inr True \<longleftrightarrow> \<not> b \<and> r = Inr True"
    "(if b then Inr True else r) = Inr True \<longleftrightarrow> b \<or> r = Inr True" for b and r :: "exn + bool" by simp_all
  from roles show ?thesis
    by (elim disjE) (simp_all add: client_callbacks d if_true eq_commute [of "Some _"] disj_ac)
qed

text \<open>What a server accepts of the subject of a client.\<close>

lemma server_accepts:
  assumes "issued own crole cuid caid" "cfg_get cfg role ''USER_ID'' = Inr uid" "cfg_get cfg role ''APP_ID'' = Inr aid"
    and "role \<in> {''manager'', ''agent''}"
  shows "server_callback role cfg own True = Inr True \<longleftrightarrow>
    crole = ''frontend'' \<or> cuid = uid \<and> (if role = ''agent'' then crole \<in> {''manager'', ''agent''} \<and> caid = aid
      else crole \<in> {''user'', ''manager''})"
proof -
  obtain d where d: "subject_dict own [] = Some d" "py_lookup d ''role'' = Inr crole" "py_lookup d ''UID'' = Inr cuid"
    "py_lookup d ''serviceLocator'' = Inr caid" by (rule issued_dict [OF assms(1)])
  have if_true: "(if b then Inr False else r) = Inr True \<longleftrightarrow> \<not> b \<and> r = Inr True"
    "(if b then Inr True else r) = Inr True \<longleftrightarrow> b \<or> r = Inr True" for b and r :: "exn + bool" by simp_all
  note roles = assms(4) [unfolded insert_iff empty_iff simp_thms]
  then show ?thesis using assms(2,3)
    by (elim disjE) (simp_all add: server_callback_def conpaas_callback_agent_def conpaas_callback_manager_def d if_true conj_ac disj_ac)
qed

text \<open>
  Claim C27. Who can talk to whom, both ends checking the other's certificate. The director, whose certificate has
  the role of the front end, reaches every manager and agent; a manager or an agent reaches the agents of its own
  user and application; a manager also the managers of them, which is itself, although a server of that role
  would take the managers of the user's other applications; a user reaches the managers of the user's
  applications, and no agent. An agent reaches no manager.
\<close>

theorem connections:
  assumes ctx: "conpaas_init_ssl_ctx kind cuid caid own = Inr cx" "kind = ''user'' \<or> cuid = Some uid \<and> caid = Some aid" "kind = ''user'' \<longrightarrow> cuid = None"
    and own: "issued own (if kind = ''director'' then ''frontend'' else kind) uid aid"
    and server: "role \<in> {''manager'', ''agent''}" "issued subject role suid said"
      "cfg_get cfg role ''USER_ID'' = Inr suid" "cfg_get cfg role ''APP_ID'' = Inr said"
  shows "connection_stands cx own role cfg subject \<longleftrightarrow>
    (if kind = ''director'' then True
     else if kind = ''user'' then role = ''manager'' \<and> uid = suid
     else (kind = ''manager'' \<or> role = ''agent'') \<and> uid = suid \<and> aid = said)"
proof -
  have kind: "kind \<in> set client_roles" "cx_role cx = kind" "cx_uid cx = Some uid" "kind = ''user'' \<or> cx_aid cx = Some aid"
    using ctx issued_components(4) [OF own] by (auto simp: conpaas_init_ssl_ctx_def split: if_splits)
  have client: "client_callback cx subject True = Inr True \<longleftrightarrow>
    (if kind = ''director'' then role \<in> {''manager'', ''agent''}
     else if kind = ''user'' then role = ''frontend'' \<or> role = ''manager'' \<and> uid = suid
     else if kind = ''agent'' then role = ''agent'' \<and> uid = suid \<and> aid = said
     else role = ''frontend'' \<or> role \<in> {''manager'', ''agent''} \<and> uid = suid \<and> aid = said)"
    using client_accepts [OF server(2), of cx] kind by (cases "kind = ''user''") simp_all
  show ?thesis
    unfolding connection_stands_def client server_accepts [OF own server(3,4,1)]
    using server(1) kind(1) [unfolded client_roles_def list.set insert_iff empty_iff simp_thms]
    unfolding insert_iff empty_iff simp_thms by (elim disjE) (simp_all add: conj_ac)
qed

definition manager_subject :: "(string \<times> string) list" where
  "manager_subject = [(''UID'', ''1''), (''serviceLocator'', ''5''), (''O'', ''Contrail''), (''CN'', ''ConPaaS''), (''role'', ''manager'')]"

definition other_subject :: "(string \<times> string) list" where
  "other_subject = [(''CN'', ''ConPaaS''), (''role'', ''manager''), (''UID'', ''1''), (''serviceLocator'', ''6'')]"

definition other_config :: config where
  "other_config = [(''manager'', [(''user_id'', ''1''), (''app_id'', ''6'')])]"

text \<open>Two managers of one user: the server would let the other in, the client does not want to.\<close>

theorem connections_witness:
  "\<not> connection_stands \<lparr>cx_role = ''manager'', cx_uid = Some ''1'', cx_aid = Some ''5''\<rparr> manager_subject ''manager'' other_config other_subject \<and>
   server_callback ''manager'' other_config manager_subject True = Inr True"
proof
  have own: "issued manager_subject (if ''manager'' = ''director'' then ''frontend'' else ''manager'') ''1'' ''5''" by code_simp
  have other: "issued other_subject ''manager'' ''1'' ''6''" by code_simp
  have cfg: "cfg_get other_config ''manager'' ''USER_ID'' = Inr ''1''" "cfg_get other_config ''manager'' ''APP_ID'' = Inr ''6''" by code_simp+
  have ctx: "conpaas_init_ssl_ctx ''manager'' (Some ''1'') (Some ''5'') manager_subject =
      Inr \<lparr>cx_role = ''manager'', cx_uid = Some ''1'', cx_aid = Some ''5''\<rparr>"
    by (simp add: conpaas_init_ssl_ctx_def client_roles_def)
  from connections [OF ctx _ _ own _ other cfg]
  show "\<not> connection_stands \<lparr>cx_role = ''manager'', cx_uid = Some ''1'', cx_aid = Some ''5''\<rparr> manager_subject ''manager'' other_config other_subject"
    by simp
  show "server_callback ''manager'' other_config manager_subject True = Inr True" by code_simp
qed

end
