(* ===== verification/MySQL.thy ===== *)
theory MySQL
  imports Manager
begin

text \<open>
  \<open>services/mysql/manager/manager.py\<close>, its configuration and its agent client: a Galera cluster of \<open>mysqld\<close>
  nodes with load balancers (\<open>glb\<close>) in front of them.

  The configuration files its own node objects in two dictionaries, built from the manager's nodes without
  their volumes. The order in which a dictionary lists its values is the interpreter's (\<open>my_order\<close>, a
  permutation of the keys). The databases, the shell, random text and the names of temporary files are
  parameters of the model.
\<close>

subsection \<open>State\<close>

text \<open>
  The thread a handler starts. A plan of a migration pairs each node with the cloud it moves to, as the controller
  answered it.
\<close>

datatype mysql_job =
    RemoveJob "service_node list" "service_node list"
  | MigrateJob "(service_node \<times> string) list" pyval

record mysql_attrs =
  ma_volume_size :: int
  ma_root_pass :: "string option"
  ma_nodes :: "(string \<times> service_node) list"
  ma_glb :: "(string \<times> service_node) list"
  ma_threads :: "mysql_job list"

record 'w mysql_env =
  my_net :: "'w network"
  my_order :: "string list \<Rightarrow> string list"
  my_password :: string
  my_sql :: "string \<Rightarrow> string option \<Rightarrow> string \<Rightarrow> 'w \<Rightarrow> (exn + string) \<times> 'w"
  my_float :: "string \<Rightarrow> exn + rat"
  my_shell :: "string \<Rightarrow> 'w \<Rightarrow> (string \<times> string \<times> int) \<times> 'w"
  my_temp :: "string list \<Rightarrow> string"
  my_cloud :: "pyval \<Rightarrow> exn + string"

type_synonym 'w mobj = "(mysql_attrs, 'w) sobj"

definition role_mysql :: string where "role_mysql = ''mysql''"

definition role_glb :: string where "role_glb = ''glb''"

definition mysql_port :: int where "mysql_port = 3306"

subsection \<open>Configuration\<close>

definition dict_vals :: "'w mysql_env \<Rightarrow> (string \<times> 'a) list \<Rightarrow> 'a list" where
  "dict_vals env d = List.map_filter (map_of d) (my_order env (dict_keys d))"

definition get_nodes :: "'w mysql_env \<Rightarrow> mysql_attrs \<Rightarrow> service_node list" where
  "get_nodes env x = dict_vals env (ma_nodes x)"

definition get_glb_nodes :: "'w mysql_env \<Rightarrow> mysql_attrs \<Rightarrow> service_node list" where
  "get_glb_nodes env x = dict_vals env (ma_glb x)"

definition get_nodes_addr :: "'w mysql_env \<Rightarrow> mysql_attrs \<Rightarrow> string list" where
  "get_nodes_addr env x = map sn_ip (get_nodes env x)"

text \<open>\<open>SQLServiceNode(node)\<close> and \<open>GLBServiceNode(node)\<close>: weight and volumes are not taken over.\<close>

definition config_node :: "int \<Rightarrow> service_node \<Rightarrow> service_node" where
  "config_node now n = new_service_node now (sn_vmid n) (sn_ip n) (sn_private_ip n) (sn_cloud_name n) default_weight (sn_role n)"

definition file_nodes :: "int \<Rightarrow> service_node list \<Rightarrow> (string \<times> service_node) list \<Rightarrow> (string \<times> service_node) list" where
  "file_nodes now nodes d = fold (\<lambda>n d. AList.update (sn_id n) (config_node now n) d) nodes d"

definition pop_node :: "service_node \<Rightarrow> mysql_attrs \<Rightarrow> mysql_attrs" where
  "pop_node n x =
     (if sn_id n \<in> set (dict_keys (ma_nodes x)) then x\<lparr>ma_nodes := AList.delete (sn_id n) (ma_nodes x)\<rparr>
      else x\<lparr>ma_glb := AList.delete (sn_id n) (ma_glb x)\<rparr>)"

definition config_remove_nodes :: "service_node list \<Rightarrow> mysql_attrs \<Rightarrow> mysql_attrs" where
  "config_remove_nodes nodes x = fold pop_node nodes x"

definition get_mysql_node :: "string \<Rightarrow> mysql_attrs \<Rightarrow> exn + service_node \<times> bool" where
  "get_mysql_node i x =
     (case map_of (ma_nodes x) i of
        Some n \<Rightarrow> Inr (n, True)
      | None \<Rightarrow> map_sum id (\<lambda>n. (n, False)) (py_lookup (ma_glb x) i))"

subsection \<open>The agents' client\<close>

text \<open>Errors, and a body that is no JSON, are \<open>AgentException\<close>s; an empty result counts as \<open>True\<close>.\<close>

definition mysql_check :: "int \<times> pyval \<Rightarrow> exn + pyval" where
  "mysql_check response =
     (let (code, data) = response in
      if code \<noteq> 200 then Inl (Raise EAgentException ''Received HTTP response code %d'' [PInt code])
      else (case data of
              PDict d \<Rightarrow>
                res_bind (py_lookup d ''error'') (\<lambda>error.
                  if py_truth error then Inl (Raise EAgentException [] [error])
                  else res_bind (py_lookup d ''result'') (\<lambda>result. Inr (if py_truth result then result else PBool True)))
            | _ \<Rightarrow> Inl (builtin_exn ETypeError)))"

definition decode_error :: "exn \<Rightarrow> exn" where
  "decode_error e = (case e of Raise EValueError t vs \<Rightarrow> Raise EAgentException t vs | _ \<Rightarrow> e)"

definition mysql_call :: "'w mysql_env \<Rightarrow> string \<Rightarrow> string \<Rightarrow> kwargs \<Rightarrow> ('w mobj, pyval) sx" where
  "mysql_call env ip method params = with_net (\<lambda>w.
     case net_agent (my_net env) ip method params w of
       (Inl e, w') \<Rightarrow> (Inl (decode_error e), w')
     | (Inr response, w') \<Rightarrow> (mysql_check response, w'))"

definition strings :: "string list \<Rightarrow> pyval" where
  "strings ss = PList (map PStr ss)"

definition call_start_mysqld :: "'w mysql_env \<Rightarrow> string \<Rightarrow> string list \<Rightarrow> string option \<Rightarrow> ('w mobj, pyval) sx" where
  "call_start_mysqld env host nodes device_name = mysql_call env host ''start_mysqld''
     [(''nodes'', strings nodes), (''device_name'', case device_name of None \<Rightarrow> PNone | Some d \<Rightarrow> PStr d)]"

definition call_start_glbd :: "'w mysql_env \<Rightarrow> string \<Rightarrow> string list \<Rightarrow> ('w mobj, pyval) sx" where
  "call_start_glbd env host nodes = mysql_call env host ''start_glbd'' [(''nodes'', strings nodes)]"

definition call_add_glbd_nodes :: "'w mysql_env \<Rightarrow> string \<Rightarrow> string list \<Rightarrow> ('w mobj, pyval) sx" where
  "call_add_glbd_nodes env host nodes = mysql_call env host ''add_glbd_nodes'' [(''nodesIp'', strings nodes)]"

definition call_remove_glbd_nodes :: "'w mysql_env \<Rightarrow> string \<Rightarrow> string list \<Rightarrow> ('w mobj, pyval) sx" where
  "call_remove_glbd_nodes env host nodes = mysql_call env host ''remove_glbd_nodes'' [(''nodes'', strings nodes)]"

definition call_stop :: "'w mysql_env \<Rightarrow> string \<Rightarrow> ('w mobj, pyval) sx" where
  "call_stop env host = mysql_call env host ''stop'' []"

definition call_set_password :: "'w mysql_env \<Rightarrow> string \<Rightarrow> string \<Rightarrow> string \<Rightarrow> ('w mobj, pyval) sx" where
  "call_set_password env host username password = mysql_call env host ''set_password''
     [(''username'', PStr username), (''password'', PStr password)]"

definition call_load_dump :: "'w mysql_env \<Rightarrow> string \<Rightarrow> string \<Rightarrow> ('w mobj, pyval) sx" where
  "call_load_dump env host path = (\<lambda>(s, w). case file_get_contents path w of
       Inl e \<Rightarrow> (Inl e, (s, w))
     | Inr contents \<Rightarrow> mysql_call env host ''load_dump'' [(''mysqldump_file'', PFile path contents)] (s, w))"

subsection \<open>Starting and adding nodes\<close>

definition my_modify :: "(mysql_attrs \<Rightarrow> mysql_attrs) \<Rightarrow> ('w mobj, unit) sx" where
  "my_modify f = modify_service (\<lambda>s. s\<lparr>sv_ext := f (sv_ext s)\<rparr>)"

definition my_read :: "(mysql_attrs \<Rightarrow> 'a) \<Rightarrow> ('w mobj, 'a) sx" where
  "my_read f = with_service (\<lambda>s. Inr (f (sv_ext s)))"

definition current_time :: "'w mysql_env \<Rightarrow> ('w mobj, int) sx" where
  "current_time env = sx_get (\<lambda>(s, w). net_now (my_net env) (wd_out w))"

definition db_addr :: "service_node \<Rightarrow> string" where
  "db_addr n = sn_ip n @ '':'' @ int_str mysql_port"

definition first_device :: "service_node \<Rightarrow> exn + string option" where
  "first_device n = map_sum id sv_dev_name (py_first (sn_volumes n))"

text \<open>
  The addresses of the configured nodes are read once, before the loop; every exception is logged and raised
  again.
\<close>

definition start_mysqld_nodes :: "'w mysql_env \<Rightarrow> service_node list \<Rightarrow> ('w mobj, bool) sx" where
  "start_mysqld_nodes env nodes =
     sx_bind (my_read (get_nodes_addr env)) (\<lambda>existing_nodes.
     sx_bind (sx_for nodes (\<lambda>n.
       sx_bind (sx_lift (first_device n)) (\<lambda>dev.
       sx_bind (call_start_mysqld env (sn_ip n) existing_nodes dev) (\<lambda>_. sx_return ())))) (\<lambda>_.
     sx_bind (my_read (get_glb_nodes env)) (\<lambda>glbs.
     sx_bind (sx_for glbs (\<lambda>glb.
       sx_bind (call_add_glbd_nodes env (sn_ip glb) (map db_addr nodes)) (\<lambda>_. sx_return ()))) (\<lambda>_.
       sx_return True))))"

definition start_glbd_nodes :: "'w mysql_env \<Rightarrow> service_node list \<Rightarrow> ('w mobj, unit) sx" where
  "start_glbd_nodes env new_glbs =
     sx_for new_glbs (\<lambda>glb.
       sx_bind (my_read (get_nodes env)) (\<lambda>nodes.
       sx_bind (call_start_glbd env (sn_ip glb) (map db_addr nodes)) (\<lambda>_. sx_return ())))"

definition add_mysql_nodes :: "'w mysql_env \<Rightarrow> service_node list \<Rightarrow> ('w mobj, unit) sx" where
  "add_mysql_nodes env nodes = sx_bind (current_time env) (\<lambda>now. my_modify (ma_nodes_update (file_nodes now nodes)))"

definition add_glb_nodes :: "'w mysql_env \<Rightarrow> service_node list \<Rightarrow> ('w mobj, unit) sx" where
  "add_glb_nodes env nodes = sx_bind (current_time env) (\<lambda>now. my_modify (ma_glb_update (file_nodes now nodes)))"

definition mysql_on_start :: "'w mysql_env \<Rightarrow> node_entry list \<Rightarrow> ('w mobj, bool) sx" where
  "mysql_on_start env entries =
     sx_bind (sx_lift (map_res entry_node entries)) (\<lambda>nodes.
     sx_bind (start_mysqld_nodes env nodes) (\<lambda>succ.
     sx_bind (add_mysql_nodes env nodes) (\<lambda>_. sx_return succ)))"

definition mysql_on_add_nodes :: "'w mysql_env \<Rightarrow> node_entry list \<Rightarrow> ('w mobj, bool) sx" where
  "mysql_on_add_nodes env entries =
     sx_bind (sx_lift (map_res entry_node entries)) (\<lambda>nodes.
     let reg_nodes = filter (\<lambda>n. sn_role n = role_mysql) nodes; gal_nodes = filter (\<lambda>n. sn_role n = role_glb) nodes in
     sx_bind (if reg_nodes = [] then sx_return ()
       else sx_bind (start_mysqld_nodes env reg_nodes) (\<lambda>_. add_mysql_nodes env reg_nodes)) (\<lambda>_.
     sx_bind (if gal_nodes = [] then sx_return ()
       else sx_bind (start_glbd_nodes env gal_nodes) (\<lambda>_. add_glb_nodes env gal_nodes)) (\<lambda>_.
       sx_return True)))"

subsection \<open>Removing nodes and stopping\<close>

definition role_count :: "kwargs \<Rightarrow> string \<Rightarrow> pyval" where
  "role_count node_roles role = (case map_of node_roles role of None \<Rightarrow> PInt 0 | Some v \<Rightarrow> v)"

definition exceeds :: "(rat \<Rightarrow> rat \<Rightarrow> bool) \<Rightarrow> pyval \<Rightarrow> nat \<Rightarrow> bool" where
  "exceeds le v present = (case as_num v of None \<Rightarrow> True | Some r \<Rightarrow> le (of_nat present) r)"

definition mysql_check_remove_nodes :: "'w mysql_env \<Rightarrow> kwargs \<Rightarrow> mysql_attrs service \<Rightarrow> exn + unit" where
  "mysql_check_remove_nodes env node_roles s =
     (let nodes = role_count node_roles role_mysql; total_nodes = length (get_nodes env (sv_ext s));
          glb_nodes = role_count node_roles role_glb; total_glb_nodes = length (get_glb_nodes env (sv_ext s)) in
      res_bind (guard (\<not> exceeds (\<le>) nodes total_nodes) (wrong_nr_nodes nodes (int total_nodes - 1) (Some role_mysql))) (\<lambda>_.
        guard (\<not> exceeds (<) glb_nodes total_glb_nodes) (wrong_nr_nodes glb_nodes (int total_glb_nodes) (Some role_glb))))"

definition do_remove_nodes_mysql :: "'w mysql_env \<Rightarrow> service_node list \<Rightarrow> service_node list \<Rightarrow> ('w mobj, service_node list) sx" where
  "do_remove_nodes_mysql env rm_reg_nodes rm_glb_nodes =
     sx_bind (my_read (get_glb_nodes env)) (\<lambda>glbs.
     sx_bind (sx_for glbs (\<lambda>glb.
       sx_bind (call_remove_glbd_nodes env (sn_ip glb) (map db_addr rm_reg_nodes)) (\<lambda>_. sx_return ()))) (\<lambda>_.
     let nodes = rm_reg_nodes @ rm_glb_nodes in
     sx_bind (sx_for nodes (\<lambda>n. sx_bind (call_stop env (sn_ip n)) (\<lambda>_. sx_return ()))) (\<lambda>_.
     sx_bind (my_modify (config_remove_nodes nodes)) (\<lambda>_.
     sx_bind (my_read (\<lambda>x. ma_nodes x = [] \<and> ma_glb x = [])) (\<lambda>none_left.
     sx_bind (modify_service (state_set (if none_left then S_STOPPED else S_RUNNING) [])) (\<lambda>_.
       sx_return nodes))))))"

text \<open>The counts have been checked: they are numbers and not negative. A slice wants an integer.\<close>

definition mysql_on_remove_nodes :: "'w mysql_env \<Rightarrow> kwargs \<Rightarrow> ('w mobj, node_entry list) sx" where
  "mysql_on_remove_nodes env node_roles =
     sx_bind (my_read (get_nodes env)) (\<lambda>nodes.
     sx_bind (sx_lift (py_range (role_count node_roles role_mysql))) (\<lambda>n.
     sx_bind (my_read (get_glb_nodes env)) (\<lambda>glbs.
     sx_bind (sx_lift (py_range (role_count node_roles role_glb))) (\<lambda>g.
     sx_bind (do_remove_nodes_mysql env (take n nodes) (take g glbs)) (\<lambda>removed.
       sx_return (map VNode removed))))))"

definition mysql_on_stop :: "'w mysql_env \<Rightarrow> ('w mobj, node_entry list) sx" where
  "mysql_on_stop env =
     sx_bind (my_read (get_nodes env)) (\<lambda>nodes.
     sx_bind (my_read (get_glb_nodes env)) (\<lambda>glbs.
     sx_bind (do_remove_nodes_mysql env nodes glbs) (\<lambda>res.
     sx_bind (my_modify (\<lambda>x. x\<lparr>ma_nodes := [], ma_glb := []\<rparr>)) (\<lambda>_.
       sx_return (map VNode res)))))"

text \<open>
  \<open>remove_specific_nodes\<close>: the last node with the address, balancers looked at after the others; an address
  that belongs to a node of both kinds counts as one of the first. The state is \<open>ADAPTING\<close> before the address
  is looked up. Nobody but the thread's own configuration learns of the removal.
\<close>

definition checked_call :: "param list \<Rightarrow> mstate list \<Rightarrow> kwargs \<Rightarrow> (pyval \<Rightarrow> ('w mobj, http_response) sx) \<Rightarrow> ('w mobj, http_response) sx" where
  "checked_call params states kw f =
     sx_bind (with_service (\<lambda>s. Inr (res_bind (check_arguments params kw) (\<lambda>v. res_bind (check_state states s) (\<lambda>_. Inr v))))) (\<lambda>r.
     case r of Inl e \<Rightarrow> sx_return (HttpErrorResponse e) | Inr v \<Rightarrow> f v)"

definition empty_reply :: http_response where "empty_reply = HttpJsonResponse (PDict [])"

definition start_mysql_thread :: "mysql_job \<Rightarrow> ('w mobj, unit) sx" where
  "start_mysql_thread j = my_modify (\<lambda>x. x\<lparr>ma_threads := ma_threads x @ [j]\<rparr>)"

definition remove_specific_nodes :: "'w mysql_env \<Rightarrow> (mysql_attrs, 'w) handler" where
  "remove_specific_nodes env kw = checked_call [Mandatory ''ip'' is_string] [S_RUNNING] kw (\<lambda>ip.
     sx_bind (modify_service (state_set S_ADAPTING [])) (\<lambda>_.
     sx_bind (my_read (\<lambda>x. (filter (\<lambda>n. sn_ip n = py_str ip) (get_nodes env x),
        filter (\<lambda>n. sn_ip n = py_str ip) (get_glb_nodes env x)))) (\<lambda>(reg, glbs).
     if reg = [] \<and> glbs = [] then sx_return (HttpErrorResponse (exc ''Sorry invalid ip !!!'' []))
     else
       let target = last (reg @ glbs) in
       sx_bind (start_mysql_thread (if reg \<noteq> [] then RemoveJob [target] [] else RemoveJob [] [target])) (\<lambda>_.
         sx_return empty_reply))))"

text \<open>
  The attributes the constructors give a manager; \<open>controller\<close> was one of them once. Asking for another one raises
  \<open>AttributeError\<close>.
\<close>

definition manager_attributes :: "string list" where
  "manager_attributes =
     [''exposed_functions'', ''logfile'', ''logger'', ''config_parser'', ''state_log'', ''state'', ''volumes'', ''nodes'',
      ''mysql_volume_size'', ''root_pass'', ''config'']"

definition self_attribute :: "string \<Rightarrow> exn + unit" where
  "self_attribute name = guard (name \<in> set manager_attributes) (builtin_exn EAttributeError)"

text \<open>
  A thread runs as a whole. That of a migration asks for the controller before it has changed anything, and once
  more to undo what it has done; what it does with one is left out.
\<close>

definition mysql_run_thread :: "'w mysql_env \<Rightarrow> nat \<Rightarrow> ('w mobj, unit) sx" where
  "mysql_run_thread env n =
     sx_bind (with_service (\<lambda>s. if n < length (ma_threads (sv_ext s)) then Inr (ma_threads (sv_ext s) ! n)
       else Inl (builtin_exn EIndexError))) (\<lambda>j.
     sx_bind (my_modify (\<lambda>x. x\<lparr>ma_threads := take n (ma_threads x) @ drop (Suc n) (ma_threads x)\<rparr>)) (\<lambda>_.
     case j of
       RemoveJob reg glbs \<Rightarrow> sx_bind (do_remove_nodes_mysql env reg glbs) (\<lambda>_. sx_return ())
     | MigrateJob plan delay \<Rightarrow> sx_lift (self_attribute ''controller'')))"

subsection \<open>Migration\<close>

text \<open>
  Every entry of the request becomes an entry of the plan, unless a cloud name is missing, no node matches, or the
  controller cannot be asked for the destination. The clouds of the controller are the parameter \<open>my_cloud\<close>. The
  outer sum is an exception that leaves the handler, the inner one an answer.
\<close>

definition migration_field :: "pyval \<Rightarrow> string \<Rightarrow> exn + pyval" where
  "migration_field migr key = (case migr of PDict d \<Rightarrow> py_lookup d key | _ \<Rightarrow> Inl (builtin_exn ETypeError))"

definition candidate_nodes :: "service_node list \<Rightarrow> pyval \<Rightarrow> pyval \<Rightarrow> service_node list" where
  "candidate_nodes service_nodes from_cloud_name vmid =
     filter (\<lambda>n. py_eq (PStr (sn_cloud_name n)) from_cloud_name \<and> py_eq (PStr (sn_vmid n)) vmid) service_nodes"

definition migration_entry :: "'w mysql_env \<Rightarrow> service_node list \<Rightarrow> pyval \<Rightarrow> pyval \<Rightarrow> pyval \<Rightarrow> exn + service_node \<times> string" where
  "migration_entry env service_nodes from_cloud_name vmid dest_cloud_name =
     (case candidate_nodes service_nodes from_cloud_name vmid of
        [] \<Rightarrow> Inl (exc ''Node %s in cloud %s is not a valid node of this service. It should be one of %s''
          [vmid, from_cloud_name, PList (map (\<lambda>n. PStr (sn_cloud_name n @ '':'' @ sn_vmid n)) service_nodes)])
      | node # _ \<Rightarrow>
          res_bind (self_attribute ''controller'') (\<lambda>_.
          res_bind (my_cloud env dest_cloud_name) (\<lambda>dest_cloud. Inr (node, dest_cloud))))"

fun plan_migration :: "'w mysql_env \<Rightarrow> service_node list \<Rightarrow> pyval list \<Rightarrow> exn + (exn + (service_node \<times> string) list)" where
  "plan_migration env service_nodes [] = Inr (Inr [])"
| "plan_migration env service_nodes (migr # nodes) =
     res_bind (migration_field migr ''from_cloud'') (\<lambda>from_cloud_name.
     res_bind (migration_field migr ''vmid'') (\<lambda>vmid.
     res_bind (migration_field migr ''to_cloud'') (\<lambda>dest_cloud_name.
       if py_eq from_cloud_name (PStr []) \<or> py_eq dest_cloud_name (PStr [])
       then Inr (Inl (exc ''Missing cloud name in parameter \"nodes\": from_cloud=\"%s\" to_cloud=\"%s\"'' [from_cloud_name, dest_cloud_name]))
       else case migration_entry env service_nodes from_cloud_name vmid dest_cloud_name of
         Inl e \<Rightarrow> Inr (Inl e)
       | Inr entry \<Rightarrow> map_sum id (map_sum id (Cons entry)) (plan_migration env service_nodes nodes))))"

definition migrate_nodes :: "'w mysql_env \<Rightarrow> (mysql_attrs, 'w) handler" where
  "migrate_nodes env kw = checked_call
     [Mandatory ''nodes'' (is_list_dict2 [''from_cloud'', ''vmid'', ''to_cloud''] None), Optional ''delay'' is_pos_nul_int (PInt 0)]
     [S_RUNNING] kw (\<lambda>args.
     let (nodes, delay) = args2 args in
     sx_bind (my_read (get_nodes env)) (\<lambda>service_nodes.
     sx_bind (sx_lift (plan_migration env service_nodes (list_items nodes))) (\<lambda>migration_plan.
     case migration_plan of
       Inl e \<Rightarrow> sx_return (HttpErrorResponse e)
     | Inr plan \<Rightarrow>
         if plan = [] then sx_return (HttpErrorResponse (exc ''ERROR: argument is missing the nodes to migrate.'' []))
         else
           sx_bind (modify_service (state_set S_ADAPTING [])) (\<lambda>_.
           sx_bind (start_mysql_thread (MigrateJob plan delay)) (\<lambda>_. sx_return empty_reply)))))"

subsection \<open>Handlers\<close>

definition mysql_list_nodes :: "'w mysql_env \<Rightarrow> (mysql_attrs, 'w) handler" where
  "mysql_list_nodes env kw = no_args kw (if_in_state [S_RUNNING, S_ADAPTING]
     (my_read (\<lambda>x. HttpJsonResponse (PDict
        [(role_mysql, strings (map sn_id (get_nodes env x))), (role_glb, strings (map sn_id (get_glb_nodes env x)))]))))"

definition mysql_role_logs :: "string \<Rightarrow> role_log list" where
  "mysql_role_logs role = base_role_logs @
     (if role = role_mysql then [\<lparr>log_filename = ''mysql.log'', log_description = ''MySQL log'',
        log_path = ''/var/cache/cpsagent/mysql.log''\<rparr>] else [])"

definition mysql_node_json :: "service_node \<times> bool \<Rightarrow> pyval" where
  "mysql_node_json nk = (let n = fst nk in PDict [(''serviceNode'', PDict
     [(''id'', PStr (sn_id n)), (''ip'', PStr (sn_ip n)), (''vmid'', PStr (sn_vmid n)), (''cloud'', PStr (sn_cloud_name n)),
      (''isNode'', PBool (snd nk)), (''isGlb_node'', PBool (\<not> snd nk)), (''role'', PStr (sn_role n)),
      (''logs'', logs_json (mysql_role_logs (sn_role n)))])])"

definition mysql_get_node_info :: "'w mysql_env \<Rightarrow> (mysql_attrs, 'w) handler" where
  "mysql_get_node_info env kw =
     sx_bind (my_read (\<lambda>x. map PStr (dict_keys (ma_nodes x) @ dict_keys (ma_glb x)))) (\<lambda>node_ids.
     case check_arguments [Mandatory ''serviceNodeId'' (is_in_list node_ids)] kw of
       Inl e \<Rightarrow> sx_return (HttpErrorResponse e)
     | Inr nid \<Rightarrow> with_service (\<lambda>s. map_sum id (HttpJsonResponse \<circ> mysql_node_json) (get_mysql_node (py_str nid) (sv_ext s))))"

definition mysql_get_service_info :: "(mysql_attrs, 'w) handler" where
  "mysql_get_service_info kw = no_args kw (with_service (\<lambda>s.
     Inr (HttpJsonResponse (PDict [(''state'', PStr (state_name (sv_state s))), (''type'', PStr ''mysql'')]))))"

definition get_service_performance :: "(mysql_attrs, 'w) handler" where
  "get_service_performance kw = no_args kw (sx_return (HttpJsonResponse (PDict
     [(''request_rate'', PInt 0), (''error_rate'', PInt 0), (''throughput'', PInt 0), (''response_time'', PInt 0)])))"

text \<open>A failure of the call is logged without a message, which raises \<open>TypeError\<close>.\<close>

definition first_node_of :: "'w mysql_env \<Rightarrow> ('w mobj, service_node) sx" where
  "first_node_of env = with_service (\<lambda>s. py_first (get_nodes env (sv_ext s)))"

definition mysql_set_password :: "'w mysql_env \<Rightarrow> (mysql_attrs, 'w) handler" where
  "mysql_set_password env kw = checked_call [Mandatory ''user'' is_string, Mandatory ''password'' is_string] [S_RUNNING] kw (\<lambda>args.
     let (user, password) = args2 args in
     sx_bind (first_node_of env) (\<lambda>one_node.
     sx_try (sx_bind (call_set_password env (sn_ip one_node) (py_str user) (py_str password)) (\<lambda>_. sx_return empty_reply))
       (\<lambda>e. sx_raise (builtin_exn ETypeError))))"

definition mysql_load_dump :: "'w mysql_env \<Rightarrow> (mysql_attrs, 'w) handler" where
  "mysql_load_dump env kw = checked_call [Mandatory ''mysqldump_file'' is_uploaded_file] [S_RUNNING] kw (\<lambda>upload.
     sx_bind (sx_get (\<lambda>(s, w). path_join ''/tmp'' (my_temp env (dict_keys (wd_disk w))))) (\<lambda>filename.
     sx_bind (sx_modify (\<lambda>(s, w). (s, file_write_contents filename (py_str upload) w))) (\<lambda>_.
     sx_bind (first_node_of env) (\<lambda>one_node.
     sx_try (sx_bind (call_load_dump env (sn_ip one_node) filename) (\<lambda>_. sx_return empty_reply))
       (\<lambda>e. sx_return (HttpErrorResponse (Wrap ''Could not upload mysqldump_file: %s.'' [] e)))))))"

definition dump_command :: "service_node \<Rightarrow> string option \<Rightarrow> string" where
  "dump_command n password = ''mysqldump -u root -h '' @ sn_ip n @ '' --password='' @
     (case password of None \<Rightarrow> ''None'' | Some p \<Rightarrow> p) @ '' -A --skip-lock-tables''"

definition sqldump :: "'w mysql_env \<Rightarrow> (mysql_attrs, 'w) handler" where
  "sqldump env kw = checked_call [] [S_RUNNING] kw (\<lambda>_.
     sx_bind (first_node_of env) (\<lambda>one_node.
     sx_bind (my_read ma_root_pass) (\<lambda>password.
     sx_bind (with_net (\<lambda>w. let (r, w') = my_shell env (dump_command one_node password) w in (Inr r, w'))) (\<lambda>(out, error, code).
       sx_return (if code = 0 then HttpJsonResponse (PStr out)
         else HttpErrorResponse (exc ''Failed to run mysqldump: %s.'' [PStr error]))))))"

definition set_my_sql_params :: "'w mysql_env \<Rightarrow> (mysql_attrs, 'w) handler" where
  "set_my_sql_params env kw = or_error_response
     (sx_bind (sx_lift (check_arguments [Mandatory ''variable'' is_string, Mandatory ''value'' is_string] kw)) (\<lambda>args.
      let (variable, v) = args2 args in
      sx_bind (with_service (check_state [S_RUNNING])) (\<lambda>_.
      sx_bind (my_read (\<lambda>x. (get_nodes env x, ma_root_pass x))) (\<lambda>(nodes, password).
      sx_bind (sx_for nodes (\<lambda>n. sx_bind (with_net (my_sql env (sn_ip n) password
          (''set global '' @ py_str variable @ '' = '' @ py_str v @ '';''))) (\<lambda>_. sx_return ()))) (\<lambda>_.
        sx_return (HttpJsonResponse (PStr ''OK!'')))))))"

text \<open>\<open>commands.getstatusoutput\<close>: the wait status and the output of both streams without its last newline.\<close>

definition get_ganglia_params :: "'w mysql_env \<Rightarrow> (mysql_attrs, 'w) handler" where
  "get_ganglia_params env kw = no_args kw
     (sx_bind (with_net (\<lambda>w. let (r, w') = my_shell env ''{ curl -s telnet://localhost:8651/; } 2>&1'' w in (Inr r, w'))) (\<lambda>(out, _, code).
      sx_return (HttpJsonResponse (PDict [(''Ganglia'', PList [PInt (256 * code),
        PStr (if out \<noteq> [] \<and> last out = char_of (10 :: nat) then butlast out else out)])]))))"

subsection \<open>Load figures\<close>

definition status_queries :: "string list" where
  "status_queries = [''SHOW STATUS LIKE 'wsrep_local_recv_queue_avg';'', ''SHOW GLOBAL STATUS LIKE 'Com_select';'',
     ''SHOW GLOBAL STATUS LIKE 'Com_insert';'', ''SHOW GLOBAL STATUS LIKE 'Com_delete';'', ''SHOW GLOBAL STATUS LIKE 'Com_update';'']"

definition ask_status :: "'w mysql_env \<Rightarrow> string option \<Rightarrow> service_node \<Rightarrow> string \<Rightarrow> ('w mobj, string \<times> rat) sx" where
  "ask_status env password n q =
     sx_bind (with_net (my_sql env (sn_ip n) password q)) (\<lambda>t.
     sx_bind (sx_lift (my_float env t)) (\<lambda>r. sx_return (t, r)))"

definition mean_of :: "rat list \<Rightarrow> pyval" where
  "mean_of rs = PFloat (sum_list rs / of_nat (max 1 (length rs)))"

definition get_mean_load :: "'w mysql_env \<Rightarrow> (mysql_attrs, 'w) handler" where
  "get_mean_load env kw =
     sx_bind (my_read (\<lambda>x. (get_nodes env x, ma_root_pass x))) (\<lambda>(nodes, password).
     sx_bind (sx_map (\<lambda>n. sx_map (ask_status env password n) status_queries) nodes) (\<lambda>rows.
     let texts = (\<lambda>i. strings (map (\<lambda>row. fst (row ! i)) rows)); figures = (\<lambda>i. map (\<lambda>row. snd (row ! i)) rows);
         whole = (\<lambda>i. if rows = [] then PInt 0 else mean_of (figures i)) in
     sx_return (HttpJsonResponse (PDict
       [(''loads'', texts 0), (''meanLoad'', mean_of (figures 0)), (''updates'', texts 4), (''meanUpdate'', mean_of (figures 4)),
        (''selects'', texts 1), (''meanSelect'', whole 1), (''deletes'', texts 3), (''meanDelete'', whole 3),
        (''inserts'', texts 2), (''meanInsert'', whole 2)]))))"

subsection \<open>The class\<close>

definition mysql_init :: "config \<Rightarrow> kwargs \<Rightarrow> exn + mysql_attrs service" where
  "mysql_init cfg kwargs = new_manager ''mysql''
     \<lparr>ma_volume_size = 1024, ma_root_pass = None, ma_nodes = [], ma_glb = [], ma_threads = []\<rparr> cfg"

definition mysql_context :: "'w mysql_env \<Rightarrow> mysql_attrs service \<Rightarrow> kwargs \<times> mysql_attrs service" where
  "mysql_context env s =
     (let password = (case ma_root_pass (sv_ext s) of Some p \<Rightarrow> if p = [] then my_password env else p | None \<Rightarrow> my_password env) in
      ([(''mysql_username'', PStr ''mysqldb''), (''mysql_password'', PStr password)],
       s\<lparr>sv_ext := (sv_ext s)\<lparr>ma_root_pass := Some password\<rparr>\<rparr>))"

definition mysql_role_sninfo :: "string \<Rightarrow> string \<Rightarrow> mysql_attrs service \<Rightarrow> exn + sninfo" where
  "mysql_role_sninfo role cloud s =
     (if role = role_mysql then get_standard_sninfo_with_volume role cloud ''mysql-%(vm_id)s'' (ma_volume_size (sv_ext s)) s
      else Inr (get_standard_sninfo role cloud))"

definition mysql_base :: "'w mysql_env \<Rightarrow> (mysql_attrs, 'w) svc_class" where
  "mysql_base env = (base_class mysql_init)
     \<lparr>k_service_type := ''mysql'',
      k_node_roles := [role_mysql, role_glb],
      k_default_role := role_mysql,
      k_starting_nodes := [(role_mysql, PInt 1)],
      k_role_sninfo := mysql_role_sninfo,
      k_role_logs := mysql_role_logs,
      k_context := mysql_context env,
      k_on_start := mysql_on_start env,
      k_on_stop := mysql_on_stop env,
      k_on_add_nodes := mysql_on_add_nodes env,
      k_check_remove_nodes := (\<lambda>node_roles. with_service (mysql_check_remove_nodes env node_roles)),
      k_on_remove_nodes := mysql_on_remove_nodes env,
      k_threads := (\<lambda>s. length (ma_threads (sv_ext s))),
      k_run_thread := mysql_run_thread env\<rparr>"

definition mysql_class :: "'w mysql_env \<Rightarrow> (mysql_attrs, 'w) svc_class" where
  "mysql_class env = (mysql_base env)
     \<lparr>k_attributes := base_attributes (my_net env) (mysql_base env) @
        [(''getGangliaParams'', Exposed ''GET'' (get_ganglia_params env)),
         (''getMeanLoad'', Exposed ''GET'' (get_mean_load env)),
         (''get_node_info'', Exposed ''GET'' (mysql_get_node_info env)),
         (''get_service_info'', Exposed ''GET'' mysql_get_service_info),
         (''get_service_performance'', Exposed ''GET'' get_service_performance),
         (''list_nodes'', Exposed ''GET'' (mysql_list_nodes env)),
         (''load_dump'', Exposed ''UPLOAD'' (mysql_load_dump env)),
         (''migrate_nodes'', Exposed ''POST'' (migrate_nodes env)),
         (''remove_specific_nodes'', Exposed ''GET'' (remove_specific_nodes env)),
         (''setMySqlParams'', Exposed ''GET'' (set_my_sql_params env)),
         (''set_password'', Exposed ''POST'' (mysql_set_password env)),
         (''sqldump'', Exposed ''GET'' (sqldump env))]\<rparr>"

subsection \<open>Reading and changing the attributes\<close>

lemma my_read_run [simp]: "my_read f (s, w) = (Inr (f (sv_ext s)), (s, w))"
  by (simp add: my_read_def with_service_def)

lemma my_read_bind: "sx_bind (my_read f) k (s, w) = k (f (sv_ext s)) (s, w)"
  by (simp add: sx_bind_run)

lemma my_modify_run [simp]: "my_modify f (s, w) = (Inr (), (s\<lparr>sv_ext := f (sv_ext s)\<rparr>, w))"
  by (simp add: my_modify_def modify_service_def)

end
