(* ===== verification/MySQLAgent.thy ===== *)
theory MySQLAgent
  imports MySQL GenericAgent
begin

text \<open>
  The agent of the MySQL service (\<open>services/mysql/agent/internals.py\<close>) and the two roles it runs
  (\<open>services/mysql/agent/role.py\<close>): a \<open>mysqld\<close> of the cluster and a load balancer \<open>glbd\<close>.

  A role object is kept in a file between calls. The attributes of a \<open>mysqld\<close> object are a dictionary, because
  a constructor that gives up half-way leaves the later ones unset. The processes, the shell, the database and
  the parser of \<open>wsrep.cnf\<close> are parameters; \<open>me_patience\<close> bounds the polls for a daemon that has been started,
  after which \<open>EDiverges\<close> stands for a call that does not return.
\<close>

subsection \<open>State\<close>

datatype galera_role = MySQLServer | GLBNode

datatype daemon_state = D_STARTING | D_RUNNING | D_STOPPING | D_STOPPED

record mysqld =
  md_state :: daemon_state
  md_dev_name :: string
  md_attrs :: "(string \<times> string) list"

record glbd =
  gl_nodes :: "pyval list"
  gl_state :: daemon_state
  gl_location :: string

record 'd mysql_agent =
  mg_config :: config
  mg_log_file :: string
  mg_running :: "galera_role list"
  mg_mysqld :: "mysqld option"
  mg_glbd :: "glbd option"
  mg_disk :: "(string \<times> string) list"
  mg_out :: 'd

record 'd mysql_agent_env =
  me_loads :: "string \<Rightarrow> exn + pyval"
  me_popen :: "string list \<Rightarrow> 'd \<Rightarrow> int \<times> 'd"
  me_cmd :: "string \<Rightarrow> 'd \<Rightarrow> (string \<times> string \<times> int) \<times> 'd"
  me_system :: "string \<Rightarrow> 'd \<Rightarrow> 'd"
  me_sql :: "string \<Rightarrow> string \<Rightarrow> string \<Rightarrow> 'd \<Rightarrow> (exn + string) \<times> 'd"
  me_parse :: "string \<Rightarrow> exn + config"
  me_print :: "config \<Rightarrow> string"
  me_lexists :: "string \<Rightarrow> 'd \<Rightarrow> bool"
  me_sleep :: "int \<Rightarrow> 'd \<Rightarrow> 'd"
  me_patience :: nat

type_synonym ('d, 'a) ga = "('d mysql_agent, 'a) sx"

type_synonym ('d, 'a) md = "(mysqld \<times> 'd mysql_agent, 'a) sx"

type_synonym 'd mysql_handler = "kwargs \<Rightarrow> ('d, http_response) ga"

definition agent_exn :: "string \<Rightarrow> pyval list \<Rightarrow> exn" where
  "agent_exn t vs = Raise EAgentException t vs"

definition is_kind :: "exn_kind set \<Rightarrow> exn \<Rightarrow> bool" where
  "is_kind ks e = (case e of Raise k _ _ \<Rightarrow> k \<in> ks | Wrap _ _ _ \<Rightarrow> EException \<in> ks)"

text \<open>\<open>except\<close> for some classes; a call that does not return is not an exception.\<close>

definition sx_except :: "exn_kind set \<Rightarrow> ('s, 'a) sx \<Rightarrow> (exn \<Rightarrow> ('s, 'a) sx) \<Rightarrow> ('s, 'a) sx" where
  "sx_except ks m h = sx_try m (\<lambda>e. if is_kind ks e then h e else sx_raise e)"

definition sx_except_any :: "('s, 'a) sx \<Rightarrow> (exn \<Rightarrow> ('s, 'a) sx) \<Rightarrow> ('s, 'a) sx" where
  "sx_except_any m h = sx_try m (\<lambda>e. if is_kind {EDiverges} e then sx_raise e else h e)"

definition outside :: "('d \<Rightarrow> 'a \<times> 'd) \<Rightarrow> ('d, 'a) ga" where
  "outside f g = (let (r, d) = f (mg_out g) in (Inr r, g\<lparr>mg_out := d\<rparr>))"

definition run_command :: "'d mysql_agent_env \<Rightarrow> string \<Rightarrow> ('d, string \<times> string \<times> int) ga" where
  "run_command env cmd = outside (me_cmd env cmd)"

definition query :: "'d mysql_agent_env \<Rightarrow> string \<Rightarrow> string \<Rightarrow> string \<Rightarrow> ('d, string) ga" where
  "query env host password q g = (let (r, d) = me_sql env host password q (mg_out g) in (r, g\<lparr>mg_out := d\<rparr>))"

definition at_agent :: "('d, 'a) ga \<Rightarrow> ('d, 'a) md" where
  "at_agent m = (\<lambda>(p, g). let (r, g') = m g in (r, (p, g')))"

definition set_daemon :: "daemon_state \<Rightarrow> ('d, unit) md" where
  "set_daemon st = sx_modify (apfst (md_state_update (\<lambda>_. st)))"

definition set_attr :: "string \<Rightarrow> string \<Rightarrow> ('d, unit) md" where
  "set_attr name v = sx_modify (apfst (md_attrs_update (AList.update name v)))"

definition attr :: "string \<Rightarrow> ('d, string) md" where
  "attr name = (\<lambda>(p, g). (case map_of (md_attrs p) name of
     None \<Rightarrow> Inl (builtin_exn EAttributeError) | Some v \<Rightarrow> Inr v, (p, g)))"

definition conf :: "string \<Rightarrow> string \<Rightarrow> ('d, string) md" where
  "conf sect opt = (\<lambda>(p, g). (cfg_get (mg_config g) sect opt, (p, g)))"

subsection \<open>Mounting\<close>

definition mount_point :: string where "mount_point = ''/media/GaleraDisk''"

fun await_device :: "'d mysql_agent_env \<Rightarrow> nat \<Rightarrow> string \<Rightarrow> ('d, bool) md" where
  "await_device env 0 dev_prefix = sx_return False"
| "await_device env (Suc n) dev_prefix =
     sx_bind (sx_get (\<lambda>(p, g). (me_lexists env (md_dev_name p) (mg_out g),
       me_lexists env (replace_text dev_prefix ''xvd'' (md_dev_name p)) (mg_out g)))) (\<lambda>(there, renamed).
     if there then sx_return True
     else if renamed then
       sx_bind (sx_modify (apfst (md_dev_name_update (replace_text dev_prefix ''xvd'')))) (\<lambda>_. sx_return True)
     else
       sx_bind (at_agent (outside (\<lambda>d. ((), me_sleep env 10 d)))) (\<lambda>_. await_device env n dev_prefix))"

text \<open>A failed \<open>mkfs\<close> or \<open>mount\<close> is only logged.\<close>

definition mount_disk :: "'d mysql_agent_env \<Rightarrow> ('d, unit) md" where
  "mount_disk env =
     sx_bind (set_daemon D_STARTING) (\<lambda>_.
     sx_bind (\<lambda>(p, g). (map_sum id butlast (dev_part (md_dev_name p)), (p, g))) (\<lambda>dev_prefix.
     sx_bind (await_device env 10 dev_prefix) (\<lambda>dev_found.
     sx_bind (at_agent (run_command env (''mkdir -p '' @ mount_point))) (\<lambda>_.
     if dev_found then
       sx_bind (sx_get (md_dev_name \<circ> fst)) (\<lambda>dev.
       sx_bind (at_agent (outside (me_popen env [''mkfs.ext4'', ''-q'', ''-m0'', dev]))) (\<lambda>_.
       sx_bind (at_agent (run_command env (''mount '' @ dev @ '' '' @ mount_point))) (\<lambda>_. sx_return ())))
     else sx_return ()))))"

definition unmount_disk :: "'d mysql_agent_env \<Rightarrow> ('d, unit) md" where
  "unmount_disk env =
     sx_bind (sx_get (md_dev_name \<circ> fst)) (\<lambda>dev.
     sx_bind (at_agent (run_command env (''fuser -km '' @ dev))) (\<lambda>_.
     sx_bind (at_agent (run_command env (''umount '' @ dev))) (\<lambda>_. sx_return ())))"

subsection \<open>Starting and stopping \<open>mysqld\<close>\<close>

definition poll_command :: "string \<Rightarrow> string" where
  "poll_command password = ''mysql -u root '' @ password @ ''-BN -e \"SHOW STATUS LIKE 'wsrep_local_state_comment';\"''"

fun wait_daemon_started :: "'d mysql_agent_env \<Rightarrow> nat \<Rightarrow> string \<Rightarrow> ('d, unit) md" where
  "wait_daemon_started env 0 password = sx_raise (builtin_exn EDiverges)"
| "wait_daemon_started env (Suc n) password =
     sx_bind (at_agent (run_command env (poll_command password))) (\<lambda>(_, _, code).
     if code = 0 then sx_return ()
     else sx_bind (at_agent (outside (\<lambda>d. ((), me_sleep env 5 d)))) (\<lambda>_. wait_daemon_started env n password))"

definition start_daemon :: "'d mysql_agent_env \<Rightarrow> bool \<Rightarrow> ('d, unit) md" where
  "start_daemon env is_first_node =
     sx_bind (sx_get (md_state \<circ> fst)) (\<lambda>st.
     if st = D_RUNNING then sx_return ()
     else
       sx_bind (set_daemon D_STARTING) (\<lambda>_.
       sx_bind (attr ''path_mysql_ssr'') (\<lambda>ssr.
       sx_bind (at_agent (outside (me_popen env [ssr, ''start'']))) (\<lambda>return_code.
       if return_code \<noteq> 0 then
         sx_bind (set_daemon D_STOPPED) (\<lambda>_.
           sx_raise (exc ''Failed to start MySQL daemon: return code is %s.'' [PInt return_code]))
       else
         sx_bind (if is_first_node then sx_return [] else sx_bind (attr ''conn_password'') (\<lambda>p. sx_return (''-p'' @ p @ '' ''))) (\<lambda>password.
         sx_bind (wait_daemon_started env (me_patience env) password) (\<lambda>_.
           set_daemon D_RUNNING))))))"

definition stop_daemon :: "'d mysql_agent_env \<Rightarrow> ('d, unit) md" where
  "stop_daemon env =
     sx_bind (sx_get (md_state \<circ> fst)) (\<lambda>st.
     if st \<noteq> D_RUNNING then sx_return ()
     else
       sx_bind (set_daemon D_STOPPING) (\<lambda>_.
       sx_bind (attr ''path_mysql_ssr'') (\<lambda>ssr.
       sx_bind (at_agent (outside (me_popen env [ssr, ''stop'']))) (\<lambda>return_code.
       if return_code \<noteq> 0 then
         sx_bind (set_daemon D_RUNNING) (\<lambda>_. sx_raise (exc ''Return code is %s.'' [PInt return_code]))
       else
         sx_bind (set_daemon D_STOPPED) (\<lambda>_. unmount_disk env)))))"

subsection \<open>The constructor of \<open>MySQLServer\<close>\<close>

text \<open>The attributes read before anything is changed, in the order of the code.\<close>

definition settings :: "(string \<times> string \<times> string) list" where
  "settings =
     [(''conn_location'', ''MySQL_root_connection'', ''location''), (''conn_username'', ''MySQL_root_connection'', ''username''),
      (''conn_password'', ''MySQL_root_connection'', ''password''), (''manager_ip'', ''agent'', ''MANAGER_IP''),
      (''mysqldump_path'', ''agent'', ''MYSQLDUMP_PATH''), (''var_cache'', ''agent'', ''VAR_CACHE''),
      (''mycnf_filepath'', ''MySQL_configuration'', ''my_cnf_file''), (''path_mysql_ssr'', ''MySQL_configuration'', ''path_mysql_ssr'')]"

definition galera_settings :: "(string \<times> string \<times> string) list" where
  "galera_settings =
     [(''wsrep_filepath'', ''Galera_configuration'', ''wsrep_file''), (''wsrep_user'', ''Galera_configuration'', ''wsrep_sst_username''),
      (''wsrep_password'', ''Galera_configuration'', ''wsrep_sst_password''), (''wsrep_provider'', ''Galera_configuration'', ''wsrep_provider''),
      (''wsrep_sst_method'', ''Galera_configuration'', ''wsrep_sst_method''), (''glbd_location'', ''Galera_configuration'', ''glbd_location'')]"

definition read_settings :: "(string \<times> string \<times> string) list \<Rightarrow> ('d, unit) md" where
  "read_settings ss = sx_for ss (\<lambda>(name, sect, opt). sx_bind (conf sect opt) (set_attr name))"

fun read_lines :: "string \<Rightarrow> string \<Rightarrow> string list" where
  "read_lines w [] = (if w = [] then [] else [w])"
| "read_lines w (c # cs) = (if c = newline then (w @ [c]) # read_lines [] cs else read_lines (w @ [c]) cs)"

definition my_cnf_line :: "string \<Rightarrow> string \<Rightarrow> string" where
  "my_cnf_line error_log line =
     (if has_text ''datadir'' line then ''datadir = '' @ mount_point @ ''/data/'' @ [newline]
      else if has_text ''log_error'' line then ''log_error = '' @ error_log @ [newline]
      else if has_text ''bind-address'' line then []
      else line)"

definition read_file :: "string \<Rightarrow> ('d, string) ga" where
  "read_file path g = (case map_of (mg_disk g) path of
     None \<Rightarrow> (Inl (builtin_exn EIOError), g) | Some c \<Rightarrow> (Inr c, g))"

definition put_file :: "string \<Rightarrow> string \<Rightarrow> ('d, unit) ga" where
  "put_file path c = sx_modify (\<lambda>g. g\<lparr>mg_disk := AList.update path c (mg_disk g)\<rparr>)"

definition rewrite_my_cnf :: "('d, unit) md" where
  "rewrite_my_cnf =
     sx_bind (attr ''mycnf_filepath'') (\<lambda>path.
     sx_bind (at_agent (read_file path)) (\<lambda>text.
     sx_bind (attr ''var_cache'') (\<lambda>var_cache.
       at_agent (put_file path (concat (map (my_cnf_line (path_join var_cache ''mysql.log'')) (read_lines [] text)))))))"

text \<open>\<open>','.join(nodes)\<close>; a file that cannot be read has no sections.\<close>

definition text_items :: "pyval list \<Rightarrow> exn + string list" where
  "text_items = map_res (\<lambda>v. case v of PStr s \<Rightarrow> Inr s | _ \<Rightarrow> Inl (builtin_exn ETypeError))"

definition wsrep_options :: "string list \<Rightarrow> string \<Rightarrow> string \<Rightarrow> string \<Rightarrow> string \<Rightarrow> (string \<times> string) list" where
  "wsrep_options nodes provider sst_method user password =
     [(''wsrep_cluster_address'', [CHR 0x22] @ ''gcomm://'' @ join_with '','' nodes @ [CHR 0x22]),
      (''wsrep_provider'', provider), (''wsrep_sst_method'', sst_method), (''wsrep_sst_auth'', user @ '':'' @ password)]"

fun set_options :: "string \<Rightarrow> (string \<times> string) list \<Rightarrow> config \<Rightarrow> exn + config" where
  "set_options sect [] cfg = Inr cfg"
| "set_options sect ((opt, v) # os) cfg = res_bind (cfg_set cfg sect opt v) (set_options sect os)"

definition rewrite_wsrep :: "'d mysql_agent_env \<Rightarrow> pyval list \<Rightarrow> ('d, unit) md" where
  "rewrite_wsrep env nodes =
     sx_bind (attr ''wsrep_filepath'') (\<lambda>path.
     sx_bind (\<lambda>(p, g). (case map_of (mg_disk g) path of None \<Rightarrow> Inr [] | Some c \<Rightarrow> me_parse env c, (p, g))) (\<lambda>cfg.
     sx_bind (sx_lift (text_items nodes)) (\<lambda>addresses.
     sx_bind (attr ''wsrep_provider'') (\<lambda>provider.
     sx_bind (attr ''wsrep_sst_method'') (\<lambda>sst_method.
     sx_bind (attr ''wsrep_user'') (\<lambda>user.
     sx_bind (attr ''wsrep_password'') (\<lambda>password.
     sx_bind (sx_lift (set_options ''mysqld'' (wsrep_options addresses provider sst_method user password) cfg)) (\<lambda>cfg.
       at_agent (put_file path (me_print env cfg))))))))))"

definition sql_quoted :: "string \<Rightarrow> string" where
  "sql_quoted s = [CHR 0x27] @ s @ [CHR 0x27]"

definition root_queries :: "'d mysql_agent_env \<Rightarrow> string list \<Rightarrow> ('d, unit) md" where
  "root_queries env qs =
     sx_bind (attr ''conn_location'') (\<lambda>host.
     sx_bind (attr ''conn_password'') (\<lambda>password.
       sx_for qs (\<lambda>q. sx_bind (at_agent (query env host password q)) (\<lambda>_. sx_return ()))))"

definition user_queries :: "string \<Rightarrow> string \<Rightarrow> string \<Rightarrow> string list" where
  "user_queries user host password =
     [''create user '' @ sql_quoted user @ ''@'' @ sql_quoted host @ '' identified by '' @ sql_quoted password,
      ''grant all privileges on *.* TO '' @ sql_quoted user @ ''@'' @ sql_quoted host @ '' with grant option;'']"

definition allow_root_connections :: "'d mysql_agent_env \<Rightarrow> string \<Rightarrow> ('d, unit) md" where
  "allow_root_connections env manager_ip =
     sx_bind (attr ''conn_password'') (\<lambda>password.
       root_queries env (user_queries ''root'' manager_ip password @ [''flush privileges;'']))"

definition add_user :: "'d mysql_agent_env \<Rightarrow> string \<Rightarrow> string \<Rightarrow> ('d, unit) md" where
  "add_user env username password = root_queries env
     (user_queries username ''localhost'' password @ user_queries username ''%'' password @ [''flush privileges;''])"

text \<open>What the first node of a cluster does once its daemon runs.\<close>

definition create_users :: "'d mysql_agent_env \<Rightarrow> ('d, unit) md" where
  "create_users env =
     sx_bind (attr ''conn_password'') (\<lambda>password.
     sx_bind (at_agent (outside (\<lambda>d. ((), me_system env (''mysqladmin -u root password '' @ password) d)))) (\<lambda>_.
     sx_bind (attr ''manager_ip'') (\<lambda>manager_ip.
     sx_bind (allow_root_connections env manager_ip) (\<lambda>_.
     sx_bind (attr ''conn_username'') (\<lambda>username.
     sx_bind (add_user env username password) (\<lambda>_.
     sx_bind (attr ''wsrep_user'') (\<lambda>wsrep_user.
     sx_bind (attr ''wsrep_password'') (\<lambda>wsrep_password.
       add_user env wsrep_user wsrep_password))))))))"

definition prepare_disk :: "'d mysql_agent_env \<Rightarrow> ('d, unit) md" where
  "prepare_disk env = sx_for
     [''mkdir -p '' @ mount_point @ ''/data/'', ''mkdir -p '' @ mount_point @ ''/tmp/'',
      ''cp -a /var/lib/mysql/* '' @ mount_point @ ''/data/'', ''chown  -R mysql:mysql  '' @ mount_point @ ''/'']
     (\<lambda>cmd. sx_bind (at_agent (run_command env cmd)) (\<lambda>_. sx_return ()))"

definition configure_daemon :: "'d mysql_agent_env \<Rightarrow> pyval list \<Rightarrow> ('d, unit) md" where
  "configure_daemon env nodes =
     sx_bind (read_settings settings) (\<lambda>_.
     sx_bind (prepare_disk env) (\<lambda>_.
     sx_bind rewrite_my_cnf (\<lambda>_.
     sx_bind (read_settings galera_settings) (\<lambda>_.
     sx_bind (rewrite_wsrep env nodes) (\<lambda>_.
     sx_bind (set_daemon D_STOPPED) (\<lambda>_.
     sx_bind (start_daemon env (nodes = [])) (\<lambda>_.
     if nodes = [] then create_users env else sx_return ())))))))"

text \<open>A missing option and a missing file are only logged.\<close>

definition init_mysqld :: "'d mysql_agent_env \<Rightarrow> pyval list \<Rightarrow> string \<Rightarrow> ('d, mysqld) ga" where
  "init_mysqld env nodes device_name = (\<lambda>g.
     let p = \<lparr>md_state = D_STARTING, md_dev_name = ''/dev/'' @ device_name, md_attrs = []\<rparr>;
         (r, (p', g')) = sx_bind (mount_disk env) (\<lambda>_.
           sx_except {EConfigError, EIOError} (configure_daemon env nodes) (\<lambda>_. sx_return ())) (p, g)
     in (map_sum id (\<lambda>_. p') r, g'))"

subsection \<open>The load balancer\<close>

text \<open>\<open>Popen\<close> takes text only.\<close>

definition glbd_command :: "'d mysql_agent_env \<Rightarrow> string \<Rightarrow> string \<Rightarrow> pyval list \<Rightarrow> ('d, unit) ga" where
  "glbd_command env location action hosts = sx_for hosts (\<lambda>h.
     sx_bind (sx_lift (text_items [h])) (\<lambda>hs.
     sx_bind (outside (me_popen env ([location, action] @ hs))) (\<lambda>_. sx_return ())))"

definition init_glbd :: "'d mysql_agent_env \<Rightarrow> pyval list \<Rightarrow> ('d, glbd) ga" where
  "init_glbd env nodes =
     sx_bind (\<lambda>g. (cfg_get (mg_config g) ''Galera_configuration'' ''glbd_location'', g)) (\<lambda>location.
     sx_bind (outside (me_popen env [location, ''start''])) (\<lambda>_.
     sx_bind (glbd_command env location ''add'' nodes) (\<lambda>_.
       sx_return \<lparr>gl_nodes = nodes, gl_state = D_RUNNING, gl_location = location\<rparr>)))"

definition glbd_change :: "'d mysql_agent_env \<Rightarrow> string \<Rightarrow> glbd \<Rightarrow> pyval list \<Rightarrow> ('d, unit) ga" where
  "glbd_change env action p hosts =
     (if gl_state p \<noteq> D_RUNNING
      then sx_raise (exc ''Wrong state of the GLB: state is %s, instead of expected %s.'' [])
      else glbd_command env (gl_location p) action hosts)"

definition stop_glbd :: "'d mysql_agent_env \<Rightarrow> glbd \<Rightarrow> ('d, unit) ga" where
  "stop_glbd env p = sx_bind (outside (me_popen env [gl_location p, ''stop''])) (\<lambda>_. sx_return ())"

subsection \<open>The agent\<close>

definition new_mysql_agent :: "config \<Rightarrow> 'd \<Rightarrow> exn + 'd mysql_agent" where
  "new_mysql_agent cfg d =
     res_bind (map_res (cfg_get cfg ''agent'') [''TYPE'', ''USER_ID'', ''SERVICE_ID'']) (\<lambda>_.
     res_bind (cfg_get cfg ''agent'' ''LOG_FILE'') (\<lambda>log_file.
     res_bind (map_res (cfg_get cfg ''agent'') [''MY_IP'', ''VAR_TMP'', ''VAR_CACHE'', ''VAR_RUN'']) (\<lambda>_.
       Inr \<lparr>mg_config = cfg, mg_log_file = log_file, mg_running = [], mg_mysqld = None, mg_glbd = None,
            mg_disk = [], mg_out = d\<rparr>)))"

definition role_exists :: "galera_role \<Rightarrow> 'd mysql_agent \<Rightarrow> bool" where
  "role_exists role g = (case role of MySQLServer \<Rightarrow> mg_mysqld g \<noteq> None | GLBNode \<Rightarrow> mg_glbd g \<noteq> None)"

definition start_role :: "'d mysql_agent_env \<Rightarrow> galera_role \<Rightarrow> pyval list \<Rightarrow> string \<Rightarrow> ('d, unit) ga" where
  "start_role env role nodes device_name =
     sx_bind (sx_get (role_exists role)) (\<lambda>there.
     if there then sx_raise (agent_exn ''Cannot start %s: file %s already exists.'' [])
     else
       (case role of
          MySQLServer \<Rightarrow> sx_bind (init_mysqld env nodes device_name) (\<lambda>p. sx_modify (mg_mysqld_update (\<lambda>_. Some p)))
        | GLBNode \<Rightarrow> sx_bind (init_glbd env nodes) (\<lambda>p. sx_modify (mg_glbd_update (\<lambda>_. Some p)))))"

definition stop_mysqld :: "'d mysql_agent_env \<Rightarrow> mysqld \<Rightarrow> ('d, unit) ga" where
  "stop_mysqld env p = (\<lambda>g. let (r, (p', g')) = stop_daemon env (p, g) in (r, g'))"

definition stop_role :: "'d mysql_agent_env \<Rightarrow> galera_role \<Rightarrow> ('d, unit) ga" where
  "stop_role env role = (\<lambda>g.
     if \<not> role_exists role g then (Inl (agent_exn ''Cannot stop daemon: file %s does not exist.'' []), g)
     else
       sx_except_any
         (case role of
            MySQLServer \<Rightarrow> (case mg_mysqld g of None \<Rightarrow> sx_return ()
              | Some p \<Rightarrow> sx_bind (stop_mysqld env p) (\<lambda>_. sx_modify (mg_mysqld_update (\<lambda>_. None))))
          | GLBNode \<Rightarrow> (case mg_glbd g of None \<Rightarrow> sx_return ()
              | Some p \<Rightarrow> sx_bind (stop_glbd env p) (\<lambda>_. sx_modify (mg_glbd_update (\<lambda>_. None)))))
         (\<lambda>e. sx_raise (Raise EAgentException ''Cannot stop daemon: %s'' [])) g)"

subsection \<open>Handlers\<close>

definition mysql_check_process :: "'d mysql_handler" where
  "mysql_check_process kw = no_args kw (sx_return (HttpJsonResponse (PDict [])))"

definition mysql_get_log :: "'d mysql_handler" where
  "mysql_get_log kw = (\<lambda>g.
     case check_arguments [Optional ''filename'' is_string (PStr (mg_log_file g))] kw of
       Inl e \<Rightarrow> (Inr (HttpErrorResponse e), g)
     | Inr filename \<Rightarrow>
         (Inr (case map_of (mg_disk g) (py_str filename) of
            Some c \<Rightarrow> HttpJsonResponse (PDict [(''log'', PStr c)])
          | None \<Rightarrow> HttpErrorResponse (exc (''Failed to read log file: '%s'' @ [CHR 0x27]) [filename])), g))"

text \<open>\<open>try: ... except Exception as ex: return HttpErrorResponse\<close>.\<close>

definition answer_errors :: "('d, http_response) ga \<Rightarrow> ('d, http_response) ga" where
  "answer_errors m = sx_except_any m (\<lambda>e. sx_return (HttpErrorResponse e))"

definition agent_start_mysqld :: "'d mysql_agent_env \<Rightarrow> 'd mysql_handler" where
  "agent_start_mysqld env kw = answer_errors
     (sx_bind (sx_lift (check_arguments [Optional ''nodes'' is_list (PList []), Mandatory ''device_name'' is_string] kw)) (\<lambda>args.
      let (nodes, device_name) = args2 args in
      sx_bind (start_role env MySQLServer (list_items nodes) (py_str device_name)) (\<lambda>_.
      sx_bind (sx_modify (mg_running_update (\<lambda>rs. rs @ [MySQLServer]))) (\<lambda>_.
        sx_return empty_reply))))"

definition agent_start_glbd :: "'d mysql_agent_env \<Rightarrow> 'd mysql_handler" where
  "agent_start_glbd env kw = answer_errors
     (sx_bind (sx_lift (check_arguments [Optional ''nodes'' is_list (PList [])] kw)) (\<lambda>nodes.
      sx_bind (start_role env GLBNode (list_items nodes) []) (\<lambda>_.
      sx_bind (sx_modify (mg_running_update (\<lambda>rs. rs @ [GLBNode]))) (\<lambda>_.
        sx_return empty_reply))))"

text \<open>Only \<open>AgentException\<close>s are answered; the argument check raises another class.\<close>

definition agent_stop :: "'d mysql_agent_env \<Rightarrow> 'd mysql_handler" where
  "agent_stop env kw = sx_except {EAgentException}
     (sx_bind (sx_lift (check_arguments [] kw)) (\<lambda>_.
      sx_bind (sx_get mg_running) (\<lambda>roles.
      sx_bind (sx_for roles (stop_role env)) (\<lambda>_.
      sx_bind (sx_modify (mg_running_update (\<lambda>_. []))) (\<lambda>_.
        sx_return empty_reply)))))
     (\<lambda>e. sx_return (HttpErrorResponse e))"

text \<open>With the object of a running \<open>mysqld\<close>; a failure is logged without a message, which raises \<open>TypeError\<close>.\<close>

definition with_mysqld :: "string \<Rightarrow> ('d, unit) md \<Rightarrow> ('d, unit) ga" where
  "with_mysqld what m = (\<lambda>g.
     if MySQLServer \<notin> set (mg_running g) then (Inl (agent_exn what []), g)
     else
       sx_except_any
         (case mg_mysqld g of
            None \<Rightarrow> sx_raise (builtin_exn EIOError)
          | Some p \<Rightarrow> (\<lambda>g. let (r, (p', g')) = m (p, g) in (r, g')))
         (\<lambda>e. sx_raise (builtin_exn ETypeError)) g)"

definition change_password :: "'d mysql_agent_env \<Rightarrow> string \<Rightarrow> string \<Rightarrow> ('d, unit) md" where
  "change_password env username password = root_queries env
     [''set password for '' @ sql_quoted username @ ''@'' @ sql_quoted ''%'' @ '' = password('' @ sql_quoted password @ '')'']"

definition agent_set_password :: "'d mysql_agent_env \<Rightarrow> 'd mysql_handler" where
  "agent_set_password env kw = sx_except {EAgentException}
     (sx_bind (sx_lift (check_arguments [Mandatory ''username'' is_string, Mandatory ''password'' is_string] kw)) (\<lambda>args.
      let (username, password) = args2 args in
      sx_bind (with_mysqld ''Cannot set password: agent is not running a mysqld daemon.''
        (change_password env (py_str username) (py_str password))) (\<lambda>_.
        sx_return empty_reply)))
     (\<lambda>e. sx_return (HttpErrorResponse e))"

definition dump_path :: string where "dump_path = ''/tmp/mysqldump.db''"

definition restore_dump :: "'d mysql_agent_env \<Rightarrow> string \<Rightarrow> ('d, unit) md" where
  "restore_dump env contents =
     sx_bind (at_agent (put_file dump_path contents)) (\<lambda>_.
     sx_bind (attr ''conn_password'') (\<lambda>password.
       at_agent (outside (\<lambda>d. ((), me_system env (''mysql -u root -p'' @ password @ '' < '' @ dump_path) d)))))"

definition agent_load_dump :: "'d mysql_agent_env \<Rightarrow> 'd mysql_handler" where
  "agent_load_dump env kw = sx_except {EAgentException}
     (sx_bind (sx_lift (check_arguments [Mandatory ''mysqldump_file'' is_uploaded_file] kw)) (\<lambda>upload.
      sx_bind (with_mysqld ''Cannot load dump: agent is not running a mysqld daemon.'' (restore_dump env (py_str upload))) (\<lambda>_.
        sx_return empty_reply)))
     (\<lambda>e. sx_return (HttpErrorResponse e))"

definition agent_change_glbd :: "'d mysql_agent_env \<Rightarrow> string \<Rightarrow> string \<Rightarrow> 'd mysql_handler" where
  "agent_change_glbd env action param kw = (\<lambda>g.
     if GLBNode \<notin> set (mg_running g) then (Inl (agent_exn ''agent is not running a glbd daemon.'' []), g)
     else answer_errors
       (sx_bind (sx_lift (check_arguments [Optional param is_list (PList [])] kw)) (\<lambda>nodes.
        sx_bind (sx_lift (case mg_glbd g of None \<Rightarrow> Inl (builtin_exn EIOError) | Some p \<Rightarrow> Inr p)) (\<lambda>p.
        sx_bind (glbd_change env action p (list_items nodes)) (\<lambda>_. sx_return empty_reply)))) g)"

definition agent_add_glbd_nodes :: "'d mysql_agent_env \<Rightarrow> 'd mysql_handler" where
  "agent_add_glbd_nodes env = agent_change_glbd env ''add'' ''nodesIp''"

definition agent_remove_glbd_nodes :: "'d mysql_agent_env \<Rightarrow> 'd mysql_handler" where
  "agent_remove_glbd_nodes env = agent_change_glbd env ''remove'' ''nodes''"

definition agent_get_load :: "'d mysql_agent_env \<Rightarrow> 'd mysql_handler" where
  "agent_get_load env kw = answer_errors
     (sx_bind (sx_lift (check_arguments [] kw)) (\<lambda>_.
      (\<lambda>g. case mg_mysqld g of
          None \<Rightarrow> (Inl (builtin_exn EIOError), g)
        | Some p \<Rightarrow>
            let (r, (p', g')) = sx_bind (attr ''conn_location'') (\<lambda>host. sx_bind (attr ''conn_password'') (\<lambda>password.
                  at_agent (query env host password ''SHOW STATUS LIKE 'wsrep_local_recv_queue_avg';''))) (p, g)
            in (map_sum id (\<lambda>load. HttpJsonResponse (PDict [(''load'', PStr load)])) r, g'))))"

definition mysql_agent_methods :: "'d mysql_agent_env \<Rightarrow> (string \<times> string \<times> 'd mysql_handler) list" where
  "mysql_agent_methods env =
     [(''add_glbd_nodes'', ''POST'', agent_add_glbd_nodes env), (''check_process'', ''GET'', mysql_check_process),
      (''getLoad'', ''GET'', agent_get_load env), (''get_log'', ''GET'', mysql_get_log),
      (''load_dump'', ''UPLOAD'', agent_load_dump env), (''remove_glbd_nodes'', ''POST'', agent_remove_glbd_nodes env),
      (''set_password'', ''POST'', agent_set_password env), (''start_glbd'', ''POST'', agent_start_glbd env),
      (''start_mysqld'', ''POST'', agent_start_mysqld env), (''stop'', ''POST'', agent_stop env)]"

end
