(* ===== verification/MySQLProps.thy ===== *)
theory MySQLProps
  imports MySQLAgent AgentLink
begin

text \<open>
  Facts on the MySQL service: what its agents do with the calls of the manager, over the client and the server
  between them, and what that makes of the cluster.
\<close>

section \<open>Calls\<close>

definition mysql_request :: "(pyval \<Rightarrow> string) \<Rightarrow> string \<Rightarrow> kwargs \<Rightarrow> exn + request" where
  "mysql_request dumps name params =
     (if name = ''load_dump'' then https_post name params else Inr (jsonrpc_post dumps name 0 params))"

type_synonym 'd mysql_cluster = "'d mysql_agent agents"

definition mysql_linked :: "'d mysql_cluster mysql_env \<Rightarrow> 'd mysql_agent_env \<Rightarrow> bool" where
  "mysql_linked env aenv \<longleftrightarrow>
     (\<exists>dumps rendered. json_text json_value dumps (me_loads aenv) \<and>
       net_agent (my_net env) = agents_link (mysql_agent_methods aenv) (me_loads aenv) (mysql_request dumps) rendered)"

lemma mysql_handlers:
  "find_callback (registered_by (mysql_agent_methods aenv)) ''POST'' 0 ''start_mysqld'' = Some (agent_start_mysqld aenv)"
  "find_callback (registered_by (mysql_agent_methods aenv)) ''POST'' 0 ''start_glbd'' = Some (agent_start_glbd aenv)"
  "find_callback (registered_by (mysql_agent_methods aenv)) ''POST'' 0 ''add_glbd_nodes'' = Some (agent_add_glbd_nodes aenv)"
  "find_callback (registered_by (mysql_agent_methods aenv)) ''POST'' 0 ''remove_glbd_nodes'' = Some (agent_remove_glbd_nodes aenv)"
  "find_callback (registered_by (mysql_agent_methods aenv)) ''POST'' 0 ''stop'' = Some (agent_stop aenv)"
proof -
  have "method_kinds (mysql_agent_methods aenv)" by (simp add: method_kinds_def mysql_agent_methods_def http_methods_def)
  note find = find_method [OF this]
  show "find_callback (registered_by (mysql_agent_methods aenv)) ''POST'' 0 ''start_mysqld'' = Some (agent_start_mysqld aenv)"
    "find_callback (registered_by (mysql_agent_methods aenv)) ''POST'' 0 ''start_glbd'' = Some (agent_start_glbd aenv)"
    "find_callback (registered_by (mysql_agent_methods aenv)) ''POST'' 0 ''add_glbd_nodes'' = Some (agent_add_glbd_nodes aenv)"
    "find_callback (registered_by (mysql_agent_methods aenv)) ''POST'' 0 ''remove_glbd_nodes'' = Some (agent_remove_glbd_nodes aenv)"
    "find_callback (registered_by (mysql_agent_methods aenv)) ''POST'' 0 ''stop'' = Some (agent_stop aenv)"
    unfolding find by (simp_all add: mysql_agent_methods_def)
qed

text \<open>
  A call that returns: an agent at the address has run its handler, which answered with a result; nothing else
  has changed.
\<close>

lemma mysql_call_success:
  assumes "mysql_linked env aenv" "name \<noteq> ''load_dump''"
    and "find_callback (registered_by (mysql_agent_methods aenv)) ''POST'' 0 name = Some h" "json_value (PDict params)"
    and run: "mysql_call env ip name params (s, w) = (Inr v, (s', w'))"
  obtains g x g' where "map_of (wd_out w) ip = Some g" "h params g = (Inr (HttpJsonResponse x), g')"
    "s' = s" "w' = w\<lparr>wd_out := AList.update ip g' (wd_out w)\<rparr>"
proof -
  obtain dumps rendered where json: "json_text json_value dumps (me_loads aenv)"
    and link: "net_agent (my_net env) = agents_link (mysql_agent_methods aenv) (me_loads aenv) (mysql_request dumps) rendered"
    using assms(1) by (auto simp: mysql_linked_def)
  have request: "mysql_request dumps name params = Inr (jsonrpc_post dumps name 0 params)"
    using assms(2) by (simp add: mysql_request_def)
  show ?thesis
  proof (cases "map_of (wd_out w) ip")
    case None
    then show ?thesis using run by (simp add: mysql_call_def with_net_def link agents_link_def)
  next
    case (Some g)
    obtain res g' where h: "h params g = (res, g')" by (cases "h params g")
    let ?reply = "reply_to rendered (mysql_agent_methods aenv) (me_loads aenv) name params res"
    have "net_agent (my_net env) ip name params (wd_out w) = (?reply, AList.update ip g' (wd_out w))"
      unfolding link by (rule link_post [where request = "mysql_request dumps", OF json assms(3,4) request Some h])
    then have w': "s' = s" "w' = w\<lparr>wd_out := AList.update ip g' (wd_out w)\<rparr>"
      and checked: "(case ?reply of Inl e \<Rightarrow> Inl (decode_error e) | Inr response \<Rightarrow> mysql_check response) = Inr v"
      using run by (auto simp: mysql_call_def with_net_def split: sum.splits)
    obtain d x where "?reply = Inr (200, PDict d)" "map_of d ''result'' = Some x"
      using checked by (auto simp: mysql_check_def py_lookup_def res_elims split: sum.splits pyval.splits if_splits option.splits)
    then have "res = Inr (HttpJsonResponse x)" by (rule reply_result)
    with that Some h w' show ?thesis by simp
  qed
qed

lemma mysql_call_world:
  assumes "mysql_linked env aenv" "name \<noteq> ''load_dump''"
    and "find_callback (registered_by (mysql_agent_methods aenv)) ''POST'' 0 name = Some h" "json_value (PDict params)"
    and run: "mysql_call env ip name params (s, w) = (Inr v, (s', w'))"
  shows "s' = s" "ip' \<noteq> ip \<Longrightarrow> map_of (wd_out w') ip' = map_of (wd_out w) ip'"
proof -
  obtain g' where "s' = s" "w' = w\<lparr>wd_out := AList.update ip g' (wd_out w)\<rparr>" by (rule mysql_call_success [OF assms])
  then show "s' = s" "ip' \<noteq> ip \<Longrightarrow> map_of (wd_out w') ip' = map_of (wd_out w) ip'" by (simp_all add: update_conv')
qed

lemma strings_value: "json_value (strings ss)"
  by (induction ss) (simp_all add: strings_def)

lemma strings_items [simp]: "list_items (strings ss) = map PStr ss"
  by (simp add: strings_def list_items_def)

section \<open>The load balancer\<close>

text \<open>
  What the commands of \<open>glbd\<close> do to the set of servers it balances, as its documentation has it.
\<close>

definition balancer :: "'d mysql_agent_env \<Rightarrow> ('d \<Rightarrow> string set) \<Rightarrow> bool" where
  "balancer aenv bal \<longleftrightarrow>
     (\<forall>loc d. bal (snd (me_popen aenv [loc, ''start''] d)) = {}) \<and>
     (\<forall>loc h d. bal (snd (me_popen aenv [loc, ''add'', h] d)) = insert h (bal d)) \<and>
     (\<forall>loc h d. bal (snd (me_popen aenv [loc, ''remove'', h] d)) = bal d - {h})"

definition balancing :: "('d \<Rightarrow> string set) \<Rightarrow> string set \<Rightarrow> 'd mysql_agent \<Rightarrow> bool" where
  "balancing bal S g \<longleftrightarrow>
     GLBNode \<in> set (mg_running g) \<and> (\<exists>p. mg_glbd g = Some p \<and> gl_state p = D_RUNNING) \<and> bal (mg_out g) = S"

text \<open>Only the outside world changes under the commands.\<close>

lemma glbd_command_run:
  assumes "\<And>h d. bal (snd (me_popen aenv [loc, action, h] d)) = f h (bal d)"
  shows "\<exists>d. glbd_command aenv loc action (map PStr hs) g = (Inr (), g\<lparr>mg_out := d\<rparr>) \<and> bal d = fold f hs (bal (mg_out g))"
proof (induction hs arbitrary: g)
  case Nil
  show ?case by (rule exI [of _ "mg_out g"]) (simp add: glbd_command_def)
next
  case (Cons h hs)
  obtain r d where run: "me_popen aenv [loc, action, h] (mg_out g) = (r, d)" by (cases "me_popen aenv [loc, action, h] (mg_out g)")
  have "bal d = f h (bal (mg_out g))" using assms [of h "mg_out g"] run by simp
  moreover obtain d' where "glbd_command aenv loc action (map PStr hs) (g\<lparr>mg_out := d\<rparr>) = (Inr (), g\<lparr>mg_out := d'\<rparr>)"
    "bal d' = fold f hs (bal d)"
    using Cons [of "g\<lparr>mg_out := d\<rparr>"] by auto
  ultimately show ?case
    using run by (intro exI [of _ d']) (simp add: glbd_command_def text_items_def sx_bind_run outside_def)
qed

lemma fold_insert_set: "fold insert hs S = S \<union> set hs"
  by (induction hs arbitrary: S) auto

lemma fold_remove_set: "fold (\<lambda>h S. S - {h}) hs S = S - set hs"
  by (induction hs arbitrary: S) auto

lemma list_argument: "check_arguments [Optional name is_list (PList [])] [(name, strings hs)] = Inr (strings hs)"
  by (simp add: check_arguments_def unwrap_parsed_def strings_def is_list_def type_constraint_def is_constraint_def)

lemma add_balanced:
  assumes "balancer aenv bal" "balancing bal S g"
  shows "\<exists>g'. agent_add_glbd_nodes aenv [(''nodesIp'', strings hs)] g = (Inr empty_reply, g') \<and> balancing bal (S \<union> set hs) g'"
proof -
  obtain p where p: "mg_glbd g = Some p" "gl_state p = D_RUNNING" "GLBNode \<in> set (mg_running g)" "bal (mg_out g) = S"
    using assms(2) by (auto simp: balancing_def)
  obtain d where "glbd_command aenv (gl_location p) ''add'' (map PStr hs) g = (Inr (), g\<lparr>mg_out := d\<rparr>)" "bal d = S \<union> set hs"
    using glbd_command_run [of bal aenv "gl_location p" "''add''" insert hs g] assms(1) p(4)
    by (auto simp: balancer_def fold_insert_set)
  then show ?thesis
    using p by (intro exI [of _ "g\<lparr>mg_out := d\<rparr>"])
      (simp add: agent_add_glbd_nodes_def agent_change_glbd_def answer_errors_def sx_except_any_def sx_try_def sx_bind_run
        list_argument glbd_change_def balancing_def)
qed

lemma remove_balanced:
  assumes "balancer aenv bal" "balancing bal S g"
  shows "\<exists>g'. agent_remove_glbd_nodes aenv [(''nodes'', strings hs)] g = (Inr empty_reply, g') \<and> balancing bal (S - set hs) g'"
proof -
  obtain p where p: "mg_glbd g = Some p" "gl_state p = D_RUNNING" "GLBNode \<in> set (mg_running g)" "bal (mg_out g) = S"
    using assms(2) by (auto simp: balancing_def)
  obtain d where "glbd_command aenv (gl_location p) ''remove'' (map PStr hs) g = (Inr (), g\<lparr>mg_out := d\<rparr>)" "bal d = S - set hs"
    using glbd_command_run [of bal aenv "gl_location p" "''remove''" "\<lambda>h S. S - {h}" hs g] assms(1) p(4)
    by (auto simp: balancer_def fold_remove_set)
  then show ?thesis
    using p by (intro exI [of _ "g\<lparr>mg_out := d\<rparr>"])
      (simp add: agent_remove_glbd_nodes_def agent_change_glbd_def answer_errors_def sx_except_any_def sx_try_def sx_bind_run
        list_argument glbd_change_def balancing_def)
qed

lemma start_balanced:
  assumes "balancer aenv bal" "agent_start_glbd aenv [(''nodes'', strings hs)] g = (Inr (HttpJsonResponse x), g')"
  shows "balancing bal (set hs) g'"
proof (cases "mg_glbd g")
  case (Some p)
  then show ?thesis
    using assms(2)
    by (simp add: agent_start_glbd_def answer_errors_def sx_except_any_def sx_try_def sx_bind_run list_argument start_role_def
        role_exists_def agent_exn_def is_kind_def)
next
  case None
  show ?thesis
  proof (cases "cfg_get (mg_config g) ''Galera_configuration'' ''glbd_location''")
    case (Inl e)
    then show ?thesis
      using assms(2) None
      by (auto simp: agent_start_glbd_def answer_errors_def sx_except_any_def sx_try_def sx_bind_run list_argument start_role_def
          role_exists_def init_glbd_def split: if_splits)
  next
    case (Inr loc)
    obtain r d where start: "me_popen aenv [loc, ''start''] (mg_out g) = (r, d)" by (cases "me_popen aenv [loc, ''start''] (mg_out g)")
    have "bal d = {}" using assms(1) start by (metis balancer_def snd_conv)
    moreover obtain d' where "glbd_command aenv loc ''add'' (map PStr hs) (g\<lparr>mg_out := d\<rparr>) = (Inr (), g\<lparr>mg_out := d'\<rparr>)" "bal d' = bal d \<union> set hs"
      using glbd_command_run [of bal aenv loc "''add''" insert hs "g\<lparr>mg_out := d\<rparr>"] assms(1)
      by (auto simp: balancer_def fold_insert_set)
    ultimately show ?thesis
      using assms(2) None Inr start
      by (auto simp: agent_start_glbd_def answer_errors_def sx_except_any_def sx_try_def sx_bind_run list_argument start_role_def
          role_exists_def init_glbd_def outside_def balancing_def)
  qed
qed

section \<open>The dictionaries\<close>

text \<open>The interpreter lists a dictionary's values in some order.\<close>

definition dict_order :: "(string list \<Rightarrow> string list) \<Rightarrow> bool" where
  "dict_order order \<longleftrightarrow> (\<forall>ks. distinct ks \<longrightarrow> distinct (order ks) \<and> set (order ks) = set ks)"

lemma dict_vals_set:
  assumes "dict_order (my_order env)" "distinct (map fst d)"
  shows "set (dict_vals env d) = snd ` set d"
proof -
  have keys: "set (my_order env (dict_keys d)) = fst ` set d" using assms by (simp add: dict_order_def)
  have "set (dict_vals env d) = {v. \<exists>k \<in> fst ` set d. map_of d k = Some v}"
    unfolding dict_vals_def keys [symmetric] by (force simp: map_filter_def image_iff)
  also have "\<dots> = snd ` set d"
  proof (intro equalityI subsetI)
    fix v assume "v \<in> snd ` set d"
    then obtain k where "(k, v) \<in> set d" by auto
    then show "v \<in> {v. \<exists>k \<in> fst ` set d. map_of d k = Some v}" using assms(2) by force
  qed (force dest: map_of_SomeD)
  finally show ?thesis .
qed

text \<open>The configuration: nodes under their identifiers, which no two share, nor an address.\<close>

definition apart :: "(string \<times> service_node) list \<Rightarrow> bool" where
  "apart d \<longleftrightarrow> distinct (map fst d) \<and> distinct (map (sn_ip \<circ> snd) d) \<and> (\<forall>(k, n) \<in> set d. k = sn_id n)"

definition well_filed :: "mysql_attrs \<Rightarrow> bool" where
  "well_filed x \<longleftrightarrow> apart (ma_nodes x @ ma_glb x)"

lemma file_nodes_new:
  assumes "distinct (map sn_id nodes @ map fst d)"
  shows "file_nodes now nodes d = d @ map (\<lambda>n. (sn_id n, config_node now n)) nodes"
  using assms
proof (induction nodes arbitrary: d)
  case (Cons n nodes)
  have "AList.update (sn_id n) (config_node now n) d = d @ [(sn_id n, config_node now n)]"
    using Cons.prems by (intro update_new) simp
  moreover have "distinct (map sn_id nodes @ map fst (d @ [(sn_id n, config_node now n)]))" using Cons.prems by auto
  ultimately show ?case using Cons.IH [of "d @ [(sn_id n, config_node now n)]"] by (simp add: file_nodes_def)
qed (simp add: file_nodes_def)

lemma config_node_simps: "sn_ip (config_node now n) = sn_ip n" "canonical_node n \<Longrightarrow> sn_id (config_node now n) = sn_id n"
  by (simp_all add: config_node_def new_service_node_def canonical_node_def)

lemma db_addr_config [simp]: "db_addr (config_node now n) = db_addr n"
  by (simp add: db_addr_def config_node_simps)

lemma db_addr_inject: "db_addr m = db_addr n \<longleftrightarrow> sn_ip m = sn_ip n"
  by (simp add: db_addr_def)

text \<open>Nodes as the director hands them out: new to the configuration, each with an address of its own.\<close>

definition fresh_for :: "mysql_attrs \<Rightarrow> service_node list \<Rightarrow> bool" where
  "fresh_for x nodes \<longleftrightarrow>
     distinct (map sn_id nodes) \<and> distinct (map sn_ip nodes) \<and>
     (\<forall>n \<in> set nodes. canonical_node n \<and> sn_id n \<notin> set (map fst (ma_nodes x @ ma_glb x)) \<and>
        sn_ip n \<notin> set (map (sn_ip \<circ> snd) (ma_nodes x @ ma_glb x)))"

section \<open>The cluster and its balancers\<close>

definition db_addrs :: "mysql_attrs \<Rightarrow> string set" where
  "db_addrs x = (db_addr \<circ> snd) ` set (ma_nodes x)"

text \<open>Every balancer of the configuration runs and balances the database nodes of the configuration.\<close>

definition fronts :: "('d \<Rightarrow> string set) \<Rightarrow> mysql_attrs \<Rightarrow> 'd mysql_cluster \<Rightarrow> bool" where
  "fronts bal x w \<longleftrightarrow> (\<forall>n \<in> snd ` set (ma_glb x). \<exists>g. map_of w (sn_ip n) = Some g \<and> balancing bal (db_addrs x) g)"

definition consistent :: "('d \<Rightarrow> string set) \<Rightarrow> 'd mysql_cluster mobj \<Rightarrow> bool" where
  "consistent bal sw \<longleftrightarrow> well_filed (sv_ext (fst sw)) \<and> fronts bal (sv_ext (fst sw)) (wd_out (snd sw))"

text \<open>A loop that returns has taken every step.\<close>

lemma sx_for_steps:
  assumes "sx_for xs f s = (Inr u, s')" "I [] s"
    and step: "\<And>pre x post t t'. xs = pre @ x # post \<Longrightarrow> I pre t \<Longrightarrow> f x t = (Inr (), t') \<Longrightarrow> I (pre @ [x]) t'"
  shows "I xs s'"
proof -
  have "I (pre @ post) s'" if "xs = pre @ post" "I pre t" "sx_for post f t = (Inr u, s')" for pre post t
    using that
  proof (induction post arbitrary: pre t)
    case (Cons x post)
    then obtain t' where "f x t = (Inr (), t')" "sx_for post f t' = (Inr u, s')"
      by (cases "f x t") (auto simp: sx_bind_run split: sum.splits)
    then show ?case using step [of pre x post t t'] Cons.IH [of "pre @ [x]" t'] Cons.prems(1,2) by simp
  qed simp
  from this [of "[]" xs s] assms(1,2) show ?thesis by simp
qed

lemma call_then_return:
  assumes "sx_bind m (\<lambda>_. sx_return ()) t = (Inr (), t')"
  obtains v where "m t = (Inr v, t')"
  using assms by (cases "m t") (auto simp: sx_bind_run split: sum.splits)

text \<open>A loop of calls to agents leaves the manager alone and every agent whose address it does not use.\<close>

lemma calls_elsewhere:
  assumes "mysql_linked env aenv" "name \<noteq> ''load_dump''"
    and "find_callback (registered_by (mysql_agent_methods aenv)) ''POST'' 0 name = Some h"
    and call: "\<And>n. n \<in> set ns \<Longrightarrow> f n = sx_bind (sx_lift (dev n)) (\<lambda>d. sx_bind (mysql_call env (sn_ip n) name (params n d)) (\<lambda>_. sx_return ()))"
    and json: "\<And>n d. json_value (PDict (params n d))"
    and run: "sx_for ns f (s, w) = (Inr u, (s', w'))"
  shows "s' = s" "ip \<notin> sn_ip ` set ns \<Longrightarrow> map_of (wd_out w') ip = map_of (wd_out w) ip"
proof -
  have "fst (s', w') = s \<and> (ip \<notin> sn_ip ` set ns \<longrightarrow> map_of (wd_out (snd (s', w'))) ip = map_of (wd_out w) ip)"
  proof (rule sx_for_steps [OF run, where I = "\<lambda>pre t. fst t = s \<and> (ip \<notin> sn_ip ` set pre \<longrightarrow> map_of (wd_out (snd t)) ip = map_of (wd_out w) ip)"])
    fix pre x post t t'
    assume ns: "ns = pre @ x # post" and before: "fst t = s \<and> (ip \<notin> sn_ip ` set pre \<longrightarrow> map_of (wd_out (snd t)) ip = map_of (wd_out w) ip)"
      and step: "f x t = (Inr (), t')"
    obtain t1 t2 where t: "t = (t1, t2)" by (cases t)
    obtain t1' t2' where t': "t' = (t1', t2')" by (cases t')
    have "f x = sx_bind (sx_lift (dev x)) (\<lambda>d. sx_bind (mysql_call env (sn_ip x) name (params x d)) (\<lambda>_. sx_return ()))"
      by (rule call) (simp add: ns)
    then obtain d where "sx_bind (mysql_call env (sn_ip x) name (params x d)) (\<lambda>_. sx_return ()) t = (Inr (), t')"
      using step by (cases "dev x") simp_all
    then obtain v where "mysql_call env (sn_ip x) name (params x d) (t1, t2) = (Inr v, (t1', t2'))"
      unfolding t t' by (rule call_then_return)
    note world = mysql_call_world [OF assms(1-3) json this]
    show "fst t' = s \<and> (ip \<notin> sn_ip ` set (pre @ [x]) \<longrightarrow> map_of (wd_out (snd t')) ip = map_of (wd_out w) ip)"
      using world(1) world(2) [of ip] before by (simp add: t t')
  qed simp
  then show "s' = s" "ip \<notin> sn_ip ` set ns \<Longrightarrow> map_of (wd_out w') ip = map_of (wd_out w) ip" by simp_all
qed

text \<open>A loop that tells every balancer of a change.\<close>

lemma balancers_told:
  assumes "mysql_linked env aenv" "name \<noteq> ''load_dump''"
    and "find_callback (registered_by (mysql_agent_methods aenv)) ''POST'' 0 name = Some h" "json_value (PDict params)"
    and effect: "\<And>S g. balancing bal S g \<Longrightarrow> \<exists>g'. h params g = (Inr empty_reply, g') \<and> balancing bal (change S) g'"
    and distinct: "inj_on sn_ip (set glbs)" "distinct glbs"
    and before: "\<forall>n \<in> set glbs. \<exists>g. map_of (wd_out w) (sn_ip n) = Some g \<and> balancing bal S g"
    and run: "sx_for glbs (\<lambda>glb. sx_bind (mysql_call env (sn_ip glb) name params) (\<lambda>_. sx_return ())) (s, w) = (Inr u, (s', w'))"
  shows "\<forall>n \<in> set glbs. \<exists>g. map_of (wd_out w') (sn_ip n) = Some g \<and> balancing bal (change S) g"
proof -
  let ?I = "\<lambda>pre t. \<forall>n \<in> set glbs. \<exists>g. map_of (wd_out (snd t)) (sn_ip n) = Some g \<and> balancing bal (if n \<in> set pre then change S else S) g"
  have "?I glbs (s', w')"
  proof (rule sx_for_steps [OF run, where I = ?I])
    fix pre x post t t'
    assume glbs: "glbs = pre @ x # post" and inv: "?I pre t"
      and step: "sx_bind (mysql_call env (sn_ip x) name params) (\<lambda>_. sx_return ()) t = (Inr (), t')"
    obtain t1 t2 where t: "t = (t1, t2)" by (cases t)
    obtain t1' t2' where t': "t' = (t1', t2')" by (cases t')
    obtain v where "mysql_call env (sn_ip x) name params (t1, t2) = (Inr v, (t1', t2'))" using step unfolding t t' by (rule call_then_return)
    then obtain g y g' where g: "map_of (wd_out t2) (sn_ip x) = Some g" "h params g = (Inr (HttpJsonResponse y), g')"
      "t2' = t2\<lparr>wd_out := AList.update (sn_ip x) g' (wd_out t2)\<rparr>"
      by (rule mysql_call_success [OF assms(1-4)])
    have x: "x \<in> set glbs" "x \<notin> set pre" using glbs distinct(2) by auto
    then have "balancing bal S g" using inv g(1) by (force simp: t)
    then have new: "balancing bal (change S) g'" using effect g(2) by fastforce
    show "?I (pre @ [x]) t'"
    proof
      fix n assume n: "n \<in> set glbs"
      show "\<exists>g. map_of (wd_out (snd t')) (sn_ip n) = Some g \<and> balancing bal (if n \<in> set (pre @ [x]) then change S else S) g"
      proof (cases "n = x")
        case True
        then show ?thesis using new by (simp add: t' g(3) update_conv')
      next
        case False
        then have "sn_ip n \<noteq> sn_ip x" using inj_onD [OF distinct(1) _ n x(1)] by blast
        then show ?thesis using inv n False by (simp add: t t' g(3) update_conv')
      qed
    qed
  qed (use before in simp)
  then show ?thesis by simp
qed

text \<open>A loop that starts balancers.\<close>

lemma balancers_started:
  assumes "mysql_linked env aenv" "balancer aenv bal" "dict_order (my_order env)" "distinct (map fst (ma_nodes (sv_ext s)))"
    and distinct: "distinct (map sn_ip glbs)"
    and run: "start_glbd_nodes env glbs (s, w) = (Inr u, (s', w'))"
  shows "s' = s" "\<forall>n \<in> set glbs. \<exists>g. map_of (wd_out w') (sn_ip n) = Some g \<and> balancing bal (db_addrs (sv_ext s)) g"
    "ip \<notin> sn_ip ` set glbs \<Longrightarrow> map_of (wd_out w') ip = map_of (wd_out w) ip"
proof -
  let ?I = "\<lambda>pre t. fst t = s \<and> (ip \<notin> sn_ip ` set pre \<longrightarrow> map_of (wd_out (snd t)) ip = map_of (wd_out w) ip) \<and>
    (\<forall>n \<in> set pre. \<exists>g. map_of (wd_out (snd t)) (sn_ip n) = Some g \<and> balancing bal (db_addrs (sv_ext s)) g)"
  have addrs: "set (map db_addr (get_nodes env (sv_ext s))) = db_addrs (sv_ext s)"
    using dict_vals_set [OF assms(3,4)] by (auto simp: get_nodes_def db_addrs_def)
  have "?I glbs (s', w')"
  proof (rule sx_for_steps [OF run [unfolded start_glbd_nodes_def], where I = ?I])
    fix pre x post t t'
    assume glbs: "glbs = pre @ x # post" and inv: "?I pre t"
      and step: "sx_bind (my_read (get_nodes env)) (\<lambda>nodes. sx_bind (call_start_glbd env (sn_ip x) (map db_addr nodes)) (\<lambda>_. sx_return ())) t = (Inr (), t')"
    obtain t2 where t: "t = (s, t2)" using inv by (cases t) simp
    obtain t1' t2' where t': "t' = (t1', t2')" by (cases t')
    have "sx_bind (call_start_glbd env (sn_ip x) (map db_addr (get_nodes env (sv_ext s)))) (\<lambda>_. sx_return ()) (s, t2) = (Inr (), (t1', t2'))"
      using step by (simp add: sx_bind_run [of "my_read _"] t t')
    then obtain v where "call_start_glbd env (sn_ip x) (map db_addr (get_nodes env (sv_ext s))) (s, t2) = (Inr v, (t1', t2'))"
      by (rule call_then_return)
    then obtain g y g' where g: "map_of (wd_out t2) (sn_ip x) = Some g"
      "agent_start_glbd aenv [(''nodes'', strings (map db_addr (get_nodes env (sv_ext s))))] g = (Inr (HttpJsonResponse y), g')"
      "t1' = s" "t2' = t2\<lparr>wd_out := AList.update (sn_ip x) g' (wd_out t2)\<rparr>"
      unfolding call_start_glbd_def
      by (rule mysql_call_success [OF assms(1) _ mysql_handlers(2), rotated 2]) (simp_all add: strings_value)
    have new: "balancing bal (db_addrs (sv_ext s)) g'" using start_balanced [OF assms(2) g(2)] unfolding addrs .
    have "sn_ip x \<notin> sn_ip ` set pre" using glbs distinct by auto
    then show "?I (pre @ [x]) t'" using inv new by (auto simp: t t' g(3,4) update_conv')
  qed simp
  then show "s' = s" "\<forall>n \<in> set glbs. \<exists>g. map_of (wd_out w') (sn_ip n) = Some g \<and> balancing bal (db_addrs (sv_ext s)) g"
    "ip \<notin> sn_ip ` set glbs \<Longrightarrow> map_of (wd_out w') ip = map_of (wd_out w) ip" by simp_all
qed

lemma sx_bindE:
  assumes "sx_bind m f s = (Inr v, s')"
  obtains x t where "m s = (Inr x, t)" "f x t = (Inr v, s')"
  using assms by (cases "m s") (auto simp: sx_bind_run split: sum.splits)

lemma dict_vals_distinct:
  assumes "dict_order (my_order env)" "distinct (map fst d)" "\<And>k n. (k, n) \<in> set d \<Longrightarrow> k = sn_id n"
  shows "distinct (dict_vals env d)"
proof -
  have keys: "distinct (my_order env (dict_keys d))" using assms by (simp add: dict_order_def)
  have "distinct (List.map_filter (map_of d) ks)" if "distinct ks" for ks
    using that
  proof (induction ks)
    case (Cons k ks)
    have "n \<notin> set (List.map_filter (map_of d) ks)" if n: "map_of d k = Some n" for n
    proof
      assume "n \<in> set (List.map_filter (map_of d) ks)"
      then obtain k' where "k' \<in> set ks" "map_of d k' = Some n" by (auto simp: map_filter_def)
      then have "k' = sn_id n" "k = sn_id n" using n assms(3) by (metis map_of_SomeD)+
      then show False using \<open>k' \<in> set ks\<close> Cons.prems by simp
    qed
    then show ?case using Cons by (cases "map_of d k") (simp_all add: map_filter_simps)
  qed (simp add: map_filter_simps)
  from this [OF keys] show ?thesis by (simp add: dict_vals_def)
qed

text \<open>The lists the hooks work on.\<close>

lemma filed_lists:
  assumes "dict_order (my_order env)" "well_filed x"
  shows "set (get_nodes env x) = snd ` set (ma_nodes x)" "distinct (get_nodes env x)"
    "set (get_glb_nodes env x) = snd ` set (ma_glb x)" "distinct (get_glb_nodes env x)" "inj_on sn_ip (set (get_glb_nodes env x))"
proof -
  have keys: "distinct (map fst (ma_nodes x))" "distinct (map fst (ma_glb x))" "distinct (map (sn_ip \<circ> snd) (ma_glb x))"
    "\<And>k n. (k, n) \<in> set (ma_nodes x) \<Longrightarrow> k = sn_id n" "\<And>k n. (k, n) \<in> set (ma_glb x) \<Longrightarrow> k = sn_id n"
    using assms(2) by (auto simp: well_filed_def apart_def)
  show "set (get_nodes env x) = snd ` set (ma_nodes x)" "distinct (get_nodes env x)"
    "set (get_glb_nodes env x) = snd ` set (ma_glb x)" "distinct (get_glb_nodes env x)"
    unfolding get_nodes_def get_glb_nodes_def
    using dict_vals_set [OF assms(1) keys(1)] dict_vals_set [OF assms(1) keys(2)]
      dict_vals_distinct [OF assms(1) keys(1,4)] dict_vals_distinct [OF assms(1) keys(2,5)] by simp_all
  have "inj_on (sn_ip \<circ> snd) (set (ma_glb x))" using keys(3) by (simp add: distinct_map)
  then show "inj_on sn_ip (set (get_glb_nodes env x))"
    unfolding \<open>set (get_glb_nodes env x) = snd ` set (ma_glb x)\<close> by (auto simp: inj_on_def)
qed

lemma fronts_cong:
  assumes "fronts bal x w" "\<And>n. n \<in> snd ` set (ma_glb x) \<Longrightarrow> map_of w' (sn_ip n) = map_of w (sn_ip n)"
  shows "fronts bal x w'"
  using assms by (force simp: fronts_def)

text \<open>New nodes in the configuration.\<close>

definition filed_nodes :: "int \<Rightarrow> service_node list \<Rightarrow> (string \<times> service_node) list" where
  "filed_nodes now nodes = map (\<lambda>n. (sn_id n, config_node now n)) nodes"

lemma filed_nodes_simps: "map fst (filed_nodes now nodes) = map sn_id nodes" "map (sn_ip \<circ> snd) (filed_nodes now nodes) = map sn_ip nodes"
  "(db_addr \<circ> snd) ` set (filed_nodes now nodes) = db_addr ` set nodes" "snd ` set (filed_nodes now nodes) = config_node now ` set nodes"
  by (simp_all add: filed_nodes_def config_node_simps comp_def image_image)

lemma fresh_apart:
  assumes "fresh_for x nodes"
  shows "set (map sn_id nodes) \<inter> set (map fst (ma_nodes x @ ma_glb x)) = {}"
    "set (map sn_ip nodes) \<inter> set (map (sn_ip \<circ> snd) (ma_nodes x @ ma_glb x)) = {}"
    "apart (filed_nodes now nodes)"
proof -
  show "set (map sn_id nodes) \<inter> set (map fst (ma_nodes x @ ma_glb x)) = {}"
    "set (map sn_ip nodes) \<inter> set (map (sn_ip \<circ> snd) (ma_nodes x @ ma_glb x)) = {}"
    using assms unfolding fresh_for_def set_map by blast+
  show "apart (filed_nodes now nodes)"
    unfolding apart_def filed_nodes_simps using assms by (auto simp: filed_nodes_def fresh_for_def config_node_simps)
qed

lemma apart_insert:
  assumes "apart (A @ B)" "apart C" "set (map fst C) \<inter> set (map fst (A @ B)) = {}"
    "set (map (sn_ip \<circ> snd) C) \<inter> set (map (sn_ip \<circ> snd) (A @ B)) = {}"
  shows "apart (A @ C @ B)" "apart (A @ B @ C)"
proof -
  have d: "distinct (a @ c @ b) \<and> distinct (a @ b @ c)" if "distinct (a @ b)" "distinct c" "set c \<inter> set (a @ b) = {}" for a b c :: "string list"
    using that by auto
  show "apart (A @ C @ B)" "apart (A @ B @ C)"
    using d [of "map fst A" "map fst B" "map fst C"] d [of "map (sn_ip \<circ> snd) A" "map (sn_ip \<circ> snd) B" "map (sn_ip \<circ> snd) C"] assms
    unfolding apart_def map_append set_append ball_Un by blast+
qed

lemma well_filed_new:
  assumes "well_filed x" "fresh_for x nodes"
  shows "well_filed (x\<lparr>ma_nodes := ma_nodes x @ filed_nodes now nodes\<rparr>)" "well_filed (x\<lparr>ma_glb := ma_glb x @ filed_nodes now nodes\<rparr>)"
  using apart_insert [OF assms(1) [unfolded well_filed_def] fresh_apart(3) [OF assms(2)], of now] fresh_apart(1,2) [OF assms(2)]
  unfolding filed_nodes_simps by (simp_all only: well_filed_def) simp_all

lemma file_fresh:
  assumes "well_filed x" "fresh_for x nodes"
  shows "file_nodes now nodes (ma_nodes x) = ma_nodes x @ filed_nodes now nodes" "file_nodes now nodes (ma_glb x) = ma_glb x @ filed_nodes now nodes"
proof -
  have "distinct (map fst (ma_nodes x))" "distinct (map fst (ma_glb x))" "distinct (map sn_id nodes)"
    using assms by (simp_all add: well_filed_def apart_def fresh_for_def)
  then have d: "distinct (map sn_id nodes @ map fst (ma_nodes x))" "distinct (map sn_id nodes @ map fst (ma_glb x))"
    using fresh_apart(1) [OF assms(2)] unfolding distinct_append map_append set_append by blast+
  show "file_nodes now nodes (ma_nodes x) = ma_nodes x @ filed_nodes now nodes" "file_nodes now nodes (ma_glb x) = ma_glb x @ filed_nodes now nodes"
    unfolding filed_nodes_def by (rule file_nodes_new [OF d(1)], rule file_nodes_new [OF d(2)])
qed

lemma fresh_split:
  assumes "fresh_for x nodes" "\<And>n. P n \<Longrightarrow> \<not> Q n"
  shows "fresh_for x (filter P nodes)"
    "fresh_for (x\<lparr>ma_nodes := ma_nodes x @ filed_nodes now (filter P nodes)\<rparr>) (filter Q nodes)"
proof -
  have inj: "inj_on sn_id (set nodes)" "inj_on sn_ip (set nodes)" using assms(1) by (simp_all add: fresh_for_def distinct_map)
  have apart: "sn_id m \<noteq> sn_id n" "sn_ip m \<noteq> sn_ip n" if "m \<in> set nodes" "n \<in> set nodes" "P m" "Q n" for m n
    using inj that assms(2) by (metis inj_onD)+
  show "fresh_for x (filter P nodes)" using assms(1) by (simp add: fresh_for_def distinct_map_filter)
  have "sn_id n \<notin> set (map sn_id (filter P nodes))" "sn_ip n \<notin> set (map sn_ip (filter P nodes))" if "n \<in> set nodes" "Q n" for n
    using apart that by fastforce+
  then show "fresh_for (x\<lparr>ma_nodes := ma_nodes x @ filed_nodes now (filter P nodes)\<rparr>) (filter Q nodes)"
    using assms(1) by (simp add: fresh_for_def distinct_map_filter filed_nodes_simps [unfolded comp_def] comp_def del: set_map)
qed

section \<open>The hooks keep the balancers right\<close>

lemma database_nodes_added:
  assumes linked: "mysql_linked env aenv" "balancer aenv bal" "dict_order (my_order env)"
    and before: "consistent bal (s, w)" "fresh_for (sv_ext s) nodes"
    and run: "start_mysqld_nodes env nodes (s, w) = (Inr b, (s', w'))"
  shows "s' = s" "consistent bal (s\<lparr>sv_ext := (sv_ext s)\<lparr>ma_nodes := ma_nodes (sv_ext s) @ filed_nodes now nodes\<rparr>\<rparr>, w')"
proof -
  let ?x = "sv_ext s" and ?glbs = "get_glb_nodes env (sv_ext s)"
  have filed: "well_filed ?x" and front: "fronts bal ?x (wd_out w)" using before(1) by (simp_all add: consistent_def)
  note lists = filed_lists [OF linked(3) filed]
  from run have "sx_bind (sx_for nodes (\<lambda>n. sx_bind (sx_lift (first_device n)) (\<lambda>dev.
        sx_bind (call_start_mysqld env (sn_ip n) (get_nodes_addr env ?x) dev) (\<lambda>_. sx_return ()))))
      (\<lambda>_. sx_bind (my_read (get_glb_nodes env)) (\<lambda>glbs. sx_bind (sx_for glbs (\<lambda>glb.
        sx_bind (call_add_glbd_nodes env (sn_ip glb) (map db_addr nodes)) (\<lambda>_. sx_return ()))) (\<lambda>_. sx_return True))) (s, w) = (Inr b, (s', w'))"
    unfolding start_mysqld_nodes_def by (simp only: my_read_bind)
  then obtain u sw1 where loop1: "sx_for nodes (\<lambda>n. sx_bind (sx_lift (first_device n)) (\<lambda>dev.
        sx_bind (call_start_mysqld env (sn_ip n) (get_nodes_addr env ?x) dev) (\<lambda>_. sx_return ()))) (s, w) = (Inr u, sw1)"
    and rest: "sx_bind (my_read (get_glb_nodes env)) (\<lambda>glbs. sx_bind (sx_for glbs (\<lambda>glb.
       sx_bind (call_add_glbd_nodes env (sn_ip glb) (map db_addr nodes)) (\<lambda>_. sx_return ()))) (\<lambda>_. sx_return True)) sw1 = (Inr b, (s', w'))"
    by (rule sx_bindE)
  obtain s1 w1 where sw1: "sw1 = (s1, w1)" by (cases sw1)
  note mysqld = calls_elsewhere [OF linked(1) _ mysql_handlers(1) _ _ loop1 [unfolded sw1], where dev = first_device
      and params = "\<lambda>n dev. [(''nodes'', strings (get_nodes_addr env ?x)), (''device_name'', case dev of None \<Rightarrow> PNone | Some d \<Rightarrow> PStr d)]"]
  have s1: "s1 = s" by (rule mysqld(1)) (simp_all add: call_start_mysqld_def strings_value split: option.split)
  have others: "map_of (wd_out w1) ip = map_of (wd_out w) ip" if "ip \<notin> sn_ip ` set nodes" for ip
    by (rule mysqld(2) [OF _ _ _ that]) (simp_all add: call_start_mysqld_def strings_value split: option.split)
  have "sx_bind (sx_for ?glbs (\<lambda>glb. sx_bind (call_add_glbd_nodes env (sn_ip glb) (map db_addr nodes)) (\<lambda>_. sx_return ())))
      (\<lambda>_. sx_return True) (s, w1) = (Inr b, (s', w'))"
    using rest unfolding sw1 s1 by (simp only: my_read_bind)
  then obtain u' where loop2: "sx_for ?glbs (\<lambda>glb. sx_bind (call_add_glbd_nodes env (sn_ip glb) (map db_addr nodes)) (\<lambda>_. sx_return ())) (s, w1) = (Inr u', (s', w'))"
    by (rule sx_bindE) simp
  have "sn_ip n \<notin> sn_ip ` set nodes" if "n \<in> snd ` set (ma_glb ?x)" for n
  proof -
    have "sn_ip n \<in> set (map (sn_ip \<circ> snd) (ma_nodes ?x @ ma_glb ?x))" using that by force
    then show ?thesis using fresh_apart(2) [OF before(2)] unfolding set_map by blast
  qed
  then have "fronts bal ?x (wd_out w1)" using others by (intro fronts_cong [OF front]) simp
  then have front1: "\<forall>n \<in> set ?glbs. \<exists>g. map_of (wd_out w1) (sn_ip n) = Some g \<and> balancing bal (db_addrs ?x) g"
    by (simp add: fronts_def lists(3))
  have told: "\<forall>n \<in> set ?glbs. \<exists>g. map_of (wd_out w') (sn_ip n) = Some g \<and> balancing bal (db_addrs ?x \<union> set (map db_addr nodes)) g"
    by (rule balancers_told [OF linked(1) _ mysql_handlers(3) _ add_balanced [OF linked(2)] lists(5,4) front1 loop2 [unfolded call_add_glbd_nodes_def]])
      (simp_all add: strings_value)
  show "s' = s" using calls_elsewhere(1) [OF linked(1) _ mysql_handlers(3) _ _ loop2, where dev = "\<lambda>_. Inr ()"
      and params = "\<lambda>_ _. [(''nodesIp'', strings (map db_addr nodes))]"] by (simp add: call_add_glbd_nodes_def strings_value)
  have "db_addrs (?x\<lparr>ma_nodes := ma_nodes ?x @ filed_nodes now nodes\<rparr>) = db_addrs ?x \<union> set (map db_addr nodes)"
    by (simp add: db_addrs_def image_Un filed_nodes_simps [unfolded comp_def] comp_def)
  then have "fronts bal (?x\<lparr>ma_nodes := ma_nodes ?x @ filed_nodes now nodes\<rparr>) (wd_out w')"
    using told unfolding lists(3) by (simp add: fronts_def)
  then show "consistent bal (s\<lparr>sv_ext := ?x\<lparr>ma_nodes := ma_nodes ?x @ filed_nodes now nodes\<rparr>\<rparr>, w')"
    using well_filed_new(1) [OF filed before(2)] by (simp add: consistent_def)
qed

lemma update_read: "ma_nodes_update f x = x\<lparr>ma_nodes := f (ma_nodes x)\<rparr>" "ma_glb_update f x = x\<lparr>ma_glb := f (ma_glb x)\<rparr>"
  by (cases x, simp)+

lemma current_time_bind: "sx_bind (current_time env) k (s, w) = k (net_now (my_net env) (wd_out w)) (s, w)"
  by (simp add: current_time_def sx_bind_run)

lemma balancers_added:
  assumes linked: "mysql_linked env aenv" "balancer aenv bal" "dict_order (my_order env)"
    and before: "consistent bal (s, w)" "fresh_for (sv_ext s) nodes"
    and run: "start_glbd_nodes env nodes (s, w) = (Inr u, (s', w'))"
  shows "s' = s" "consistent bal (s\<lparr>sv_ext := (sv_ext s)\<lparr>ma_glb := ma_glb (sv_ext s) @ filed_nodes now nodes\<rparr>\<rparr>, w')"
proof -
  let ?x = "sv_ext s"
  have filed: "well_filed ?x" and front: "fronts bal ?x (wd_out w)" using before(1) by (simp_all add: consistent_def)
  have d: "distinct (map fst (ma_nodes ?x))" "distinct (map sn_ip nodes)"
    using filed before(2) by (simp_all add: well_filed_def apart_def fresh_for_def)
  note started = balancers_started [OF linked d run]
  show "s' = s" by (rule started(1))
  have "map_of (wd_out w') (sn_ip n) = map_of (wd_out w) (sn_ip n)" if "n \<in> snd ` set (ma_glb ?x)" for n
  proof -
    have "sn_ip n \<in> set (map (sn_ip \<circ> snd) (ma_nodes ?x @ ma_glb ?x))" using that by force
    then have "sn_ip n \<notin> sn_ip ` set nodes" using fresh_apart(2) [OF before(2)] unfolding set_map by blast
    then show ?thesis by (rule started(3))
  qed
  note old = fronts_cong [OF front this]
  have "fronts bal (?x\<lparr>ma_glb := ma_glb ?x @ filed_nodes now nodes\<rparr>) (wd_out w')"
    using old started(2) by (auto simp: fronts_def db_addrs_def image_Un filed_nodes_simps config_node_simps)
  then show "consistent bal (s\<lparr>sv_ext := ?x\<lparr>ma_glb := ma_glb ?x @ filed_nodes now nodes\<rparr>\<rparr>, w')"
    using well_filed_new(2) [OF filed before(2)] by (simp add: consistent_def)
qed

lemma add_keeps_consistent:
  assumes linked: "mysql_linked env aenv" "balancer aenv bal" "dict_order (my_order env)"
    and before: "consistent bal (s, w)" "fresh_for (sv_ext s) nodes"
    and run: "mysql_on_add_nodes env (map VNode nodes) (s, w) = (Inr b, sw')"
  shows "consistent bal sw'"
proof -
  let ?reg = "filter (\<lambda>n. sn_role n = role_mysql) nodes" and ?gal = "filter (\<lambda>n. sn_role n = role_glb) nodes"
  have entries: "map_res entry_node (map VNode nodes) = Inr nodes" by (induction nodes) simp_all
  have kinds: "role_mysql \<noteq> role_glb" by (simp add: role_mysql_def role_glb_def)
  have filed: "well_filed (sv_ext s)" using before(1) by (simp add: consistent_def)
  obtain u1 sw1 u2 where phase1: "(if ?reg = [] then sx_return () else sx_bind (start_mysqld_nodes env ?reg) (\<lambda>_. add_mysql_nodes env ?reg)) (s, w) = (Inr u1, sw1)"
    and phase2: "(if ?gal = [] then sx_return () else sx_bind (start_glbd_nodes env ?gal) (\<lambda>_. add_glb_nodes env ?gal)) sw1 = (Inr u2, sw')"
    using run unfolding mysql_on_add_nodes_def entries sx_bind_lift Let_def by (elim sx_bindE) simp
  obtain now where sw1: "consistent bal sw1" "sv_ext (fst sw1) = (sv_ext s)\<lparr>ma_nodes := ma_nodes (sv_ext s) @ filed_nodes now ?reg\<rparr>"
  proof (cases "?reg = []")
    case True
    then have "sw1 = (s, w)" using phase1 by simp
    then show ?thesis using that [of 0] before(1) True by (simp add: filed_nodes_def)
  next
    case False
    then obtain b1 sw where start: "start_mysqld_nodes env ?reg (s, w) = (Inr b1, sw)" and filing: "add_mysql_nodes env ?reg sw = (Inr u1, sw1)"
      using phase1 by (auto elim: sx_bindE)
    obtain s0 w0 where sw: "sw = (s0, w0)" by (cases sw)
    have fresh: "fresh_for (sv_ext s) ?reg"
      using fresh_split(1) [OF before(2), of "\<lambda>n. sn_role n = role_mysql" "\<lambda>n. sn_role n = role_glb"] kinds by simp
    note added = database_nodes_added [OF linked before(1) fresh start [unfolded sw]]
    have "sw1 = (s\<lparr>sv_ext := (sv_ext s)\<lparr>ma_nodes := ma_nodes (sv_ext s) @ filed_nodes (net_now (my_net env) (wd_out w0)) ?reg\<rparr>\<rparr>, w0)"
      using filing added(1) unfolding add_mysql_nodes_def sw current_time_bind my_modify_run update_read(1) [of "file_nodes _ _"]
      by (simp add: file_fresh(1) [OF filed fresh])
    then show ?thesis using that added(2) by simp
  qed
  show ?thesis
  proof (cases "?gal = []")
    case True
    then show ?thesis using phase2 sw1(1) by simp
  next
    case False
    then obtain b1 sw where start: "start_glbd_nodes env ?gal sw1 = (Inr b1, sw)" and filing: "add_glb_nodes env ?gal sw = (Inr u2, sw')"
      using phase2 by (auto elim: sx_bindE)
    obtain s1 w1 where s1: "sw1 = (s1, w1)" by (cases sw1)
    obtain s0 w0 where sw: "sw = (s0, w0)" by (cases sw)
    have fresh: "fresh_for (sv_ext s1) ?gal" 
      using fresh_split(2) [OF before(2), of "\<lambda>n. sn_role n = role_mysql" "\<lambda>n. sn_role n = role_glb" now] kinds sw1(2) by (simp add: s1)
    note added = balancers_added [OF linked sw1(1) [unfolded s1] fresh start [unfolded s1 sw]]
    have "well_filed (sv_ext s1)" using sw1(1) by (simp add: consistent_def s1)
    then have "sw' = (s1\<lparr>sv_ext := (sv_ext s1)\<lparr>ma_glb := ma_glb (sv_ext s1) @ filed_nodes (net_now (my_net env) (wd_out w0)) ?gal\<rparr>\<rparr>, w0)"
      using filing added(1) unfolding add_glb_nodes_def sw current_time_bind my_modify_run update_read(2) [of "file_nodes _ _"]
      by (simp add: file_fresh(2) [OF _ fresh])
    then show ?thesis using added(2) by simp
  qed
qed

text \<open>Removal.\<close>

lemma pop_known:
  "sn_id n \<notin> fst ` set (ma_glb x) \<Longrightarrow> pop_node n x = x\<lparr>ma_nodes := AList.delete (sn_id n) (ma_nodes x)\<rparr>"
  "sn_id n \<notin> fst ` set (ma_nodes x) \<Longrightarrow> pop_node n x = x\<lparr>ma_glb := AList.delete (sn_id n) (ma_glb x)\<rparr>"
  by (cases x; auto simp: pop_node_def delete_id)+

lemma remove_nodes_filed:
  assumes "sn_id ` set reg \<inter> fst ` set (ma_glb x) = {}" "sn_id ` set glbs \<inter> fst ` set (ma_nodes x) = {}"
  shows "config_remove_nodes (reg @ glbs) x = x\<lparr>ma_nodes := filter (\<lambda>(k, n). k \<notin> sn_id ` set reg) (ma_nodes x),
    ma_glb := filter (\<lambda>(k, n). k \<notin> sn_id ` set glbs) (ma_glb x)\<rparr>"
proof -
  have reg: "fold pop_node reg x = x\<lparr>ma_nodes := filter (\<lambda>(k, n). k \<notin> sn_id ` set reg) (ma_nodes x)\<rparr>"
    if "sn_id ` set reg \<inter> fst ` set (ma_glb x) = {}" for x
    using that
  proof (induction reg arbitrary: x)
    case (Cons n reg)
    then have "pop_node n x = x\<lparr>ma_nodes := AList.delete (sn_id n) (ma_nodes x)\<rparr>" by (intro pop_known(1)) auto
    moreover have "filter (\<lambda>(k, n). k \<notin> sn_id ` set reg) (AList.delete (sn_id n) d) = filter (\<lambda>(k, m). k \<notin> sn_id ` set (n # reg)) d" for d :: "(string \<times> service_node) list"
      by (induction d) auto
    ultimately show ?case using Cons.IH [of "x\<lparr>ma_nodes := AList.delete (sn_id n) (ma_nodes x)\<rparr>"] Cons.prems by simp
  qed simp
  have glb: "fold pop_node glbs x = x\<lparr>ma_glb := filter (\<lambda>(k, n). k \<notin> sn_id ` set glbs) (ma_glb x)\<rparr>"
    if "sn_id ` set glbs \<inter> fst ` set (ma_nodes x) = {}" for x
    using that
  proof (induction glbs arbitrary: x)
    case (Cons n glbs)
    then have "pop_node n x = x\<lparr>ma_glb := AList.delete (sn_id n) (ma_glb x)\<rparr>" by (intro pop_known(2)) auto
    moreover have "filter (\<lambda>(k, n). k \<notin> sn_id ` set glbs) (AList.delete (sn_id n) d) = filter (\<lambda>(k, m). k \<notin> sn_id ` set (n # glbs)) d" for d :: "(string \<times> service_node) list"
      by (induction d) auto
    ultimately show ?case using Cons.IH [of "x\<lparr>ma_glb := AList.delete (sn_id n) (ma_glb x)\<rparr>"] Cons.prems by simp
  qed simp
  have "sn_id ` set glbs \<inter> fst ` set (ma_nodes (fold pop_node reg x)) = {}" using assms by (auto simp: reg)
  then show ?thesis using glb [of "fold pop_node reg x"] reg [OF assms(1)] by (simp add: config_remove_nodes_def)
qed

lemma apart_filter: "apart d \<Longrightarrow> apart (filter P d)"
  by (simp add: apart_def distinct_map_filter)

lemma apart_append: "apart (A @ B) \<longleftrightarrow> apart A \<and> apart B \<and> fst ` set A \<inter> fst ` set B = {} \<and>
    (sn_ip \<circ> snd) ` set A \<inter> (sn_ip \<circ> snd) ` set B = {}"
  unfolding apart_def map_append distinct_append set_append ball_Un set_map by (simp only: conj_ac)

lemma apart_part:
  assumes "apart (A @ B)"
  shows "apart (filter P A @ filter Q B)"
proof -
  have "f ` set (filter P A) \<inter> g ` set (filter Q B) = {}" if "f ` set A \<inter> g ` set B = {}" for f g :: "string \<times> service_node \<Rightarrow> string"
    using that by auto
  then show ?thesis using assms unfolding apart_append by (simp add: apart_filter)
qed

lemma apart_id: "apart d \<Longrightarrow> n \<in> snd ` set d \<Longrightarrow> sn_id n \<in> fst ` set d"
  by (force simp: apart_def)

lemma sn_inject:
  assumes "apart d" "m \<in> snd ` set d" "n \<in> snd ` set d"
  shows "sn_id m = sn_id n \<longleftrightarrow> m = n" "sn_ip m = sn_ip n \<longleftrightarrow> m = n"
proof -
  obtain k l where kl: "(k, m) \<in> set d" "(l, n) \<in> set d" using assms(2,3) by auto
  then have ids: "k = sn_id m" "l = sn_id n" using assms(1) by (auto simp: apart_def)
  have "inj_on fst (set d)" "inj_on (sn_ip \<circ> snd) (set d)" using assms(1) by (simp_all add: apart_def distinct_map)
  then show "sn_id m = sn_id n \<longleftrightarrow> m = n" "sn_ip m = sn_ip n \<longleftrightarrow> m = n"
    using kl ids by (metis fst_conv inj_onD snd_conv, metis comp_apply inj_onD snd_conv)
qed

text \<open>What the filters of a removal leave.\<close>

lemma removed_rest:
  assumes "apart d" "set ns \<subseteq> snd ` set d" "n \<in> snd ` set (filter (\<lambda>(k, n). k \<notin> sn_id ` set ns) d)"
  shows "n \<in> snd ` set d" "n \<notin> set ns"
proof -
  obtain k where k: "(k, n) \<in> set d" "k \<notin> sn_id ` set ns" using assms(3) by auto
  then show "n \<in> snd ` set d" by force
  have "k = sn_id n" using assms(1) k(1) by (auto simp: apart_def)
  then show "n \<notin> set ns" using k(2) by auto
qed

lemma removed_addrs:
  assumes "apart d" "set ns \<subseteq> snd ` set d"
  shows "(db_addr \<circ> snd) ` set (filter (\<lambda>(k, n). k \<notin> sn_id ` set ns) d) = (db_addr \<circ> snd) ` set d - db_addr ` set ns"
proof (intro equalityI subsetI)
  fix a assume "a \<in> (db_addr \<circ> snd) ` set (filter (\<lambda>(k, n). k \<notin> sn_id ` set ns) d)"
  then obtain n where n: "a = db_addr n" "n \<in> snd ` set (filter (\<lambda>(k, n). k \<notin> sn_id ` set ns) d)" by auto
  note rest = removed_rest [OF assms n(2)]
  have "a \<notin> db_addr ` set ns"
  proof
    assume "a \<in> db_addr ` set ns"
    then obtain m where m: "m \<in> set ns" "sn_ip n = sn_ip m" unfolding n(1) by (auto simp: db_addr_inject)
    then have "n = m" using sn_inject(2) [OF assms(1) rest(1)] assms(2) by blast
    then show False using m(1) rest(2) by simp
  qed
  then show "a \<in> (db_addr \<circ> snd) ` set d - db_addr ` set ns" using rest(1) n(1) by force
next
  fix a assume a: "a \<in> (db_addr \<circ> snd) ` set d - db_addr ` set ns"
  then obtain k n where n: "(k, n) \<in> set d" "a = db_addr n" by auto
  with a have "n \<notin> set ns" by auto
  note n = n this
  have "k = sn_id n" using assms(1) n(1) by (auto simp: apart_def)
  moreover have "sn_id n \<notin> sn_id ` set ns"
  proof
    assume "sn_id n \<in> sn_id ` set ns"
    then obtain m where m: "m \<in> set ns" "sn_id n = sn_id m" by auto
    then have "n = m" using sn_inject(1) [OF assms(1), of n m] assms(2) n(1) by force
    then show False using m(1) n(3) by simp
  qed
  ultimately show "a \<in> (db_addr \<circ> snd) ` set (filter (\<lambda>(k, n). k \<notin> sn_id ` set ns) d)" using n(1,2) by force
qed

lemma removal_keeps_consistent:
  assumes linked: "mysql_linked env aenv" "balancer aenv bal" "dict_order (my_order env)"
    and before: "consistent bal (s, w)" "set reg \<subseteq> snd ` set (ma_nodes (sv_ext s))" "set glbs \<subseteq> snd ` set (ma_glb (sv_ext s))"
    and run: "do_remove_nodes_mysql env reg glbs (s, w) = (Inr removed, sw')"
  shows "consistent bal sw'"
proof -
  let ?x = "sv_ext s" and ?all = "get_glb_nodes env (sv_ext s)" and ?nodes = "reg @ glbs"
  have filed: "well_filed ?x" and front: "fronts bal ?x (wd_out w)" using before(1) by (simp_all add: consistent_def)
  note lists = filed_lists [OF linked(3) filed]
  have ap: "apart (ma_nodes ?x @ ma_glb ?x)" using filed by (simp add: well_filed_def)
  obtain u sw1 where loop1: "sx_for ?all (\<lambda>glb. sx_bind (call_remove_glbd_nodes env (sn_ip glb) (map db_addr reg)) (\<lambda>_. sx_return ())) (s, w) = (Inr u, sw1)"
    and rest: "sx_bind (sx_for ?nodes (\<lambda>n. sx_bind (call_stop env (sn_ip n)) (\<lambda>_. sx_return ()))) (\<lambda>_.
      sx_bind (my_modify (config_remove_nodes ?nodes)) (\<lambda>_. sx_bind (my_read (\<lambda>x. ma_nodes x = [] \<and> ma_glb x = [])) (\<lambda>none_left.
      sx_bind (modify_service (state_set (if none_left then S_STOPPED else S_RUNNING) [])) (\<lambda>_. sx_return ?nodes)))) sw1 = (Inr removed, sw')"
    using run unfolding do_remove_nodes_mysql_def my_read_bind Let_def by (rule sx_bindE)
  obtain s1 w1 where sw1: "sw1 = (s1, w1)" by (cases sw1)
  have s1: "s1 = s" using calls_elsewhere(1) [OF linked(1) _ mysql_handlers(4) _ _ loop1 [unfolded sw1], where dev = "\<lambda>_. Inr ()"
      and params = "\<lambda>_ _. [(''nodes'', strings (map db_addr reg))]"] by (simp add: call_remove_glbd_nodes_def strings_value)
  have front0: "\<forall>n \<in> set ?all. \<exists>g. map_of (wd_out w) (sn_ip n) = Some g \<and> balancing bal (db_addrs ?x) g"
    using front by (simp add: fronts_def lists(3))
  have told: "\<forall>n \<in> set ?all. \<exists>g. map_of (wd_out w1) (sn_ip n) = Some g \<and> balancing bal (db_addrs ?x - set (map db_addr reg)) g"
    by (rule balancers_told [OF linked(1) _ mysql_handlers(4) _ remove_balanced [OF linked(2)] lists(5,4) front0 loop1 [unfolded sw1 call_remove_glbd_nodes_def]])
      (simp_all add: strings_value)
  obtain u2 sw2 where loop2: "sx_for ?nodes (\<lambda>n. sx_bind (call_stop env (sn_ip n)) (\<lambda>_. sx_return ())) (s, w1) = (Inr u2, sw2)"
    and rest2: "sx_bind (my_modify (config_remove_nodes ?nodes)) (\<lambda>_. sx_bind (my_read (\<lambda>x. ma_nodes x = [] \<and> ma_glb x = [])) (\<lambda>none_left.
      sx_bind (modify_service (state_set (if none_left then S_STOPPED else S_RUNNING) [])) (\<lambda>_. sx_return ?nodes))) sw2 = (Inr removed, sw')"
    using rest unfolding sw1 s1 by (rule sx_bindE)
  obtain s2 w2 where sw2: "sw2 = (s2, w2)" by (cases sw2)
  note stops = calls_elsewhere [OF linked(1) _ mysql_handlers(5) _ _ loop2 [unfolded sw2], where dev = "\<lambda>_. Inr ()" and params = "\<lambda>_ _. []"]
  have s2: "s2 = s" by (rule stops(1)) (simp_all add: call_stop_def)
  have others: "map_of (wd_out w2) ip = map_of (wd_out w1) ip" if "ip \<notin> sn_ip ` set ?nodes" for ip
    by (rule stops(2) [OF _ _ _ that]) (simp_all add: call_stop_def)
  let ?y = "?x\<lparr>ma_nodes := filter (\<lambda>(k, n). k \<notin> sn_id ` set reg) (ma_nodes ?x), ma_glb := filter (\<lambda>(k, n). k \<notin> sn_id ` set glbs) (ma_glb ?x)\<rparr>"
  have aps: "apart (ma_nodes ?x)" "apart (ma_glb ?x)" and keys: "fst ` set (ma_nodes ?x) \<inter> fst ` set (ma_glb ?x) = {}"
    using ap by (auto simp: apart_def)
  have addrs: "db_addrs ?y = db_addrs ?x - set (map db_addr reg)"
    using removed_addrs [OF aps(1) before(2)] by (simp add: db_addrs_def)
  have ids: "sn_id ` set reg \<subseteq> fst ` set (ma_nodes ?x)" "sn_id ` set glbs \<subseteq> fst ` set (ma_glb ?x)"
    using before(2,3) apart_id [OF aps(1)] apart_id [OF aps(2)] by blast+
  have y: "config_remove_nodes ?nodes ?x = ?y" by (rule remove_nodes_filed) (use ids keys in blast)+
  have kept: "\<exists>g. map_of (wd_out w2) (sn_ip n) = Some g \<and> balancing bal (db_addrs ?y) g" if n: "n \<in> snd ` set (ma_glb ?y)" for n
  proof -
    have n': "n \<in> snd ` set (ma_glb ?x)" "n \<notin> set glbs"
      using removed_rest [OF aps(2) before(3), of n] n by simp_all
    have "sn_ip n \<noteq> sn_ip m" if m: "m \<in> set ?nodes" for m
    proof
      assume "sn_ip n = sn_ip m"
      moreover have "m \<in> snd ` set (ma_nodes ?x @ ma_glb ?x)" "n \<in> snd ` set (ma_nodes ?x @ ma_glb ?x)"
        using m before(2,3) n'(1) by auto
      ultimately have nm: "n = m" using sn_inject(2) [OF ap] by blast
      then have "m \<in> set reg" using m n'(2) by simp
      then have "sn_id n \<in> fst ` set (ma_nodes ?x)" using ids(1) nm by blast
      moreover have "sn_id n \<in> fst ` set (ma_glb ?x)" using n'(1) by (rule apart_id [OF aps(2)])
      ultimately show False using keys by blast
    qed
    then have "map_of (wd_out w2) (sn_ip n) = map_of (wd_out w1) (sn_ip n)" by (intro others) auto
    moreover have "n \<in> set ?all" using n'(1) unfolding lists(3) .
    ultimately show ?thesis using told unfolding addrs by simp
  qed
  have "well_filed ?y" using apart_part [OF ap] by (simp add: well_filed_def)
  moreover have "fronts bal ?y (wd_out w2)" using kept by (simp add: fronts_def)
  moreover have "\<exists>st. sw' = (state_set st [] (s\<lparr>sv_ext := ?y\<rparr>), w2)"
    using rest2 unfolding sw2 s2
    by (simp add: sx_bind_run [of "my_modify _"] my_read_bind y modify_service_def sx_bind_run) (elim conjE, rule exI, erule sym)
  ultimately show ?thesis by (elim exE) (simp add: consistent_def state_set_def)
qed

text \<open>
  Claim C3. The load balancers follow the database nodes. Over the calls to the agents, through client and
  server, starting, growing, shrinking and stopping a MySQL service keep this up whenever they return: every
  balancer of the configuration runs on its node and balances exactly the database nodes of the configuration,
  and no two nodes share an identifier or an address. The new nodes are those of the director, with new
  identifiers and addresses; the order in which dictionaries are listed does not matter.
\<close>

theorem balancers_follow:
  assumes "mysql_linked env aenv" "balancer aenv bal" "dict_order (my_order env)" "consistent bal (s, w)"
  shows "(fresh_for (sv_ext s) nodes \<longrightarrow> mysql_on_start env (map VNode nodes) (s, w) = (Inr b, sw') \<longrightarrow> consistent bal sw') \<and>
    (fresh_for (sv_ext s) nodes \<longrightarrow> mysql_on_add_nodes env (map VNode nodes) (s, w) = (Inr b, sw') \<longrightarrow> consistent bal sw') \<and>
    (mysql_on_remove_nodes env node_roles (s, w) = (Inr removed, sw') \<longrightarrow> consistent bal sw') \<and>
    (mysql_on_stop env (s, w) = (Inr removed, sw') \<longrightarrow> consistent bal sw')"
proof (intro conjI impI)
  have filed: "well_filed (sv_ext s)" using assms(4) by (simp add: consistent_def)
  note lists = filed_lists [OF assms(3) filed]
  {
    assume fresh: "fresh_for (sv_ext s) nodes" and run: "mysql_on_start env (map VNode nodes) (s, w) = (Inr b, sw')"
    have entries: "map_res entry_node (map VNode nodes) = Inr nodes" by (induction nodes) simp_all
    obtain b1 sw where start: "start_mysqld_nodes env nodes (s, w) = (Inr b1, sw)"
      and filing: "sx_bind (add_mysql_nodes env nodes) (\<lambda>_. sx_return b1) sw = (Inr b, sw')"
      using run unfolding mysql_on_start_def entries sx_bind_lift by (rule sx_bindE)
    obtain s0 w0 where sw: "sw = (s0, w0)" by (cases sw)
    note added = database_nodes_added [OF assms(1-3,4) fresh start [unfolded sw]]
    have "sw' = (s\<lparr>sv_ext := (sv_ext s)\<lparr>ma_nodes := ma_nodes (sv_ext s) @ filed_nodes (net_now (my_net env) (wd_out w0)) nodes\<rparr>\<rparr>, w0)"
      using filing added(1) unfolding add_mysql_nodes_def sw
      by (simp add: sx_bind_run current_time_def update_read(1) [of "file_nodes _ _"] file_fresh(1) [OF filed fresh])
    then show "consistent bal sw'" using added(2) by simp
  next
    assume "fresh_for (sv_ext s) nodes" "mysql_on_add_nodes env (map VNode nodes) (s, w) = (Inr b, sw')"
    then show "consistent bal sw'" by (rule add_keeps_consistent [OF assms(1-4)])
  next
    assume run: "mysql_on_remove_nodes env node_roles (s, w) = (Inr removed, sw')"
    obtain n g r where "do_remove_nodes_mysql env (take n (get_nodes env (sv_ext s))) (take g (get_glb_nodes env (sv_ext s))) (s, w) = (Inr r, sw')"
      using run unfolding mysql_on_remove_nodes_def my_read_bind
      by (cases "py_range (role_count node_roles role_mysql)"; cases "py_range (role_count node_roles role_glb)")
         (auto simp: my_read_bind elim!: sx_bindE)
    then show "consistent bal sw'"
      by (rule removal_keeps_consistent [OF assms(1-4), rotated 2]) (use lists set_take_subset in fastforce)+
  next
    assume run: "mysql_on_stop env (s, w) = (Inr removed, sw')"
    then show "consistent bal sw'"
      unfolding mysql_on_stop_def my_read_bind
      by (elim sx_bindE) (auto simp: my_modify_def modify_service_def consistent_def well_filed_def apart_def fronts_def)
  }
qed

section \<open>A sample cluster\<close>

text \<open>A machine that only remembers what its balancer has been told.\<close>

definition galera_popen :: "string list \<Rightarrow> string list \<Rightarrow> int \<times> string list" where
  "galera_popen argv d = (0, case argv of
       [_, action] \<Rightarrow> if action = ''start'' then [] else d
     | [_, action, h] \<Rightarrow> if action = ''add'' then h # d else if action = ''remove'' then removeAll h d else d
     | _ \<Rightarrow> d)"

definition galera_aenv :: "string list mysql_agent_env" where
  "galera_aenv =
     \<lparr>me_loads = json_loads, me_popen = galera_popen, me_cmd = (\<lambda>cmd d. (([], [], 0), d)), me_system = (\<lambda>cmd d. d),
      me_sql = (\<lambda>host password q d. (Inr [], d)), me_parse = (\<lambda>t. Inr [(''mysqld'', [])]), me_print = (\<lambda>cfg. ''[mysqld]''),
      me_lexists = (\<lambda>path d. True), me_sleep = (\<lambda>n d. d), me_patience = 1\<rparr>"

definition galera_config :: config where
  "galera_config =
     [(''agent'', [(''type'', ''mysql''), (''user_id'', ''1''), (''service_id'', ''1''), (''log_file'', ''/var/log/cpsagent.log''),
        (''my_ip'', ''10.0.0.1''), (''var_tmp'', ''/tmp''), (''var_cache'', ''/var/cache/cpsagent''), (''var_run'', ''/var/run''),
        (''manager_ip'', ''10.0.0.9''), (''mysqldump_path'', ''/tmp/dump'')]),
      (''MySQL_root_connection'', [(''location'', ''localhost''), (''username'', ''mysqldb''), (''password'', ''secret'')]),
      (''MySQL_configuration'', [(''my_cnf_file'', ''/etc/mysql/my.cnf''), (''path_mysql_ssr'', ''/etc/init.d/mysql'')]),
      (''Galera_configuration'', [(''wsrep_file'', ''/etc/mysql/wsrep.cnf''), (''wsrep_sst_username'', ''sst''),
        (''wsrep_sst_password'', ''secret''), (''wsrep_provider'', ''libgalera''), (''wsrep_sst_method'', ''rsync''),
        (''glbd_location'', ''/etc/init.d/glbd'')])]"

definition galera_agent :: "string list mysql_agent" where
  "galera_agent = (case new_mysql_agent galera_config [] of
     Inr g \<Rightarrow> g\<lparr>mg_disk := [(''/etc/mysql/my.cnf'', ''datadir=/var/lib/mysql''), (''/etc/mysql/wsrep.cnf'', ''[mysqld]'')]\<rparr> | Inl _ \<Rightarrow> undefined)"

definition nowhere :: "'w \<Rightarrow> (exn + 'a) \<times> 'w" where
  "nowhere w = (Inl (builtin_exn ESocketError), w)"

definition galera_net :: "string list mysql_cluster network" where
  "galera_net =
     \<lparr>net_create_nodes = (\<lambda>p. nowhere), net_remove_nodes = (\<lambda>ns. nowhere), net_create_volume = (\<lambda>s n vm c. nowhere),
      net_attach_volume = (\<lambda>vm v d c. nowhere), net_detach_volume = (\<lambda>v c. nowhere), net_destroy_volume = (\<lambda>v c. nowhere),
      net_credit = nowhere,
      net_agent = agents_link (mysql_agent_methods galera_aenv) json_loads (mysql_request json_dumps) (\<lambda>r. ''error''),
      net_git_version = (\<lambda>repo w. Inr ''git-1''), net_git_description = (\<lambda>repo w. Inr ''initial''), net_now = (\<lambda>w. 0)\<rparr>"

definition galera_env :: "string list mysql_cluster mysql_env" where
  "galera_env =
     \<lparr>my_net = galera_net, my_order = rev, my_password = ''password12'', my_sql = (\<lambda>ip p q w. (Inr ''0.5'', w)),
      my_float = (\<lambda>t. Inr (1 / 2)), my_shell = (\<lambda>cmd w. (([], [], 0), w)), my_temp = (\<lambda>used. ''tmpdump''),
      my_cloud = (\<lambda>name. Inr (py_str name))\<rparr>"

lemma galera_linked: "mysql_linked galera_env galera_aenv"
  unfolding mysql_linked_def using json.json_text_axioms by (auto simp: galera_env_def galera_net_def galera_aenv_def)

lemma galera_balancer: "balancer galera_aenv set"
  by (auto simp: balancer_def galera_aenv_def galera_popen_def)

lemma galera_order: "dict_order (my_order galera_env)"
  by (simp add: dict_order_def galera_env_def)

definition galera_service :: "mysql_attrs service" where
  "galera_service = (case mysql_init [(''manager'', [(''log_file'', ''/var/log/cpsmanager.log'')])] [] of
     Inr s \<Rightarrow> state_set S_RUNNING [] s | Inl _ \<Rightarrow> undefined)"

definition db_node :: "string \<Rightarrow> string \<Rightarrow> service_node" where
  "db_node vmid ip = (new_service_node 0 vmid ip ip ''iaas'' default_weight role_mysql)
     \<lparr>sn_volumes := [(new_service_volume ''mysql-1'' 1024)\<lparr>sv_dev_name := Some ''sdb''\<rparr>]\<rparr>"

definition front_node :: "string \<Rightarrow> string \<Rightarrow> service_node" where
  "front_node vmid ip = new_service_node 0 vmid ip ip ''iaas'' default_weight role_glb"

definition galera_world :: "string list mysql_cluster world" where
  "galera_world = \<lparr>wd_disk = [], wd_out = [(''10.0.0.1'', galera_agent), (''10.0.0.2'', galera_agent), (''10.0.0.3'', galera_agent)]\<rparr>"

definition one_database :: "mysql_attrs" where
  "one_database = \<lparr>ma_volume_size = 1024, ma_root_pass = None, ma_nodes = [(''iaas1'', db_node ''1'' ''10.0.0.1'')], ma_glb = [], ma_threads = []\<rparr>"

definition one_service :: "mysql_attrs service" where
  "one_service = galera_service\<lparr>sv_ext := one_database\<rparr>"

lemma galera_consistent: "consistent set (one_service, galera_world)"
  by (simp add: consistent_def one_service_def one_database_def well_filed_def apart_def fronts_def db_node_def new_service_node_def node_id_def)

lemma galera_fresh: "fresh_for (sv_ext one_service) [front_node ''3'' ''10.0.0.3'']"
  by (simp add: fresh_for_def one_service_def one_database_def front_node_def db_node_def new_service_node_def canonical_node_def node_id_def)

lemma galera_grows: "case fst (mysql_on_add_nodes galera_env [VNode (front_node ''3'' ''10.0.0.3'')] (one_service, galera_world)) of Inr b \<Rightarrow> b | Inl e \<Rightarrow> False"
  by code_simp

theorem balancers_follow_witness:
  "\<exists>sw'. mysql_on_add_nodes galera_env [VNode (front_node ''3'' ''10.0.0.3'')] (one_service, galera_world) = (Inr True, sw') \<and> consistent set sw'"
proof -
  let ?run = "mysql_on_add_nodes galera_env [VNode (front_node ''3'' ''10.0.0.3'')] (one_service, galera_world)"
  obtain b sw' where run: "?run = (Inr b, sw')" and "b"
    using galera_grows by (cases ?run) (auto split: sum.splits)
  from balancers_follow [OF galera_linked galera_balancer galera_order galera_consistent, of "[front_node ''3'' ''10.0.0.3'']" b sw'] galera_fresh run
  show ?thesis using \<open>b\<close> by simp
qed

end
