(* ===== verification/MySQLErrors.thy ===== *)
theory MySQLErrors
  imports MySQLProps
begin

text \<open>
  What goes wrong in the MySQL service without anybody being told: migrations, removals by address, and databases
  that were never configured.
\<close>

section \<open>Construction\<close>

text \<open>The constructor of the class builds on that of \<open>BaseManager\<close>.\<close>

lemma mysql_constructs_init: "constructs_init (mysql_class env)"
  by (auto simp: constructs_init_def mysql_class_def mysql_base_def base_class_def mysql_init_def new_manager_def state_set_def res_elims)

section \<open>Migrations\<close>

lemma removed_mandatory: "remove_mandatory d ks keys = Inr r \<Longrightarrow> set ks \<subseteq> set keys"
  by (induction ks arbitrary: keys) (auto split: if_splits dest: notin_set_remove1 in_set_remove1 [THEN iffD1, rotated] set_remove1_subset [THEN subsetD])

lemma dict_with_keys:
  assumes "is_dict2 mand opt v = Inr w"
  obtains d where "v = PDict d" "w = v" "set mand \<subseteq> set (dict_keys d)"
proof -
  obtain d where v: "v = PDict d" using assms unfolding is_dict2_def res_bind_Inr_iff is_dict_Inr by (elim exE conjE)
  have "w = v \<and> (\<exists>r. remove_mandatory v mand (dict_keys d) = Inr r)"
    using assms unfolding v is_dict2_def dict2_keys_def Let_def res_bind_Inr_iff is_dict_Inr by (auto split: if_splits)
  then obtain r where r: "w = v" "remove_mandatory v mand (dict_keys d) = Inr r" by (elim conjE exE)
  from v r(1) removed_mandatory [OF r(2)] show ?thesis by (rule that)
qed

lemma no_controller: "self_attribute ''controller'' = Inl (builtin_exn EAttributeError)"
  by (simp add: self_attribute_def manager_attributes_def guard_def)

lemma entry_refused: "\<exists>e. migration_entry env ns a b c = Inl e"
  by (cases "candidate_nodes ns a b") (simp_all add: migration_entry_def no_controller)

text \<open>A list of entries with the three keys gives no plan: it is empty, or its first entry is refused.\<close>

lemma migration_planned:
  assumes "is_list_dict2 [''from_cloud'', ''vmid'', ''to_cloud''] None v = Inr w"
  shows "plan_migration env ns (list_items w) = Inr (Inr []) \<or> (\<exists>e. plan_migration env ns (list_items w) = Inr (Inl e))"
proof -
  have w: "w = v" "\<exists>us. map_res (is_dict2 [''from_cloud'', ''vmid'', ''to_cloud''] None) (list_items v) = Inr us"
    using assms unfolding is_list_dict2_def is_list_dict_def res_bind_Inr_iff is_list_Inr by auto
  show ?thesis
  proof (cases "list_items v")
    case (Cons migr rest)
    then obtain u where "is_dict2 [''from_cloud'', ''vmid'', ''to_cloud''] None migr = Inr u"
      using w(2) by (auto simp: res_elims split: sum.splits)
    then obtain d where migr: "migr = PDict d" and keys: "set [''from_cloud'', ''vmid'', ''to_cloud''] \<subseteq> set (dict_keys d)"
      by (rule dict_with_keys) 
    have "\<exists>x. map_of d k = Some x" if "k \<in> set (dict_keys d)" for k
      using that by (cases "map_of d k") (auto simp: map_of_eq_None_iff)
    then obtain a b c where "map_of d ''from_cloud'' = Some a" "map_of d ''vmid'' = Some b" "map_of d ''to_cloud'' = Some c"
      using keys by (meson list.set_intros subsetD)
    then have fields: "migration_field migr ''from_cloud'' = Inr a" "migration_field migr ''vmid'' = Inr b"
        "migration_field migr ''to_cloud'' = Inr c"
      by (simp_all add: migr migration_field_def py_lookup_def)
    obtain e where "migration_entry env ns a b c = Inl e" using entry_refused by blast
    then show ?thesis unfolding w(1) Cons by (simp add: fields)
  qed (simp add: w(1))
qed

text \<open>
  Claim C40. No request to migrate nodes is ever carried out. Whatever the arguments, the state, the nodes and the
  clouds, no plan comes about, because the manager has no controller to ask for the destination of its first entry:
  the answer is an error and nothing changes, neither the service nor the world.
\<close>

theorem migration_refused: "\<exists>e. migrate_nodes env kw sw = (Inr (HttpErrorResponse e), sw)"
proof -
  obtain s w where sw: "sw = (s, w)" by (cases sw)
  let ?ps = "[Mandatory ''nodes'' (is_list_dict2 [''from_cloud'', ''vmid'', ''to_cloud''] None), Optional ''delay'' is_pos_nul_int (PInt 0)]"
  show ?thesis
  proof (cases "res_bind (check_arguments ?ps kw) (\<lambda>v. res_bind (check_state [S_RUNNING] s) (\<lambda>_. Inr v))")
    case (Inl e)
    then show ?thesis by (simp add: sw migrate_nodes_def checked_call_def with_service_def sx_bind_run)
  next
    case (Inr args)
    then have "check_arguments ?ps kw = Inr args" by (auto simp: res_elims)
    then obtain v w1 delay where "args = PList [w1, delay]" "is_list_dict2 [''from_cloud'', ''vmid'', ''to_cloud''] None v = Inr w1"
      by (subst (asm) check_arguments_Inr) (auto simp: list_all2_Cons1 unwrap_parsed_def)
    with Inr show ?thesis
      using migration_planned [of v w1 env "get_nodes env (sv_ext s)"]
      by (auto simp: sw migrate_nodes_def checked_call_def with_service_def sx_bind_run my_read_def args2_def)
  qed
qed

section \<open>Removal by address\<close>










section \<open>Databases that never were\<close>

lemma device_waits:
  "\<exists>b p' d. await_device env n dev_prefix (p, g) = (Inr b, (p', g\<lparr>mg_out := d\<rparr>)) \<and> md_state p' = md_state p \<and> md_attrs p' = md_attrs p"
proof (induction n arbitrary: g)
  case 0
  show ?case by (intro exI [of _ False] exI [of _ p] exI [of _ "mg_out g"]) simp
next
  case (Suc n)
  let ?there = "me_lexists env (md_dev_name p) (mg_out g)" and ?renamed = "me_lexists env (replace_text dev_prefix ''xvd'' (md_dev_name p)) (mg_out g)"
  consider "?there" | "\<not> ?there" "?renamed" | "\<not> ?there" "\<not> ?renamed" by blast
  then show ?case
  proof cases
    case 1
    then show ?thesis by (intro exI [of _ True] exI [of _ p] exI [of _ "mg_out g"]) (simp add: sx_bind_run)
  next
    case 2
    then show ?thesis
      by (intro exI [of _ True] exI [of _ "p\<lparr>md_dev_name := replace_text dev_prefix ''xvd'' (md_dev_name p)\<rparr>"] exI [of _ "mg_out g"])
         (simp add: sx_bind_run)
  next
    case 3
    then show ?thesis using Suc.IH [of "g\<lparr>mg_out := me_sleep env 10 (mg_out g)\<rparr>"]
      by (simp add: sx_bind_run at_agent_def outside_def)
  qed
qed

lemma disk_mounted:
  "\<exists>p' d. mount_disk env (\<lparr>md_state = D_STARTING, md_dev_name = ''/dev/'' @ name, md_attrs = []\<rparr>, g) = (Inr (), (p', g\<lparr>mg_out := d\<rparr>)) \<and>
     md_state p' = D_STARTING \<and> md_attrs p' = []"
proof -
  let ?p = "\<lparr>md_state = D_STARTING, md_dev_name = ''/dev/'' @ name, md_attrs = []\<rparr>"
  have "split_on (CHR ''/'') (''/dev/'' @ name) = [] # ''dev'' # split_on (CHR ''/'') name"
    by simp
  then obtain pre where pre: "dev_part (''/dev/'' @ name) = Inr pre"
    using split_on_nonempty [of "CHR ''/''" name] by (cases "split_on (CHR ''/'') name") (simp_all add: dev_part_def Let_def)
  obtain b p' d where wait: "await_device env 10 (butlast pre) (?p, g) = (Inr b, (p', g\<lparr>mg_out := d\<rparr>))" "md_state p' = D_STARTING" "md_attrs p' = []"
    using device_waits [of env 10 "butlast pre" ?p g] by auto
  note run = sx_bind_run set_daemon_def at_agent_def outside_def run_command_def mount_disk_def
  show ?thesis
  proof (cases b)
    case True
    then show ?thesis using pre wait by (simp add: run split: prod.splits) (intro allI impI, rule exI, rule refl)
  next
    case False
    then show ?thesis using pre wait by (simp add: run split: prod.splits) (intro allI impI, rule exI, rule refl)
  qed
qed

text \<open>
  Claim C19. A database server whose settings cannot be read counts as started. With no location of the root
  connection in the agent's configuration, the constructor formats and mounts the disk, gives up and is logged;
  the agent answers success and lists a running server whose object has no attribute. Setting a password on it
  raises \<open>TypeError\<close>, and stopping it answers success without a command to the machine: the disk stays mounted.
\<close>

theorem unconfigured_database:
  assumes "cfg_get (mg_config g) ''MySQL_root_connection'' ''location'' = Inl e" "mg_mysqld g = None" "mg_running g = []"
  shows "\<exists>p d. let g' = g\<lparr>mg_out := d, mg_mysqld := Some p, mg_running := [MySQLServer]\<rparr> in
    agent_start_mysqld env [(''nodes'', PList nodes), (''device_name'', PStr name)] g = (Inr empty_reply, g') \<and>
    md_state p = D_STARTING \<and> md_attrs p = [] \<and>
    agent_set_password env [(''username'', PStr user), (''password'', PStr pass)] g' = (Inl (builtin_exn ETypeError), g') \<and>
    agent_stop env [] g' = (Inr empty_reply, g\<lparr>mg_out := d\<rparr>)"
proof -
  let ?p0 = "\<lparr>md_state = D_STARTING, md_dev_name = ''/dev/'' @ name, md_attrs = []\<rparr>"
  obtain p d where mounted: "mount_disk env (?p0, g) = (Inr (), (p, g\<lparr>mg_out := d\<rparr>))" and p: "md_state p = D_STARTING" "md_attrs p = []"
    using disk_mounted [of env name g] by auto
  have e: "is_kind {EConfigError, EIOError} e"
    using assms(1) by (auto simp: cfg_get_def is_kind_def split: option.splits)
  have "configure_daemon env nodes (p, g\<lparr>mg_out := d\<rparr>) = (Inl e, (p, g\<lparr>mg_out := d\<rparr>))"
    using assms(1) by (simp add: configure_daemon_def read_settings_def settings_def sx_bind_run conf_def)
  then have init: "init_mysqld env nodes name g = (Inr p, g\<lparr>mg_out := d\<rparr>)"
    using mounted e by (simp add: init_mysqld_def sx_bind_run sx_except_def sx_try_def)
  let ?g' = "g\<lparr>mg_out := d, mg_mysqld := Some p, mg_running := [MySQLServer]\<rparr>"
  have start: "agent_start_mysqld env [(''nodes'', PList nodes), (''device_name'', PStr name)] g = (Inr empty_reply, ?g')"
    using init assms(2,3) by (simp add: agent_start_mysqld_def answer_errors_def sx_except_any_def sx_try_def check_arguments_def
      unwrap_parsed_def is_string_def is_list_def constraint_defs args2_def start_role_def role_exists_def sx_bind_run list_items_def py_str_def)
  have change: "agent_set_password env [(''username'', PStr user), (''password'', PStr pass)] ?g' = (Inl (builtin_exn ETypeError), ?g')"
    using p(2) by (simp add: agent_set_password_def sx_except_def sx_except_any_def sx_try_def check_arguments_def is_kind_def
      unwrap_parsed_def is_string_def constraint_defs args2_def with_mysqld_def change_password_def root_queries_def attr_def sx_bind_run)
  have "agent_stop env [] ?g' = (Inr empty_reply, g\<lparr>mg_out := d\<rparr>)"
    using p(1) assms(2,3) by (simp add: agent_stop_def sx_except_def sx_except_any_def sx_try_def check_arguments_def unwrap_parsed_def
      stop_role_def role_exists_def stop_mysqld_def stop_daemon_def sx_bind_run)
  then show ?thesis using start change p by (intro exI [of _ p] exI [of _ d]) (simp add: Let_def)
qed

theorem unconfigured_database_witness:
  "\<exists>p d. agent_start_mysqld galera_aenv [(''nodes'', PList []), (''device_name'', PStr ''sdb'')] (galera_agent\<lparr>mg_config := []\<rparr>) =
     (Inr empty_reply, galera_agent\<lparr>mg_config := [], mg_out := d, mg_mysqld := Some p, mg_running := [MySQLServer]\<rparr>) \<and> md_attrs p = []"
proof -
  let ?g = "galera_agent\<lparr>mg_config := []\<rparr>"
  have config: "cfg_get (mg_config ?g) ''MySQL_root_connection'' ''location'' = Inl (Raise EConfigError ''No section: %r'' [PStr ''MySQL_root_connection''])"
    by (simp add: cfg_get_def)
  have new: "mg_mysqld ?g = None" "mg_running ?g = []" by code_simp+
  from unconfigured_database [OF config new, where env = galera_aenv and nodes = "[]" and name = "''sdb''" and user = "''root''" and pass = "''secret''"] show ?thesis
    unfolding Let_def by (elim exE conjE) (intro exI conjI)
qed

end
