(* ===== verification/Spec2Isabelle.thy ===== *)
theory Spec2Isabelle
  imports Node Ipop ServiceProps AccessProps CloudProps CreditProps LifeProps AgentProps VolumeProps Deployment Connections MySQLErrors
begin

text \<open>
  A model of ConPaaS, a platform that runs services on machines it rents from clouds, and the properties that make
  it correct. The sources are Python 2; paths are below \<open>conpaas-services/src/conpaas\<close> unless they start with
  \<open>cpsdirector\<close>, which is below \<open>conpaas-director\<close>.

  \<^bold>\<open>The program.\<close> One director keeps the users, their applications, services and machines in a database, charges
  the users, and asks the clouds for machines. Each application has one manager, a process on a machine of its own
  that creates the services of the application, each an object of a class, starts and stops them and asks the director
  for nodes and volumes. On every node of a service an agent does what the manager tells it. All of them are HTTPS
  servers with a table of exposed methods, and each checks the certificates of those it talks to. Handlers answer at
  once and leave the long work to threads.

  \<^bold>\<open>How it is modelled.\<close> \<open>Prelude\<close> holds the vocabulary: values of Python (\<open>pyval\<close>), exceptions by class and text
  (\<open>exn\<close>), the results \<open>exn + 'a\<close> of functions that can raise, and the operations \<open>('s, 'a) sx\<close>, functions from a
  state to a result and the state after it, which an exception does not undo. A handler is such an operation on the
  state of its process. A thread is a value in a list of the state that starts it, and runs as a whole at some later step;
  a request runs as a whole too. The outside of a process (the other processes, the cloud library, the shell, the clock) is
  a world of any type, with the functions on it as fields of an environment record. Dictionaries are association
  lists in their order of iteration, integers are unbounded as in Python, bytes of hashes are 8-bit words.

  \<^bold>\<open>Libraries of Python.\<close> \<open>PyMisc\<close>: text, numbers and paths, and \<open>core/misc.py\<close>, the constraints on arguments and
  \<open>check_arguments\<close>. \<open>PyText\<close>: splitting and templates. \<open>Config\<close>: \<open>ConfigParser\<close>. \<open>Json\<close>: a printer and a parser
  of JSON text, and that one undoes the other; its fuel is the length of the text, which is enough because every
  value and item takes at least one character (lemma \<open>loads_dumps\<close>, the interpretation \<open>json\<close> in \<open>Client\<close>).

  \<^bold>\<open>HTTP.\<close> \<open>HttpServer\<close>: \<open>core/https/server.py\<close> and \<open>core/expose.py\<close>, the table of handlers, the parsing of a
  request, the dispatch and the answers; the table is an interpretation of the locale \<open>handler_table\<close>, whose laws
  say what a lookup finds after a registration. \<open>Client\<close>: \<open>core/https/client.py\<close>, requests, forms and the
  reading of answers; the locale \<open>json_text\<close> is what client and server need of the JSON library, interpreted
  by \<open>Json\<close>. \<open>Connections\<close>: the contexts of client and server with their checks of certificates. \<open>Callbacker\<close>:
  \<open>core/callbacker.py\<close>, the calls to the director. \<open>AgentLink\<close>: a manager and the agents at their addresses
  joined by client and server.

  \<^bold>\<open>Managers.\<close> \<open>Node\<close>: \<open>core/node.py\<close>. \<open>Ipop\<close>: \<open>core/ipop.py\<close> with its Base32 encoder. \<open>Git\<close>: \<open>core/git.py\<close>.
  \<open>Manager\<close>: the class \<open>BaseManager\<close> of \<open>core/manager.py\<close>; a service is a record with the attributes of its class in
  one field, and a class is a record of its hooks and handlers (\<open>svc_class\<close>), so that overriding is a record
  update. \<open>AppManager\<close>: the class \<open>ApplicationManager\<close>, with every handler and thread body. \<open>HelloWorld\<close>,
  \<open>Generic\<close> and \<open>MySQL\<close>: the managers of three services with their configurations and agent clients
  (\<open>services/*/manager\<close>, \<open>services/*/agent/client.py\<close>).

  \<^bold>\<open>Agents.\<close> \<open>GenericAgent\<close>: \<open>core/agent.py\<close> and \<open>services/generic/agent/agent.py\<close>, scripts and their processes,
  code with the directories and files it is unpacked on, volumes. \<open>MySQLAgent\<close>: \<open>services/mysql/agent/\<close>, the database
  server and the load balancer.

  \<^bold>\<open>Director.\<close> \<open>Clouds\<close> and \<open>Instances\<close>: \<open>cpsdirector/iaas/clouds\<close> on a driver that stands for the vendored
  library \<open>libcloud\<close>. \<open>Controller\<close> and \<open>ControllerNodes\<close>: \<open>cpsdirector/iaas/controller.py\<close>. \<open>Director\<close>: the tables, sessions
  and transactions, and \<open>cpsdirector/user.py\<close>. \<open>DirectorApps\<close>: \<open>application.py\<close>, the machines of \<open>cloud.py\<close> and
  \<open>credits.py\<close>. \<open>DirectorServices\<close>: \<open>service.py\<close> and the requests of managers in \<open>cloud.py\<close>.

  \<^bold>\<open>The properties.\<close> \<open>AppFacts\<close> makes the manager a transition system (a request or a pending thread at a
  time, in any order) and proves its invariant operation by operation; \<open>AppProps\<close> and \<open>ServiceProps\<close> state what it
  guarantees and what a director that refuses or keeps silent leaves behind, \<open>VolumeProps\<close> the request for a volume.
  \<open>GenericProps\<close>: versions of code and nodes of a generic service. \<open>AgentProps\<close>: the invariant of an agent's scripts over
  its steps (calls, threads, ends of processes), its volumes, and where the files of an archive end up. \<open>Deployment\<close>: a
  start of a generic service through client, server and agent. \<open>MySQLProps\<close>: the balancers follow the database nodes,
  again through client, server and agents; \<open>MySQLErrors\<close>: failures nobody is told of. \<open>DirectorFacts\<close>, \<open>DirectorSteps\<close> and
  \<open>DirectorScenario\<close>: the director as a transition system and the invariant of its database; \<open>DirectorRuns\<close>: its
  operations as equations; \<open>CreditProps\<close>, \<open>LifeProps\<close>, \<open>AccessProps\<close> and \<open>CloudProps\<close>: money, the life of an
  application, who may do what, and the clouds. A claim \<open>C<n>\<close> stands before its theorem and the theorem
  \<open><name>_witness\<close> applies it where its hypotheses hold; \<open>Scenario\<close> and \<open>DirectorScenario\<close> hold the installation and
  the director most of them run on.

  \<^bold>\<open>Bounds.\<close> Loops of the code that a count ends are recursions on it: ten tries to attach a volume (\<open>retry\<close>), ten
  waits for a device (\<open>wait_device\<close>, \<open>await_device\<close>). The wait for new nodes ends by the time slept: \<open>wait_for_nodes\<close> is a
  function with a measure, and it is the loop \<open>rounds\<close> of 61 polls (\<open>waiting_sorts_machines\<close>). Two loops of the code need
  not end: the wait for an instance of EC2 and the wait for a started daemon. They have a fuel (\<open>dr_patience\<close>,
  \<open>me_patience\<close>) after which the result \<open>EDiverges\<close> stands for not returning; the former returns with every fuel that reaches the first poll that lists the instance, and with none when
  no poll does (\<open>waiting_for_instance\<close>).

  \<^bold>\<open>Parameters.\<close> The driver of the clouds, the certificate authority, hashes, random names, clocks, shell commands and their
  effects, processes, databases, the reading of archives (as the list of their regular files) and the choice of
  a new key by the database. What a property needs of them is a hypothesis of its own, such as that a new key is not in
  use, and its witness has functions that satisfy it.

  \<^bold>\<open>Not modelled.\<close> Threads that interleave within a request, and requests of the director that overlap. Sockets and TLS,
  logging, Ganglia. The web services with their autoscaling and XtreemFS, whose managers fill the same hooks with
  calls to further daemons; the services that \<open>core/services.py\<close> does not list and no manager can create. Of the director
  the uploading of manifests, external identity providers and the pages for debugging. Of the MySQL service what a migration
  does with a controller, which no manager has. The command-line tools, the frontend, the vendored library
  \<open>libcloud\<close>, scripts for images and tests.
\<close>

end
